(* ===== verification/Prelude.thy ===== *)
theory Prelude
  imports Main "HOL-Library.Word" "HOL-Library.AList" "HOL-Library.Sublist"
begin

unbundle bit_operations_syntax

text \<open>
  Shared vocabulary of the development: Rust's integer types as words, \<open>Result\<close> as a sum
  whose constructors are written \<open>Ok\<close> and \<open>Err\<close>, byte order conversions
  (\<open>to_be_bytes\<close>, \<open>to_le_bytes\<close>), the arithmetic of \<open>usize\<close> (64 bits wide) and hash maps as
  association lists, with the interface \<open>hash_table\<close> that the port map and the transaction
  tracker rely on. Generic lemmas used by several components live here.
\<close>

section \<open>Integers, bytes and results\<close>

type_synonym u8 = "8 word"
type_synonym u16 = "16 word"
type_synonym u32 = "32 word"
type_synonym i32 = "32 word" \<comment> \<open>the two's complement bit pattern; \<open>sint\<close> reads it\<close>
type_synonym u64 = "64 word"
type_synonym usize = nat \<comment> \<open>a length or an index; at most \<open>usize_max\<close>\<close>
type_synonym bytes = "u8 list"

abbreviation Ok :: "'a \<Rightarrow> 'e + 'a" where "Ok \<equiv> Inr"
abbreviation Err :: "'e \<Rightarrow> 'e + 'a" where "Err \<equiv> Inl"

text \<open>\<open>Result::ok\<close>: the value, or \<open>None\<close> for an error.\<close>

definition ok_of :: "'e + 'a \<Rightarrow> 'a option" where
  "ok_of r = (case r of Ok x \<Rightarrow> Some x | Err _ \<Rightarrow> None)"

lemma ok_of_simps [simp]: "ok_of (Ok x) = Some x" "ok_of (Err e) = None"
  by (simp_all add: ok_of_def)

definition is_ok :: "'e + 'a \<Rightarrow> bool" where
  "is_ok r = (case r of Ok _ \<Rightarrow> True | Err _ \<Rightarrow> False)"

lemma is_ok_simps [simp]: "is_ok (Ok x)" "\<not> is_ok (Err e)"
  by (simp_all add: is_ok_def)

definition usize_max :: usize where
  "usize_max = 18446744073709551615"

definition saturating_add :: "usize \<Rightarrow> usize \<Rightarrow> usize" where
  "saturating_add a b = min (a + b) usize_max"

text \<open>On \<open>usize\<close>, \<open>saturating_sub\<close> is the truncated subtraction of \<open>nat\<close>.\<close>

definition saturating_sub :: "usize \<Rightarrow> usize \<Rightarrow> usize" where
  "saturating_sub a b = a - b"

section \<open>Byte order\<close>

text \<open>The \<open>n\<close> low bytes of a word, most significant first.\<close>

primrec be_bytes :: "nat \<Rightarrow> 'a::len word \<Rightarrow> bytes" where
  "be_bytes 0 w = []"
| "be_bytes (Suc n) w = ucast (drop_bit (8 * n) w) # be_bytes n w"

definition of_be_bytes :: "bytes \<Rightarrow> 'a::len word" where
  "of_be_bytes bs = foldl (\<lambda>acc b. push_bit 8 acc OR ucast b) 0 bs"

definition le_bytes :: "nat \<Rightarrow> 'a::len word \<Rightarrow> bytes" where
  "le_bytes n w = rev (be_bytes n w)"

definition of_le_bytes :: "bytes \<Rightarrow> 'a::len word" where
  "of_le_bytes bs = of_be_bytes (rev bs)"

lemma length_be_bytes [simp]: "length (be_bytes n w) = n"
  by (induction n) auto

lemma be_bytes_Nil [simp]: "be_bytes n w = [] \<longleftrightarrow> n = 0"
  by (cases n) auto

lemma length_le_bytes [simp]: "length (le_bytes n w) = n"
  by (simp add: le_bytes_def)

lemma foldl_be_bytes:
  fixes w acc :: "'a::len word"
  shows "foldl (\<lambda>acc b. push_bit 8 acc OR ucast b) acc (be_bytes n w)
    = push_bit (8 * n) acc OR take_bit (8 * n) w"
proof (induction n arbitrary: acc)
  case 0
  show ?case by simp
next
  case (Suc n)
  have "push_bit (8 * n) (push_bit 8 acc OR ucast (ucast (drop_bit (8 * n) w) :: u8))
      OR take_bit (8 * n) w
    = push_bit (8 * Suc n) acc OR take_bit (8 * Suc n) w"
    by (rule bit_word_eqI) (auto simp: bit_simps not_le add.commute [of 8])
  with Suc.IH show ?case by simp
qed

lemma of_be_bytes_be_bytes:
  fixes w :: "'a::len word"
  assumes "8 * n = LENGTH('a)"
  shows "of_be_bytes (be_bytes n w) = w"
  using assms by (simp add: of_be_bytes_def foldl_be_bytes take_bit_word_eq_self)

lemma of_le_bytes_le_bytes:
  fixes w :: "'a::len word"
  assumes "8 * n = LENGTH('a)"
  shows "of_le_bytes (le_bytes n w) = w"
  using assms by (simp add: of_le_bytes_def le_bytes_def of_be_bytes_be_bytes)

lemma of_be_bytes32 [simp]: "of_be_bytes (be_bytes 4 (w :: u32)) = w"
  by (rule of_be_bytes_be_bytes) simp

lemma of_be_bytes64 [simp]: "of_be_bytes (be_bytes 8 (w :: u64)) = w"
  by (rule of_be_bytes_be_bytes) simp

lemma of_le_bytes64 [simp]: "of_le_bytes (le_bytes 8 (w :: u64)) = w"
  by (rule of_le_bytes_le_bytes) simp

lemma be_bytes_snoc: "be_bytes (Suc n) w = be_bytes n (drop_bit 8 w) @ [ucast w]"
proof (induction n)
  case (Suc n)
  have "be_bytes (Suc (Suc n)) w = ucast (drop_bit (8 * n) (drop_bit 8 w)) # be_bytes (Suc n) w"
    by (simp add: algebra_simps)
  with Suc.IH show ?case by simp
qed simp

lemma of_be_bytes_snoc: "of_be_bytes (bs @ [b]) = push_bit 8 (of_be_bytes bs) OR ucast b"
  by (simp add: of_be_bytes_def)

lemma bit_of_be_bytes:
  "bit (of_be_bytes bs :: 'a::len word) n \<Longrightarrow> n < 8 * length bs"
proof (induction bs arbitrary: n rule: rev_induct)
  case (snoc b bs)
  show ?case
  proof (cases "n < 8")
    case False
    with snoc.prems have "bit (of_be_bytes bs :: 'a word) (n - 8)"
      by (auto simp: of_be_bytes_snoc bit_simps dest: bit_imp_le_length)
    then have "n - 8 < 8 * length bs" by (rule snoc.IH)
    then show ?thesis using False by simp
  qed simp
qed (simp add: of_be_bytes_def)

lemma be_bytes_of_be_bytes:
  "8 * length bs \<le> LENGTH('a) \<Longrightarrow> be_bytes (length bs) (of_be_bytes bs :: 'a::len word) = bs"
proof (induction bs rule: rev_induct)
  case (snoc b bs)
  have "drop_bit 8 (of_be_bytes (bs @ [b]) :: 'a word) = of_be_bytes bs"
    using snoc.prems
    by (intro bit_word_eqI) (auto simp: of_be_bytes_snoc bit_simps dest: bit_of_be_bytes bit_imp_le_length)
  moreover have "ucast (of_be_bytes (bs @ [b]) :: 'a word) = b"
    using snoc.prems by (intro bit_word_eqI) (auto simp: of_be_bytes_snoc bit_simps)
  ultimately show ?case using snoc by (simp only: length_append_singleton be_bytes_snoc) simp
qed simp

lemma le_bytes_of_le_bytes:
  "8 * length bs \<le> LENGTH('a) \<Longrightarrow> le_bytes (length bs) (of_le_bytes bs :: 'a::len word) = bs"
  using be_bytes_of_be_bytes [of "rev bs", where 'a = 'a]
  by (simp add: le_bytes_def of_le_bytes_def)

section \<open>Hash maps\<close>

text \<open>
  \<open>std::collections::HashMap\<close> as an association list without duplicate keys. The order of
  the list stands for the unspecified iteration order of the map; no property below depends
  on it.
\<close>

type_synonym ('k, 'v) hash_map = "('k \<times> 'v) list"

definition hm_get :: "('k, 'v) hash_map \<Rightarrow> 'k \<Rightarrow> 'v option" where
  "hm_get m k = map_of m k"

definition hm_insert :: "'k \<Rightarrow> 'v \<Rightarrow> ('k, 'v) hash_map \<Rightarrow> ('k, 'v) hash_map" where
  "hm_insert k v m = AList.update k v m"

definition hm_remove :: "'k \<Rightarrow> ('k, 'v) hash_map \<Rightarrow> ('k, 'v) hash_map" where
  "hm_remove k m = AList.delete k m"

definition hm_retain :: "('k \<Rightarrow> 'v \<Rightarrow> bool) \<Rightarrow> ('k, 'v) hash_map \<Rightarrow> ('k, 'v) hash_map" where
  "hm_retain p m = filter (\<lambda>(k, v). p k v) m"

definition hm_entries :: "('k, 'v) hash_map \<Rightarrow> ('k \<times> 'v) list" where
  "hm_entries m = m"

definition hm_ok :: "('k, 'v) hash_map \<Rightarrow> bool" where
  "hm_ok m \<longleftrightarrow> distinct (map fst m)"

text \<open>What the components that keep a table rely on.\<close>

locale hash_table =
  fixes empty :: "'m"
    and get :: "'m \<Rightarrow> 'k \<Rightarrow> 'v option"
    and insert :: "'k \<Rightarrow> 'v \<Rightarrow> 'm \<Rightarrow> 'm"
    and remove :: "'k \<Rightarrow> 'm \<Rightarrow> 'm"
    and retain :: "('k \<Rightarrow> 'v \<Rightarrow> bool) \<Rightarrow> 'm \<Rightarrow> 'm"
    and entries :: "'m \<Rightarrow> ('k \<times> 'v) list"
    and invar :: "'m \<Rightarrow> bool"
  assumes get_empty: "get empty k = None"
    and get_insert: "get (insert k v m) = (get m)(k \<mapsto> v)"
    and get_remove: "get (remove k m) = (get m)(k := None)"
    and get_retain: "invar m \<Longrightarrow>
      get (retain p m) k =
        (case get m k of None \<Rightarrow> None | Some v \<Rightarrow> if p k v then Some v else None)"
    and entries_get: "invar m \<Longrightarrow> (k, v) \<in> set (entries m) \<longleftrightarrow> get m k = Some v"
    and entries_distinct: "invar m \<Longrightarrow> distinct (map fst (entries m))"
    and invar_empty: "invar empty"
    and invar_insert: "invar m \<Longrightarrow> invar (insert k v m)"
    and invar_remove: "invar m \<Longrightarrow> invar (remove k m)"
    and invar_retain: "invar m \<Longrightarrow> invar (retain p m)"
begin

lemma get_insert_same: "get (insert k v m) k = Some v"
  by (simp add: get_insert)

lemma get_insert_other: "k' \<noteq> k \<Longrightarrow> get (insert k v m) k' = get m k'"
  by (simp add: get_insert)

lemma get_remove_same: "get (remove k m) k = None"
  by (simp add: get_remove)

lemma get_remove_other: "k' \<noteq> k \<Longrightarrow> get (remove k m) k' = get m k'"
  by (simp add: get_remove)

lemma entries_dom:
  assumes "invar m"
  shows "fst ` set (entries m) = dom (get m)"
proof (rule set_eqI)
  fix k
  have "k \<in> fst ` set (entries m) \<longleftrightarrow> (\<exists>v. (k, v) \<in> set (entries m))" by force
  also have "\<dots> \<longleftrightarrow> k \<in> dom (get m)" by (auto simp: entries_get [OF assms] dom_def)
  finally show "k \<in> fst ` set (entries m) \<longleftrightarrow> k \<in> dom (get m)" .
qed

text \<open>Enumerating the entries loses nothing and repeats nothing.\<close>

lemma entries_map_of: "invar m \<Longrightarrow> map_of (entries m) k = get m k"
proof (cases "get m k")
  case None
  assume "invar m"
  with None have "k \<notin> fst ` set (entries m)" by (auto simp: entries_dom)
  then show ?thesis using None by (simp add: map_of_eq_None_iff)
next
  case (Some v)
  assume "invar m"
  with Some have "(k, v) \<in> set (entries m)" by (simp add: entries_get)
  with \<open>invar m\<close> show ?thesis using Some by (simp add: entries_distinct map_of_is_SomeI)
qed

end

lemma hm_get_retain: "hm_ok m \<Longrightarrow> hm_get (hm_retain p m) k
    = (case hm_get m k of None \<Rightarrow> None | Some v \<Rightarrow> if p k v then Some v else None)"
  by (induction m) (auto simp: hm_ok_def hm_get_def hm_retain_def map_of_eq_None_iff
      image_iff split: option.splits)

lemma hm_ok_retain: "hm_ok m \<Longrightarrow> hm_ok (hm_retain p m)"
  by (induction m) (auto simp: hm_ok_def hm_retain_def)

lemma hm_entries_get: "hm_ok m \<Longrightarrow> (k, v) \<in> set (hm_entries m) \<longleftrightarrow> hm_get m k = Some v"
  by (simp add: hm_ok_def hm_get_def hm_entries_def)

lemma hm_get_empty: "hm_get [] k = None"
  by (simp add: hm_get_def)

lemma hm_get_insert: "hm_get (hm_insert k v m) = (hm_get m)(k \<mapsto> v)"
  by (rule ext) (simp add: hm_get_def hm_insert_def update_conv)

lemma hm_get_remove: "hm_get (hm_remove k m) = (hm_get m)(k := None)"
  by (rule ext) (simp add: hm_get_def hm_remove_def delete_conv)

lemma hm_ok_empty: "hm_ok []"
  by (simp add: hm_ok_def)

lemma hm_ok_insert: "hm_ok m \<Longrightarrow> hm_ok (hm_insert k v m)"
  by (simp add: hm_ok_def hm_insert_def distinct_update)

lemma hm_ok_remove: "hm_ok m \<Longrightarrow> hm_ok (hm_remove k m)"
  by (simp add: hm_ok_def hm_remove_def distinct_delete)

lemma hm_entries_distinct: "hm_ok m \<Longrightarrow> distinct (map fst (hm_entries m))"
  by (simp add: hm_ok_def hm_entries_def)

interpretation hm: hash_table "[]" hm_get hm_insert hm_remove hm_retain hm_entries hm_ok
  by (unfold_locales; fact hm_get_empty hm_get_insert hm_get_remove hm_get_retain
      hm_entries_get hm_entries_distinct hm_ok_empty hm_ok_insert hm_ok_remove hm_ok_retain)

section \<open>Lists\<close>

lemma take_drop_append_len [simp]:
  "n = length a \<Longrightarrow> take n (a @ b) = a" "n = length a \<Longrightarrow> drop n (a @ b) = b"
  by simp_all

lemma length_4_mod: "4 dvd (n::nat) + (4 - n mod 4) mod 4"
proof -
  have "n mod 4 = 0 \<or> n mod 4 = 1 \<or> n mod 4 = 2 \<or> n mod 4 = 3" by presburger
  then show ?thesis by (elim disjE) (simp_all, presburger+)
qed

end
