(* ===== verification/Xdr.thy ===== *)
theory Xdr
  imports Prelude
begin

text \<open>
  The XDR codec of \<open>src/protocol/xdr/mod.rs\<close> and \<open>src/protocol/xdr/utils.rs\<close>. A serializer
  is a function from a value to the bytes it writes, or to the error it stops with; a
  deserializer reads a value off the front of a byte sequence and returns the rest. The
  locale \<open>xdr_codec\<close> states what a pair of them promises; \<open>codec_on\<close> is the same contract for the
  tail of a struct whose first fields are already known, from which the contract of every
  struct follows field by field. The texts of error messages are not modelled.
\<close>

section \<open>Serializers and deserializers\<close>

datatype io_error = UnexpectedEof | InvalidData | InvalidInput | OtherError

type_synonym 'a ser = "'a \<Rightarrow> io_error + bytes"
type_synonym 'a de = "bytes \<Rightarrow> io_error + 'a \<times> bytes"

text \<open>\<open>a.serialize(dest)?; b.serialize(dest)\<close>, and a longer sequence of such statements.\<close>

definition ser_then :: "io_error + bytes \<Rightarrow> io_error + bytes \<Rightarrow> io_error + bytes" where
  "ser_then a b =
    (case a of
      Err e \<Rightarrow> Err e
    | Ok x \<Rightarrow> (case b of Err e \<Rightarrow> Err e | Ok y \<Rightarrow> Ok (x @ y)))"

primrec ser_seq :: "(io_error + bytes) list \<Rightarrow> io_error + bytes" where
  "ser_seq [] = Ok []"
| "ser_seq (r # rs) = ser_then r (ser_seq rs)"

lemma ser_then_simps [simp]:
  "ser_then (Err e) r = Err e"
  "ser_then (Ok x) (Err e) = Err e"
  "ser_then (Ok x) (Ok y) = Ok (x @ y)"
  "ser_then (Ok []) r = r"
  "ser_then r (Ok []) = r"
  by (simp_all add: ser_then_def split: sum.split)

lemma ser_then_Ok: "ser_then a b = Ok z \<longleftrightarrow> (\<exists>x y. a = Ok x \<and> b = Ok y \<and> z = x @ y)"
  by (auto simp: ser_then_def split: sum.splits)

text \<open>\<open>let x = m?; f(x)\<close> on a reader.\<close>

definition de_bind :: "'a de \<Rightarrow> ('a \<Rightarrow> 'b de) \<Rightarrow> 'b de" where
  "de_bind m f s = (case m s of Err e \<Rightarrow> Err e | Ok (x, r) \<Rightarrow> f x r)"

definition de_return :: "'a \<Rightarrow> 'a de" where
  "de_return x s = Ok (x, s)"

definition de_fail :: "io_error \<Rightarrow> 'a de" where
  "de_fail e s = Err e"

definition read_exact :: "usize \<Rightarrow> bytes de" where
  "read_exact n s = (if length s < n then Err UnexpectedEof else Ok (take n s, drop n s))"

section \<open>Padding\<close>

definition ALIGNMENT :: usize where
  "ALIGNMENT = 4"

definition padding_len :: "usize \<Rightarrow> usize" where
  "padding_len src_len = (ALIGNMENT - src_len mod ALIGNMENT) mod ALIGNMENT"

definition read_padding :: "usize \<Rightarrow> unit de" where
  "read_padding src_len =
    (let pad_len = padding_len src_len in
     if pad_len > 0 then de_bind (read_exact pad_len) (\<lambda>_. de_return ()) else de_return ())"

definition write_padding :: "usize \<Rightarrow> io_error + bytes" where
  "write_padding src_len =
    (let pad_len = padding_len src_len in
     if pad_len > 0 then Ok (replicate pad_len 0) else Ok [])"

section \<open>Primitive types\<close>

definition MAX_BLOCK_SIZE :: usize where
  "MAX_BLOCK_SIZE = 4 * 1024 * 1024"

definition PAGE_SIZE :: usize where
  "PAGE_SIZE = 4096"

definition div_ceil :: "usize \<Rightarrow> usize \<Rightarrow> usize" where
  "div_ceil a b = a div b + (if a mod b > 0 then 1 else 0)"

definition MAX_RPC_RECORD_LENGTH :: usize where
  "MAX_RPC_RECORD_LENGTH = div_ceil (MAX_BLOCK_SIZE + PAGE_SIZE) PAGE_SIZE * PAGE_SIZE"

definition MAX_XDR_OPAQUE_LENGTH :: usize where
  "MAX_XDR_OPAQUE_LENGTH = MAX_RPC_RECORD_LENGTH"

definition MAX_XDR_ARRAY_LENGTH :: usize where
  "MAX_XDR_ARRAY_LENGTH = MAX_XDR_OPAQUE_LENGTH div ALIGNMENT"

definition ser_u32 :: "u32 ser" where
  "ser_u32 w = Ok (be_bytes 4 w)"

definition de_u32 :: "u32 de" where
  "de_u32 = de_bind (read_exact 4) (\<lambda>b. de_return (of_be_bytes b))"

definition ser_u64 :: "u64 ser" where
  "ser_u64 w = Ok (be_bytes 8 w)"

definition de_u64 :: "u64 de" where
  "de_u64 = de_bind (read_exact 8) (\<lambda>b. de_return (of_be_bytes b))"

text \<open>\<open>i32\<close> and \<open>i64\<close> have the byte representation of their bit patterns.\<close>

definition ser_i32 :: "i32 ser" where
  "ser_i32 w = Ok (be_bytes 4 w)"

definition de_i32 :: "i32 de" where
  "de_i32 = de_bind (read_exact 4) (\<lambda>b. de_return (of_be_bytes b))"

definition ser_i64 :: "u64 ser" where
  "ser_i64 w = Ok (be_bytes 8 w)"

definition de_i64 :: "u64 de" where
  "de_i64 = de_bind (read_exact 8) (\<lambda>b. de_return (of_be_bytes b))"

text \<open>
  Floating point numbers are their IEEE 754 bit patterns: \<open>write_f32\<close> writes those of \<open>to_bits\<close>, \<open>read_f32\<close>
  applies \<open>from_bits\<close> to what it reads, and both functions keep every pattern.
\<close>

type_synonym f32 = "32 word"
type_synonym f64 = "64 word"

definition ser_f32 :: "f32 ser" where
  "ser_f32 bits = Ok (be_bytes 4 bits)"

definition de_f32 :: "f32 de" where
  "de_f32 = de_bind (read_exact 4) (\<lambda>b. de_return (of_be_bytes b))"

definition ser_f64 :: "f64 ser" where
  "ser_f64 bits = Ok (be_bytes 8 bits)"

definition de_f64 :: "f64 de" where
  "de_f64 = de_bind (read_exact 8) (\<lambda>b. de_return (of_be_bytes b))"

definition ser_bool :: "bool ser" where
  "ser_bool b = ser_i32 (if b then 1 else 0)"

definition de_bool :: "bool de" where
  "de_bool = de_bind de_i32 (\<lambda>v.
    if v = 0 then de_return False
    else if v = 1 then de_return True
    else de_fail InvalidData)"

text \<open>
  An enumeration is given by the discriminant of each variant and the list of its variants
  (\<open>ToPrimitive\<close>, \<open>FromPrimitive\<close>).
\<close>

definition from_i32 :: "('a \<Rightarrow> i32) \<Rightarrow> 'a list \<Rightarrow> i32 \<Rightarrow> 'a option" where
  "from_i32 code variants v = List.find (\<lambda>x. code x = v) variants"

definition ser_enum :: "('a \<Rightarrow> i32) \<Rightarrow> 'a ser" where
  "ser_enum code x = ser_i32 (code x)"

definition de_enum :: "('a \<Rightarrow> i32) \<Rightarrow> 'a list \<Rightarrow> 'a de" where
  "de_enum code variants = de_bind de_i32 (\<lambda>v.
    case from_i32 code variants v of
      Some x \<Rightarrow> de_return x
    | None \<Rightarrow> de_fail InvalidData)"

section \<open>Composite types\<close>

definition ser_usize_as_u32 :: "usize ser" where
  "ser_usize_as_u32 n = (if n < 2 ^ 32 then ser_u32 (of_nat n) else Err InvalidData)"

definition de_usize_as_u32 :: "usize de" where
  "de_usize_as_u32 = de_bind de_u32 (\<lambda>v. de_return (unat v))"

text \<open>\<open>[u8; N]\<close>; a fixed-length array is a byte list of length \<open>N\<close>.\<close>

definition ser_opaque_fixed :: "bytes ser" where
  "ser_opaque_fixed xs = ser_seq [Ok xs, write_padding (length xs)]"

definition de_opaque_fixed :: "usize \<Rightarrow> bytes de" where
  "de_opaque_fixed N =
    de_bind (read_exact N) (\<lambda>xs. de_bind (read_padding N) (\<lambda>_. de_return xs))"

definition ser_opaque :: "bytes ser" where
  "ser_opaque xs =
    ser_seq [ser_usize_as_u32 (length xs), Ok xs, write_padding (length xs)]"

definition de_opaque :: "bytes de" where
  "de_opaque = de_bind de_usize_as_u32 (\<lambda>n.
    if n > MAX_XDR_OPAQUE_LENGTH then de_fail InvalidData
    else de_bind (read_exact n) (\<lambda>xs. de_bind (read_padding n) (\<lambda>_. de_return xs)))"

text \<open>A \<open>String\<close> is the list of its bytes; the deserializer accepts ASCII only.\<close>

definition is_ascii :: "bytes \<Rightarrow> bool" where
  "is_ascii xs \<longleftrightarrow> list_all (\<lambda>b. b < 128) xs"

definition ser_string :: "bytes ser" where
  "ser_string s = ser_opaque s"

definition de_string :: "bytes de" where
  "de_string = de_bind de_opaque (\<lambda>s. if is_ascii s then de_return s else de_fail InvalidData)"

primrec de_array :: "'a de \<Rightarrow> usize \<Rightarrow> 'a list de" where
  "de_array d 0 = de_return []"
| "de_array d (Suc n) = de_bind d (\<lambda>x. de_bind (de_array d n) (\<lambda>xs. de_return (x # xs)))"

definition ser_array :: "'a ser \<Rightarrow> 'a list ser" where
  "ser_array s xs = ser_seq (map s xs)"

definition ser_vec :: "'a ser \<Rightarrow> 'a list ser" where
  "ser_vec s xs = ser_seq (ser_usize_as_u32 (length xs) # map s xs)"

definition de_vec :: "'a de \<Rightarrow> 'a list de" where
  "de_vec d = de_bind de_usize_as_u32 (\<lambda>n.
    if n > MAX_XDR_ARRAY_LENGTH then de_fail InvalidData else de_array d n)"

definition ser_option :: "'a ser \<Rightarrow> 'a option ser" where
  "ser_option s x =
    (case x of Some y \<Rightarrow> ser_seq [ser_bool True, s y] | None \<Rightarrow> ser_bool False)"

definition de_option :: "'a de \<Rightarrow> 'a option de" where
  "de_option d = de_bind de_bool (\<lambda>b.
    if b then de_bind d (\<lambda>x. de_return (Some x)) else de_return None)"

section \<open>The contract of a codec\<close>

text \<open>
  \<open>ok\<close> singles out the values that fit the wire format. Every such value is written, what is
  written is read back whatever follows it, its length is a multiple of four, and a
  deserializer that succeeds returns such a value and has consumed exactly as many bytes as the
  value's encoding has (the encoding itself may differ: the padding bytes of a message are
  skipped unread).
\<close>

locale xdr_codec =
  fixes ser :: "'a ser" and de :: "'a de" and ok :: "'a \<Rightarrow> bool"
  assumes ser_ok: "ok x \<Longrightarrow> \<exists>b. ser x = Ok b"
    and dec_enc: "ok x \<Longrightarrow> ser x = Ok b \<Longrightarrow> de (b @ r) = Ok (x, r)"
    and aligned: "ok x \<Longrightarrow> ser x = Ok b \<Longrightarrow> 4 dvd length b"
    and de_ok: "de s = Ok (x, r) \<Longrightarrow> ok x"
    and de_consumes: "de s = Ok (x, r) \<Longrightarrow> ser x = Ok b \<Longrightarrow>
      \<exists>q. s = q @ r \<and> length q = length b"
begin

lemma roundtrip: "ok x \<Longrightarrow> \<exists>b. ser x = Ok b \<and> de (b @ r) = Ok (x, r) \<and> 4 dvd length b"
  using ser_ok dec_enc aligned by blast

lemma enc: "ok x \<Longrightarrow> \<exists>b. ser x = Ok b \<and> 4 dvd length b \<and> (\<forall>r. de (b @ r) = Ok (x, r))"
  using roundtrip dec_enc by blast

lemma ser_inj:
  assumes "ok x" "ok y" "ser x = Ok b" "ser y = Ok b"
  shows "x = y"
proof -
  have "de (b @ []) = Ok (x, [])" "de (b @ []) = Ok (y, [])"
    using assms dec_enc by blast+
  then show ?thesis by simp
qed

lemma prefix_free:
  assumes "ok x" "ok y" "ser x = Ok b" "ser y = Ok c" "prefix b c"
  shows "x = y \<and> b = c"
proof -
  obtain r where c: "c = b @ r" using assms(5) by (auto simp: prefix_def)
  have "de (b @ r) = Ok (x, r)" using dec_enc assms(1,3) by blast
  moreover have "de (c @ []) = Ok (y, [])" using dec_enc assms(2,4) by blast
  ultimately show ?thesis using c by simp
qed

lemma reencode:
  assumes "de s = Ok (x, r)"
  shows "\<exists>b q. ser x = Ok b \<and> s = q @ r \<and> length q = length b \<and> de (b @ r) = Ok (x, r)"
proof -
  have "ok x" using assms by (rule de_ok)
  then obtain b where b: "ser x = Ok b" using ser_ok by blast
  then show ?thesis using de_consumes [OF assms b] dec_enc [OF \<open>ok x\<close> b] by blast
qed

lemma de_suffix: "de s = Ok (x, r) \<Longrightarrow> suffix r s"
  using reencode by (fastforce simp: suffix_def)

lemma de_shorter: "de s = Ok (x, r) \<Longrightarrow> length r \<le> length s"
  using reencode by fastforce

end

text \<open>
  The same contract for values that satisfy \<open>Q\<close>: when a struct is read field by field, \<open>Q\<close> says
  which values the fields read so far have.
\<close>

definition codec_on :: "('a \<Rightarrow> bool) \<Rightarrow> 'a ser \<Rightarrow> 'a de \<Rightarrow> ('a \<Rightarrow> bool) \<Rightarrow> bool" where
  "codec_on Q ser de ok \<longleftrightarrow>
    (\<forall>x. Q x \<longrightarrow> ok x \<longrightarrow>
      (\<exists>b. ser x = Ok b \<and> 4 dvd length b \<and> (\<forall>r. de (b @ r) = Ok (x, r)))) \<and>
    (\<forall>s x r. de s = Ok (x, r) \<longrightarrow> Q x \<and> ok x \<and>
      (\<forall>b. ser x = Ok b \<longrightarrow> (\<exists>q. s = q @ r \<and> length q = length b)))"

lemma codec_onI:
  assumes "\<And>x. Q x \<Longrightarrow> ok x \<Longrightarrow>
      \<exists>b. ser x = Ok b \<and> 4 dvd length b \<and> (\<forall>r. de (b @ r) = Ok (x, r))"
    and "\<And>s x r. de s = Ok (x, r) \<Longrightarrow> Q x \<and> ok x"
    and "\<And>s x r b. de s = Ok (x, r) \<Longrightarrow> ser x = Ok b \<Longrightarrow> \<exists>q. s = q @ r \<and> length q = length b"
  shows "codec_on Q ser de ok"
  using assms unfolding codec_on_def by blast

lemma codec_on_ser:
  "codec_on Q ser de ok \<Longrightarrow> Q x \<Longrightarrow> ok x \<Longrightarrow>
    \<exists>b. ser x = Ok b \<and> 4 dvd length b \<and> (\<forall>r. de (b @ r) = Ok (x, r))"
  by (simp add: codec_on_def)

lemma codec_on_de: "codec_on Q ser de ok \<Longrightarrow> de s = Ok (x, r) \<Longrightarrow> Q x \<and> ok x"
  by (simp add: codec_on_def)

lemma codec_on_len:
  "codec_on Q ser de ok \<Longrightarrow> de s = Ok (x, r) \<Longrightarrow> ser x = Ok b \<Longrightarrow>
    \<exists>q. s = q @ r \<and> length q = length b"
  by (simp add: codec_on_def)

lemma codec_iff_on: "xdr_codec ser de ok \<longleftrightarrow> codec_on (\<lambda>_. True) ser de ok"
proof
  assume codec: "xdr_codec ser de ok"
  show "codec_on (\<lambda>_. True) ser de ok"
    using xdr_codec.roundtrip [OF codec] xdr_codec.dec_enc [OF codec]
      xdr_codec.de_ok [OF codec] xdr_codec.de_consumes [OF codec]
    by (intro codec_onI) blast+
next
  assume c: "codec_on (\<lambda>_. True) ser de ok"
  show "xdr_codec ser de ok"
  proof
    fix x b r s
    show "ok x \<Longrightarrow> \<exists>b. ser x = Ok b" using codec_on_ser [OF c] by blast
    show "ok x \<Longrightarrow> ser x = Ok b \<Longrightarrow> de (b @ r) = Ok (x, r)"
      using codec_on_ser [OF c, of x] by auto
    show "ok x \<Longrightarrow> ser x = Ok b \<Longrightarrow> 4 dvd length b"
      using codec_on_ser [OF c, of x] by auto
    show "de s = Ok (x, r) \<Longrightarrow> ok x" using codec_on_de [OF c] by blast
    show "de s = Ok (x, r) \<Longrightarrow> ser x = Ok b \<Longrightarrow> \<exists>q. s = q @ r \<and> length q = length b"
      using codec_on_len [OF c] by blast
  qed
qed

lemma codec_return:
  assumes "\<And>x. Q x \<longleftrightarrow> x = v"
  shows "codec_on Q (\<lambda>x. ser_seq []) (de_return v) (\<lambda>_. True)"
  using assms by (auto simp: codec_on_def de_return_def)

text \<open>One field: its own codec, then the rest of the struct with that field known.\<close>

lemma codec_field:
  assumes field: "xdr_codec s d ok1"
    and rest: "\<And>a. codec_on (\<lambda>x. Q x \<and> f x = a) (\<lambda>x. ser_seq (fs x)) (D a) ok2"
  shows "codec_on Q (\<lambda>x. ser_seq (s (f x) # fs x)) (de_bind d D) (\<lambda>x. ok1 (f x) \<and> ok2 x)"
proof (rule codec_onI)
  fix x assume x: "Q x" "ok1 (f x) \<and> ok2 x"
  obtain b where b: "s (f x) = Ok b" "4 dvd length b" "\<And>r. d (b @ r) = Ok (f x, r)"
    using x(2) xdr_codec.roundtrip [OF field] xdr_codec.dec_enc [OF field] by metis
  obtain bs where bs: "ser_seq (fs x) = Ok bs" "4 dvd length bs"
      "\<And>r. D (f x) (bs @ r) = Ok (x, r)"
    using codec_on_ser [OF rest [of "f x"], of x] x by blast
  show "\<exists>b. ser_seq (s (f x) # fs x) = Ok b \<and> 4 dvd length b
      \<and> (\<forall>r. de_bind d D (b @ r) = Ok (x, r))"
    using b bs by (auto simp: de_bind_def)
next
  fix i x r assume "de_bind d D i = Ok (x, r)"
  then obtain a i' where a: "d i = Ok (a, i')" "D a i' = Ok (x, r)"
    by (auto simp: de_bind_def split: sum.splits)
  show "Q x \<and> ok1 (f x) \<and> ok2 x"
    using codec_on_de [OF rest a(2)] xdr_codec.de_ok [OF field a(1)] by simp
next
  fix i x r b assume "de_bind d D i = Ok (x, r)" and e: "ser_seq (s (f x) # fs x) = Ok b"
  then obtain a i' where a: "d i = Ok (a, i')" "D a i' = Ok (x, r)"
    by (auto simp: de_bind_def split: sum.splits)
  from e obtain b1 b2 where b: "s (f x) = Ok b1" "ser_seq (fs x) = Ok b2" "b = b1 @ b2"
    by (auto simp: ser_then_Ok)
  have "f x = a" using codec_on_de [OF rest a(2)] by simp
  then have "s a = Ok b1" using b by simp
  then show "\<exists>q. i = q @ r \<and> length q = length b"
    using xdr_codec.de_consumes [OF field a(1)] codec_on_len [OF rest a(2) b(2)] b(3)
    by (metis append.assoc length_append)
qed

lemma codec_structI:
  assumes "\<And>x. ser x = ser' x" and "de = de'"
    and "codec_on (\<lambda>_. True) ser' de' ok'" and "\<And>x. ok x \<longleftrightarrow> ok' x"
  shows "xdr_codec ser de ok"
  using assms by (simp add: codec_iff_on codec_on_def)

lemma codec_on_cong:
  assumes "codec_on Q ser' de ok'"
    and "\<And>x. Q x \<Longrightarrow> ser x = ser' x" and "\<And>x. Q x \<Longrightarrow> ok x \<longleftrightarrow> ok' x"
  shows "codec_on Q ser de ok"
  using assms by (auto simp: codec_on_def)

lemma codec_on_weaken:
  assumes "codec_on Q ser de ok" and "\<And>x. ok x \<Longrightarrow> Q x"
  shows "codec_on (\<lambda>_. True) ser de ok"
  using assms by (auto simp: codec_on_def)

lemma codec_on_narrow:
  assumes "codec_on (\<lambda>x. P x \<and> Q x) ser de P"
  shows "codec_on Q ser de P"
  using assms by (auto simp: codec_on_def)

lemma codec_on_fail:
  assumes "\<And>x. Q x \<Longrightarrow> \<not> ok x"
  shows "codec_on Q ser (de_fail e) ok"
  using assms by (auto simp: codec_on_def de_fail_def)

lemma codec_if:
  assumes "c \<Longrightarrow> codec_on Q ser d ok" and "\<not> c \<Longrightarrow> codec_on Q ser d' ok"
  shows "codec_on Q ser (if c then d else d') ok"
  using assms by simp

text \<open>A discriminated union: a tag, then the arm that the tag selects.\<close>

lemma codec_union:
  assumes c: "xdr_codec s d okt"
    and ser: "\<And>x. ser x = ser_seq [s (tag x), arm x]" and de: "de = de_bind d D"
    and arms: "\<And>t. codec_on (\<lambda>x. tag x = t) arm (D t) ok" and ok: "\<And>x. ok x \<Longrightarrow> okt (tag x)"
  shows "xdr_codec ser de ok"
proof (rule codec_structI, rule ser, rule de)
  have "codec_on (\<lambda>x. True \<and> tag x = t) (\<lambda>x. ser_seq [arm x]) (D t) ok" for t
    using arms [of t] by simp
  then show "codec_on (\<lambda>_. True) (\<lambda>x. ser_seq [s (tag x), arm x]) (de_bind d D)
      (\<lambda>x. okt (tag x) \<and> ok x)"
    by (rule codec_field [OF c])
  show "ok x \<longleftrightarrow> okt (tag x) \<and> ok x" for x using ok by blast
qed

lemma codec_arm:
  assumes c: "xdr_codec s d ok1"
    and Q: "\<And>x. Q x \<longleftrightarrow> (\<exists>y. x = A y)" and ser: "\<And>y. ser (A y) = s y"
    and ok: "\<And>y. ok (A y) \<longleftrightarrow> ok1 y"
  shows "codec_on Q ser (de_bind d (\<lambda>y. de_return (A y))) ok"
proof (rule codec_onI)
  fix x assume "Q x" "ok x"
  then obtain y where y: "x = A y" "ok1 y" using Q ok by auto
  obtain b where "s y = Ok b" "4 dvd length b" "\<And>r. d (b @ r) = Ok (y, r)"
    using xdr_codec.roundtrip [OF c y(2)] xdr_codec.dec_enc [OF c y(2)] by metis
  then show "\<exists>b. ser x = Ok b \<and> 4 dvd length b
      \<and> (\<forall>r. de_bind d (\<lambda>y. de_return (A y)) (b @ r) = Ok (x, r))"
    using y ser by (auto simp: de_bind_def de_return_def)
next
  fix i x r assume "de_bind d (\<lambda>y. de_return (A y)) i = Ok (x, r)"
  then show "Q x \<and> ok x"
    using Q ok xdr_codec.de_ok [OF c] by (auto simp: de_bind_def de_return_def split: sum.splits)
next
  fix i x r b assume "de_bind d (\<lambda>y. de_return (A y)) i = Ok (x, r)" "ser x = Ok b"
  then show "\<exists>q. i = q @ r \<and> length q = length b"
    using ser xdr_codec.de_consumes [OF c]
    by (auto simp: de_bind_def de_return_def split: sum.splits)
qed

lemma codec_arm0:
  assumes "\<And>x. Q x \<longleftrightarrow> x = v" and "ser v = Ok []" and "ok v"
  shows "codec_on Q ser (de_return v) ok"
  using assms by (auto simp: codec_on_def de_return_def)

text \<open>The contracts of the wire types, as a collection for the structs that use them.\<close>

named_theorems xdr_codecs

section \<open>The codecs of the primitive types\<close>

lemma padding_len_dvd: "4 dvd n + padding_len n"
  by (simp add: padding_len_def ALIGNMENT_def length_4_mod)

lemma padding_len_less: "padding_len n < 4"
  by (simp add: padding_len_def ALIGNMENT_def)

lemma padding_len_mult [simp]: "4 dvd n \<Longrightarrow> padding_len n = 0"
  by (simp add: padding_len_def ALIGNMENT_def dvd_eq_mod_eq_0)

lemma read_exact_Ok:
  "read_exact n s = Ok (x, r) \<longleftrightarrow> s = x @ r \<and> length x = n"
  by (auto simp: read_exact_def)

lemma read_padding_eq: "read_padding n = de_bind (read_exact (padding_len n)) (\<lambda>_. de_return ())"
  by (rule ext) (simp add: read_padding_def Let_def de_bind_def de_return_def read_exact_def)

lemma write_padding_eq: "write_padding n = Ok (replicate (padding_len n) 0)"
  by (simp add: write_padding_def Let_def)

lemma de_bind_Ok:
  "de_bind m f s = Ok (y, r) \<longleftrightarrow> (\<exists>x s'. m s = Ok (x, s') \<and> f x s' = Ok (y, r))"
  by (auto simp: de_bind_def split: sum.splits)

lemma de_return_Ok: "de_return x s = Ok (y, r) \<longleftrightarrow> y = x \<and> r = s"
  by (auto simp: de_return_def)

lemma de_fail_Ok: "de_fail e s = Ok z \<longleftrightarrow> False"
  by (simp add: de_fail_def)

lemma read_padding_Ok:
  "read_padding n s = Ok (u, r) \<longleftrightarrow> (\<exists>p. s = p @ r \<and> length p = padding_len n)"
  unfolding read_padding_eq by (auto simp: de_bind_Ok de_return_Ok read_exact_Ok)

lemmas de_Ok = de_bind_Ok de_return_Ok de_fail_Ok read_exact_Ok read_padding_Ok

lemma de_bind_append:
  "m (b @ r) = Ok (x, r) \<Longrightarrow> de_bind m f (b @ r) = f x r"
  by (simp add: de_bind_def)


lemma codec_word:
  assumes "8 * n = LENGTH('a::len)" "4 dvd n"
  shows "xdr_codec (\<lambda>w :: 'a word. Ok (be_bytes n w))
    (de_bind (read_exact n) (\<lambda>b. de_return (of_be_bytes b))) (\<lambda>_. True)"
  using assms
  by unfold_locales
    (auto simp: de_Ok of_be_bytes_be_bytes)

lemma codec_u32 [xdr_codecs]: "xdr_codec ser_u32 de_u32 (\<lambda>_. True)"
  using codec_word [where 'a = 32, of 4] by (simp add: ser_u32_def [abs_def] de_u32_def)

lemma codec_i32 [xdr_codecs]: "xdr_codec ser_i32 de_i32 (\<lambda>_. True)"
  using codec_word [where 'a = 32, of 4] by (simp add: ser_i32_def [abs_def] de_i32_def)

lemma codec_u64 [xdr_codecs]: "xdr_codec ser_u64 de_u64 (\<lambda>_. True)"
  using codec_word [where 'a = 64, of 8] by (simp add: ser_u64_def [abs_def] de_u64_def)

lemma codec_i64 [xdr_codecs]: "xdr_codec ser_i64 de_i64 (\<lambda>_. True)"
  using codec_word [where 'a = 64, of 8] by (simp add: ser_i64_def [abs_def] de_i64_def)

lemma codec_f32 [xdr_codecs]: "xdr_codec ser_f32 de_f32 (\<lambda>_. True)"
  using codec_word [where 'a = 32, of 4] by (simp add: ser_f32_def [abs_def] de_f32_def)

lemma codec_f64 [xdr_codecs]: "xdr_codec ser_f64 de_f64 (\<lambda>_. True)"
  using codec_word [where 'a = 64, of 8] by (simp add: ser_f64_def [abs_def] de_f64_def)

interpretation u32: xdr_codec ser_u32 de_u32 "\<lambda>_. True" by (rule codec_u32)
interpretation i32: xdr_codec ser_i32 de_i32 "\<lambda>_. True" by (rule codec_i32)
interpretation u64: xdr_codec ser_u64 de_u64 "\<lambda>_. True" by (rule codec_u64)
interpretation i64: xdr_codec ser_i64 de_i64 "\<lambda>_. True" by (rule codec_i64)
interpretation f32: xdr_codec ser_f32 de_f32 "\<lambda>_. True" by (rule codec_f32)
interpretation f64: xdr_codec ser_f64 de_f64 "\<lambda>_. True" by (rule codec_f64)

text \<open>A value carried by another one: \<open>f\<close> encodes, \<open>g\<close> decodes or rejects.\<close>

lemma codec_image:
  assumes c: "xdr_codec s d ok1"
    and fg: "\<And>x. ok x \<Longrightarrow> ok1 (f x) \<and> g (f x) = Some x"
    and gf: "\<And>a x. ok1 a \<Longrightarrow> g a = Some x \<Longrightarrow> ok x \<and> f x = a"
    and s': "\<And>x. ok x \<Longrightarrow> s' x = s (f x)"
    and d': "\<And>a i. d' i = de_bind d (\<lambda>a. case g a of Some x \<Rightarrow> de_return x | None \<Rightarrow> de_fail e) i"
  shows "xdr_codec s' d' ok"
proof
  fix x b r i
  show "ok x \<Longrightarrow> \<exists>b. s' x = Ok b" using xdr_codec.ser_ok [OF c] fg s' by simp
  show "ok x \<Longrightarrow> s' x = Ok b \<Longrightarrow> d' (b @ r) = Ok (x, r)"
    using xdr_codec.dec_enc [OF c, of "f x" b r] fg [of x] s' [of x]
    by (simp add: d' de_bind_append de_return_def)
  show "ok x \<Longrightarrow> s' x = Ok b \<Longrightarrow> 4 dvd length b"
    using xdr_codec.aligned [OF c, of "f x" b] fg [of x] s' [of x] by simp
  show ok: "ok x" if "d' i = Ok (x, r)"
    using that xdr_codec.de_ok [OF c] gf by (fastforce simp: d' de_Ok split: option.splits)
  show "d' i = Ok (x, r) \<Longrightarrow> s' x = Ok b \<Longrightarrow> \<exists>q. i = q @ r \<and> length q = length b"
    using ok xdr_codec.de_ok [OF c] xdr_codec.de_consumes [OF c] gf s'
    by (auto simp: d' de_Ok split: option.splits) metis+
qed

lemma codec_bool [xdr_codecs]: "xdr_codec ser_bool de_bool (\<lambda>_. True)"
  by (rule codec_image [OF codec_i32, where f = "\<lambda>b. if b then 1 else 0"
        and g = "\<lambda>v. if v = 0 then Some False else if v = 1 then Some True else None"
        and e = InvalidData])
    (auto simp: ser_bool_def de_bool_def de_bind_def split: if_splits sum.splits)

interpretation bool: xdr_codec ser_bool de_bool "\<lambda>_. True" by (rule codec_bool)

lemma codec_enumI:
  assumes "\<And>x. from_i32 code variants (code x) = Some x"
  shows "xdr_codec (ser_enum code) (de_enum code variants) (\<lambda>_. True)"
proof (rule codec_image [OF codec_i32, where f = code and g = "from_i32 code variants"
        and e = InvalidData])
  fix a x assume "from_i32 code variants a = Some x"
  then show "True \<and> code x = a" by (auto simp: from_i32_def find_Some_iff)
qed (simp_all add: assms ser_enum_def de_enum_def)

lemma unat_of_nat32: "n < 2 ^ 32 \<Longrightarrow> unat (of_nat n :: u32) = n"
  by (simp add: unat_of_nat take_bit_nat_eq_self)

lemma unat32_less: "unat (w :: u32) < 4294967296"
proof -
  have "unat w < 2 ^ LENGTH(32)" by (rule unsigned_less)
  then show ?thesis by simp
qed

lemma codec_usize [xdr_codecs]:
  "xdr_codec ser_usize_as_u32 de_usize_as_u32 (\<lambda>n. n < 2 ^ 32)"
  by (rule codec_image [OF codec_u32, where f = of_nat and g = "\<lambda>v. Some (unat v)"
        and e = InvalidData])
    (auto simp: ser_usize_as_u32_def de_usize_as_u32_def unat_of_nat32 unat32_less)

interpretation usize: xdr_codec ser_usize_as_u32 de_usize_as_u32 "\<lambda>n. n < 2 ^ 32"
  by (rule codec_usize)

section \<open>The codecs of the composite types\<close>

lemma opaque_body:
  "de_bind (read_exact (length xs)) (\<lambda>ys. de_bind (read_padding (length xs)) (\<lambda>_. de_return ys))
    (xs @ replicate (padding_len (length xs)) 0 @ r) = Ok (xs, r)"
  by (simp add: de_Ok)

lemma consumed2 [simp]:
  "(\<exists>q. a @ p @ r = q @ r \<and> length q = n) \<longleftrightarrow> length a + length p = n"
  by (metis append.assoc append_same_eq length_append)

lemma codec_opaque_fixed:
  "xdr_codec ser_opaque_fixed (de_opaque_fixed N) (\<lambda>xs. length xs = N)"
proof
  fix x b i r
  show "\<exists>q. i = q @ r \<and> length q = length b"
    if "de_opaque_fixed N i = Ok (x, r)" "ser_opaque_fixed x = Ok b"
    using that by (auto simp: ser_opaque_fixed_def de_opaque_fixed_def write_padding_eq de_Ok)
qed (auto simp: ser_opaque_fixed_def de_opaque_fixed_def write_padding_eq opaque_body
      padding_len_dvd de_Ok)

lemma MAX_XDR_OPAQUE_LENGTH_eq: "MAX_XDR_OPAQUE_LENGTH = 4198400"
  by (simp add: MAX_XDR_OPAQUE_LENGTH_def MAX_RPC_RECORD_LENGTH_def MAX_BLOCK_SIZE_def
      PAGE_SIZE_def div_ceil_def)

lemma MAX_XDR_ARRAY_LENGTH_eq: "MAX_XDR_ARRAY_LENGTH = 1049600"
  by (simp add: MAX_XDR_ARRAY_LENGTH_def MAX_XDR_OPAQUE_LENGTH_eq ALIGNMENT_def)

definition ok_opaque :: "bytes \<Rightarrow> bool" where
  "ok_opaque xs \<longleftrightarrow> length xs \<le> MAX_XDR_OPAQUE_LENGTH"

lemma ok_opaque_less: "ok_opaque xs \<Longrightarrow> length xs < 2 ^ 32"
  by (simp add: ok_opaque_def MAX_XDR_OPAQUE_LENGTH_eq)

lemma codec_opaque [xdr_codecs]: "xdr_codec ser_opaque de_opaque ok_opaque"
proof -
  have *: "codec_on (\<lambda>xs. True \<and> length xs = n)
      (\<lambda>xs. ser_seq [Ok xs, write_padding (length xs)])
      (if n > MAX_XDR_OPAQUE_LENGTH then de_fail InvalidData
       else de_bind (read_exact n) (\<lambda>xs. de_bind (read_padding n) (\<lambda>_. de_return xs)))
      ok_opaque" for n
    by (rule codec_onI)
      (auto simp: write_padding_eq opaque_body padding_len_dvd de_Ok ok_opaque_def
        split: if_splits)
  show ?thesis
    by (rule codec_structI, rule ser_opaque_def, rule de_opaque_def,
        rule codec_field [OF codec_usize], rule *)
      (auto simp: ok_opaque_def MAX_XDR_OPAQUE_LENGTH_eq)
qed

interpretation opaque: xdr_codec ser_opaque de_opaque ok_opaque by (rule codec_opaque)

definition ok_string :: "bytes \<Rightarrow> bool" where
  "ok_string s \<longleftrightarrow> is_ascii s \<and> ok_opaque s"

lemma codec_string [xdr_codecs]: "xdr_codec ser_string de_string ok_string"
  by (rule codec_image [OF codec_opaque, where f = "\<lambda>x. x"
        and g = "\<lambda>s. if is_ascii s then Some s else None" and e = InvalidData])
    (auto simp: ser_string_def de_string_def ok_string_def de_bind_def
      split: if_splits sum.splits)

interpretation string: xdr_codec ser_string de_string ok_string by (rule codec_string)

text \<open>The last field, read by \<open>d\<close> and put into the value by \<open>mk\<close>.\<close>

lemma codec_last:
  assumes c: "xdr_codec s d ok1"
    and mk: "\<And>x. Q x \<Longrightarrow> mk (f x) = x" "\<And>y. Q (mk y) \<and> f (mk y) = y"
  shows "codec_on Q (\<lambda>x. s (f x)) (de_bind d (\<lambda>y. de_return (mk y))) (\<lambda>x. ok1 (f x))"
proof (rule codec_onI)
  fix x assume x: "Q x" "ok1 (f x)"
  show "\<exists>b. s (f x) = Ok b \<and> 4 dvd length b
      \<and> (\<forall>r. de_bind d (\<lambda>y. de_return (mk y)) (b @ r) = Ok (x, r))"
    using xdr_codec.roundtrip [OF c x(2)] xdr_codec.dec_enc [OF c x(2)] mk(1) [OF x(1)]
    by (fastforce simp: de_Ok)
next
  fix i x r assume "de_bind d (\<lambda>y. de_return (mk y)) i = Ok (x, r)"
  then show "Q x \<and> ok1 (f x)"
    using xdr_codec.de_ok [OF c] mk(2) by (auto simp: de_Ok)
next
  fix i x r b assume "de_bind d (\<lambda>y. de_return (mk y)) i = Ok (x, r)" "s (f x) = Ok b"
  then show "\<exists>q. i = q @ r \<and> length q = length b"
    using xdr_codec.de_consumes [OF c] mk(2) by (auto simp: de_Ok)
qed

lemma codec_elements:
  assumes "xdr_codec s d ok"
  shows "xdr_codec (ser_array s) (de_array d n) (\<lambda>xs. length xs = n \<and> (\<forall>x\<in>set xs. ok x))"
proof (induction n)
  case 0
  show ?case by unfold_locales (auto simp: ser_array_def de_Ok de_return_def)
next
  case (Suc n)
  have "codec_on (\<lambda>xs. xs \<noteq> []) (\<lambda>xs. ser_seq (s (hd xs) # map s (tl xs)))
      (de_bind d (\<lambda>x. de_bind (de_array d n) (\<lambda>xs. de_return (x # xs))))
      (\<lambda>xs. ok (hd xs) \<and> (length (tl xs) = n \<and> (\<forall>x\<in>set (tl xs). ok x)))"
    by (rule codec_field [OF assms], rule codec_last [OF Suc.IH, unfolded ser_array_def]) auto
  then have "codec_on (\<lambda>xs. xs \<noteq> []) (ser_array s)
      (de_bind d (\<lambda>x. de_bind (de_array d n) (\<lambda>xs. de_return (x # xs))))
      (\<lambda>xs. length xs = Suc n \<and> (\<forall>x\<in>set xs. ok x))"
    
    by (rule codec_on_cong) (auto simp: ser_array_def neq_Nil_conv split: sum.splits)
  then show ?case unfolding codec_iff_on
    by (subst de_array.simps) (erule codec_on_weaken, auto)
qed

lemma codec_vec:
  assumes "xdr_codec s d ok"
  shows "xdr_codec (ser_vec s) (de_vec d)
    (\<lambda>xs. length xs \<le> MAX_XDR_ARRAY_LENGTH \<and> (\<forall>x\<in>set xs. ok x))"
proof -
  have *: "codec_on (\<lambda>xs. True \<and> length xs = n) (\<lambda>xs. ser_seq (map s xs))
      (if n > MAX_XDR_ARRAY_LENGTH then de_fail InvalidData else de_array d n)
      (\<lambda>xs. length xs \<le> MAX_XDR_ARRAY_LENGTH \<and> (\<forall>x\<in>set xs. ok x))" for n
    using codec_elements [OF assms, of n, unfolded codec_iff_on ser_array_def]
    by (auto simp: codec_on_def de_fail_def)
  show ?thesis
    by (rule codec_structI, rule ser_vec_def, rule de_vec_def,
        rule codec_field [OF codec_usize], rule *)
      (auto simp: MAX_XDR_ARRAY_LENGTH_eq)
qed

lemma codec_option:
  assumes c: "xdr_codec s d ok"
  shows "xdr_codec (ser_option s) (de_option d) (pred_option ok)"
proof -
  have *: "codec_on (\<lambda>x. True \<and> (x \<noteq> None) = b)
      (\<lambda>x. ser_seq (case x of None \<Rightarrow> [] | Some y \<Rightarrow> [s y]))
      (if b then de_bind d (\<lambda>x. de_return (Some x)) else de_return None)
      (pred_option ok)" for b
    using xdr_codec.roundtrip [OF c] xdr_codec.dec_enc [OF c] xdr_codec.de_ok [OF c]
      xdr_codec.de_consumes [OF c]
    by (cases b; intro codec_onI) (fastforce simp: de_Ok de_return_def split: option.splits sum.splits)+
  have "codec_on (\<lambda>_. True)
      (\<lambda>x. ser_seq (ser_bool (x \<noteq> None) # (case x of None \<Rightarrow> [] | Some y \<Rightarrow> [s y])))
      (de_option d) (\<lambda>x. True \<and> pred_option ok x)"
    unfolding de_option_def by (rule codec_field [OF codec_bool], rule *)
  moreover have "ser_seq (ser_bool (x \<noteq> None) # (case x of None \<Rightarrow> [] | Some y \<Rightarrow> [s y]))
      = ser_option s x" for x
    by (cases x) (auto simp: ser_option_def ser_bool_def ser_i32_def)
  ultimately show ?thesis by (simp add: codec_iff_on)
qed

lemma codec_option_total:
  assumes "xdr_codec s d (\<lambda>_. True)"
  shows "xdr_codec (ser_option s) (de_option d) (\<lambda>_. True)"
proof -
  have "pred_option (\<lambda>_. True) = (\<lambda>_ :: 'a option. True)"
    by (rule ext) (simp add: option.pred_set)
  then show ?thesis using codec_option [OF assms] by simp
qed

end
