(* ===== verification/Xdr_Rpc.thy ===== *)
theory Xdr_Rpc
  imports Xdr
begin

text \<open>
  The RPC message types of \<open>src/protocol/xdr/rpc.rs\<close>, their codecs and the reply messages that
  the dispatcher sends. The fields of a Rust struct carry a prefix here, because two structs
  may use the same field name.
\<close>

section \<open>Authentication\<close>

datatype auth_stat =
  AUTH_BADCRED | AUTH_REJECTEDCRED | AUTH_BADVERF | AUTH_REJECTEDVERF | AUTH_TOOWEAK

primrec auth_stat_code :: "auth_stat \<Rightarrow> i32" where
  "auth_stat_code AUTH_BADCRED = 1"
| "auth_stat_code AUTH_REJECTEDCRED = 2"
| "auth_stat_code AUTH_BADVERF = 3"
| "auth_stat_code AUTH_REJECTEDVERF = 4"
| "auth_stat_code AUTH_TOOWEAK = 5"

definition auth_stat_variants :: "auth_stat list" where
  "auth_stat_variants =
    [AUTH_BADCRED, AUTH_REJECTEDCRED, AUTH_BADVERF, AUTH_REJECTEDVERF, AUTH_TOOWEAK]"

definition ser_auth_stat :: "auth_stat ser" where
  "ser_auth_stat = ser_enum auth_stat_code"

definition de_auth_stat :: "auth_stat de" where
  "de_auth_stat = de_enum auth_stat_code auth_stat_variants"

lemma codec_auth_stat [xdr_codecs]: "xdr_codec ser_auth_stat de_auth_stat (\<lambda>_. True)"
  unfolding ser_auth_stat_def de_auth_stat_def
  by (rule codec_enumI, rule auth_stat.induct) (simp_all add: auth_stat_variants_def from_i32_def)

datatype auth_flavor =
  AUTH_NULL | AUTH_UNIX | AUTH_SHORT | AUTH_DES

primrec auth_flavor_code :: "auth_flavor \<Rightarrow> i32" where
  "auth_flavor_code AUTH_NULL = 0"
| "auth_flavor_code AUTH_UNIX = 1"
| "auth_flavor_code AUTH_SHORT = 2"
| "auth_flavor_code AUTH_DES = 3"

definition auth_flavor_variants :: "auth_flavor list" where
  "auth_flavor_variants =
    [AUTH_NULL, AUTH_UNIX, AUTH_SHORT, AUTH_DES]"

definition ser_auth_flavor :: "auth_flavor ser" where
  "ser_auth_flavor = ser_enum auth_flavor_code"

definition de_auth_flavor :: "auth_flavor de" where
  "de_auth_flavor = de_enum auth_flavor_code auth_flavor_variants"

lemma codec_auth_flavor [xdr_codecs]: "xdr_codec ser_auth_flavor de_auth_flavor (\<lambda>_. True)"
  unfolding ser_auth_flavor_def de_auth_flavor_def
  by (rule codec_enumI, rule auth_flavor.induct) (simp_all add: auth_flavor_variants_def from_i32_def)

lemma codec_vec_u32 [xdr_codecs]:
  "xdr_codec (ser_vec ser_u32) (de_vec de_u32) (\<lambda>xs. length xs \<le> MAX_XDR_ARRAY_LENGTH)"
  using codec_vec [OF codec_u32] by simp

record auth_unix =
  au_stamp :: u32
  au_machinename :: bytes
  au_uid :: u32
  au_gid :: u32
  au_gids :: "u32 list"

definition ser_auth_unix :: "auth_unix ser" where
  "ser_auth_unix x = ser_seq
    [ser_u32 (au_stamp x), ser_opaque (au_machinename x), ser_u32 (au_uid x),
     ser_u32 (au_gid x), ser_vec ser_u32 (au_gids x)]"

definition de_auth_unix :: "auth_unix de" where
  "de_auth_unix =
    de_bind de_u32 (\<lambda>a. de_bind de_opaque (\<lambda>b. de_bind de_u32 (\<lambda>c.
    de_bind de_u32 (\<lambda>d. de_bind (de_vec de_u32) (\<lambda>e. 
    de_return
      \<lparr>au_stamp = a, au_machinename = b, au_uid = c, au_gid = d, au_gids = e\<rparr>)))))"

definition ok_auth_unix :: "auth_unix \<Rightarrow> bool" where
  "ok_auth_unix x \<longleftrightarrow> ok_opaque (au_machinename x) \<and> length (au_gids x) \<le> MAX_XDR_ARRAY_LENGTH"

lemma codec_auth_unix [xdr_codecs]: "xdr_codec ser_auth_unix de_auth_unix ok_auth_unix"
  by (rule codec_structI, rule ser_auth_unix_def, rule de_auth_unix_def,
      (rule codec_field, rule xdr_codecs)+, rule codec_return)
    (auto simp: ok_auth_unix_def)

interpretation auth_unix: xdr_codec ser_auth_unix de_auth_unix ok_auth_unix
  by (rule codec_auth_unix)

definition auth_unix_default :: auth_unix where
  "auth_unix_default =
    \<lparr>au_stamp = 0, au_machinename = [], au_uid = 0, au_gid = 0, au_gids = []\<rparr>"

record opaque_auth =
  oa_flavor :: auth_flavor
  oa_body :: bytes

definition ser_opaque_auth :: "opaque_auth ser" where
  "ser_opaque_auth x = ser_seq
    [ser_auth_flavor (oa_flavor x), ser_opaque (oa_body x)]"

definition de_opaque_auth :: "opaque_auth de" where
  "de_opaque_auth =
    de_bind de_auth_flavor (\<lambda>a. de_bind de_opaque (\<lambda>b. 
    de_return
      \<lparr>oa_flavor = a, oa_body = b\<rparr>))"

definition ok_opaque_auth :: "opaque_auth \<Rightarrow> bool" where
  "ok_opaque_auth x \<longleftrightarrow> ok_opaque (oa_body x)"

lemma codec_opaque_auth [xdr_codecs]: "xdr_codec ser_opaque_auth de_opaque_auth ok_opaque_auth"
  by (rule codec_structI, rule ser_opaque_auth_def, rule de_opaque_auth_def,
      (rule codec_field, rule xdr_codecs)+, rule codec_return)
    (auto simp: ok_opaque_auth_def)

interpretation opaque_auth: xdr_codec ser_opaque_auth de_opaque_auth ok_opaque_auth
  by (rule codec_opaque_auth)

definition opaque_auth_default :: opaque_auth where
  "opaque_auth_default = \<lparr>oa_flavor = AUTH_NULL, oa_body = []\<rparr>"

section \<open>Messages\<close>

record call_body =
  cb_rpcvers :: u32
  cb_prog :: u32
  cb_vers :: u32
  cb_proc :: u32
  cb_cred :: opaque_auth
  cb_verf :: opaque_auth

definition ser_call_body :: "call_body ser" where
  "ser_call_body x = ser_seq
    [ser_u32 (cb_rpcvers x), ser_u32 (cb_prog x), ser_u32 (cb_vers x), ser_u32 (cb_proc x),
     ser_opaque_auth (cb_cred x), ser_opaque_auth (cb_verf x)]"

definition de_call_body :: "call_body de" where
  "de_call_body =
    de_bind de_u32 (\<lambda>a. de_bind de_u32 (\<lambda>b. de_bind de_u32 (\<lambda>c.
    de_bind de_u32 (\<lambda>d. de_bind de_opaque_auth (\<lambda>e.
    de_bind de_opaque_auth (\<lambda>f. 
    de_return
      \<lparr>cb_rpcvers = a, cb_prog = b, cb_vers = c, cb_proc = d, cb_cred = e, cb_verf = f\<rparr>))))))"

definition ok_call_body :: "call_body \<Rightarrow> bool" where
  "ok_call_body x \<longleftrightarrow> ok_opaque_auth (cb_cred x) \<and> ok_opaque_auth (cb_verf x)"

lemma codec_call_body [xdr_codecs]: "xdr_codec ser_call_body de_call_body ok_call_body"
  by (rule codec_structI, rule ser_call_body_def, rule de_call_body_def,
      (rule codec_field, rule xdr_codecs)+, rule codec_return)
    (auto simp: ok_call_body_def)

interpretation call_body: xdr_codec ser_call_body de_call_body ok_call_body
  by (rule codec_call_body)

record mismatch_info =
  mi_low :: u32
  mi_high :: u32

definition ser_mismatch_info :: "mismatch_info ser" where
  "ser_mismatch_info x = ser_seq
    [ser_u32 (mi_low x), ser_u32 (mi_high x)]"

definition de_mismatch_info :: "mismatch_info de" where
  "de_mismatch_info =
    de_bind de_u32 (\<lambda>a. de_bind de_u32 (\<lambda>b. 
    de_return
      \<lparr>mi_low = a, mi_high = b\<rparr>))"

lemma codec_mismatch_info [xdr_codecs]: "xdr_codec ser_mismatch_info de_mismatch_info (\<lambda>_. True)"
  by (rule codec_structI, rule ser_mismatch_info_def, rule de_mismatch_info_def,
      (rule codec_field, rule xdr_codecs)+, rule codec_return)
    auto

definition mismatch_info_default :: mismatch_info where
  "mismatch_info_default = \<lparr>mi_low = 0, mi_high = 0\<rparr>"

datatype accept_body = SUCCESS | PROG_UNAVAIL | PROG_MISMATCH mismatch_info | PROC_UNAVAIL | GARBAGE_ARGS

definition ser_accept_body :: "accept_body ser" where
  "ser_accept_body x =
    (case x of
      SUCCESS \<Rightarrow> ser_seq [ser_u32 0]
    | PROG_UNAVAIL \<Rightarrow> ser_seq [ser_u32 1]
    | PROG_MISMATCH v \<Rightarrow> ser_seq [ser_u32 2, ser_mismatch_info v]
    | PROC_UNAVAIL \<Rightarrow> ser_seq [ser_u32 3]
    | GARBAGE_ARGS \<Rightarrow> ser_seq [ser_u32 4])"

definition de_accept_body :: "accept_body de" where
  "de_accept_body = de_bind de_u32 (\<lambda>t.
    if t = 0 then de_return SUCCESS
    else if t = 1 then de_return PROG_UNAVAIL
    else if t = 2 then de_bind de_mismatch_info (\<lambda>v. de_return (PROG_MISMATCH v))
    else if t = 3 then de_return PROC_UNAVAIL
    else if t = 4 then de_return GARBAGE_ARGS
    else de_fail InvalidData)"

lemma codec_accept_body [xdr_codecs]: "xdr_codec ser_accept_body de_accept_body (\<lambda>_. True)"
  apply (rule codec_union [OF codec_u32, where tag = "case_accept_body 0 1 (\<lambda>_. 2) 3 4"
        and arm = "case_accept_body (Ok []) (Ok []) ser_mismatch_info (Ok []) (Ok [])",
        OF _ de_accept_body_def])
    apply (simp add: ser_accept_body_def split: accept_body.split)
   apply (intro codec_if;
      (rule codec_arm0 codec_on_fail codec_arm [OF codec_mismatch_info])?;
      simp split: accept_body.splits)
  apply simp
  done

record accepted_reply =
  ar_verf :: opaque_auth
  ar_reply_data :: accept_body

definition ser_accepted_reply :: "accepted_reply ser" where
  "ser_accepted_reply x = ser_seq
    [ser_opaque_auth (ar_verf x), ser_accept_body (ar_reply_data x)]"

definition de_accepted_reply :: "accepted_reply de" where
  "de_accepted_reply =
    de_bind de_opaque_auth (\<lambda>a. de_bind de_accept_body (\<lambda>b. 
    de_return
      \<lparr>ar_verf = a, ar_reply_data = b\<rparr>))"

definition ok_accepted_reply :: "accepted_reply \<Rightarrow> bool" where
  "ok_accepted_reply x \<longleftrightarrow> ok_opaque_auth (ar_verf x)"

lemma codec_accepted_reply [xdr_codecs]: "xdr_codec ser_accepted_reply de_accepted_reply ok_accepted_reply"
  by (rule codec_structI, rule ser_accepted_reply_def, rule de_accepted_reply_def,
      (rule codec_field, rule xdr_codecs)+, rule codec_return)
    (auto simp: ok_accepted_reply_def)

text \<open>The status of an \<open>AUTH_ERROR\<close> is written as \<open>*v as u32\<close>.\<close>

definition ser_auth_stat_as_u32 :: "auth_stat ser" where
  "ser_auth_stat_as_u32 v = ser_u32 (auth_stat_code v)"

lemma codec_auth_stat_u32: "xdr_codec ser_auth_stat_as_u32 de_auth_stat (\<lambda>_. True)"
proof -
  have "ser_auth_stat_as_u32 = ser_auth_stat"
    by (rule ext) (simp add: ser_auth_stat_as_u32_def ser_auth_stat_def ser_enum_def
        ser_i32_def ser_u32_def)
  then show ?thesis using codec_auth_stat by simp
qed

datatype rejected_reply = RPC_MISMATCH mismatch_info | AUTH_ERROR auth_stat

definition ser_rejected_reply :: "rejected_reply ser" where
  "ser_rejected_reply x =
    (case x of
      RPC_MISMATCH v \<Rightarrow> ser_seq [ser_u32 0, ser_mismatch_info v]
    | AUTH_ERROR v \<Rightarrow> ser_seq [ser_u32 1, ser_auth_stat_as_u32 v])"

definition de_rejected_reply :: "rejected_reply de" where
  "de_rejected_reply = de_bind de_u32 (\<lambda>t.
    if t = 0 then de_bind de_mismatch_info (\<lambda>v. de_return (RPC_MISMATCH v))
    else if t = 1 then de_bind de_auth_stat (\<lambda>v. de_return (AUTH_ERROR v))
    else de_fail InvalidData)"

lemma codec_rejected_reply [xdr_codecs]: "xdr_codec ser_rejected_reply de_rejected_reply (\<lambda>_. True)"
  apply (rule codec_union [OF codec_u32, where tag = "case_rejected_reply (\<lambda>_. 0) (\<lambda>_. 1)"
        and arm = "case_rejected_reply ser_mismatch_info ser_auth_stat_as_u32",
        OF _ de_rejected_reply_def])
    apply (simp add: ser_rejected_reply_def split: rejected_reply.split)
   apply (intro codec_if;
      (rule codec_arm0 codec_on_fail codec_arm [OF codec_mismatch_info] codec_arm [OF codec_auth_stat_u32])?;
      simp split: rejected_reply.splits)
  apply simp
  done

datatype reply_body = MSG_ACCEPTED accepted_reply | MSG_DENIED rejected_reply

definition ser_reply_body :: "reply_body ser" where
  "ser_reply_body x =
    (case x of
      MSG_ACCEPTED v \<Rightarrow> ser_seq [ser_u32 0, ser_accepted_reply v]
    | MSG_DENIED v \<Rightarrow> ser_seq [ser_u32 1, ser_rejected_reply v])"

definition de_reply_body :: "reply_body de" where
  "de_reply_body = de_bind de_u32 (\<lambda>t.
    if t = 0 then de_bind de_accepted_reply (\<lambda>v. de_return (MSG_ACCEPTED v))
    else if t = 1 then de_bind de_rejected_reply (\<lambda>v. de_return (MSG_DENIED v))
    else de_fail InvalidData)"

definition ok_reply_body :: "reply_body \<Rightarrow> bool" where
  "ok_reply_body x \<longleftrightarrow> (case x of MSG_ACCEPTED v \<Rightarrow> ok_accepted_reply v | MSG_DENIED v \<Rightarrow> True)"

lemma codec_reply_body [xdr_codecs]: "xdr_codec ser_reply_body de_reply_body ok_reply_body"
  apply (rule codec_union [OF codec_u32, where tag = "case_reply_body (\<lambda>_. 0) (\<lambda>_. 1)"
        and arm = "case_reply_body ser_accepted_reply ser_rejected_reply",
        OF _ de_reply_body_def])
    apply (simp add: ser_reply_body_def split: reply_body.split)
   apply (intro codec_if;
      (rule codec_arm0 codec_on_fail codec_arm [OF codec_accepted_reply] codec_arm [OF codec_rejected_reply])?;
      simp add: ok_reply_body_def split: reply_body.splits)
  apply simp
  done

datatype rpc_body = CALL call_body | REPLY reply_body

definition ser_rpc_body :: "rpc_body ser" where
  "ser_rpc_body x =
    (case x of
      CALL v \<Rightarrow> ser_seq [ser_u32 0, ser_call_body v]
    | REPLY v \<Rightarrow> ser_seq [ser_u32 1, ser_reply_body v])"

definition de_rpc_body :: "rpc_body de" where
  "de_rpc_body = de_bind de_u32 (\<lambda>t.
    if t = 0 then de_bind de_call_body (\<lambda>v. de_return (CALL v))
    else if t = 1 then de_bind de_reply_body (\<lambda>v. de_return (REPLY v))
    else de_fail InvalidData)"

definition ok_rpc_body :: "rpc_body \<Rightarrow> bool" where
  "ok_rpc_body x \<longleftrightarrow> (case x of CALL v \<Rightarrow> ok_call_body v | REPLY v \<Rightarrow> ok_reply_body v)"

lemma codec_rpc_body [xdr_codecs]: "xdr_codec ser_rpc_body de_rpc_body ok_rpc_body"
  apply (rule codec_union [OF codec_u32, where tag = "case_rpc_body (\<lambda>_. 0) (\<lambda>_. 1)"
        and arm = "case_rpc_body ser_call_body ser_reply_body",
        OF _ de_rpc_body_def])
    apply (simp add: ser_rpc_body_def split: rpc_body.split)
   apply (intro codec_if;
      (rule codec_arm0 codec_on_fail codec_arm [OF codec_call_body] codec_arm [OF codec_reply_body])?;
      simp add: ok_rpc_body_def split: rpc_body.splits)
  apply simp
  done

record rpc_msg =
  rm_xid :: u32
  rm_body :: rpc_body

definition ser_rpc_msg :: "rpc_msg ser" where
  "ser_rpc_msg x = ser_seq
    [ser_u32 (rm_xid x), ser_rpc_body (rm_body x)]"

definition de_rpc_msg :: "rpc_msg de" where
  "de_rpc_msg =
    de_bind de_u32 (\<lambda>a. de_bind de_rpc_body (\<lambda>b. 
    de_return
      \<lparr>rm_xid = a, rm_body = b\<rparr>))"

definition ok_rpc_msg :: "rpc_msg \<Rightarrow> bool" where
  "ok_rpc_msg x \<longleftrightarrow> ok_rpc_body (rm_body x)"

lemma codec_rpc_msg [xdr_codecs]: "xdr_codec ser_rpc_msg de_rpc_msg ok_rpc_msg"
  by (rule codec_structI, rule ser_rpc_msg_def, rule de_rpc_msg_def,
      (rule codec_field, rule xdr_codecs)+, rule codec_return)
    (auto simp: ok_rpc_msg_def)

interpretation rpc_msg: xdr_codec ser_rpc_msg de_rpc_msg ok_rpc_msg
  by (rule codec_rpc_msg)

section \<open>The replies of the dispatcher\<close>

definition proc_unavail_reply_message :: "u32 \<Rightarrow> rpc_msg" where
  "proc_unavail_reply_message xid = \<lparr>rm_xid = xid, rm_body = REPLY (MSG_ACCEPTED
    \<lparr>ar_verf = opaque_auth_default, ar_reply_data = PROC_UNAVAIL\<rparr>)\<rparr>"

definition prog_unavail_reply_message :: "u32 \<Rightarrow> rpc_msg" where
  "prog_unavail_reply_message xid = \<lparr>rm_xid = xid, rm_body = REPLY (MSG_ACCEPTED
    \<lparr>ar_verf = opaque_auth_default, ar_reply_data = PROG_UNAVAIL\<rparr>)\<rparr>"

definition prog_mismatch_reply_message :: "u32 \<Rightarrow> u32 \<Rightarrow> rpc_msg" where
  "prog_mismatch_reply_message xid accepted_ver = \<lparr>rm_xid = xid, rm_body = REPLY (MSG_ACCEPTED
    \<lparr>ar_verf = opaque_auth_default, ar_reply_data = PROG_MISMATCH
      \<lparr>mi_low = accepted_ver, mi_high = accepted_ver\<rparr>\<rparr>)\<rparr>"

definition garbage_args_reply_message :: "u32 \<Rightarrow> rpc_msg" where
  "garbage_args_reply_message xid = \<lparr>rm_xid = xid, rm_body = REPLY (MSG_ACCEPTED
    \<lparr>ar_verf = opaque_auth_default, ar_reply_data = GARBAGE_ARGS\<rparr>)\<rparr>"

definition rpc_vers_mismatch :: "u32 \<Rightarrow> rpc_msg" where
  "rpc_vers_mismatch xid =
    \<lparr>rm_xid = xid, rm_body = REPLY (MSG_DENIED (RPC_MISMATCH mismatch_info_default))\<rparr>"

definition make_success_reply :: "u32 \<Rightarrow> rpc_msg" where
  "make_success_reply xid = \<lparr>rm_xid = xid, rm_body = REPLY (MSG_ACCEPTED
    \<lparr>ar_verf = opaque_auth_default, ar_reply_data = SUCCESS\<rparr>)\<rparr>"

end
