(* ===== verification/Xdr_Aux.thy ===== *)
theory Xdr_Aux
  imports Xdr_Rpc
begin

text \<open>
  The types of the mount protocol and of the port mapper, \<open>src/protocol/xdr/mount.rs\<close> and
  \<open>src/protocol/xdr/portmap.rs\<close>, with their codecs.
\<close>

section \<open>The mount protocol\<close>

definition MOUNT_PROGRAM :: u32 where
  "MOUNT_PROGRAM = 100005"

definition MOUNT_VERSION :: u32 where
  "MOUNT_VERSION = 3"

definition MNTPATHLEN :: u32 where
  "MNTPATHLEN = 1024"

definition MNTNAMLEN :: u32 where
  "MNTNAMLEN = 255"

definition FHSIZE3 :: u32 where
  "FHSIZE3 = 64"

datatype mountstat3 =
  MNT3_OK | MNT3ERR_PERM | MNT3ERR_NOENT | MNT3ERR_IO | MNT3ERR_ACCES | MNT3ERR_NOTDIR |
  MNT3ERR_INVAL | MNT3ERR_NAMETOOLONG | MNT3ERR_NOTSUPP | MNT3ERR_SERVERFAULT

primrec mountstat3_code :: "mountstat3 \<Rightarrow> i32" where
  "mountstat3_code MNT3_OK = 0"
| "mountstat3_code MNT3ERR_PERM = 1"
| "mountstat3_code MNT3ERR_NOENT = 2"
| "mountstat3_code MNT3ERR_IO = 5"
| "mountstat3_code MNT3ERR_ACCES = 13"
| "mountstat3_code MNT3ERR_NOTDIR = 20"
| "mountstat3_code MNT3ERR_INVAL = 22"
| "mountstat3_code MNT3ERR_NAMETOOLONG = 63"
| "mountstat3_code MNT3ERR_NOTSUPP = 10004"
| "mountstat3_code MNT3ERR_SERVERFAULT = 10006"

definition mountstat3_variants :: "mountstat3 list" where
  "mountstat3_variants =
    [MNT3_OK, MNT3ERR_PERM, MNT3ERR_NOENT, MNT3ERR_IO, MNT3ERR_ACCES, MNT3ERR_NOTDIR,
     MNT3ERR_INVAL, MNT3ERR_NAMETOOLONG, MNT3ERR_NOTSUPP, MNT3ERR_SERVERFAULT]"

definition ser_mountstat3 :: "mountstat3 ser" where
  "ser_mountstat3 = ser_enum mountstat3_code"

definition de_mountstat3 :: "mountstat3 de" where
  "de_mountstat3 = de_enum mountstat3_code mountstat3_variants"

lemma codec_mountstat3 [xdr_codecs]: "xdr_codec ser_mountstat3 de_mountstat3 (\<lambda>_. True)"
  unfolding ser_mountstat3_def de_mountstat3_def
  by (rule codec_enumI, rule mountstat3.induct) (simp_all add: mountstat3_variants_def from_i32_def)

record mountres3_ok =
  mr_fhandle :: bytes
  mr_auth_flavors :: "u32 list"

definition ser_mountres3_ok :: "mountres3_ok ser" where
  "ser_mountres3_ok x = ser_seq
    [ser_opaque (mr_fhandle x), ser_vec ser_u32 (mr_auth_flavors x)]"

definition de_mountres3_ok :: "mountres3_ok de" where
  "de_mountres3_ok =
    de_bind de_opaque (\<lambda>a. de_bind (de_vec de_u32) (\<lambda>b. 
    de_return
      \<lparr>mr_fhandle = a, mr_auth_flavors = b\<rparr>))"

definition ok_mountres3_ok :: "mountres3_ok \<Rightarrow> bool" where
  "ok_mountres3_ok x \<longleftrightarrow> ok_opaque (mr_fhandle x) \<and> length (mr_auth_flavors x) \<le> MAX_XDR_ARRAY_LENGTH"

lemma codec_mountres3_ok [xdr_codecs]: "xdr_codec ser_mountres3_ok de_mountres3_ok ok_mountres3_ok"
  by (rule codec_structI, rule ser_mountres3_ok_def, rule de_mountres3_ok_def,
      (rule codec_field, rule xdr_codecs)+, rule codec_return)
    (auto simp: ok_mountres3_ok_def)

interpretation mountres3_ok: xdr_codec ser_mountres3_ok de_mountres3_ok ok_mountres3_ok
  by (rule codec_mountres3_ok)

datatype MountProgram =
  MOUNTPROC3_NULL | MOUNTPROC3_MNT | MOUNTPROC3_DUMP | MOUNTPROC3_UMNT | MOUNTPROC3_UMNTALL |
  MOUNTPROC3_EXPORT | MOUNTPROC3_INVALID

primrec MountProgram_code :: "MountProgram \<Rightarrow> i32" where
  "MountProgram_code MOUNTPROC3_NULL = 0"
| "MountProgram_code MOUNTPROC3_MNT = 1"
| "MountProgram_code MOUNTPROC3_DUMP = 2"
| "MountProgram_code MOUNTPROC3_UMNT = 3"
| "MountProgram_code MOUNTPROC3_UMNTALL = 4"
| "MountProgram_code MOUNTPROC3_EXPORT = 5"
| "MountProgram_code MOUNTPROC3_INVALID = 6"

definition MountProgram_variants :: "MountProgram list" where
  "MountProgram_variants =
    [MOUNTPROC3_NULL, MOUNTPROC3_MNT, MOUNTPROC3_DUMP, MOUNTPROC3_UMNT, MOUNTPROC3_UMNTALL,
     MOUNTPROC3_EXPORT, MOUNTPROC3_INVALID]"

definition ser_MountProgram :: "MountProgram ser" where
  "ser_MountProgram = ser_enum MountProgram_code"

definition de_MountProgram :: "MountProgram de" where
  "de_MountProgram = de_enum MountProgram_code MountProgram_variants"

lemma codec_MountProgram [xdr_codecs]: "xdr_codec ser_MountProgram de_MountProgram (\<lambda>_. True)"
  unfolding ser_MountProgram_def de_MountProgram_def
  by (rule codec_enumI, rule MountProgram.induct) (simp_all add: MountProgram_variants_def from_i32_def)

section \<open>The port mapper protocol\<close>

record mapping =
  mp_prog :: u32
  mp_vers :: u32
  mp_prot :: u32
  mp_port :: u32

definition ser_mapping :: "mapping ser" where
  "ser_mapping x = ser_seq
    [ser_u32 (mp_prog x), ser_u32 (mp_vers x), ser_u32 (mp_prot x), ser_u32 (mp_port x)]"

definition de_mapping :: "mapping de" where
  "de_mapping =
    de_bind de_u32 (\<lambda>a. de_bind de_u32 (\<lambda>b. de_bind de_u32 (\<lambda>c.
    de_bind de_u32 (\<lambda>d. 
    de_return
      \<lparr>mp_prog = a, mp_vers = b, mp_prot = c, mp_port = d\<rparr>))))"

lemma codec_mapping [xdr_codecs]: "xdr_codec ser_mapping de_mapping (\<lambda>_. True)"
  by (rule codec_structI, rule ser_mapping_def, rule de_mapping_def,
      (rule codec_field, rule xdr_codecs)+, rule codec_return)
    auto

interpretation mapping: xdr_codec ser_mapping de_mapping "\<lambda>_. True"
  by (rule codec_mapping)

definition IPPROTO_TCP :: u32 where
  "IPPROTO_TCP = 6"

definition IPPROTO_UDP :: u32 where
  "IPPROTO_UDP = 17"

definition PORTMAP_PROGRAM :: u32 where
  "PORTMAP_PROGRAM = 100000"

definition PORTMAP_VERSION :: u32 where
  "PORTMAP_VERSION = 2"

datatype PortmapProgram =
  PMAPPROC_NULL | PMAPPROC_SET | PMAPPROC_UNSET | PMAPPROC_GETPORT | PMAPPROC_DUMP |
  PMAPPROC_CALLIT | PMAPPROC_INVALID

primrec PortmapProgram_code :: "PortmapProgram \<Rightarrow> i32" where
  "PortmapProgram_code PMAPPROC_NULL = 0"
| "PortmapProgram_code PMAPPROC_SET = 1"
| "PortmapProgram_code PMAPPROC_UNSET = 2"
| "PortmapProgram_code PMAPPROC_GETPORT = 3"
| "PortmapProgram_code PMAPPROC_DUMP = 4"
| "PortmapProgram_code PMAPPROC_CALLIT = 5"
| "PortmapProgram_code PMAPPROC_INVALID = 6"

definition PortmapProgram_variants :: "PortmapProgram list" where
  "PortmapProgram_variants =
    [PMAPPROC_NULL, PMAPPROC_SET, PMAPPROC_UNSET, PMAPPROC_GETPORT, PMAPPROC_DUMP,
     PMAPPROC_CALLIT, PMAPPROC_INVALID]"

definition ser_PortmapProgram :: "PortmapProgram ser" where
  "ser_PortmapProgram = ser_enum PortmapProgram_code"

definition de_PortmapProgram :: "PortmapProgram de" where
  "de_PortmapProgram = de_enum PortmapProgram_code PortmapProgram_variants"

lemma codec_PortmapProgram [xdr_codecs]: "xdr_codec ser_PortmapProgram de_PortmapProgram (\<lambda>_. True)"
  unfolding ser_PortmapProgram_def de_PortmapProgram_def
  by (rule codec_enumI, rule PortmapProgram.induct) (simp_all add: PortmapProgram_variants_def from_i32_def)

text \<open>
  A port list is a mapping and an optional rest. The reader recurses on the rest; the recursion
  is bounded here by the number of bytes left, of which every level takes at least twenty, so
  that the bound is never what stops it.
\<close>

datatype pmaplist = Pmaplist (pl_map: mapping) (pl_next: "pmaplist option")

fun ser_pmaplist :: "pmaplist ser" where
  "ser_pmaplist (Pmaplist m next) = ser_seq [ser_mapping m,
    (case next of
      Some data \<Rightarrow> ser_seq [ser_bool True, ser_pmaplist data]
    | None \<Rightarrow> ser_bool False)]"

primrec de_pmaplist_bounded :: "nat \<Rightarrow> pmaplist de" where
  "de_pmaplist_bounded 0 = de_fail UnexpectedEof"
| "de_pmaplist_bounded (Suc n) =
    de_bind de_mapping (\<lambda>m. de_bind de_bool (\<lambda>has_next.
    if has_next then de_bind (de_pmaplist_bounded n) (\<lambda>next. de_return (Pmaplist m (Some next)))
    else de_return (Pmaplist m None)))"

definition de_pmaplist :: "pmaplist de" where
  "de_pmaplist s = de_pmaplist_bounded (length s) s"

fun pmaplist_entries :: "pmaplist \<Rightarrow> mapping list" where
  "pmaplist_entries (Pmaplist m None) = [m]"
| "pmaplist_entries (Pmaplist m (Some next)) = m # pmaplist_entries next"

lemma ser_bool_nonempty: "ser_bool b = Ok c \<Longrightarrow> c \<noteq> []"
  by (auto simp: ser_bool_def ser_i32_def)

lemma pmaplist_enc:
  "\<exists>b. ser_pmaplist p = Ok b \<and> 4 dvd length b \<and> b \<noteq> [] \<and>
    (\<forall>n r. length b \<le> n \<longrightarrow> de_pmaplist_bounded n (b @ r) = Ok (p, r))"
proof (induction p rule: ser_pmaplist.induct)
  case (1 m "next")
  obtain bm where m: "ser_mapping m = Ok bm" "4 dvd length bm"
      "\<And>r. de_mapping (bm @ r) = Ok (m, r)"
    using mapping.enc by blast
  obtain bt where t: "ser_bool True = Ok bt" "4 dvd length bt"
      "\<And>r. de_bool (bt @ r) = Ok (True, r)" "bt \<noteq> []"
    using bool.enc ser_bool_nonempty by blast
  obtain bf where f: "ser_bool False = Ok bf" "4 dvd length bf"
      "\<And>r. de_bool (bf @ r) = Ok (False, r)" "bf \<noteq> []"
    using bool.enc ser_bool_nonempty by blast
  show ?case
  proof (cases "next")
    case None
    have "de_pmaplist_bounded n ((bm @ bf) @ r) = Ok (Pmaplist m None, r)"
      if "length (bm @ bf) \<le> n" for n r
      using that m f by (cases n) (auto simp: de_bind_def de_return_def)
    then show ?thesis using None m f by auto
  next
    case (Some data)
    then obtain b where b: "ser_pmaplist data = Ok b" "4 dvd length b" "b \<noteq> []"
        "\<And>n r. length b \<le> n \<Longrightarrow> de_pmaplist_bounded n (b @ r) = Ok (data, r)"
      using 1 by blast
    have "de_pmaplist_bounded n ((bm @ bt @ b) @ r) = Ok (Pmaplist m (Some data), r)"
      if "length (bm @ bt @ b) \<le> n" for n r
    proof (cases n)
      case 0
      with that t(4) show ?thesis by simp
    next
      case (Suc k)
      with that t(4) have "length b \<le> k" by (cases bt) auto
      with Suc m t b show ?thesis by (simp add: de_bind_def de_return_def)
    qed
    then show ?thesis using Some m t b by auto
  qed
qed

lemma pmaplist_consumes:
  "de_pmaplist_bounded n s = Ok (p, r) \<Longrightarrow> ser_pmaplist p = Ok b \<Longrightarrow>
    \<exists>q. s = q @ r \<and> length q = length b"
proof (induction n arbitrary: s p r b)
  case (Suc n)
  from Suc.prems(1) obtain m s1 h s2 where m: "de_mapping s = Ok (m, s1)"
    and h: "de_bool s1 = Ok (h, s2)"
    and rest: "(if h then de_bind (de_pmaplist_bounded n) (\<lambda>next. de_return (Pmaplist m (Some next)))
      else de_return (Pmaplist m None)) s2 = Ok (p, r)"
    by (auto simp: de_bind_Ok)
  obtain bm where bm: "ser_mapping m = Ok bm" using mapping.ser_ok by auto
  obtain bh where bh: "ser_bool h = Ok bh" using bool.ser_ok by auto
  obtain q1 q2 where q: "s = q1 @ s1" "length q1 = length bm" "s1 = q2 @ s2" "length q2 = length bh"
    using mapping.de_consumes [OF m bm] bool.de_consumes [OF h bh] by auto
  show ?case
  proof (cases h)
    case True
    with rest obtain p' where p': "de_pmaplist_bounded n s2 = Ok (p', r)"
        "p = Pmaplist m (Some p')" by (auto simp: de_Ok)
    obtain b' where b': "ser_pmaplist p' = Ok b'" using pmaplist_enc by blast
    obtain q3 where "s2 = q3 @ r" "length q3 = length b'" using Suc.IH [OF p'(1) b'] by blast
    then show ?thesis using Suc.prems(2) True p' b' bm bh q
      by (intro exI [of _ "q1 @ q2 @ q3"]) auto
  next
    case False
    with rest have "p = Pmaplist m None" "r = s2" by (auto simp: de_Ok)
    then show ?thesis using Suc.prems(2) False bm bh q
      by (intro exI [of _ "q1 @ q2"]) auto
  qed
qed (simp add: de_fail_def)

lemma codec_pmaplist [xdr_codecs]: "xdr_codec ser_pmaplist de_pmaplist (\<lambda>_. True)"
proof
  fix x b s r
  show "\<exists>b. ser_pmaplist x = Ok b" using pmaplist_enc by blast
  show "ser_pmaplist x = Ok b \<Longrightarrow> de_pmaplist (b @ r) = Ok (x, r)"
    using pmaplist_enc [of x] by (auto simp: de_pmaplist_def)
  show "ser_pmaplist x = Ok b \<Longrightarrow> 4 dvd length b"
    using pmaplist_enc [of x] by auto
  show "de_pmaplist s = Ok (x, r) \<Longrightarrow> ser_pmaplist x = Ok b \<Longrightarrow>
      \<exists>q. s = q @ r \<and> length q = length b"
    unfolding de_pmaplist_def by (rule pmaplist_consumes)
qed simp_all

interpretation pmaplist: xdr_codec ser_pmaplist de_pmaplist "\<lambda>_. True"
  by (rule codec_pmaplist)

end
