(* ===== verification/Xdr_Nfs3.thy ===== *)
theory Xdr_Nfs3
  imports Xdr
begin

text \<open>
  The basic types of NFS version 3, \<open>src/protocol/xdr/nfs3/mod.rs\<close>, with their codecs. Every
  enumeration keeps the discriminants of the source; the fields of a struct carry a prefix.
\<close>

section \<open>Constants\<close>

definition NFS3_PROGRAM :: u32 where
  "NFS3_PROGRAM = 100003"

definition NFS3_VERSION :: u32 where
  "NFS3_VERSION = 3"

definition NFS3_FHSIZE :: u32 where
  "NFS3_FHSIZE = 64"

definition NFS3_COOKIEVERFSIZE :: u32 where
  "NFS3_COOKIEVERFSIZE = 8"

definition NFS3_CREATEVERFSIZE :: u32 where
  "NFS3_CREATEVERFSIZE = 8"

definition NFS3_WRITEVERFSIZE :: u32 where
  "NFS3_WRITEVERFSIZE = 8"

definition ACCESS3_READ :: u32 where
  "ACCESS3_READ = 1"

definition ACCESS3_LOOKUP :: u32 where
  "ACCESS3_LOOKUP = 2"

definition ACCESS3_MODIFY :: u32 where
  "ACCESS3_MODIFY = 4"

definition ACCESS3_EXTEND :: u32 where
  "ACCESS3_EXTEND = 8"

definition ACCESS3_DELETE :: u32 where
  "ACCESS3_DELETE = 16"

definition ACCESS3_EXECUTE :: u32 where
  "ACCESS3_EXECUTE = 32"

section \<open>Basic types\<close>

type_synonym nfsstring = bytes
type_synonym filename3 = nfsstring
type_synonym nfspath3 = nfsstring
type_synonym fileid3 = u64
type_synonym cookie3 = u64
type_synonym cookieverf3 = bytes \<comment> \<open>8 bytes\<close>
type_synonym createverf3 = bytes \<comment> \<open>8 bytes\<close>
type_synonym writeverf3 = bytes \<comment> \<open>8 bytes\<close>
type_synonym uid3 = u32
type_synonym gid3 = u32
type_synonym size3 = u64
type_synonym offset3 = u64
type_synonym mode3 = u32
type_synonym count3 = u32

definition ser_nfsstring :: "nfsstring ser" where
  "ser_nfsstring x = ser_opaque x"

definition de_nfsstring :: "nfsstring de" where
  "de_nfsstring = de_opaque"

lemma codec_nfsstring [xdr_codecs]: "xdr_codec ser_nfsstring de_nfsstring ok_opaque"
  using codec_opaque by (simp add: ser_nfsstring_def [abs_def] de_nfsstring_def)

lemma codec_opaque8 [xdr_codecs]:
  "xdr_codec ser_opaque_fixed (de_opaque_fixed 8) (\<lambda>xs. length xs = 8)"
  by (rule codec_opaque_fixed)

interpretation opaque8: xdr_codec ser_opaque_fixed "de_opaque_fixed 8" "\<lambda>xs. length xs = 8"
  by (rule codec_opaque8)

datatype NFSProgram =
  NFSPROC3_NULL | NFSPROC3_GETATTR | NFSPROC3_SETATTR | NFSPROC3_LOOKUP | NFSPROC3_ACCESS |
  NFSPROC3_READLINK | NFSPROC3_READ | NFSPROC3_WRITE | NFSPROC3_CREATE | NFSPROC3_MKDIR |
  NFSPROC3_SYMLINK | NFSPROC3_MKNOD | NFSPROC3_REMOVE | NFSPROC3_RMDIR | NFSPROC3_RENAME |
  NFSPROC3_LINK | NFSPROC3_READDIR | NFSPROC3_READDIRPLUS | NFSPROC3_FSSTAT |
  NFSPROC3_FSINFO | NFSPROC3_PATHCONF | NFSPROC3_COMMIT | NFSPROC3_INVALID

primrec NFSProgram_code :: "NFSProgram \<Rightarrow> i32" where
  "NFSProgram_code NFSPROC3_NULL = 0"
| "NFSProgram_code NFSPROC3_GETATTR = 1"
| "NFSProgram_code NFSPROC3_SETATTR = 2"
| "NFSProgram_code NFSPROC3_LOOKUP = 3"
| "NFSProgram_code NFSPROC3_ACCESS = 4"
| "NFSProgram_code NFSPROC3_READLINK = 5"
| "NFSProgram_code NFSPROC3_READ = 6"
| "NFSProgram_code NFSPROC3_WRITE = 7"
| "NFSProgram_code NFSPROC3_CREATE = 8"
| "NFSProgram_code NFSPROC3_MKDIR = 9"
| "NFSProgram_code NFSPROC3_SYMLINK = 10"
| "NFSProgram_code NFSPROC3_MKNOD = 11"
| "NFSProgram_code NFSPROC3_REMOVE = 12"
| "NFSProgram_code NFSPROC3_RMDIR = 13"
| "NFSProgram_code NFSPROC3_RENAME = 14"
| "NFSProgram_code NFSPROC3_LINK = 15"
| "NFSProgram_code NFSPROC3_READDIR = 16"
| "NFSProgram_code NFSPROC3_READDIRPLUS = 17"
| "NFSProgram_code NFSPROC3_FSSTAT = 18"
| "NFSProgram_code NFSPROC3_FSINFO = 19"
| "NFSProgram_code NFSPROC3_PATHCONF = 20"
| "NFSProgram_code NFSPROC3_COMMIT = 21"
| "NFSProgram_code NFSPROC3_INVALID = 22"

definition NFSProgram_variants :: "NFSProgram list" where
  "NFSProgram_variants =
    [NFSPROC3_NULL, NFSPROC3_GETATTR, NFSPROC3_SETATTR, NFSPROC3_LOOKUP, NFSPROC3_ACCESS,
     NFSPROC3_READLINK, NFSPROC3_READ, NFSPROC3_WRITE, NFSPROC3_CREATE, NFSPROC3_MKDIR,
     NFSPROC3_SYMLINK, NFSPROC3_MKNOD, NFSPROC3_REMOVE, NFSPROC3_RMDIR, NFSPROC3_RENAME,
     NFSPROC3_LINK, NFSPROC3_READDIR, NFSPROC3_READDIRPLUS, NFSPROC3_FSSTAT, NFSPROC3_FSINFO,
     NFSPROC3_PATHCONF, NFSPROC3_COMMIT, NFSPROC3_INVALID]"

datatype nfsstat3 =
  NFS3_OK | NFS3ERR_PERM | NFS3ERR_NOENT | NFS3ERR_IO | NFS3ERR_NXIO | NFS3ERR_ACCES |
  NFS3ERR_EXIST | NFS3ERR_XDEV | NFS3ERR_NODEV | NFS3ERR_NOTDIR | NFS3ERR_ISDIR |
  NFS3ERR_INVAL | NFS3ERR_FBIG | NFS3ERR_NOSPC | NFS3ERR_ROFS | NFS3ERR_MLINK |
  NFS3ERR_NAMETOOLONG | NFS3ERR_NOTEMPTY | NFS3ERR_DQUOT | NFS3ERR_STALE | NFS3ERR_REMOTE |
  NFS3ERR_BADHANDLE | NFS3ERR_NOT_SYNC | NFS3ERR_BAD_COOKIE | NFS3ERR_NOTSUPP |
  NFS3ERR_TOOSMALL | NFS3ERR_SERVERFAULT | NFS3ERR_BADTYPE | NFS3ERR_JUKEBOX

primrec nfsstat3_code :: "nfsstat3 \<Rightarrow> i32" where
  "nfsstat3_code NFS3_OK = 0"
| "nfsstat3_code NFS3ERR_PERM = 1"
| "nfsstat3_code NFS3ERR_NOENT = 2"
| "nfsstat3_code NFS3ERR_IO = 5"
| "nfsstat3_code NFS3ERR_NXIO = 6"
| "nfsstat3_code NFS3ERR_ACCES = 13"
| "nfsstat3_code NFS3ERR_EXIST = 17"
| "nfsstat3_code NFS3ERR_XDEV = 18"
| "nfsstat3_code NFS3ERR_NODEV = 19"
| "nfsstat3_code NFS3ERR_NOTDIR = 20"
| "nfsstat3_code NFS3ERR_ISDIR = 21"
| "nfsstat3_code NFS3ERR_INVAL = 22"
| "nfsstat3_code NFS3ERR_FBIG = 27"
| "nfsstat3_code NFS3ERR_NOSPC = 28"
| "nfsstat3_code NFS3ERR_ROFS = 30"
| "nfsstat3_code NFS3ERR_MLINK = 31"
| "nfsstat3_code NFS3ERR_NAMETOOLONG = 63"
| "nfsstat3_code NFS3ERR_NOTEMPTY = 66"
| "nfsstat3_code NFS3ERR_DQUOT = 69"
| "nfsstat3_code NFS3ERR_STALE = 70"
| "nfsstat3_code NFS3ERR_REMOTE = 71"
| "nfsstat3_code NFS3ERR_BADHANDLE = 10001"
| "nfsstat3_code NFS3ERR_NOT_SYNC = 10002"
| "nfsstat3_code NFS3ERR_BAD_COOKIE = 10003"
| "nfsstat3_code NFS3ERR_NOTSUPP = 10004"
| "nfsstat3_code NFS3ERR_TOOSMALL = 10005"
| "nfsstat3_code NFS3ERR_SERVERFAULT = 10006"
| "nfsstat3_code NFS3ERR_BADTYPE = 10007"
| "nfsstat3_code NFS3ERR_JUKEBOX = 10008"

definition nfsstat3_variants :: "nfsstat3 list" where
  "nfsstat3_variants =
    [NFS3_OK, NFS3ERR_PERM, NFS3ERR_NOENT, NFS3ERR_IO, NFS3ERR_NXIO, NFS3ERR_ACCES,
     NFS3ERR_EXIST, NFS3ERR_XDEV, NFS3ERR_NODEV, NFS3ERR_NOTDIR, NFS3ERR_ISDIR, NFS3ERR_INVAL,
     NFS3ERR_FBIG, NFS3ERR_NOSPC, NFS3ERR_ROFS, NFS3ERR_MLINK, NFS3ERR_NAMETOOLONG,
     NFS3ERR_NOTEMPTY, NFS3ERR_DQUOT, NFS3ERR_STALE, NFS3ERR_REMOTE, NFS3ERR_BADHANDLE,
     NFS3ERR_NOT_SYNC, NFS3ERR_BAD_COOKIE, NFS3ERR_NOTSUPP, NFS3ERR_TOOSMALL,
     NFS3ERR_SERVERFAULT, NFS3ERR_BADTYPE, NFS3ERR_JUKEBOX]"

definition ser_nfsstat3 :: "nfsstat3 ser" where
  "ser_nfsstat3 = ser_enum nfsstat3_code"

definition de_nfsstat3 :: "nfsstat3 de" where
  "de_nfsstat3 = de_enum nfsstat3_code nfsstat3_variants"

lemma codec_nfsstat3 [xdr_codecs]: "xdr_codec ser_nfsstat3 de_nfsstat3 (\<lambda>_. True)"
  unfolding ser_nfsstat3_def de_nfsstat3_def
  by (rule codec_enumI, rule nfsstat3.induct) (simp_all add: nfsstat3_variants_def from_i32_def)

interpretation nfsstat3: xdr_codec ser_nfsstat3 de_nfsstat3 "\<lambda>_. True"
  by (rule codec_nfsstat3)

datatype ftype3 =
  NF3REG | NF3DIR | NF3BLK | NF3CHR | NF3LNK | NF3SOCK | NF3FIFO

primrec ftype3_code :: "ftype3 \<Rightarrow> i32" where
  "ftype3_code NF3REG = 1"
| "ftype3_code NF3DIR = 2"
| "ftype3_code NF3BLK = 3"
| "ftype3_code NF3CHR = 4"
| "ftype3_code NF3LNK = 5"
| "ftype3_code NF3SOCK = 6"
| "ftype3_code NF3FIFO = 7"

definition ftype3_variants :: "ftype3 list" where
  "ftype3_variants =
    [NF3REG, NF3DIR, NF3BLK, NF3CHR, NF3LNK, NF3SOCK, NF3FIFO]"

definition ser_ftype3 :: "ftype3 ser" where
  "ser_ftype3 = ser_enum ftype3_code"

definition de_ftype3 :: "ftype3 de" where
  "de_ftype3 = de_enum ftype3_code ftype3_variants"

lemma codec_ftype3 [xdr_codecs]: "xdr_codec ser_ftype3 de_ftype3 (\<lambda>_. True)"
  unfolding ser_ftype3_def de_ftype3_def
  by (rule codec_enumI, rule ftype3.induct) (simp_all add: ftype3_variants_def from_i32_def)

section \<open>Attributes\<close>

record specdata3 =
  sd_specdata1 :: u32
  sd_specdata2 :: u32

definition ser_specdata3 :: "specdata3 ser" where
  "ser_specdata3 x = ser_seq
    [ser_u32 (sd_specdata1 x), ser_u32 (sd_specdata2 x)]"

definition de_specdata3 :: "specdata3 de" where
  "de_specdata3 =
    de_bind de_u32 (\<lambda>a. de_bind de_u32 (\<lambda>b. 
    de_return
      \<lparr>sd_specdata1 = a, sd_specdata2 = b\<rparr>))"

lemma codec_specdata3 [xdr_codecs]: "xdr_codec ser_specdata3 de_specdata3 (\<lambda>_. True)"
  by (rule codec_structI, rule ser_specdata3_def, rule de_specdata3_def,
      (rule codec_field, rule xdr_codecs)+, rule codec_return)
    auto

record nfs_fh3 =
  fh_data :: bytes

definition ser_nfs_fh3 :: "nfs_fh3 ser" where
  "ser_nfs_fh3 x = ser_seq
    [ser_opaque (fh_data x)]"

definition de_nfs_fh3 :: "nfs_fh3 de" where
  "de_nfs_fh3 =
    de_bind de_opaque (\<lambda>a. 
    de_return
      \<lparr>fh_data = a\<rparr>)"

definition ok_nfs_fh3 :: "nfs_fh3 \<Rightarrow> bool" where
  "ok_nfs_fh3 x \<longleftrightarrow> ok_opaque (fh_data x)"

lemma codec_nfs_fh3 [xdr_codecs]: "xdr_codec ser_nfs_fh3 de_nfs_fh3 ok_nfs_fh3"
  by (rule codec_structI, rule ser_nfs_fh3_def, rule de_nfs_fh3_def,
      (rule codec_field, rule xdr_codecs)+, rule codec_return)
    (auto simp: ok_nfs_fh3_def)

interpretation nfs_fh3: xdr_codec ser_nfs_fh3 de_nfs_fh3 ok_nfs_fh3
  by (rule codec_nfs_fh3)

record nfstime3 =
  nt_seconds :: u32
  nt_nseconds :: u32

definition ser_nfstime3 :: "nfstime3 ser" where
  "ser_nfstime3 x = ser_seq
    [ser_u32 (nt_seconds x), ser_u32 (nt_nseconds x)]"

definition de_nfstime3 :: "nfstime3 de" where
  "de_nfstime3 =
    de_bind de_u32 (\<lambda>a. de_bind de_u32 (\<lambda>b. 
    de_return
      \<lparr>nt_seconds = a, nt_nseconds = b\<rparr>))"

lemma codec_nfstime3 [xdr_codecs]: "xdr_codec ser_nfstime3 de_nfstime3 (\<lambda>_. True)"
  by (rule codec_structI, rule ser_nfstime3_def, rule de_nfstime3_def,
      (rule codec_field, rule xdr_codecs)+, rule codec_return)
    auto

record fattr3 =
  fa_ftype :: ftype3
  fa_mode :: u32
  fa_nlink :: u32
  fa_uid :: u32
  fa_gid :: u32
  fa_size :: u64
  fa_used :: u64
  fa_rdev :: specdata3
  fa_fsid :: u64
  fa_fileid :: u64
  fa_atime :: nfstime3
  fa_mtime :: nfstime3
  fa_ctime :: nfstime3

definition ser_fattr3 :: "fattr3 ser" where
  "ser_fattr3 x = ser_seq
    [ser_ftype3 (fa_ftype x), ser_u32 (fa_mode x), ser_u32 (fa_nlink x), ser_u32 (fa_uid x),
     ser_u32 (fa_gid x), ser_u64 (fa_size x), ser_u64 (fa_used x), ser_specdata3 (fa_rdev x),
     ser_u64 (fa_fsid x), ser_u64 (fa_fileid x), ser_nfstime3 (fa_atime x),
     ser_nfstime3 (fa_mtime x), ser_nfstime3 (fa_ctime x)]"

definition de_fattr3 :: "fattr3 de" where
  "de_fattr3 =
    de_bind de_ftype3 (\<lambda>a. de_bind de_u32 (\<lambda>b. de_bind de_u32 (\<lambda>c.
    de_bind de_u32 (\<lambda>d. de_bind de_u32 (\<lambda>e. de_bind de_u64 (\<lambda>f.
    de_bind de_u64 (\<lambda>g. de_bind de_specdata3 (\<lambda>h. de_bind de_u64 (\<lambda>i.
    de_bind de_u64 (\<lambda>j. de_bind de_nfstime3 (\<lambda>k.
    de_bind de_nfstime3 (\<lambda>l. de_bind de_nfstime3 (\<lambda>m. 
    de_return
      \<lparr>fa_ftype = a, fa_mode = b, fa_nlink = c, fa_uid = d, fa_gid = e, fa_size = f, fa_used = g,
       fa_rdev = h, fa_fsid = i, fa_fileid = j, fa_atime = k, fa_mtime = l, fa_ctime = m\<rparr>)))))))))))))"

lemma codec_fattr3 [xdr_codecs]: "xdr_codec ser_fattr3 de_fattr3 (\<lambda>_. True)"
  by (rule codec_structI, rule ser_fattr3_def, rule de_fattr3_def,
      (rule codec_field, rule xdr_codecs)+, rule codec_return)
    auto

interpretation fattr3: xdr_codec ser_fattr3 de_fattr3 "\<lambda>_. True"
  by (rule codec_fattr3)

record wcc_attr =
  wa_size :: u64
  wa_mtime :: nfstime3
  wa_ctime :: nfstime3

definition ser_wcc_attr :: "wcc_attr ser" where
  "ser_wcc_attr x = ser_seq
    [ser_u64 (wa_size x), ser_nfstime3 (wa_mtime x), ser_nfstime3 (wa_ctime x)]"

definition de_wcc_attr :: "wcc_attr de" where
  "de_wcc_attr =
    de_bind de_u64 (\<lambda>a. de_bind de_nfstime3 (\<lambda>b.
    de_bind de_nfstime3 (\<lambda>c. 
    de_return
      \<lparr>wa_size = a, wa_mtime = b, wa_ctime = c\<rparr>)))"

lemma codec_wcc_attr [xdr_codecs]: "xdr_codec ser_wcc_attr de_wcc_attr (\<lambda>_. True)"
  by (rule codec_structI, rule ser_wcc_attr_def, rule de_wcc_attr_def,
      (rule codec_field, rule xdr_codecs)+, rule codec_return)
    auto

lemma codec_opt_wcc_attr [xdr_codecs]:
  "xdr_codec (ser_option ser_wcc_attr) (de_option de_wcc_attr) (\<lambda>_. True)"
  by (rule codec_option_total [OF codec_wcc_attr])

lemma codec_opt_fattr3 [xdr_codecs]:
  "xdr_codec (ser_option ser_fattr3) (de_option de_fattr3) (\<lambda>_. True)"
  by (rule codec_option_total [OF codec_fattr3])

lemma codec_opt_nfs_fh3 [xdr_codecs]:
  "xdr_codec (ser_option ser_nfs_fh3) (de_option de_nfs_fh3) (pred_option ok_nfs_fh3)"
  by (rule codec_option [OF codec_nfs_fh3])

lemma codec_opt_nfstime3 [xdr_codecs]:
  "xdr_codec (ser_option ser_nfstime3) (de_option de_nfstime3) (\<lambda>_. True)"
  by (rule codec_option_total [OF codec_nfstime3])

lemma codec_opt_u32 [xdr_codecs]:
  "xdr_codec (ser_option ser_u32) (de_option de_u32) (\<lambda>_. True)"
  by (rule codec_option_total [OF codec_u32])

lemma codec_opt_u64 [xdr_codecs]:
  "xdr_codec (ser_option ser_u64) (de_option de_u64) (\<lambda>_. True)"
  by (rule codec_option_total [OF codec_u64])

type_synonym pre_op_attr = "wcc_attr option"
type_synonym post_op_attr = "fattr3 option"
type_synonym post_op_fh3 = "nfs_fh3 option"
type_synonym sattrguard3 = "nfstime3 option"

definition ser_pre_op_attr :: "pre_op_attr ser" where
  "ser_pre_op_attr = ser_option ser_wcc_attr"

definition ser_post_op_attr :: "post_op_attr ser" where
  "ser_post_op_attr = ser_option ser_fattr3"

definition ser_post_op_fh3 :: "post_op_fh3 ser" where
  "ser_post_op_fh3 = ser_option ser_nfs_fh3"

record wcc_data =
  wcc_before :: "wcc_attr option"
  wcc_after :: "fattr3 option"

definition ser_wcc_data :: "wcc_data ser" where
  "ser_wcc_data x = ser_seq
    [ser_option ser_wcc_attr (wcc_before x), ser_option ser_fattr3 (wcc_after x)]"

definition de_wcc_data :: "wcc_data de" where
  "de_wcc_data =
    de_bind (de_option de_wcc_attr) (\<lambda>a. de_bind (de_option de_fattr3) (\<lambda>b. 
    de_return
      \<lparr>wcc_before = a, wcc_after = b\<rparr>))"

lemma codec_wcc_data [xdr_codecs]: "xdr_codec ser_wcc_data de_wcc_data (\<lambda>_. True)"
  by (rule codec_structI, rule ser_wcc_data_def, rule de_wcc_data_def,
      (rule codec_field, rule xdr_codecs)+, rule codec_return)
    auto

interpretation wcc_data: xdr_codec ser_wcc_data de_wcc_data "\<lambda>_. True"
  by (rule codec_wcc_data)

definition wcc_data_default :: wcc_data where
  "wcc_data_default = \<lparr>wcc_before = None, wcc_after = None\<rparr>"

datatype set_atime = ATIME_DONT_CHANGE | ATIME_SET_TO_SERVER_TIME | ATIME_SET_TO_CLIENT_TIME nfstime3

definition ser_set_atime :: "set_atime ser" where
  "ser_set_atime x =
    (case x of
      ATIME_DONT_CHANGE \<Rightarrow> ser_seq [ser_u32 0]
    | ATIME_SET_TO_SERVER_TIME \<Rightarrow> ser_seq [ser_u32 1]
    | ATIME_SET_TO_CLIENT_TIME v \<Rightarrow> ser_seq [ser_u32 2, ser_nfstime3 v])"

definition de_set_atime :: "set_atime de" where
  "de_set_atime = de_bind de_u32 (\<lambda>t.
    if t = 0 then de_return ATIME_DONT_CHANGE
    else if t = 1 then de_return ATIME_SET_TO_SERVER_TIME
    else if t = 2 then de_bind de_nfstime3 (\<lambda>v. de_return (ATIME_SET_TO_CLIENT_TIME v))
    else de_fail InvalidData)"

lemma codec_set_atime [xdr_codecs]: "xdr_codec ser_set_atime de_set_atime (\<lambda>_. True)"
  apply (rule codec_union [OF codec_u32, where tag = "case_set_atime 0 1 (\<lambda>_. 2)"
        and arm = "case_set_atime (Ok []) (Ok []) ser_nfstime3",
        OF _ de_set_atime_def])
    apply (simp add: ser_set_atime_def split: set_atime.split)
   apply (intro codec_if;
      (rule codec_arm0 codec_on_fail codec_arm [OF codec_nfstime3])?;
      simp split: set_atime.splits)
  apply simp
  done

datatype set_mtime = MTIME_DONT_CHANGE | MTIME_SET_TO_SERVER_TIME | MTIME_SET_TO_CLIENT_TIME nfstime3

definition ser_set_mtime :: "set_mtime ser" where
  "ser_set_mtime x =
    (case x of
      MTIME_DONT_CHANGE \<Rightarrow> ser_seq [ser_u32 0]
    | MTIME_SET_TO_SERVER_TIME \<Rightarrow> ser_seq [ser_u32 1]
    | MTIME_SET_TO_CLIENT_TIME v \<Rightarrow> ser_seq [ser_u32 2, ser_nfstime3 v])"

definition de_set_mtime :: "set_mtime de" where
  "de_set_mtime = de_bind de_u32 (\<lambda>t.
    if t = 0 then de_return MTIME_DONT_CHANGE
    else if t = 1 then de_return MTIME_SET_TO_SERVER_TIME
    else if t = 2 then de_bind de_nfstime3 (\<lambda>v. de_return (MTIME_SET_TO_CLIENT_TIME v))
    else de_fail InvalidData)"

lemma codec_set_mtime [xdr_codecs]: "xdr_codec ser_set_mtime de_set_mtime (\<lambda>_. True)"
  apply (rule codec_union [OF codec_u32, where tag = "case_set_mtime 0 1 (\<lambda>_. 2)"
        and arm = "case_set_mtime (Ok []) (Ok []) ser_nfstime3",
        OF _ de_set_mtime_def])
    apply (simp add: ser_set_mtime_def split: set_mtime.split)
   apply (intro codec_if;
      (rule codec_arm0 codec_on_fail codec_arm [OF codec_nfstime3])?;
      simp split: set_mtime.splits)
  apply simp
  done

record sattr3 =
  sa_mode :: "u32 option"
  sa_uid :: "u32 option"
  sa_gid :: "u32 option"
  sa_size :: "u64 option"
  sa_atime :: set_atime
  sa_mtime :: set_mtime

definition ser_sattr3 :: "sattr3 ser" where
  "ser_sattr3 x = ser_seq
    [ser_option ser_u32 (sa_mode x), ser_option ser_u32 (sa_uid x),
     ser_option ser_u32 (sa_gid x), ser_option ser_u64 (sa_size x), ser_set_atime (sa_atime x),
     ser_set_mtime (sa_mtime x)]"

definition de_sattr3 :: "sattr3 de" where
  "de_sattr3 =
    de_bind (de_option de_u32) (\<lambda>a. de_bind (de_option de_u32) (\<lambda>b.
    de_bind (de_option de_u32) (\<lambda>c. de_bind (de_option de_u64) (\<lambda>d.
    de_bind de_set_atime (\<lambda>e. de_bind de_set_mtime (\<lambda>f. 
    de_return
      \<lparr>sa_mode = a, sa_uid = b, sa_gid = c, sa_size = d, sa_atime = e, sa_mtime = f\<rparr>))))))"

lemma codec_sattr3 [xdr_codecs]: "xdr_codec ser_sattr3 de_sattr3 (\<lambda>_. True)"
  by (rule codec_structI, rule ser_sattr3_def, rule de_sattr3_def,
      (rule codec_field, rule xdr_codecs)+, rule codec_return)
    auto

interpretation sattr3: xdr_codec ser_sattr3 de_sattr3 "\<lambda>_. True"
  by (rule codec_sattr3)

definition sattr3_default :: sattr3 where
  "sattr3_default = \<lparr>sa_mode = None, sa_uid = None, sa_gid = None, sa_size = None,
    sa_atime = ATIME_DONT_CHANGE, sa_mtime = MTIME_DONT_CHANGE\<rparr>"

record diropargs3 =
  da_dir :: nfs_fh3
  da_name :: nfsstring

definition ser_diropargs3 :: "diropargs3 ser" where
  "ser_diropargs3 x = ser_seq
    [ser_nfs_fh3 (da_dir x), ser_nfsstring (da_name x)]"

definition de_diropargs3 :: "diropargs3 de" where
  "de_diropargs3 =
    de_bind de_nfs_fh3 (\<lambda>a. de_bind de_nfsstring (\<lambda>b. 
    de_return
      \<lparr>da_dir = a, da_name = b\<rparr>))"

definition ok_diropargs3 :: "diropargs3 \<Rightarrow> bool" where
  "ok_diropargs3 x \<longleftrightarrow> ok_nfs_fh3 (da_dir x) \<and> ok_opaque (da_name x)"

lemma codec_diropargs3 [xdr_codecs]: "xdr_codec ser_diropargs3 de_diropargs3 ok_diropargs3"
  by (rule codec_structI, rule ser_diropargs3_def, rule de_diropargs3_def,
      (rule codec_field, rule xdr_codecs)+, rule codec_return)
    (auto simp: ok_diropargs3_def)

interpretation diropargs3: xdr_codec ser_diropargs3 de_diropargs3 ok_diropargs3
  by (rule codec_diropargs3)

record symlinkdata3 =
  sl_symlink_attributes :: sattr3
  sl_symlink_data :: nfsstring

definition ser_symlinkdata3 :: "symlinkdata3 ser" where
  "ser_symlinkdata3 x = ser_seq
    [ser_sattr3 (sl_symlink_attributes x), ser_nfsstring (sl_symlink_data x)]"

definition de_symlinkdata3 :: "symlinkdata3 de" where
  "de_symlinkdata3 =
    de_bind de_sattr3 (\<lambda>a. de_bind de_nfsstring (\<lambda>b. 
    de_return
      \<lparr>sl_symlink_attributes = a, sl_symlink_data = b\<rparr>))"

definition ok_symlinkdata3 :: "symlinkdata3 \<Rightarrow> bool" where
  "ok_symlinkdata3 x \<longleftrightarrow> ok_opaque (sl_symlink_data x)"

lemma codec_symlinkdata3 [xdr_codecs]: "xdr_codec ser_symlinkdata3 de_symlinkdata3 ok_symlinkdata3"
  by (rule codec_structI, rule ser_symlinkdata3_def, rule de_symlinkdata3_def,
      (rule codec_field, rule xdr_codecs)+, rule codec_return)
    (auto simp: ok_symlinkdata3_def)

definition get_root_mount_handle :: bytes where
  "get_root_mount_handle = [0]"

datatype createmode3 =
  UNCHECKED | GUARDED | EXCLUSIVE

primrec createmode3_code :: "createmode3 \<Rightarrow> i32" where
  "createmode3_code UNCHECKED = 0"
| "createmode3_code GUARDED = 1"
| "createmode3_code EXCLUSIVE = 2"

definition createmode3_variants :: "createmode3 list" where
  "createmode3_variants =
    [UNCHECKED, GUARDED, EXCLUSIVE]"

definition ser_createmode3 :: "createmode3 ser" where
  "ser_createmode3 = ser_enum createmode3_code"

definition de_createmode3 :: "createmode3 de" where
  "de_createmode3 = de_enum createmode3_code createmode3_variants"

lemma codec_createmode3 [xdr_codecs]: "xdr_codec ser_createmode3 de_createmode3 (\<lambda>_. True)"
  unfolding ser_createmode3_def de_createmode3_def
  by (rule codec_enumI, rule createmode3.induct) (simp_all add: createmode3_variants_def from_i32_def)

record SETATTR3args =
  sga_object :: nfs_fh3
  sga_new_attribute :: sattr3
  sga_guard :: "nfstime3 option"

definition ser_SETATTR3args :: "SETATTR3args ser" where
  "ser_SETATTR3args x = ser_seq
    [ser_nfs_fh3 (sga_object x), ser_sattr3 (sga_new_attribute x),
     ser_option ser_nfstime3 (sga_guard x)]"

definition de_SETATTR3args :: "SETATTR3args de" where
  "de_SETATTR3args =
    de_bind de_nfs_fh3 (\<lambda>a. de_bind de_sattr3 (\<lambda>b.
    de_bind (de_option de_nfstime3) (\<lambda>c. 
    de_return
      \<lparr>sga_object = a, sga_new_attribute = b, sga_guard = c\<rparr>)))"

definition ok_SETATTR3args :: "SETATTR3args \<Rightarrow> bool" where
  "ok_SETATTR3args x \<longleftrightarrow> ok_nfs_fh3 (sga_object x)"

lemma codec_SETATTR3args [xdr_codecs]: "xdr_codec ser_SETATTR3args de_SETATTR3args ok_SETATTR3args"
  by (rule codec_structI, rule ser_SETATTR3args_def, rule de_SETATTR3args_def,
      (rule codec_field, rule xdr_codecs)+, rule codec_return)
    (auto simp: ok_SETATTR3args_def)

interpretation SETATTR3args: xdr_codec ser_SETATTR3args de_SETATTR3args ok_SETATTR3args
  by (rule codec_SETATTR3args)

end
