(* ===== verification/Permissions.thy ===== *)
theory Permissions
  imports Xdr_Nfs3 Xdr_Rpc
begin

text \<open>
  The permission check of \<open>src/vfs/permissions.rs\<close>: which of the access rights a client asks
  for are granted by the mode bits of an object, the client's identity and the capabilities of
  the file system.
\<close>

datatype Capabilities = ReadOnly | ReadWrite

record UnixPerms =
  up_read :: bool
  up_write :: bool
  up_exec :: bool

definition auth_matches_gid :: "auth_unix \<Rightarrow> gid3 \<Rightarrow> bool" where
  "auth_matches_gid auth gid \<longleftrightarrow> au_gid auth = gid \<or> gid \<in> set (au_gids auth)"

definition unix_mode_perms :: "fattr3 \<Rightarrow> auth_unix \<Rightarrow> UnixPerms" where
  "unix_mode_perms attr auth =
    (if au_uid auth = 0 then \<lparr>up_read = True, up_write = True, up_exec = True\<rparr>
     else
       let mode = fa_mode attr AND 0x1FF in
       if au_uid auth = fa_uid attr then
         \<lparr>up_read = mode AND 0x100 \<noteq> 0, up_write = mode AND 0x080 \<noteq> 0,
          up_exec = mode AND 0x040 \<noteq> 0\<rparr>
       else if auth_matches_gid auth (fa_gid attr) then
         \<lparr>up_read = mode AND 0x020 \<noteq> 0, up_write = mode AND 0x010 \<noteq> 0,
          up_exec = mode AND 0x008 \<noteq> 0\<rparr>
       else
         \<lparr>up_read = mode AND 0x004 \<noteq> 0, up_write = mode AND 0x002 \<noteq> 0,
          up_exec = mode AND 0x001 \<noteq> 0\<rparr>)"

text \<open>\<open>if c { granted |= bits }\<close>\<close>

definition grant_if :: "bool \<Rightarrow> u32 \<Rightarrow> u32 \<Rightarrow> u32" where
  "grant_if c bits granted = (if c then granted OR bits else granted)"

definition access_mask :: "fattr3 \<Rightarrow> auth_unix \<Rightarrow> Capabilities \<Rightarrow> u32 \<Rightarrow> u32" where
  "access_mask attr auth capabilities requested =
    (let perms = unix_mode_perms attr auth;
         supports_write = (capabilities = ReadWrite);
         allow_write = (supports_write \<and> up_write perms);
         write_mask = ACCESS3_MODIFY OR ACCESS3_EXTEND;
         delete_mask = ACCESS3_DELETE;
         read_ok = (requested AND ACCESS3_READ \<noteq> 0 \<and> up_read perms);
         execute_ok = (requested AND ACCESS3_EXECUTE \<noteq> 0 \<and> up_exec perms)
     in
     case fa_ftype attr of
       NF3REG \<Rightarrow>
         grant_if (requested AND write_mask \<noteq> 0 \<and> allow_write) (requested AND write_mask)
           (grant_if execute_ok ACCESS3_EXECUTE
             (grant_if read_ok ACCESS3_READ 0))
     | NF3DIR \<Rightarrow>
         grant_if (requested AND (write_mask OR delete_mask) \<noteq> 0 \<and> allow_write \<and> up_exec perms)
             (requested AND (write_mask OR delete_mask))
           (grant_if execute_ok ACCESS3_EXECUTE
             (grant_if (requested AND ACCESS3_LOOKUP \<noteq> 0 \<and> up_exec perms) ACCESS3_LOOKUP
               (grant_if read_ok ACCESS3_READ 0)))
     | NF3LNK \<Rightarrow> grant_if execute_ok ACCESS3_EXECUTE (grant_if read_ok ACCESS3_READ 0)
     | _ \<Rightarrow> grant_if execute_ok ACCESS3_EXECUTE (grant_if read_ok ACCESS3_READ 0))"

section \<open>What is granted\<close>

lemma right_word:
  assumes "\<And>n. bit c n \<longleftrightarrow> n = k"
  shows "(w :: u32) AND c \<noteq> 0 \<longleftrightarrow> bit w k"
proof
  assume "w AND c \<noteq> 0"
  then obtain n where "bit (w AND c) n" by (auto simp: bit_eq_iff)
  then show "bit w k" by (auto simp: bit_and_iff assms)
next
  assume "bit w k"
  then have "bit (w AND c) k" by (simp add: bit_and_iff assms)
  then show "w AND c \<noteq> 0" by auto
qed

lemma bit_power: "k < 32 \<Longrightarrow> bit (2 ^ k :: u32) n \<longleftrightarrow> n = k"
  by (auto simp: bit_exp_iff)

lemma bit_rights:
  "bit ACCESS3_READ n \<longleftrightarrow> n = 0" "bit ACCESS3_LOOKUP n \<longleftrightarrow> n = 1"
  "bit ACCESS3_MODIFY n \<longleftrightarrow> n = 2" "bit ACCESS3_EXTEND n \<longleftrightarrow> n = 3"
  "bit ACCESS3_DELETE n \<longleftrightarrow> n = 4" "bit ACCESS3_EXECUTE n \<longleftrightarrow> n = 5"
  using bit_power [of 0 n] bit_power [of 1 n] bit_power [of 2 n] bit_power [of 3 n]
    bit_power [of 4 n] bit_power [of 5 n]
  by (simp_all add: ACCESS3_READ_def ACCESS3_LOOKUP_def ACCESS3_MODIFY_def ACCESS3_EXTEND_def
      ACCESS3_DELETE_def ACCESS3_EXECUTE_def)

lemmas and_rights = bit_rights [THEN right_word]

lemma grant_if_nonzero: "grant_if (w \<noteq> 0 \<and> c) w g = grant_if c w g"
  by (auto simp: grant_if_def)

lemma bit_grant_if: "bit (grant_if c b g) n \<longleftrightarrow> bit g n \<or> c \<and> bit b n"
  by (auto simp: grant_if_def bit_simps)

text \<open>The rights of an object, bit by bit.\<close>

lemma bit_access_mask:
  "bit (access_mask attr auth caps req) n \<longleftrightarrow> bit req n \<and>
    (n = 0 \<and> up_read (unix_mode_perms attr auth) \<or>
     n = 1 \<and> fa_ftype attr = NF3DIR \<and> up_exec (unix_mode_perms attr auth) \<or>
     n = 5 \<and> up_exec (unix_mode_perms attr auth) \<or>
     caps = ReadWrite \<and> up_write (unix_mode_perms attr auth) \<and>
       (fa_ftype attr = NF3REG \<and> (n = 2 \<or> n = 3) \<or>
        fa_ftype attr = NF3DIR \<and> up_exec (unix_mode_perms attr auth) \<and>
          (n = 2 \<or> n = 3 \<or> n = 4)))"
  by (cases "fa_ftype attr"; cases "unix_mode_perms attr auth"; cases caps)
    (simp_all add: access_mask_def Let_def grant_if_nonzero bit_grant_if and_rights
      bit_or_iff bit_and_iff bit_rights, auto)

lemma mask_subset_iff: "(a :: u32) AND b = a \<longleftrightarrow> (\<forall>n. bit a n \<longrightarrow> bit b n)"
proof
  assume *: "a AND b = a"
  show "\<forall>n. bit a n \<longrightarrow> bit b n"
  proof (intro allI impI)
    fix n assume "bit a n"
    then have "bit (a AND b) n" by (simp only: *)
    then show "bit b n" by (simp add: bit_and_iff)
  qed
qed (auto intro!: bit_eqI simp: bit_and_iff)

text \<open>What is granted was asked for, and asking again for it grants it again.\<close>

lemma access_mask_requested: "access_mask attr auth caps req AND req = access_mask attr auth caps req"
  by (auto simp: mask_subset_iff bit_access_mask)

lemma access_mask_idem:
  "access_mask attr auth caps (access_mask attr auth caps req) = access_mask attr auth caps req"
  by (rule bit_eqI) (auto simp: bit_access_mask)

lemma access_mask_read_only:
  "access_mask attr auth ReadOnly req AND (ACCESS3_MODIFY OR ACCESS3_EXTEND OR ACCESS3_DELETE) = 0"
  by (rule bit_eqI) (auto simp: bit_access_mask bit_and_iff bit_or_iff bit_rights)

lemma unix_mode_perms_root:
  "au_uid auth = 0 \<Longrightarrow>
    unix_mode_perms attr auth = \<lparr>up_read = True, up_write = True, up_exec = True\<rparr>"
  by (simp add: unix_mode_perms_def)

end
