(* ===== verification/Xdr_Nfs3_Ops.thy ===== *)
theory Xdr_Nfs3_Ops
  imports Xdr_Nfs3
begin

text \<open>
  The argument and result types of the NFS version 3 procedures, \<open>src/protocol/xdr/nfs3/file.rs\<close>,
  \<open>dir.rs\<close> and \<open>fs.rs\<close>, with their codecs.
\<close>

section \<open>File operations\<close>

record READ3args =
  rda_file :: nfs_fh3
  rda_offset :: u64
  rda_count :: u32

definition ser_READ3args :: "READ3args ser" where
  "ser_READ3args x = ser_seq
    [ser_nfs_fh3 (rda_file x), ser_u64 (rda_offset x), ser_u32 (rda_count x)]"

definition de_READ3args :: "READ3args de" where
  "de_READ3args =
    de_bind de_nfs_fh3 (\<lambda>a. de_bind de_u64 (\<lambda>b. de_bind de_u32 (\<lambda>c. 
    de_return
      \<lparr>rda_file = a, rda_offset = b, rda_count = c\<rparr>)))"

definition ok_READ3args :: "READ3args \<Rightarrow> bool" where
  "ok_READ3args x \<longleftrightarrow> ok_nfs_fh3 (rda_file x)"

lemma codec_READ3args [xdr_codecs]: "xdr_codec ser_READ3args de_READ3args ok_READ3args"
  by (rule codec_structI, rule ser_READ3args_def, rule de_READ3args_def,
      (rule codec_field, rule xdr_codecs)+, rule codec_return)
    (auto simp: ok_READ3args_def)

interpretation READ3args: xdr_codec ser_READ3args de_READ3args ok_READ3args
  by (rule codec_READ3args)

record READ3resok =
  rdr_file_attributes :: "fattr3 option"
  rdr_count :: u32
  rdr_eof :: bool
  rdr_data :: bytes

definition ser_READ3resok :: "READ3resok ser" where
  "ser_READ3resok x = ser_seq
    [ser_option ser_fattr3 (rdr_file_attributes x), ser_u32 (rdr_count x), ser_bool (rdr_eof x),
     ser_opaque (rdr_data x)]"

definition de_READ3resok :: "READ3resok de" where
  "de_READ3resok =
    de_bind (de_option de_fattr3) (\<lambda>a. de_bind de_u32 (\<lambda>b.
    de_bind de_bool (\<lambda>c. de_bind de_opaque (\<lambda>d. 
    de_return
      \<lparr>rdr_file_attributes = a, rdr_count = b, rdr_eof = c, rdr_data = d\<rparr>))))"

definition ok_READ3resok :: "READ3resok \<Rightarrow> bool" where
  "ok_READ3resok x \<longleftrightarrow> ok_opaque (rdr_data x)"

lemma codec_READ3resok [xdr_codecs]: "xdr_codec ser_READ3resok de_READ3resok ok_READ3resok"
  by (rule codec_structI, rule ser_READ3resok_def, rule de_READ3resok_def,
      (rule codec_field, rule xdr_codecs)+, rule codec_return)
    (auto simp: ok_READ3resok_def)

interpretation READ3resok: xdr_codec ser_READ3resok de_READ3resok ok_READ3resok
  by (rule codec_READ3resok)

record COMMIT3args =
  cma_file :: nfs_fh3
  cma_offset :: u64
  cma_count :: u32

definition ser_COMMIT3args :: "COMMIT3args ser" where
  "ser_COMMIT3args x = ser_seq
    [ser_nfs_fh3 (cma_file x), ser_u64 (cma_offset x), ser_u32 (cma_count x)]"

definition de_COMMIT3args :: "COMMIT3args de" where
  "de_COMMIT3args =
    de_bind de_nfs_fh3 (\<lambda>a. de_bind de_u64 (\<lambda>b. de_bind de_u32 (\<lambda>c. 
    de_return
      \<lparr>cma_file = a, cma_offset = b, cma_count = c\<rparr>)))"

definition ok_COMMIT3args :: "COMMIT3args \<Rightarrow> bool" where
  "ok_COMMIT3args x \<longleftrightarrow> ok_nfs_fh3 (cma_file x)"

lemma codec_COMMIT3args [xdr_codecs]: "xdr_codec ser_COMMIT3args de_COMMIT3args ok_COMMIT3args"
  by (rule codec_structI, rule ser_COMMIT3args_def, rule de_COMMIT3args_def,
      (rule codec_field, rule xdr_codecs)+, rule codec_return)
    (auto simp: ok_COMMIT3args_def)

record COMMIT3resok =
  cmr_file_wcc :: wcc_data
  cmr_verf :: bytes

definition ser_COMMIT3resok :: "COMMIT3resok ser" where
  "ser_COMMIT3resok x = ser_seq
    [ser_wcc_data (cmr_file_wcc x), ser_opaque_fixed (cmr_verf x)]"

definition de_COMMIT3resok :: "COMMIT3resok de" where
  "de_COMMIT3resok =
    de_bind de_wcc_data (\<lambda>a. de_bind (de_opaque_fixed 8) (\<lambda>b. 
    de_return
      \<lparr>cmr_file_wcc = a, cmr_verf = b\<rparr>))"

definition ok_COMMIT3resok :: "COMMIT3resok \<Rightarrow> bool" where
  "ok_COMMIT3resok x \<longleftrightarrow> length (cmr_verf x) = 8"

lemma codec_COMMIT3resok [xdr_codecs]: "xdr_codec ser_COMMIT3resok de_COMMIT3resok ok_COMMIT3resok"
  by (rule codec_structI, rule ser_COMMIT3resok_def, rule de_COMMIT3resok_def,
      (rule codec_field, rule xdr_codecs)+, rule codec_return)
    (auto simp: ok_COMMIT3resok_def)

record LINK3args =
  lka_file :: nfs_fh3
  lka_link :: diropargs3

definition ser_LINK3args :: "LINK3args ser" where
  "ser_LINK3args x = ser_seq
    [ser_nfs_fh3 (lka_file x), ser_diropargs3 (lka_link x)]"

definition de_LINK3args :: "LINK3args de" where
  "de_LINK3args =
    de_bind de_nfs_fh3 (\<lambda>a. de_bind de_diropargs3 (\<lambda>b. 
    de_return
      \<lparr>lka_file = a, lka_link = b\<rparr>))"

definition ok_LINK3args :: "LINK3args \<Rightarrow> bool" where
  "ok_LINK3args x \<longleftrightarrow> ok_nfs_fh3 (lka_file x) \<and> ok_diropargs3 (lka_link x)"

lemma codec_LINK3args [xdr_codecs]: "xdr_codec ser_LINK3args de_LINK3args ok_LINK3args"
  by (rule codec_structI, rule ser_LINK3args_def, rule de_LINK3args_def,
      (rule codec_field, rule xdr_codecs)+, rule codec_return)
    (auto simp: ok_LINK3args_def)

datatype stable_how =
  UNSTABLE | DATA_SYNC | FILE_SYNC

primrec stable_how_code :: "stable_how \<Rightarrow> i32" where
  "stable_how_code UNSTABLE = 0"
| "stable_how_code DATA_SYNC = 1"
| "stable_how_code FILE_SYNC = 2"

definition stable_how_variants :: "stable_how list" where
  "stable_how_variants =
    [UNSTABLE, DATA_SYNC, FILE_SYNC]"

definition ser_stable_how :: "stable_how ser" where
  "ser_stable_how = ser_enum stable_how_code"

definition de_stable_how :: "stable_how de" where
  "de_stable_how = de_enum stable_how_code stable_how_variants"

lemma codec_stable_how [xdr_codecs]: "xdr_codec ser_stable_how de_stable_how (\<lambda>_. True)"
  unfolding ser_stable_how_def de_stable_how_def
  by (rule codec_enumI, rule stable_how.induct) (simp_all add: stable_how_variants_def from_i32_def)

record WRITE3args =
  wra_file :: nfs_fh3
  wra_offset :: u64
  wra_count :: u32
  wra_stable :: u32
  wra_data :: bytes

definition ser_WRITE3args :: "WRITE3args ser" where
  "ser_WRITE3args x = ser_seq
    [ser_nfs_fh3 (wra_file x), ser_u64 (wra_offset x), ser_u32 (wra_count x),
     ser_u32 (wra_stable x), ser_opaque (wra_data x)]"

definition de_WRITE3args :: "WRITE3args de" where
  "de_WRITE3args =
    de_bind de_nfs_fh3 (\<lambda>a. de_bind de_u64 (\<lambda>b. de_bind de_u32 (\<lambda>c.
    de_bind de_u32 (\<lambda>d. de_bind de_opaque (\<lambda>e. 
    de_return
      \<lparr>wra_file = a, wra_offset = b, wra_count = c, wra_stable = d, wra_data = e\<rparr>)))))"

definition ok_WRITE3args :: "WRITE3args \<Rightarrow> bool" where
  "ok_WRITE3args x \<longleftrightarrow> ok_nfs_fh3 (wra_file x) \<and> ok_opaque (wra_data x)"

lemma codec_WRITE3args [xdr_codecs]: "xdr_codec ser_WRITE3args de_WRITE3args ok_WRITE3args"
  by (rule codec_structI, rule ser_WRITE3args_def, rule de_WRITE3args_def,
      (rule codec_field, rule xdr_codecs)+, rule codec_return)
    (auto simp: ok_WRITE3args_def)

interpretation WRITE3args: xdr_codec ser_WRITE3args de_WRITE3args ok_WRITE3args
  by (rule codec_WRITE3args)

record WRITE3resok =
  wrr_file_wcc :: wcc_data
  wrr_count :: u32
  wrr_committed :: stable_how
  wrr_verf :: bytes

definition ser_WRITE3resok :: "WRITE3resok ser" where
  "ser_WRITE3resok x = ser_seq
    [ser_wcc_data (wrr_file_wcc x), ser_u32 (wrr_count x), ser_stable_how (wrr_committed x),
     ser_opaque_fixed (wrr_verf x)]"

definition de_WRITE3resok :: "WRITE3resok de" where
  "de_WRITE3resok =
    de_bind de_wcc_data (\<lambda>a. de_bind de_u32 (\<lambda>b.
    de_bind de_stable_how (\<lambda>c. de_bind (de_opaque_fixed 8) (\<lambda>d. 
    de_return
      \<lparr>wrr_file_wcc = a, wrr_count = b, wrr_committed = c, wrr_verf = d\<rparr>))))"

definition ok_WRITE3resok :: "WRITE3resok \<Rightarrow> bool" where
  "ok_WRITE3resok x \<longleftrightarrow> length (wrr_verf x) = 8"

lemma codec_WRITE3resok [xdr_codecs]: "xdr_codec ser_WRITE3resok de_WRITE3resok ok_WRITE3resok"
  by (rule codec_structI, rule ser_WRITE3resok_def, rule de_WRITE3resok_def,
      (rule codec_field, rule xdr_codecs)+, rule codec_return)
    (auto simp: ok_WRITE3resok_def)

interpretation WRITE3resok: xdr_codec ser_WRITE3resok de_WRITE3resok ok_WRITE3resok
  by (rule codec_WRITE3resok)

section \<open>Directory operations\<close>

datatype devicetype3 =
  DEV_NF3CHR | DEV_NF3BLK | DEV_NF3SOCK | DEV_NF3FIFO

primrec devicetype3_code :: "devicetype3 \<Rightarrow> i32" where
  "devicetype3_code DEV_NF3CHR = 0"
| "devicetype3_code DEV_NF3BLK = 1"
| "devicetype3_code DEV_NF3SOCK = 2"
| "devicetype3_code DEV_NF3FIFO = 3"

definition devicetype3_variants :: "devicetype3 list" where
  "devicetype3_variants =
    [DEV_NF3CHR, DEV_NF3BLK, DEV_NF3SOCK, DEV_NF3FIFO]"

definition ser_devicetype3 :: "devicetype3 ser" where
  "ser_devicetype3 = ser_enum devicetype3_code"

definition de_devicetype3 :: "devicetype3 de" where
  "de_devicetype3 = de_enum devicetype3_code devicetype3_variants"

lemma codec_devicetype3 [xdr_codecs]: "xdr_codec ser_devicetype3 de_devicetype3 (\<lambda>_. True)"
  unfolding ser_devicetype3_def de_devicetype3_def
  by (rule codec_enumI, rule devicetype3.induct) (simp_all add: devicetype3_variants_def from_i32_def)

record MKDIR3args =
  mka_dirops :: diropargs3
  mka_attributes :: sattr3

definition ser_MKDIR3args :: "MKDIR3args ser" where
  "ser_MKDIR3args x = ser_seq
    [ser_diropargs3 (mka_dirops x), ser_sattr3 (mka_attributes x)]"

definition de_MKDIR3args :: "MKDIR3args de" where
  "de_MKDIR3args =
    de_bind de_diropargs3 (\<lambda>a. de_bind de_sattr3 (\<lambda>b. 
    de_return
      \<lparr>mka_dirops = a, mka_attributes = b\<rparr>))"

definition ok_MKDIR3args :: "MKDIR3args \<Rightarrow> bool" where
  "ok_MKDIR3args x \<longleftrightarrow> ok_diropargs3 (mka_dirops x)"

lemma codec_MKDIR3args [xdr_codecs]: "xdr_codec ser_MKDIR3args de_MKDIR3args ok_MKDIR3args"
  by (rule codec_structI, rule ser_MKDIR3args_def, rule de_MKDIR3args_def,
      (rule codec_field, rule xdr_codecs)+, rule codec_return)
    (auto simp: ok_MKDIR3args_def)

record SYMLINK3args =
  sya_dirops :: diropargs3
  sya_symlink :: symlinkdata3

definition ser_SYMLINK3args :: "SYMLINK3args ser" where
  "ser_SYMLINK3args x = ser_seq
    [ser_diropargs3 (sya_dirops x), ser_symlinkdata3 (sya_symlink x)]"

definition de_SYMLINK3args :: "SYMLINK3args de" where
  "de_SYMLINK3args =
    de_bind de_diropargs3 (\<lambda>a. de_bind de_symlinkdata3 (\<lambda>b. 
    de_return
      \<lparr>sya_dirops = a, sya_symlink = b\<rparr>))"

definition ok_SYMLINK3args :: "SYMLINK3args \<Rightarrow> bool" where
  "ok_SYMLINK3args x \<longleftrightarrow> ok_diropargs3 (sya_dirops x) \<and> ok_symlinkdata3 (sya_symlink x)"

lemma codec_SYMLINK3args [xdr_codecs]: "xdr_codec ser_SYMLINK3args de_SYMLINK3args ok_SYMLINK3args"
  by (rule codec_structI, rule ser_SYMLINK3args_def, rule de_SYMLINK3args_def,
      (rule codec_field, rule xdr_codecs)+, rule codec_return)
    (auto simp: ok_SYMLINK3args_def)

record entry3 =
  en_fileid :: u64
  en_name :: nfsstring
  en_cookie :: u64

definition ser_entry3 :: "entry3 ser" where
  "ser_entry3 x = ser_seq
    [ser_u64 (en_fileid x), ser_nfsstring (en_name x), ser_u64 (en_cookie x)]"

definition de_entry3 :: "entry3 de" where
  "de_entry3 =
    de_bind de_u64 (\<lambda>a. de_bind de_nfsstring (\<lambda>b. de_bind de_u64 (\<lambda>c. 
    de_return
      \<lparr>en_fileid = a, en_name = b, en_cookie = c\<rparr>)))"

definition ok_entry3 :: "entry3 \<Rightarrow> bool" where
  "ok_entry3 x \<longleftrightarrow> ok_opaque (en_name x)"

lemma codec_entry3 [xdr_codecs]: "xdr_codec ser_entry3 de_entry3 ok_entry3"
  by (rule codec_structI, rule ser_entry3_def, rule de_entry3_def,
      (rule codec_field, rule xdr_codecs)+, rule codec_return)
    (auto simp: ok_entry3_def)

interpretation entry3: xdr_codec ser_entry3 de_entry3 ok_entry3
  by (rule codec_entry3)

record READDIR3args =
  rra_dir :: nfs_fh3
  rra_cookie :: u64
  rra_cookieverf :: bytes
  rra_dircount :: u32

definition ser_READDIR3args :: "READDIR3args ser" where
  "ser_READDIR3args x = ser_seq
    [ser_nfs_fh3 (rra_dir x), ser_u64 (rra_cookie x), ser_opaque_fixed (rra_cookieverf x),
     ser_u32 (rra_dircount x)]"

definition de_READDIR3args :: "READDIR3args de" where
  "de_READDIR3args =
    de_bind de_nfs_fh3 (\<lambda>a. de_bind de_u64 (\<lambda>b.
    de_bind (de_opaque_fixed 8) (\<lambda>c. de_bind de_u32 (\<lambda>d. 
    de_return
      \<lparr>rra_dir = a, rra_cookie = b, rra_cookieverf = c, rra_dircount = d\<rparr>))))"

definition ok_READDIR3args :: "READDIR3args \<Rightarrow> bool" where
  "ok_READDIR3args x \<longleftrightarrow> ok_nfs_fh3 (rra_dir x) \<and> length (rra_cookieverf x) = 8"

lemma codec_READDIR3args [xdr_codecs]: "xdr_codec ser_READDIR3args de_READDIR3args ok_READDIR3args"
  by (rule codec_structI, rule ser_READDIR3args_def, rule de_READDIR3args_def,
      (rule codec_field, rule xdr_codecs)+, rule codec_return)
    (auto simp: ok_READDIR3args_def)

record entryplus3 =
  ep_fileid :: u64
  ep_name :: nfsstring
  ep_cookie :: u64
  ep_name_attributes :: "fattr3 option"
  ep_name_handle :: "nfs_fh3 option"

definition ser_entryplus3 :: "entryplus3 ser" where
  "ser_entryplus3 x = ser_seq
    [ser_u64 (ep_fileid x), ser_nfsstring (ep_name x), ser_u64 (ep_cookie x),
     ser_option ser_fattr3 (ep_name_attributes x), ser_option ser_nfs_fh3 (ep_name_handle x)]"

definition de_entryplus3 :: "entryplus3 de" where
  "de_entryplus3 =
    de_bind de_u64 (\<lambda>a. de_bind de_nfsstring (\<lambda>b. de_bind de_u64 (\<lambda>c.
    de_bind (de_option de_fattr3) (\<lambda>d. de_bind (de_option de_nfs_fh3) (\<lambda>e. 
    de_return
      \<lparr>ep_fileid = a, ep_name = b, ep_cookie = c, ep_name_attributes = d, ep_name_handle = e\<rparr>)))))"

definition ok_entryplus3 :: "entryplus3 \<Rightarrow> bool" where
  "ok_entryplus3 x \<longleftrightarrow> ok_opaque (ep_name x) \<and> pred_option ok_nfs_fh3 (ep_name_handle x)"

lemma codec_entryplus3 [xdr_codecs]: "xdr_codec ser_entryplus3 de_entryplus3 ok_entryplus3"
  by (rule codec_structI, rule ser_entryplus3_def, rule de_entryplus3_def,
      (rule codec_field, rule xdr_codecs)+, rule codec_return)
    (auto simp: ok_entryplus3_def)

interpretation entryplus3: xdr_codec ser_entryplus3 de_entryplus3 ok_entryplus3
  by (rule codec_entryplus3)

record READDIRPLUS3args =
  rpa_dir :: nfs_fh3
  rpa_cookie :: u64
  rpa_cookieverf :: bytes
  rpa_dircount :: u32
  rpa_maxcount :: u32

definition ser_READDIRPLUS3args :: "READDIRPLUS3args ser" where
  "ser_READDIRPLUS3args x = ser_seq
    [ser_nfs_fh3 (rpa_dir x), ser_u64 (rpa_cookie x), ser_opaque_fixed (rpa_cookieverf x),
     ser_u32 (rpa_dircount x), ser_u32 (rpa_maxcount x)]"

definition de_READDIRPLUS3args :: "READDIRPLUS3args de" where
  "de_READDIRPLUS3args =
    de_bind de_nfs_fh3 (\<lambda>a. de_bind de_u64 (\<lambda>b.
    de_bind (de_opaque_fixed 8) (\<lambda>c. de_bind de_u32 (\<lambda>d.
    de_bind de_u32 (\<lambda>e. 
    de_return
      \<lparr>rpa_dir = a, rpa_cookie = b, rpa_cookieverf = c, rpa_dircount = d, rpa_maxcount = e\<rparr>)))))"

definition ok_READDIRPLUS3args :: "READDIRPLUS3args \<Rightarrow> bool" where
  "ok_READDIRPLUS3args x \<longleftrightarrow> ok_nfs_fh3 (rpa_dir x) \<and> length (rpa_cookieverf x) = 8"

lemma codec_READDIRPLUS3args [xdr_codecs]: "xdr_codec ser_READDIRPLUS3args de_READDIRPLUS3args ok_READDIRPLUS3args"
  by (rule codec_structI, rule ser_READDIRPLUS3args_def, rule de_READDIRPLUS3args_def,
      (rule codec_field, rule xdr_codecs)+, rule codec_return)
    (auto simp: ok_READDIRPLUS3args_def)

record devicedata3 =
  dd_dev_attributes :: sattr3
  dd_spec :: specdata3

definition ser_devicedata3 :: "devicedata3 ser" where
  "ser_devicedata3 x = ser_seq
    [ser_sattr3 (dd_dev_attributes x), ser_specdata3 (dd_spec x)]"

definition de_devicedata3 :: "devicedata3 de" where
  "de_devicedata3 =
    de_bind de_sattr3 (\<lambda>a. de_bind de_specdata3 (\<lambda>b. 
    de_return
      \<lparr>dd_dev_attributes = a, dd_spec = b\<rparr>))"

lemma codec_devicedata3 [xdr_codecs]: "xdr_codec ser_devicedata3 de_devicedata3 (\<lambda>_. True)"
  by (rule codec_structI, rule ser_devicedata3_def, rule de_devicedata3_def,
      (rule codec_field, rule xdr_codecs)+, rule codec_return)
    auto

record mknoddata3 =
  mk_mknod_type :: ftype3
  mk_device :: "devicedata3 option"
  mk_pipe_attributes :: "sattr3 option"

definition ser_mknoddata3 :: "mknoddata3 ser" where
  "ser_mknoddata3 x = ser_seq [ser_ftype3 (mk_mknod_type x),
    (if mk_mknod_type x \<in> {NF3CHR, NF3BLK} then
       (case mk_device x of None \<Rightarrow> Err InvalidData | Some device \<Rightarrow> ser_devicedata3 device)
     else if mk_mknod_type x \<in> {NF3SOCK, NF3FIFO} then
       (case mk_pipe_attributes x of None \<Rightarrow> Err InvalidData | Some attrs \<Rightarrow> ser_sattr3 attrs)
     else Ok [])]"

definition de_mknoddata3 :: "mknoddata3 de" where
  "de_mknoddata3 = de_bind de_ftype3 (\<lambda>t.
    if t \<in> {NF3CHR, NF3BLK} then
      de_bind de_devicedata3 (\<lambda>d. de_return
        \<lparr>mk_mknod_type = t, mk_device = Some d, mk_pipe_attributes = None\<rparr>)
    else if t \<in> {NF3SOCK, NF3FIFO} then
      de_bind de_sattr3 (\<lambda>p. de_return
        \<lparr>mk_mknod_type = t, mk_device = None, mk_pipe_attributes = Some p\<rparr>)
    else de_return \<lparr>mk_mknod_type = t, mk_device = None, mk_pipe_attributes = None\<rparr>)"

text \<open>The optional parts that the type calls for, and no others.\<close>

definition ok_mknoddata3 :: "mknoddata3 \<Rightarrow> bool" where
  "ok_mknoddata3 x \<longleftrightarrow>
    (mk_device x \<noteq> None \<longleftrightarrow> mk_mknod_type x \<in> {NF3CHR, NF3BLK}) \<and>
    (mk_pipe_attributes x \<noteq> None \<longleftrightarrow> mk_mknod_type x \<in> {NF3SOCK, NF3FIFO})"

lemma codec_mknoddata3 [xdr_codecs]: "xdr_codec ser_mknoddata3 de_mknoddata3 ok_mknoddata3"
proof (rule codec_union [OF codec_ftype3, where tag = mk_mknod_type, OF ser_mknoddata3_def
      de_mknoddata3_def])
  let ?arm = "\<lambda>x. if mk_mknod_type x \<in> {NF3CHR, NF3BLK} then
       (case mk_device x of None \<Rightarrow> Err InvalidData | Some device \<Rightarrow> ser_devicedata3 device)
     else if mk_mknod_type x \<in> {NF3SOCK, NF3FIFO} then
       (case mk_pipe_attributes x of None \<Rightarrow> Err InvalidData | Some attrs \<Rightarrow> ser_sattr3 attrs)
     else Ok []"
  fix t
  have dev: "codec_on (\<lambda>x. ok_mknoddata3 x \<and> mk_mknod_type x = t) ?arm
      (de_bind de_devicedata3 (\<lambda>d. de_return
        \<lparr>mk_mknod_type = t, mk_device = Some d, mk_pipe_attributes = None\<rparr>)) ok_mknoddata3"
    if "t \<in> {NF3CHR, NF3BLK}"
    by (rule codec_arm [OF codec_devicedata3, where A = "\<lambda>d.
        \<lparr>mk_mknod_type = t, mk_device = Some d, mk_pipe_attributes = None\<rparr>"])
      (use that in \<open>auto simp: ok_mknoddata3_def intro!: mknoddata3.equality\<close>)
  have pipe: "codec_on (\<lambda>x. ok_mknoddata3 x \<and> mk_mknod_type x = t) ?arm
      (de_bind de_sattr3 (\<lambda>p. de_return
        \<lparr>mk_mknod_type = t, mk_device = None, mk_pipe_attributes = Some p\<rparr>)) ok_mknoddata3"
    if "t \<in> {NF3SOCK, NF3FIFO}"
    by (rule codec_arm [OF codec_sattr3, where A = "\<lambda>p.
        \<lparr>mk_mknod_type = t, mk_device = None, mk_pipe_attributes = Some p\<rparr>"])
      (use that in \<open>auto simp: ok_mknoddata3_def intro!: mknoddata3.equality\<close>)
  have none: "codec_on (\<lambda>x. ok_mknoddata3 x \<and> mk_mknod_type x = t) ?arm
      (de_return \<lparr>mk_mknod_type = t, mk_device = None, mk_pipe_attributes = None\<rparr>)
      ok_mknoddata3"
    if "t \<notin> {NF3CHR, NF3BLK}" "t \<notin> {NF3SOCK, NF3FIFO}"
    by (rule codec_arm0) (use that in \<open>auto simp: ok_mknoddata3_def intro!: mknoddata3.equality\<close>)
  show "codec_on (\<lambda>x. mk_mknod_type x = t) ?arm
    (if t \<in> {NF3CHR, NF3BLK} then
      de_bind de_devicedata3 (\<lambda>d. de_return
        \<lparr>mk_mknod_type = t, mk_device = Some d, mk_pipe_attributes = None\<rparr>)
    else if t \<in> {NF3SOCK, NF3FIFO} then
      de_bind de_sattr3 (\<lambda>p. de_return
        \<lparr>mk_mknod_type = t, mk_device = None, mk_pipe_attributes = Some p\<rparr>)
    else de_return \<lparr>mk_mknod_type = t, mk_device = None, mk_pipe_attributes = None\<rparr>)
    ok_mknoddata3"
    by (intro codec_if; rule codec_on_narrow [where P = ok_mknoddata3])
      (use dev pipe none in blast)+
qed simp

interpretation mknoddata3: xdr_codec ser_mknoddata3 de_mknoddata3 ok_mknoddata3
  by (rule codec_mknoddata3)

record MKNOD3args =
  mna_where_dir :: diropargs3
  mna_what :: mknoddata3

definition ser_MKNOD3args :: "MKNOD3args ser" where
  "ser_MKNOD3args x = ser_seq
    [ser_diropargs3 (mna_where_dir x), ser_mknoddata3 (mna_what x)]"

definition de_MKNOD3args :: "MKNOD3args de" where
  "de_MKNOD3args =
    de_bind de_diropargs3 (\<lambda>a. de_bind de_mknoddata3 (\<lambda>b. 
    de_return
      \<lparr>mna_where_dir = a, mna_what = b\<rparr>))"

definition ok_MKNOD3args :: "MKNOD3args \<Rightarrow> bool" where
  "ok_MKNOD3args x \<longleftrightarrow> ok_diropargs3 (mna_where_dir x) \<and> ok_mknoddata3 (mna_what x)"

lemma codec_MKNOD3args [xdr_codecs]: "xdr_codec ser_MKNOD3args de_MKNOD3args ok_MKNOD3args"
  by (rule codec_structI, rule ser_MKNOD3args_def, rule de_MKNOD3args_def,
      (rule codec_field, rule xdr_codecs)+, rule codec_return)
    (auto simp: ok_MKNOD3args_def)

section \<open>File system information\<close>

definition FSF_LINK :: u32 where
  "FSF_LINK = 1"

definition FSF_SYMLINK :: u32 where
  "FSF_SYMLINK = 2"

definition FSF_HOMOGENEOUS :: u32 where
  "FSF_HOMOGENEOUS = 8"

definition FSF_CANSETTIME :: u32 where
  "FSF_CANSETTIME = 16"

record fsinfo3 =
  fi_obj_attributes :: "fattr3 option"
  fi_rtmax :: u32
  fi_rtpref :: u32
  fi_rtmult :: u32
  fi_wtmax :: u32
  fi_wtpref :: u32
  fi_wtmult :: u32
  fi_dtpref :: u32
  fi_maxfilesize :: u64
  fi_time_delta :: nfstime3
  fi_properties :: u32

definition ser_fsinfo3 :: "fsinfo3 ser" where
  "ser_fsinfo3 x = ser_seq
    [ser_option ser_fattr3 (fi_obj_attributes x), ser_u32 (fi_rtmax x), ser_u32 (fi_rtpref x),
     ser_u32 (fi_rtmult x), ser_u32 (fi_wtmax x), ser_u32 (fi_wtpref x), ser_u32 (fi_wtmult x),
     ser_u32 (fi_dtpref x), ser_u64 (fi_maxfilesize x), ser_nfstime3 (fi_time_delta x),
     ser_u32 (fi_properties x)]"

definition de_fsinfo3 :: "fsinfo3 de" where
  "de_fsinfo3 =
    de_bind (de_option de_fattr3) (\<lambda>a. de_bind de_u32 (\<lambda>b.
    de_bind de_u32 (\<lambda>c. de_bind de_u32 (\<lambda>d. de_bind de_u32 (\<lambda>e.
    de_bind de_u32 (\<lambda>f. de_bind de_u32 (\<lambda>g. de_bind de_u32 (\<lambda>h.
    de_bind de_u64 (\<lambda>i. de_bind de_nfstime3 (\<lambda>j. de_bind de_u32 (\<lambda>k. 
    de_return
      \<lparr>fi_obj_attributes = a, fi_rtmax = b, fi_rtpref = c, fi_rtmult = d, fi_wtmax = e,
       fi_wtpref = f, fi_wtmult = g, fi_dtpref = h, fi_maxfilesize = i, fi_time_delta = j,
       fi_properties = k\<rparr>)))))))))))"

lemma codec_fsinfo3 [xdr_codecs]: "xdr_codec ser_fsinfo3 de_fsinfo3 (\<lambda>_. True)"
  by (rule codec_structI, rule ser_fsinfo3_def, rule de_fsinfo3_def,
      (rule codec_field, rule xdr_codecs)+, rule codec_return)
    auto

record FSSTAT3resok =
  fss_obj_attributes :: "fattr3 option"
  fss_tbytes :: u64
  fss_fbytes :: u64
  fss_abytes :: u64
  fss_tfiles :: u64
  fss_ffiles :: u64
  fss_afiles :: u64
  fss_invarsec :: u32

definition ser_FSSTAT3resok :: "FSSTAT3resok ser" where
  "ser_FSSTAT3resok x = ser_seq
    [ser_option ser_fattr3 (fss_obj_attributes x), ser_u64 (fss_tbytes x),
     ser_u64 (fss_fbytes x), ser_u64 (fss_abytes x), ser_u64 (fss_tfiles x),
     ser_u64 (fss_ffiles x), ser_u64 (fss_afiles x), ser_u32 (fss_invarsec x)]"

definition de_FSSTAT3resok :: "FSSTAT3resok de" where
  "de_FSSTAT3resok =
    de_bind (de_option de_fattr3) (\<lambda>a. de_bind de_u64 (\<lambda>b.
    de_bind de_u64 (\<lambda>c. de_bind de_u64 (\<lambda>d. de_bind de_u64 (\<lambda>e.
    de_bind de_u64 (\<lambda>f. de_bind de_u64 (\<lambda>g. de_bind de_u32 (\<lambda>h. 
    de_return
      \<lparr>fss_obj_attributes = a, fss_tbytes = b, fss_fbytes = c, fss_abytes = d, fss_tfiles = e,
       fss_ffiles = f, fss_afiles = g, fss_invarsec = h\<rparr>))))))))"

lemma codec_FSSTAT3resok [xdr_codecs]: "xdr_codec ser_FSSTAT3resok de_FSSTAT3resok (\<lambda>_. True)"
  by (rule codec_structI, rule ser_FSSTAT3resok_def, rule de_FSSTAT3resok_def,
      (rule codec_field, rule xdr_codecs)+, rule codec_return)
    auto

record PATHCONF3resok =
  pc_obj_attributes :: "fattr3 option"
  pc_linkmax :: u32
  pc_name_max :: u32
  pc_no_trunc :: bool
  pc_chown_restricted :: bool
  pc_case_insensitive :: bool
  pc_case_preserving :: bool

definition ser_PATHCONF3resok :: "PATHCONF3resok ser" where
  "ser_PATHCONF3resok x = ser_seq
    [ser_option ser_fattr3 (pc_obj_attributes x), ser_u32 (pc_linkmax x),
     ser_u32 (pc_name_max x), ser_bool (pc_no_trunc x), ser_bool (pc_chown_restricted x),
     ser_bool (pc_case_insensitive x), ser_bool (pc_case_preserving x)]"

definition de_PATHCONF3resok :: "PATHCONF3resok de" where
  "de_PATHCONF3resok =
    de_bind (de_option de_fattr3) (\<lambda>a. de_bind de_u32 (\<lambda>b.
    de_bind de_u32 (\<lambda>c. de_bind de_bool (\<lambda>d. de_bind de_bool (\<lambda>e.
    de_bind de_bool (\<lambda>f. de_bind de_bool (\<lambda>g. 
    de_return
      \<lparr>pc_obj_attributes = a, pc_linkmax = b, pc_name_max = c, pc_no_trunc = d,
       pc_chown_restricted = e, pc_case_insensitive = f, pc_case_preserving = g\<rparr>)))))))"

lemma codec_PATHCONF3resok [xdr_codecs]: "xdr_codec ser_PATHCONF3resok de_PATHCONF3resok (\<lambda>_. True)"
  by (rule codec_structI, rule ser_PATHCONF3resok_def, rule de_PATHCONF3resok_def,
      (rule codec_field, rule xdr_codecs)+, rule codec_return)
    auto

end
