(* ===== verification/Vfs.thy ===== *)
theory Vfs
  imports Permissions Xdr_Nfs3_Ops
begin

text \<open>
  The file system interface of \<open>src/vfs.rs\<close>. An implementation of the trait \<open>NFSFileSystem\<close> is a
  record of functions over a state \<open>'s\<close> of its own: an operation returns its result, or the NFS
  error, and the new state. The trait's default methods are definitions here; those that an
  implementation overrides in this repository are fields, with the default method under
  the name \<open>default_*\<close>.
\<close>

section \<open>The trait\<close>

type_synonym ('s, 'a) vfs_result = "(nfsstat3 + 'a) \<times> 's"

record DirEntrySimple =
  des_fileid :: fileid3
  des_name :: filename3

record ReadDirSimpleResult =
  rds_entries :: "DirEntrySimple list"
  rds_end :: bool

record DirEntry =
  de_fileid :: fileid3
  de_name :: filename3
  de_attr :: fattr3

record ReadDirResult =
  rd_entries :: "DirEntry list"
  rd_end :: bool

definition from_readdir_result :: "ReadDirResult \<Rightarrow> ReadDirSimpleResult" where
  "from_readdir_result result =
    \<lparr>rds_entries = map (\<lambda>e. \<lparr>des_fileid = de_fileid e, des_name = de_name e\<rparr>) (rd_entries result),
     rds_end = rd_end result\<rparr>"

text \<open>The limits that FSINFO and PATHCONF report.\<close>

record vfs_limits =
  fsinfo_rtmax :: u32
  fsinfo_rtpref :: u32
  fsinfo_rtmult :: u32
  fsinfo_wtmax :: u32
  fsinfo_wtpref :: u32
  fsinfo_wtmult :: u32
  fsinfo_dtpref :: u32
  fsinfo_maxfilesize :: size3
  fsinfo_time_delta :: nfstime3
  fsinfo_properties :: u32
  pathconf_linkmax :: u32
  pathconf_name_max :: u32
  pathconf_no_trunc :: bool
  pathconf_chown_restricted :: bool
  pathconf_case_insensitive :: bool
  pathconf_case_preserving :: bool

definition default_limits :: vfs_limits where
  "default_limits = \<lparr>
    fsinfo_rtmax = 1024 * 1024, fsinfo_rtpref = 1024 * 124, fsinfo_rtmult = 1024 * 1024,
    fsinfo_wtmax = 1024 * 1024, fsinfo_wtpref = 1024 * 1024, fsinfo_wtmult = 1024 * 1024,
    fsinfo_dtpref = 1024 * 1024, fsinfo_maxfilesize = 128 * 1024 * 1024 * 1024,
    fsinfo_time_delta = \<lparr>nt_seconds = 0, nt_nseconds = 1000000\<rparr>,
    fsinfo_properties = FSF_SYMLINK OR FSF_HOMOGENEOUS OR FSF_CANSETTIME,
    pathconf_linkmax = 0, pathconf_name_max = 32768, pathconf_no_trunc = True,
    pathconf_chown_restricted = True, pathconf_case_insensitive = False,
    pathconf_case_preserving = True\<rparr>"

record 's vfs =
  vfs_generation :: u64
  vfs_capabilities :: Capabilities
  vfs_root_dir :: fileid3
  vfs_limits_of :: vfs_limits
  vfs_lookup :: "fileid3 \<Rightarrow> filename3 \<Rightarrow> 's \<Rightarrow> ('s, fileid3) vfs_result"
  vfs_getattr :: "fileid3 \<Rightarrow> 's \<Rightarrow> ('s, fattr3) vfs_result"
  vfs_setattr :: "fileid3 \<Rightarrow> sattr3 \<Rightarrow> 's \<Rightarrow> ('s, fattr3) vfs_result"
  vfs_read :: "fileid3 \<Rightarrow> u64 \<Rightarrow> u32 \<Rightarrow> 's \<Rightarrow> ('s, bytes \<times> bool) vfs_result"
  vfs_write :: "fileid3 \<Rightarrow> u64 \<Rightarrow> bytes \<Rightarrow> stable_how \<Rightarrow> 's \<Rightarrow>
    ('s, fattr3 \<times> stable_how \<times> count3) vfs_result"
  vfs_create :: "fileid3 \<Rightarrow> filename3 \<Rightarrow> sattr3 \<Rightarrow> 's \<Rightarrow> ('s, fileid3 \<times> fattr3) vfs_result"
  vfs_create_exclusive :: "fileid3 \<Rightarrow> filename3 \<Rightarrow> createverf3 \<Rightarrow> 's \<Rightarrow> ('s, fileid3) vfs_result"
  vfs_mkdir :: "fileid3 \<Rightarrow> filename3 \<Rightarrow> 's \<Rightarrow> ('s, fileid3 \<times> fattr3) vfs_result"
  vfs_remove :: "fileid3 \<Rightarrow> filename3 \<Rightarrow> 's \<Rightarrow> ('s, unit) vfs_result"
  vfs_rename :: "fileid3 \<Rightarrow> filename3 \<Rightarrow> fileid3 \<Rightarrow> filename3 \<Rightarrow> 's \<Rightarrow> ('s, unit) vfs_result"
  vfs_readdir :: "fileid3 \<Rightarrow> fileid3 \<Rightarrow> usize \<Rightarrow> 's \<Rightarrow> ('s, ReadDirResult) vfs_result"
  vfs_readdir_index :: "fileid3 \<Rightarrow> usize \<Rightarrow> usize \<Rightarrow> 's \<Rightarrow> ('s, ReadDirResult) vfs_result"
  vfs_symlink :: "fileid3 \<Rightarrow> filename3 \<Rightarrow> nfspath3 \<Rightarrow> sattr3 \<Rightarrow> 's \<Rightarrow>
    ('s, fileid3 \<times> fattr3) vfs_result"
  vfs_readlink :: "fileid3 \<Rightarrow> 's \<Rightarrow> ('s, nfspath3) vfs_result"
  vfs_link :: "fileid3 \<Rightarrow> fileid3 \<Rightarrow> filename3 \<Rightarrow> 's \<Rightarrow> ('s, fattr3) vfs_result"
  vfs_mknod :: "fileid3 \<Rightarrow> filename3 \<Rightarrow> ftype3 \<Rightarrow> specdata3 \<Rightarrow> sattr3 \<Rightarrow> 's \<Rightarrow>
    ('s, fileid3 \<times> fattr3) vfs_result"
  vfs_commit :: "fileid3 \<Rightarrow> u64 \<Rightarrow> u32 \<Rightarrow> 's \<Rightarrow> ('s, fattr3) vfs_result"
  vfs_check_access :: "fileid3 \<Rightarrow> auth_unix \<Rightarrow> u32 \<Rightarrow> 's \<Rightarrow> ('s, u32) vfs_result"
  vfs_fsstat :: "fileid3 \<Rightarrow> 's \<Rightarrow> ('s, FSSTAT3resok) vfs_result"

section \<open>Default methods\<close>

definition default_readdir_index ::
    "'s vfs \<Rightarrow> fileid3 \<Rightarrow> usize \<Rightarrow> usize \<Rightarrow> 's \<Rightarrow> ('s, ReadDirResult) vfs_result" where
  "default_readdir_index v dirid start_index max_entries s =
    (let request_count = saturating_add start_index max_entries in
     case vfs_readdir v dirid 0 request_count s of
       (Err e, s) \<Rightarrow> (Err e, s)
     | (Ok result, s) \<Rightarrow>
         if start_index > length (rd_entries result)
            \<or> (start_index = length (rd_entries result) \<and> \<not> rd_end result)
         then (Err NFS3ERR_BAD_COOKIE, s)
         else if start_index = 0 then (Ok result, s)
         else (Ok \<lparr>rd_entries = drop start_index (rd_entries result), rd_end = rd_end result\<rparr>, s))"

definition readdir_simple ::
    "'s vfs \<Rightarrow> fileid3 \<Rightarrow> fileid3 \<Rightarrow> usize \<Rightarrow> 's \<Rightarrow> ('s, ReadDirSimpleResult) vfs_result" where
  "readdir_simple v dirid start_after count s =
    (case vfs_readdir v dirid start_after count s of
      (Err e, s) \<Rightarrow> (Err e, s)
    | (Ok result, s) \<Rightarrow> (Ok (from_readdir_result result), s))"

definition readdir_simple_index ::
    "'s vfs \<Rightarrow> fileid3 \<Rightarrow> usize \<Rightarrow> usize \<Rightarrow> 's \<Rightarrow> ('s, ReadDirSimpleResult) vfs_result" where
  "readdir_simple_index v dirid start_index count s =
    (case vfs_readdir_index v dirid start_index count s of
      (Err e, s) \<Rightarrow> (Err e, s)
    | (Ok result, s) \<Rightarrow> (Ok (from_readdir_result result), s))"

definition default_check_access ::
    "'s vfs \<Rightarrow> fileid3 \<Rightarrow> auth_unix \<Rightarrow> u32 \<Rightarrow> 's \<Rightarrow> ('s, u32) vfs_result" where
  "default_check_access v fid auth access s =
    (case vfs_getattr v fid s of
      (Err e, s) \<Rightarrow> (Err e, s)
    | (Ok attr, s) \<Rightarrow> (Ok (access_mask attr auth (vfs_capabilities v) access), s))"

text \<open>\<open>self.getattr(id).await.ok()\<close>: the attributes, when they can be read.\<close>

definition getattr_ok :: "'s vfs \<Rightarrow> fileid3 \<Rightarrow> 's \<Rightarrow> post_op_attr \<times> 's" where
  "getattr_ok v fid s = (case vfs_getattr v fid s of (r, s) \<Rightarrow> (ok_of r, s))"

definition vfs_fsinfo :: "'s vfs \<Rightarrow> fileid3 \<Rightarrow> 's \<Rightarrow> ('s, fsinfo3) vfs_result" where
  "vfs_fsinfo v root_fileid s =
    (case getattr_ok v root_fileid s of (dir_attr, s) \<Rightarrow>
      (Ok \<lparr>fi_obj_attributes = dir_attr,
         fi_rtmax = fsinfo_rtmax (vfs_limits_of v), fi_rtpref = fsinfo_rtpref (vfs_limits_of v),
         fi_rtmult = fsinfo_rtmult (vfs_limits_of v), fi_wtmax = fsinfo_wtmax (vfs_limits_of v),
         fi_wtpref = fsinfo_wtpref (vfs_limits_of v), fi_wtmult = fsinfo_wtmult (vfs_limits_of v),
         fi_dtpref = fsinfo_dtpref (vfs_limits_of v),
         fi_maxfilesize = fsinfo_maxfilesize (vfs_limits_of v),
         fi_time_delta = fsinfo_time_delta (vfs_limits_of v),
         fi_properties = fsinfo_properties (vfs_limits_of v)\<rparr>, s))"

definition default_fsstat :: "'s vfs \<Rightarrow> fileid3 \<Rightarrow> 's \<Rightarrow> ('s, FSSTAT3resok) vfs_result" where
  "default_fsstat v root_fileid s =
    (case getattr_ok v root_fileid s of (dir_attr, s) \<Rightarrow>
      (Ok \<lparr>fss_obj_attributes = dir_attr, fss_tbytes = 0, fss_fbytes = 0, fss_abytes = 0,
         fss_tfiles = 0, fss_ffiles = 0, fss_afiles = 0, fss_invarsec = 0\<rparr>, s))"

section \<open>File handles\<close>

definition id_to_fh :: "'s vfs \<Rightarrow> fileid3 \<Rightarrow> nfs_fh3" where
  "id_to_fh v fid = \<lparr>fh_data = le_bytes 8 (vfs_generation v) @ le_bytes 8 fid\<rparr>"

definition fh_to_id :: "'s vfs \<Rightarrow> nfs_fh3 \<Rightarrow> nfsstat3 + fileid3" where
  "fh_to_id v fh =
    (if length (fh_data fh) \<noteq> 16 then Err NFS3ERR_BADHANDLE
     else
       let gen = (of_le_bytes (take 8 (fh_data fh)) :: u64);
           fid = of_le_bytes (take 8 (drop 8 (fh_data fh)));
           gennum = vfs_generation v
       in if gen < gennum then Err NFS3ERR_STALE
          else if gen > gennum then Err NFS3ERR_BADHANDLE
          else Ok fid)"

definition server_id :: "'s vfs \<Rightarrow> cookieverf3" where
  "server_id v = le_bytes 8 (vfs_generation v)"

section \<open>Path walks\<close>

text \<open>\<open>path.split(|&r| r == b'/')\<close>\<close>

fun split_slash :: "bytes \<Rightarrow> bytes list" where
  "split_slash [] = [[]]"
| "split_slash (c # cs) =
    (if c = 47 then [] # split_slash cs
     else case split_slash cs of
            [] \<Rightarrow> [[c]]
          | p # ps \<Rightarrow> (c # p) # ps)"

primrec walk_components ::
    "'s vfs \<Rightarrow> fileid3 \<Rightarrow> filename3 list \<Rightarrow> 's \<Rightarrow> ('s, fileid3) vfs_result" where
  "walk_components v fid [] s = (Ok fid, s)"
| "walk_components v fid (component # splits) s =
    (if component = [] then walk_components v fid splits s
     else case vfs_lookup v fid component s of
            (Err e, s) \<Rightarrow> (Err e, s)
          | (Ok fid, s) \<Rightarrow> walk_components v fid splits s)"

definition path_to_id :: "'s vfs \<Rightarrow> bytes \<Rightarrow> 's \<Rightarrow> ('s, fileid3) vfs_result" where
  "path_to_id v path s = walk_components v (vfs_root_dir v) (split_slash path) s"

section \<open>Properties of the default methods\<close>

lemma fh_to_id_eq_Ok: "fh_to_id v fh = Ok fid \<longleftrightarrow> fh = id_to_fh v fid"
proof
  assume *: "fh_to_id v fh = Ok fid"
  then have len: "length (fh_data fh) = 16"
    and gen: "of_le_bytes (take 8 (fh_data fh)) = vfs_generation v"
    and fid: "of_le_bytes (take 8 (drop 8 (fh_data fh))) = fid"
    by (auto simp: fh_to_id_def Let_def split: if_splits)
  have "le_bytes 8 (vfs_generation v) = take 8 (fh_data fh)"
    using le_bytes_of_le_bytes [of "take 8 (fh_data fh)", where 'a = 64] len gen by simp
  moreover have "le_bytes 8 fid = drop 8 (fh_data fh)"
    using le_bytes_of_le_bytes [of "take 8 (drop 8 (fh_data fh))", where 'a = 64] len fid by simp
  ultimately show "fh = id_to_fh v fid" by (simp add: id_to_fh_def)
next
  assume "fh = id_to_fh v fid"
  then show "fh_to_id v fh = Ok fid" by (simp add: fh_to_id_def id_to_fh_def Let_def)
qed

lemma id_to_fh_inj: "id_to_fh v a = id_to_fh v b \<longleftrightarrow> a = b"
  by (metis fh_to_id_eq_Ok sum.inject(2))

text \<open>A handle of another server instance: an older one is stale, any other is bad.\<close>

lemma fh_to_id_other_instance:
  assumes "vfs_generation v' \<noteq> vfs_generation v"
  shows "fh_to_id v (id_to_fh v' fid) =
    Err (if vfs_generation v' < vfs_generation v then NFS3ERR_STALE else NFS3ERR_BADHANDLE)"
  using assms by (auto simp: fh_to_id_def id_to_fh_def Let_def not_less)

lemma split_slash_not_Nil [simp]: "split_slash p \<noteq> []"
  by (induction p) (auto split: list.split)

lemma split_slash_append: "split_slash (p @ 47 # q) = split_slash p @ split_slash q"
  by (induction p) (auto split: list.splits simp: Cons_eq_append_conv)

lemma walk_components_append:
  "walk_components v fid (xs @ ys) s =
    (case walk_components v fid xs s of
       (Err e, s) \<Rightarrow> (Err e, s)
     | (Ok fid', s) \<Rightarrow> walk_components v fid' ys s)"
  by (induction xs arbitrary: fid s) (auto split: prod.split sum.split)

text \<open>Walking \<open>p/q\<close> is walking \<open>p\<close>, then \<open>q\<close> from there; empty components do not move.\<close>

lemma path_to_id_append:
  "path_to_id v (p @ 47 # q) s =
    (case path_to_id v p s of
       (Err e, s) \<Rightarrow> (Err e, s)
     | (Ok fid, s) \<Rightarrow> walk_components v fid (split_slash q) s)"
  by (simp add: path_to_id_def split_slash_append walk_components_append)

lemma path_to_id_slashes: "path_to_id v (replicate n 47) s = (Ok (vfs_root_dir v), s)"
proof -
  have "split_slash (replicate n 47) = replicate (Suc n) []" by (induction n) auto
  moreover have "walk_components v fid (replicate k []) s = (Ok fid, s)" for fid k
    by (induction k) auto
  ultimately show ?thesis by (simp add: path_to_id_def del: replicate_Suc)
qed

text \<open>
  A directory whose listing is \<open>l\<close>: \<open>readdir\<close> from the start returns a prefix of it and says
  whether that is all of it. Then the default \<open>readdir_index\<close> returns the window that starts at
  the index, and rejects an index beyond the end.
\<close>

definition lists_dir :: "'s vfs \<Rightarrow> 's \<Rightarrow> fileid3 \<Rightarrow> DirEntry list \<Rightarrow> bool" where
  "lists_dir v s dirid l \<longleftrightarrow> (\<forall>n > 0. vfs_readdir v dirid 0 n s =
    (Ok \<lparr>rd_entries = take n l, rd_end = (length l \<le> n)\<rparr>, s))"

lemma default_readdir_index_window:
  assumes l: "lists_dir v s dirid l" and n: "0 < n" "i + n \<le> usize_max"
  shows "default_readdir_index v dirid i n s =
    (if i > length l then (Err NFS3ERR_BAD_COOKIE, s)
     else (Ok \<lparr>rd_entries = take n (drop i l), rd_end = (length l \<le> i + n)\<rparr>, s))"
  using l n
  by (auto simp: default_readdir_index_def lists_dir_def saturating_add_def Let_def
      drop_take min_def)

end
