(* ===== verification/Nfs3_Query.thy ===== *)
theory Nfs3_Query
  imports Vfs
begin

text \<open>
  The procedures of NFS version 3 that do not modify the file system, except for the directory
  listings: NULL, GETATTR, LOOKUP, ACCESS, READLINK, READ, FSSTAT, FSINFO and PATHCONF
  (\<open>src/protocol/nfs/v3/*.rs\<close>), and what all procedures share. A procedure takes the
  transaction id, the bytes after the call header, the context and the state of the file system; it
  returns what it wrote or the error that it stopped with, and the new state. Bytes written before
  an error are dropped by the caller, so they are not part of the result.
\<close>

section \<open>Context\<close>

text \<open>
  The part of \<open>rpc::Context\<close> that the handlers read; the tables behind its shared pointers are
  state. \<open>cx_mount_signal\<close> says whether the server was given a channel to report mounts on.
\<close>

record 's rpc_context =
  cx_local_port :: u16
  cx_client_addr :: bytes
  cx_auth :: auth_unix
  cx_vfs :: "'s vfs"
  cx_mount_signal :: bool
  cx_export_name :: bytes

type_synonym written = "io_error + bytes"
type_synonym 's nfs_handler = "u32 \<Rightarrow> bytes \<Rightarrow> 's rpc_context \<Rightarrow> 's \<Rightarrow> written \<times> 's"

section \<open>Replies\<close>

text \<open>The accepted reply, the status of the procedure, and what follows it.\<close>

definition nfs_reply :: "u32 \<Rightarrow> nfsstat3 \<Rightarrow> written list \<Rightarrow> written" where
  "nfs_reply xid stat body =
    ser_seq (ser_rpc_msg (make_success_reply xid) # ser_nfsstat3 stat # body)"

definition wcc_attr_of :: "fattr3 \<Rightarrow> wcc_attr" where
  "wcc_attr_of v = \<lparr>wa_size = fa_size v, wa_mtime = fa_mtime v, wa_ctime = fa_ctime v\<rparr>"

text \<open>
  \<open>match context.vfs.check_access(id, &context.auth, right).await\<close>: the handlers answer
  \<open>NFS3ERR_ACCES\<close> when the right is not granted and the file system's error when there is one, with
  the same attributes after either.
\<close>

definition require_access ::
    "'s rpc_context \<Rightarrow> fileid3 \<Rightarrow> u32 \<Rightarrow> 's \<Rightarrow> ('s, unit) vfs_result" where
  "require_access ctx fid right s =
    (case vfs_check_access (cx_vfs ctx) fid (cx_auth ctx) right s of
      (Err stat, s) \<Rightarrow> (Err stat, s)
    | (Ok granted, s) \<Rightarrow>
        if granted AND right \<noteq> 0 then (Ok (), s) else (Err NFS3ERR_ACCES, s))"

section \<open>Procedures\<close>

definition nfsproc3_null :: "u32 \<Rightarrow> written" where
  "nfsproc3_null xid = ser_rpc_msg (make_success_reply xid)"

definition nfsproc3_getattr :: "'s nfs_handler" where
  "nfsproc3_getattr xid input ctx s =
    (case de_nfs_fh3 input of
      Err e \<Rightarrow> (Err e, s)
    | Ok (handle, _) \<Rightarrow>
    (case fh_to_id (cx_vfs ctx) handle of
      Err stat \<Rightarrow> (nfs_reply xid stat [], s)
    | Ok fid \<Rightarrow>
    (case vfs_getattr (cx_vfs ctx) fid s of
      (Ok fh, s) \<Rightarrow> (nfs_reply xid NFS3_OK [ser_fattr3 fh], s)
    | (Err stat, s) \<Rightarrow> (nfs_reply xid stat [], s))))"

definition nfsproc3_lookup :: "'s nfs_handler" where
  "nfsproc3_lookup xid input ctx s =
    (case de_diropargs3 input of
      Err e \<Rightarrow> (Err e, s)
    | Ok (dirops, _) \<Rightarrow>
    (case fh_to_id (cx_vfs ctx) (da_dir dirops) of
      Err stat \<Rightarrow> (nfs_reply xid stat [ser_post_op_attr None], s)
    | Ok dirid \<Rightarrow>
    (case getattr_ok (cx_vfs ctx) dirid s of (dir_attr, s) \<Rightarrow>
    (case require_access ctx dirid ACCESS3_LOOKUP s of
      (Err stat, s) \<Rightarrow> (nfs_reply xid stat [ser_post_op_attr dir_attr], s)
    | (Ok _, s) \<Rightarrow>
    (case vfs_lookup (cx_vfs ctx) dirid (da_name dirops) s of
      (Ok fid, s) \<Rightarrow>
        (case getattr_ok (cx_vfs ctx) fid s of (obj_attr, s) \<Rightarrow>
          (nfs_reply xid NFS3_OK
            [ser_nfs_fh3 (id_to_fh (cx_vfs ctx) fid), ser_post_op_attr obj_attr,
             ser_post_op_attr dir_attr], s))
    | (Err stat, s) \<Rightarrow> (nfs_reply xid stat [ser_post_op_attr dir_attr], s))))))"

text \<open>
  The two checks of the source that the attributes are present cannot fail after the match
  before them, which returns unless they are.
\<close>

definition nfsproc3_access :: "'s nfs_handler" where
  "nfsproc3_access xid input ctx s =
    (case de_nfs_fh3 input of
      Err e \<Rightarrow> (Err e, s)
    | Ok (handle, input) \<Rightarrow>
    (case de_u32 input of
      Err e \<Rightarrow> (Err e, s)
    | Ok (access, _) \<Rightarrow>
    (case fh_to_id (cx_vfs ctx) handle of
      Err stat \<Rightarrow> (nfs_reply xid stat [ser_post_op_attr None], s)
    | Ok fid \<Rightarrow>
    (case vfs_getattr (cx_vfs ctx) fid s of
      (Err stat, s) \<Rightarrow> (nfs_reply xid stat [ser_post_op_attr None], s)
    | (Ok attr, s) \<Rightarrow>
    (case vfs_check_access (cx_vfs ctx) fid (cx_auth ctx) access s of
      (Err stat, s) \<Rightarrow> (nfs_reply xid stat [ser_post_op_attr (Some attr)], s)
    | (Ok granted_access, s) \<Rightarrow>
        (nfs_reply xid NFS3_OK [ser_post_op_attr (Some attr), ser_u32 granted_access], s))))))"

definition nfsproc3_readlink :: "'s nfs_handler" where
  "nfsproc3_readlink xid input ctx s =
    (case de_nfs_fh3 input of
      Err e \<Rightarrow> (Err e, s)
    | Ok (handle, _) \<Rightarrow>
    (case fh_to_id (cx_vfs ctx) handle of
      Err stat \<Rightarrow> (nfs_reply xid stat [ser_post_op_attr None], s)
    | Ok fid \<Rightarrow>
    (case vfs_getattr (cx_vfs ctx) fid s of
      (Err stat, s) \<Rightarrow> (nfs_reply xid stat [ser_post_op_attr None], s)
    | (Ok symlink_attr, s) \<Rightarrow>
    (case vfs_readlink (cx_vfs ctx) fid s of
      (Ok path, s) \<Rightarrow>
        (nfs_reply xid NFS3_OK [ser_post_op_attr (Some symlink_attr), ser_nfsstring path], s)
    | (Err stat, s) \<Rightarrow> (nfs_reply xid stat [ser_post_op_attr (Some symlink_attr)], s)))))"

definition read_count :: "'s vfs \<Rightarrow> count3 \<Rightarrow> count3" where
  "read_count v count =
    (let max_read = min (fsinfo_rtmax (vfs_limits_of v)) (of_nat MAX_BLOCK_SIZE)
     in min count max_read)"

definition nfsproc3_read :: "'s nfs_handler" where
  "nfsproc3_read xid input ctx s =
    (case de_READ3args input of
      Err e \<Rightarrow> (Err e, s)
    | Ok (args, _) \<Rightarrow>
    (case fh_to_id (cx_vfs ctx) (rda_file args) of
      Err stat \<Rightarrow> (nfs_reply xid stat [ser_post_op_attr None], s)
    | Ok fid \<Rightarrow>
    (let count = read_count (cx_vfs ctx) (rda_count args) in
    (case getattr_ok (cx_vfs ctx) fid s of (obj_attr, s) \<Rightarrow>
    (case require_access ctx fid ACCESS3_READ s of
      (Err stat, s) \<Rightarrow> (nfs_reply xid stat [ser_post_op_attr obj_attr], s)
    | (Ok _, s) \<Rightarrow>
    (case vfs_read (cx_vfs ctx) fid (rda_offset args) count s of
      (Ok (bytes, eof), s) \<Rightarrow>
        (nfs_reply xid NFS3_OK [ser_READ3resok
          \<lparr>rdr_file_attributes = obj_attr, rdr_count = of_nat (length bytes), rdr_eof = eof,
           rdr_data = bytes\<rparr>], s)
    | (Err stat, s) \<Rightarrow> (nfs_reply xid stat [ser_post_op_attr obj_attr], s)))))))"

definition nfsproc3_fsstat :: "'s nfs_handler" where
  "nfsproc3_fsstat xid input ctx s =
    (case de_nfs_fh3 input of
      Err e \<Rightarrow> (Err e, s)
    | Ok (handle, _) \<Rightarrow>
    (case fh_to_id (cx_vfs ctx) handle of
      Err stat \<Rightarrow> (nfs_reply xid stat [ser_post_op_attr None], s)
    | Ok fid \<Rightarrow>
    (case vfs_fsstat (cx_vfs ctx) fid s of
      (Ok res, s) \<Rightarrow> (nfs_reply xid NFS3_OK [ser_FSSTAT3resok res], s)
    | (Err stat, s) \<Rightarrow>
        (case getattr_ok (cx_vfs ctx) fid s of (obj_attr, s) \<Rightarrow>
          (nfs_reply xid stat [ser_post_op_attr obj_attr], s)))))"

definition nfsproc3_fsinfo :: "'s nfs_handler" where
  "nfsproc3_fsinfo xid input ctx s =
    (case de_nfs_fh3 input of
      Err e \<Rightarrow> (Err e, s)
    | Ok (handle, _) \<Rightarrow>
    (case fh_to_id (cx_vfs ctx) handle of
      Err stat \<Rightarrow> (nfs_reply xid stat [ser_post_op_attr None], s)
    | Ok fid \<Rightarrow>
    (case vfs_fsinfo (cx_vfs ctx) fid s of
      (Ok fsinfo, s) \<Rightarrow> (nfs_reply xid NFS3_OK [ser_fsinfo3 fsinfo], s)
    | (Err stat, s) \<Rightarrow> (nfs_reply xid stat [ser_post_op_attr None], s))))"

definition nfsproc3_pathconf :: "'s nfs_handler" where
  "nfsproc3_pathconf xid input ctx s =
    (case de_nfs_fh3 input of
      Err e \<Rightarrow> (Err e, s)
    | Ok (handle, _) \<Rightarrow>
    (case fh_to_id (cx_vfs ctx) handle of
      Err stat \<Rightarrow> (nfs_reply xid stat [ser_post_op_attr None], s)
    | Ok fid \<Rightarrow>
    (case getattr_ok (cx_vfs ctx) fid s of (obj_attr, s) \<Rightarrow>
      (nfs_reply xid NFS3_OK [ser_PATHCONF3resok
        \<lparr>pc_obj_attributes = obj_attr,
         pc_linkmax = pathconf_linkmax (vfs_limits_of (cx_vfs ctx)),
         pc_name_max = pathconf_name_max (vfs_limits_of (cx_vfs ctx)),
         pc_no_trunc = pathconf_no_trunc (vfs_limits_of (cx_vfs ctx)),
         pc_chown_restricted = pathconf_chown_restricted (vfs_limits_of (cx_vfs ctx)),
         pc_case_insensitive = pathconf_case_insensitive (vfs_limits_of (cx_vfs ctx)),
         pc_case_preserving = pathconf_case_preserving (vfs_limits_of (cx_vfs ctx))\<rparr>], s))))"

section \<open>The shape of replies\<close>

text \<open>The message answers the call \<open>xid\<close>: it decodes as a reply with that transaction id.\<close>

definition is_reply :: "u32 \<Rightarrow> bytes \<Rightarrow> bool" where
  "is_reply xid out \<longleftrightarrow>
    (case de_rpc_msg out of
      Ok (msg, _) \<Rightarrow> rm_xid msg = xid \<and> (case rm_body msg of REPLY _ \<Rightarrow> True | CALL _ \<Rightarrow> False)
    | Err _ \<Rightarrow> False)"

text \<open>The status of a procedure in a reply: what follows the accepted header.\<close>

definition reply_status :: "bytes \<Rightarrow> nfsstat3 option" where
  "reply_status out =
    (case de_bind de_rpc_msg (\<lambda>_. de_nfsstat3) out of Ok (stat, _) \<Rightarrow> Some stat | Err _ \<Rightarrow> None)"

lemma ok_success_reply: "ok_rpc_msg (make_success_reply xid)"
  by (simp add: make_success_reply_def ok_rpc_msg_def ok_rpc_body_def ok_reply_body_def
      ok_accepted_reply_def ok_opaque_auth_def opaque_auth_default_def ok_opaque_def)

lemma nfs_reply_Ok:
  assumes "nfs_reply xid stat body = Ok out"
  shows "\<exists>r r'. de_rpc_msg out = Ok (make_success_reply xid, r) \<and> de_nfsstat3 r = Ok (stat, r') \<and>
    ser_seq body = Ok r'"
proof -
  obtain h t b where out: "ser_rpc_msg (make_success_reply xid) = Ok h"
      "ser_nfsstat3 stat = Ok t" "ser_seq body = Ok b" "out = h @ t @ b"
    using assms by (auto simp: nfs_reply_def ser_then_Ok)
  have "de_rpc_msg out = Ok (make_success_reply xid, t @ b)"
    using rpc_msg.dec_enc [OF ok_success_reply out(1)] out(4) by simp
  moreover have "de_nfsstat3 (t @ b) = Ok (stat, b)"
    using nfsstat3.dec_enc [OF TrueI out(2)] .
  ultimately show ?thesis using out(3) by blast
qed

lemma is_replyI: "ser_rpc_msg m = Ok h \<Longrightarrow> ok_rpc_msg m \<Longrightarrow> rm_xid m = xid \<Longrightarrow>
  rm_body m = REPLY b \<Longrightarrow> is_reply xid (h @ r)"
  by (simp add: is_reply_def rpc_msg.dec_enc)

lemma nfs_reply_is_reply: "nfs_reply xid stat body = Ok out \<Longrightarrow> is_reply xid out"
  by (drule nfs_reply_Ok) (auto simp: is_reply_def make_success_reply_def)

lemma nfs_reply_status: "nfs_reply xid stat body = Ok out \<Longrightarrow> reply_status out = Some stat"
  by (drule nfs_reply_Ok) (auto simp: reply_status_def de_bind_def)

text \<open>The reply of every procedure below; a collection, for the dispatcher's contract.\<close>

named_theorems handler_replies

lemma null_reply [handler_replies]: "nfsproc3_null xid = Ok out \<Longrightarrow> is_reply xid out"
  using is_replyI [OF _ ok_success_reply, where r = "[]"]
  by (simp add: nfsproc3_null_def make_success_reply_def)

lemma getattr_reply [handler_replies]:
  "nfsproc3_getattr xid input ctx s = (Ok out, s') \<Longrightarrow> is_reply xid out"
  by (auto simp: nfsproc3_getattr_def split: sum.splits prod.splits intro: nfs_reply_is_reply)

lemma lookup_reply [handler_replies]:
  "nfsproc3_lookup xid input ctx s = (Ok out, s') \<Longrightarrow> is_reply xid out"
  by (auto simp: nfsproc3_lookup_def split: sum.splits prod.splits intro: nfs_reply_is_reply)

lemma access_reply [handler_replies]:
  "nfsproc3_access xid input ctx s = (Ok out, s') \<Longrightarrow> is_reply xid out"
  by (auto simp: nfsproc3_access_def split: sum.splits prod.splits intro: nfs_reply_is_reply)

lemma readlink_reply [handler_replies]:
  "nfsproc3_readlink xid input ctx s = (Ok out, s') \<Longrightarrow> is_reply xid out"
  by (auto simp: nfsproc3_readlink_def split: sum.splits prod.splits intro: nfs_reply_is_reply)

lemma read_reply [handler_replies]:
  "nfsproc3_read xid input ctx s = (Ok out, s') \<Longrightarrow> is_reply xid out"
  by (auto simp: nfsproc3_read_def Let_def split: sum.splits prod.splits
      intro: nfs_reply_is_reply)

lemma fsstat_reply [handler_replies]:
  "nfsproc3_fsstat xid input ctx s = (Ok out, s') \<Longrightarrow> is_reply xid out"
  by (auto simp: nfsproc3_fsstat_def split: sum.splits prod.splits intro: nfs_reply_is_reply)

lemma fsinfo_reply [handler_replies]:
  "nfsproc3_fsinfo xid input ctx s = (Ok out, s') \<Longrightarrow> is_reply xid out"
  by (auto simp: nfsproc3_fsinfo_def split: sum.splits prod.splits intro: nfs_reply_is_reply)

lemma pathconf_reply [handler_replies]:
  "nfsproc3_pathconf xid input ctx s = (Ok out, s') \<Longrightarrow> is_reply xid out"
  by (auto simp: nfsproc3_pathconf_def split: sum.splits prod.splits intro: nfs_reply_is_reply)

end
