(* ===== verification/Nfs3_Modify.thy ===== *)
theory Nfs3_Modify
  imports Nfs3_Query
begin

text \<open>
  The procedures of NFS version 3 that modify the file system: SETATTR, WRITE, CREATE, MKDIR,
  SYMLINK, MKNOD, REMOVE, RMDIR, RENAME, LINK and COMMIT (\<open>src/protocol/nfs/v3/*.rs\<close>).
\<close>

text \<open>\<open>matches!(context.vfs.capabilities(), vfs::Capabilities::ReadWrite)\<close>\<close>

definition can_write :: "'s rpc_context \<Rightarrow> bool" where
  "can_write ctx \<longleftrightarrow> vfs_capabilities (cx_vfs ctx) = ReadWrite"

text \<open>The attributes of an object before and after an operation on it.\<close>

definition ser_wcc :: "fattr3 option \<Rightarrow> post_op_attr \<Rightarrow> written" where
  "ser_wcc before after =
    ser_wcc_data \<lparr>wcc_before = map_option wcc_attr_of before, wcc_after = after\<rparr>"

definition ser_wcc_default :: written where
  "ser_wcc_default = ser_wcc_data wcc_data_default"

definition nfsproc3_setattr :: "'s nfs_handler" where
  "nfsproc3_setattr xid input ctx s =
    (if \<not> can_write ctx then (nfs_reply xid NFS3ERR_ROFS [ser_wcc_default], s)
     else
    (case de_SETATTR3args input of
      Err e \<Rightarrow> (Err e, s)
    | Ok (args, _) \<Rightarrow>
    (case fh_to_id (cx_vfs ctx) (sga_object args) of
      Err stat \<Rightarrow> (nfs_reply xid stat [ser_wcc_default], s)
    | Ok fid \<Rightarrow>
    (case vfs_getattr (cx_vfs ctx) fid s of
      (Err stat, s) \<Rightarrow> (nfs_reply xid stat [ser_wcc_default], s)
    | (Ok current_attr, s) \<Rightarrow>
    (let ctime = fa_ctime current_attr;
         requires_modify = (sa_size (sga_new_attribute args) \<noteq> None) in
    (case (if requires_modify then require_access ctx fid ACCESS3_MODIFY s else (Ok (), s)) of
      (Err stat, s) \<Rightarrow>
        (nfs_reply xid stat [ser_wcc (Some current_attr) (Some current_attr)], s)
    | (Ok _, s) \<Rightarrow>
    (if (case sga_guard args of
           Some c \<Rightarrow> nt_seconds c \<noteq> nt_seconds ctime \<or> nt_nseconds c \<noteq> nt_nseconds ctime
         | None \<Rightarrow> False)
     then (nfs_reply xid NFS3ERR_NOT_SYNC [ser_wcc_default], s)
     else
    (case vfs_setattr (cx_vfs ctx) fid (sga_new_attribute args) s of
      (Ok post_op_attr, s) \<Rightarrow>
        (nfs_reply xid NFS3_OK [ser_wcc (Some current_attr) (Some post_op_attr)], s)
    | (Err stat, s) \<Rightarrow> (nfs_reply xid stat [ser_wcc_default], s)))))))))"

text \<open>\<open>FromPrimitive::from_u32\<close> for \<open>stable_how\<close>\<close>

definition stable_how_from_u32 :: "u32 \<Rightarrow> stable_how option" where
  "stable_how_from_u32 n = List.find (\<lambda>x. stable_how_code x = n) stable_how_variants"

definition nfsproc3_write :: "'s nfs_handler" where
  "nfsproc3_write xid input ctx s =
    (if \<not> can_write ctx then (nfs_reply xid NFS3ERR_ROFS [ser_wcc_default], s)
     else
    (case de_WRITE3args input of
      Err e \<Rightarrow> (Err e, s)
    | Ok (args, _) \<Rightarrow>
    (if length (wra_data args) \<noteq> unat (wra_count args)
     then (ser_rpc_msg (garbage_args_reply_message xid), s)
     else
    (case fh_to_id (cx_vfs ctx) (wra_file args) of
      Err stat \<Rightarrow> (nfs_reply xid stat [ser_wcc_default], s)
    | Ok fid \<Rightarrow>
    (case getattr_ok (cx_vfs ctx) fid s of (pre_attr, s) \<Rightarrow>
    (case require_access ctx fid ACCESS3_MODIFY s of
      (Err stat, s) \<Rightarrow> (nfs_reply xid stat [ser_wcc pre_attr None], s)
    | (Ok _, s) \<Rightarrow>
    (case stable_how_from_u32 (wra_stable args) of
      None \<Rightarrow> (ser_rpc_msg (garbage_args_reply_message xid), s)
    | Some how \<Rightarrow>
    (case vfs_write (cx_vfs ctx) fid (wra_offset args) (wra_data args) how s of
      (Ok (fattr, committed, count), s) \<Rightarrow>
        (nfs_reply xid NFS3_OK [ser_WRITE3resok
          \<lparr>wrr_file_wcc = \<lparr>wcc_before = map_option wcc_attr_of pre_attr, wcc_after = Some fattr\<rparr>,
           wrr_count = count, wrr_committed = committed, wrr_verf = server_id (cx_vfs ctx)\<rparr>], s)
    | (Err stat, s) \<Rightarrow> (nfs_reply xid stat [ser_wcc_default], s)))))))))"

text \<open>
  CREATE reads the attributes or the verifier after it has checked the directory. \<open>create_object\<close>
  is the part of the handler that creates the file; it yields the file's id and attributes.
\<close>

datatype create_how =
  CreateUnchecked sattr3 | CreateGuarded sattr3 | CreateExclusive createverf3

definition read_create_how :: "createmode3 \<Rightarrow> create_how de" where
  "read_create_how createhow =
    (case createhow of
      UNCHECKED \<Rightarrow> de_bind de_sattr3 (\<lambda>a. de_return (CreateUnchecked a))
    | GUARDED \<Rightarrow> de_bind de_sattr3 (\<lambda>a. de_return (CreateGuarded a))
    | EXCLUSIVE \<Rightarrow> de_bind (de_opaque_fixed 8) (\<lambda>v. de_return (CreateExclusive v)))"

definition create_new ::
    "'s rpc_context \<Rightarrow> fileid3 \<Rightarrow> filename3 \<Rightarrow> sattr3 \<Rightarrow> 's \<Rightarrow>
      ((nfsstat3 + fileid3) \<times> post_op_attr) \<times> 's" where
  "create_new ctx dirid name attr s =
    (case vfs_create (cx_vfs ctx) dirid name attr s of
      (Ok (fid, fattr), s) \<Rightarrow> ((Ok fid, Some fattr), s)
    | (Err stat, s) \<Rightarrow> ((Err stat, None), s))"

definition create_object ::
    "'s rpc_context \<Rightarrow> fileid3 \<Rightarrow> filename3 \<Rightarrow> create_how \<Rightarrow> 's \<Rightarrow>
      ((nfsstat3 + fileid3) \<times> post_op_attr) \<times> 's" where
  "create_object ctx dirid name how s =
    (case how of
      CreateExclusive verifier \<Rightarrow>
        (case vfs_create_exclusive (cx_vfs ctx) dirid name verifier s of
          (fid, s) \<Rightarrow> ((fid, None), s))
    | CreateUnchecked target_attributes \<Rightarrow>
        (case vfs_lookup (cx_vfs ctx) dirid name s of
          (Ok existing_id, s) \<Rightarrow>
            (case vfs_setattr (cx_vfs ctx) existing_id target_attributes s of
              (Ok attr, s) \<Rightarrow> ((Ok existing_id, Some attr), s)
            | (Err stat, s) \<Rightarrow> ((Err stat, None), s))
        | (Err _, s) \<Rightarrow> create_new ctx dirid name target_attributes s)
    | CreateGuarded target_attributes \<Rightarrow> create_new ctx dirid name target_attributes s)"

text \<open>The last part of CREATE: create, read the directory again, reply.\<close>

definition create_and_reply ::
    "u32 \<Rightarrow> 's rpc_context \<Rightarrow> fileid3 \<Rightarrow> fattr3 \<Rightarrow> filename3 \<Rightarrow> create_how \<Rightarrow> 's \<Rightarrow> written \<times> 's" where
  "create_and_reply xid ctx dirid dir_attr name how s =
    (case create_object ctx dirid name how s of ((fid, postopattr), s) \<Rightarrow>
    (case getattr_ok (cx_vfs ctx) dirid s of (post_dir_attr, s) \<Rightarrow>
    (case fid of
      Ok fid \<Rightarrow>
        (nfs_reply xid NFS3_OK
          [ser_post_op_fh3 (Some (id_to_fh (cx_vfs ctx) fid)), ser_post_op_attr postopattr,
           ser_wcc (Some dir_attr) post_dir_attr], s)
    | Err stat \<Rightarrow> (nfs_reply xid stat [ser_wcc (Some dir_attr) post_dir_attr], s))))"

definition nfsproc3_create :: "'s nfs_handler" where
  "nfsproc3_create xid input ctx s =
    (if \<not> can_write ctx then (nfs_reply xid NFS3ERR_ROFS [ser_wcc_default], s)
     else
    (case de_diropargs3 input of
      Err e \<Rightarrow> (Err e, s)
    | Ok (dirops, input) \<Rightarrow>
    (case de_createmode3 input of
      Err e \<Rightarrow> (Err e, s)
    | Ok (createhow, input) \<Rightarrow>
    (case fh_to_id (cx_vfs ctx) (da_dir dirops) of
      Err stat \<Rightarrow> (nfs_reply xid stat [ser_wcc_default], s)
    | Ok dirid \<Rightarrow>
    (case vfs_getattr (cx_vfs ctx) dirid s of
      (Err stat, s) \<Rightarrow> (nfs_reply xid stat [ser_wcc_default], s)
    | (Ok dir_attr, s) \<Rightarrow>
    (case require_access ctx dirid ACCESS3_MODIFY s of
      (Err stat, s) \<Rightarrow> (nfs_reply xid stat [ser_wcc (Some dir_attr) (Some dir_attr)], s)
    | (Ok _, s) \<Rightarrow>
    (case read_create_how createhow input of
      Err e \<Rightarrow> (Err e, s)
    | Ok (how, _) \<Rightarrow>
    (case how of
      CreateGuarded _ \<Rightarrow>
        (case vfs_lookup (cx_vfs ctx) dirid (da_name dirops) s of
          (Ok _, s) \<Rightarrow>
            (case getattr_ok (cx_vfs ctx) dirid s of (post_dir_attr, s) \<Rightarrow>
              (nfs_reply xid NFS3ERR_EXIST [ser_wcc (Some dir_attr) post_dir_attr], s))
        | (Err _, s) \<Rightarrow> create_and_reply xid ctx dirid dir_attr (da_name dirops) how s)
    | _ \<Rightarrow> create_and_reply xid ctx dirid dir_attr (da_name dirops) how s))))))))"

text \<open>The attributes of MKDIR are applied after the directory is made, when there are any.\<close>

definition has_attrs :: "sattr3 \<Rightarrow> bool" where
  "has_attrs a \<longleftrightarrow> sa_mode a \<noteq> None \<or> sa_uid a \<noteq> None \<or> sa_gid a \<noteq> None \<or> sa_size a \<noteq> None \<or>
    sa_atime a \<noteq> ATIME_DONT_CHANGE \<or> sa_mtime a \<noteq> MTIME_DONT_CHANGE"

definition nfsproc3_mkdir :: "'s nfs_handler" where
  "nfsproc3_mkdir xid input ctx s =
    (if \<not> can_write ctx then (nfs_reply xid NFS3ERR_ROFS [ser_wcc_default], s)
     else
    (case de_MKDIR3args input of
      Err e \<Rightarrow> (Err e, s)
    | Ok (args, _) \<Rightarrow>
    (case fh_to_id (cx_vfs ctx) (da_dir (mka_dirops args)) of
      Err stat \<Rightarrow> (nfs_reply xid stat [ser_wcc_default], s)
    | Ok dirid \<Rightarrow>
    (case vfs_getattr (cx_vfs ctx) dirid s of
      (Err stat, s) \<Rightarrow> (nfs_reply xid stat [ser_wcc_default], s)
    | (Ok dir_attr, s) \<Rightarrow>
    (case require_access ctx dirid ACCESS3_MODIFY s of
      (Err stat, s) \<Rightarrow> (nfs_reply xid stat [ser_wcc (Some dir_attr) (Some dir_attr)], s)
    | (Ok _, s) \<Rightarrow>
    (case vfs_mkdir (cx_vfs ctx) dirid (da_name (mka_dirops args)) s of (res, s) \<Rightarrow>
    (case getattr_ok (cx_vfs ctx) dirid s of (post_dir_attr, s) \<Rightarrow>
    (case res of
      Ok (fid, fattr) \<Rightarrow>
        (case (if has_attrs (mka_attributes args)
               then vfs_setattr (cx_vfs ctx) fid (mka_attributes args) s
               else (Ok fattr, s)) of
          (Err stat, s) \<Rightarrow> (nfs_reply xid stat [ser_wcc (Some dir_attr) post_dir_attr], s)
        | (Ok applied_attr, s) \<Rightarrow>
            (nfs_reply xid NFS3_OK
              [ser_post_op_fh3 (Some (id_to_fh (cx_vfs ctx) fid)),
               ser_post_op_attr (Some applied_attr), ser_wcc (Some dir_attr) post_dir_attr], s))
    | Err stat \<Rightarrow> (nfs_reply xid stat [ser_wcc (Some dir_attr) post_dir_attr], s)))))))))"

definition nfsproc3_symlink :: "'s nfs_handler" where
  "nfsproc3_symlink xid input ctx s =
    (if \<not> can_write ctx then (nfs_reply xid NFS3ERR_ROFS [ser_wcc_default], s)
     else
    (case de_SYMLINK3args input of
      Err e \<Rightarrow> (Err e, s)
    | Ok (args, _) \<Rightarrow>
    (case fh_to_id (cx_vfs ctx) (da_dir (sya_dirops args)) of
      Err stat \<Rightarrow> (nfs_reply xid stat [ser_wcc_default], s)
    | Ok dirid \<Rightarrow>
    (case vfs_getattr (cx_vfs ctx) dirid s of
      (Err stat, s) \<Rightarrow> (nfs_reply xid stat [ser_wcc_default], s)
    | (Ok dir_attr, s) \<Rightarrow>
    (case require_access ctx dirid ACCESS3_MODIFY s of
      (Err stat, s) \<Rightarrow> (nfs_reply xid stat [ser_wcc (Some dir_attr) (Some dir_attr)], s)
    | (Ok _, s) \<Rightarrow>
    (case vfs_symlink (cx_vfs ctx) dirid (da_name (sya_dirops args))
        (sl_symlink_data (sya_symlink args)) (sl_symlink_attributes (sya_symlink args)) s of
      (res, s) \<Rightarrow>
    (case getattr_ok (cx_vfs ctx) dirid s of (post_dir_attr, s) \<Rightarrow>
    (case res of
      Ok (fid, fattr) \<Rightarrow>
        (nfs_reply xid NFS3_OK
          [ser_post_op_fh3 (Some (id_to_fh (cx_vfs ctx) fid)),
           ser_post_op_attr (Some fattr), ser_wcc (Some dir_attr) post_dir_attr], s)
    | Err stat \<Rightarrow> (nfs_reply xid stat [ser_wcc (Some dir_attr) post_dir_attr], s)))))))))"

text \<open>What MKNOD makes of its argument: the type, device numbers and attributes, or nothing.\<close>

definition specdata3_default :: specdata3 where
  "specdata3_default = \<lparr>sd_specdata1 = 0, sd_specdata2 = 0\<rparr>"

definition mknod_args :: "mknoddata3 \<Rightarrow> (ftype3 \<times> specdata3 \<times> sattr3) option" where
  "mknod_args what =
    (let pipe_attrs = (case mk_pipe_attributes what of Some a \<Rightarrow> a | None \<Rightarrow> sattr3_default) in
     if mk_mknod_type what \<in> {NF3CHR, NF3BLK} then
       (case mk_device what of
         Some device \<Rightarrow> Some (mk_mknod_type what, dd_spec device, dd_dev_attributes device)
       | None \<Rightarrow> None)
     else if mk_mknod_type what \<in> {NF3SOCK, NF3FIFO} then
       Some (mk_mknod_type what, specdata3_default, pipe_attrs)
     else None)"

definition nfsproc3_mknod :: "'s nfs_handler" where
  "nfsproc3_mknod xid input ctx s =
    (if \<not> can_write ctx then (nfs_reply xid NFS3ERR_ROFS [ser_wcc_default], s)
     else
    (case de_MKNOD3args input of
      Err e \<Rightarrow> (Err e, s)
    | Ok (args, _) \<Rightarrow>
    (case fh_to_id (cx_vfs ctx) (da_dir (mna_where_dir args)) of
      Err stat \<Rightarrow> (nfs_reply xid stat [ser_wcc_default], s)
    | Ok dirid \<Rightarrow>
    (case vfs_getattr (cx_vfs ctx) dirid s of
      (Err stat, s) \<Rightarrow> (nfs_reply xid stat [ser_wcc_default], s)
    | (Ok dir_attr, s) \<Rightarrow>
    (case require_access ctx dirid ACCESS3_MODIFY s of
      (Err stat, s) \<Rightarrow> (nfs_reply xid stat [ser_wcc (Some dir_attr) (Some dir_attr)], s)
    | (Ok _, s) \<Rightarrow>
    (case mknod_args (mna_what args) of
      None \<Rightarrow>
        (case getattr_ok (cx_vfs ctx) dirid s of (post_dir_attr, s) \<Rightarrow>
          (nfs_reply xid NFS3ERR_INVAL [ser_wcc (Some dir_attr) post_dir_attr], s))
    | Some (ftype, specdata, attrs) \<Rightarrow>
    (case vfs_mknod (cx_vfs ctx) dirid (da_name (mna_where_dir args)) ftype specdata attrs s of
      (Ok (fid, fattr), s) \<Rightarrow>
        (case getattr_ok (cx_vfs ctx) dirid s of (post_dir_attr, s) \<Rightarrow>
          (nfs_reply xid NFS3_OK
            [ser_post_op_fh3 (Some (id_to_fh (cx_vfs ctx) fid)),
             ser_post_op_attr (Some fattr), ser_wcc (Some dir_attr) post_dir_attr], s))
    | (Err stat, s) \<Rightarrow>
        (case getattr_ok (cx_vfs ctx) dirid s of (post_dir_attr, s) \<Rightarrow>
          (nfs_reply xid stat [ser_wcc (Some dir_attr) post_dir_attr], s)))))))))"

definition nfsproc3_remove :: "'s nfs_handler" where
  "nfsproc3_remove xid input ctx s =
    (if \<not> can_write ctx then (nfs_reply xid NFS3ERR_ROFS [ser_wcc_default], s)
     else
    (case de_diropargs3 input of
      Err e \<Rightarrow> (Err e, s)
    | Ok (args, _) \<Rightarrow>
    (case fh_to_id (cx_vfs ctx) (da_dir args) of
      Err stat \<Rightarrow> (nfs_reply xid stat [ser_wcc_default], s)
    | Ok dirid \<Rightarrow>
    (case vfs_getattr (cx_vfs ctx) dirid s of
      (Err stat, s) \<Rightarrow> (nfs_reply xid stat [ser_wcc_default], s)
    | (Ok dir_attr, s) \<Rightarrow>
    (case require_access ctx dirid ACCESS3_MODIFY s of
      (Err stat, s) \<Rightarrow> (nfs_reply xid stat [ser_wcc (Some dir_attr) (Some dir_attr)], s)
    | (Ok _, s) \<Rightarrow>
    (case vfs_remove (cx_vfs ctx) dirid (da_name args) s of (res, s) \<Rightarrow>
    (case getattr_ok (cx_vfs ctx) dirid s of (post_dir_attr, s) \<Rightarrow>
    (case res of
      Ok _ \<Rightarrow> (nfs_reply xid NFS3_OK [ser_wcc (Some dir_attr) post_dir_attr], s)
    | Err stat \<Rightarrow> (nfs_reply xid stat [ser_wcc (Some dir_attr) post_dir_attr], s)))))))))"

text \<open>The failure replies of RMDIR after the directory was checked read its attributes again.\<close>

definition rmdir_fail ::
    "u32 \<Rightarrow> 's rpc_context \<Rightarrow> fileid3 \<Rightarrow> fattr3 \<Rightarrow> nfsstat3 \<Rightarrow> 's \<Rightarrow> written \<times> 's" where
  "rmdir_fail xid ctx dirid dir_attr stat s =
    (case getattr_ok (cx_vfs ctx) dirid s of (post_dir_attr, s) \<Rightarrow>
      (nfs_reply xid stat [ser_wcc (Some dir_attr) post_dir_attr], s))"

definition nfsproc3_rmdir :: "'s nfs_handler" where
  "nfsproc3_rmdir xid input ctx s =
    (if \<not> can_write ctx then (nfs_reply xid NFS3ERR_ROFS [ser_wcc_default], s)
     else
    (case de_diropargs3 input of
      Err e \<Rightarrow> (Err e, s)
    | Ok (args, _) \<Rightarrow>
    (case fh_to_id (cx_vfs ctx) (da_dir args) of
      Err stat \<Rightarrow> (nfs_reply xid stat [ser_wcc_default], s)
    | Ok dirid \<Rightarrow>
    (case vfs_getattr (cx_vfs ctx) dirid s of
      (Err stat, s) \<Rightarrow> (nfs_reply xid stat [ser_wcc_default], s)
    | (Ok dir_attr, s) \<Rightarrow>
    (case require_access ctx dirid ACCESS3_MODIFY s of
      (Err stat, s) \<Rightarrow> (nfs_reply xid stat [ser_wcc (Some dir_attr) (Some dir_attr)], s)
    | (Ok _, s) \<Rightarrow>
    (case vfs_lookup (cx_vfs ctx) dirid (da_name args) s of
      (Err stat, s) \<Rightarrow> rmdir_fail xid ctx dirid dir_attr stat s
    | (Ok target_id, s) \<Rightarrow>
    (case vfs_getattr (cx_vfs ctx) target_id s of
      (Err stat, s) \<Rightarrow> rmdir_fail xid ctx dirid dir_attr stat s
    | (Ok target_attr, s) \<Rightarrow>
    (if fa_ftype target_attr \<noteq> NF3DIR then rmdir_fail xid ctx dirid dir_attr NFS3ERR_NOTDIR s
     else
    (case vfs_remove (cx_vfs ctx) dirid (da_name args) s of (res, s) \<Rightarrow>
    (case getattr_ok (cx_vfs ctx) dirid s of (post_dir_attr, s) \<Rightarrow>
    (case res of
      Ok _ \<Rightarrow> (nfs_reply xid NFS3_OK [ser_wcc (Some dir_attr) post_dir_attr], s)
    | Err stat \<Rightarrow> (nfs_reply xid stat [ser_wcc (Some dir_attr) post_dir_attr], s))))))))))))"

text \<open>
  The two permission checks of RENAME are both made; an error of the first counts before one of
  the second.
\<close>

definition rename_access :: "(nfsstat3 + u32) \<Rightarrow> (nfsstat3 + u32) \<Rightarrow> nfsstat3 + unit" where
  "rename_access from_access to_access =
    (case (from_access, to_access) of
      (Ok from_granted, Ok to_granted) \<Rightarrow>
        if from_granted AND ACCESS3_MODIFY \<noteq> 0 \<and> to_granted AND ACCESS3_MODIFY \<noteq> 0
        then Ok () else Err NFS3ERR_ACCES
    | (Err stat, _) \<Rightarrow> Err stat
    | (_, Err stat) \<Rightarrow> Err stat)"

definition nfsproc3_rename :: "'s nfs_handler" where
  "nfsproc3_rename xid input ctx s =
    (if \<not> can_write ctx then (nfs_reply xid NFS3ERR_ROFS [ser_wcc_default], s)
     else
    (case de_diropargs3 input of
      Err e \<Rightarrow> (Err e, s)
    | Ok (fromdirops, input) \<Rightarrow>
    (case de_diropargs3 input of
      Err e \<Rightarrow> (Err e, s)
    | Ok (todirops, _) \<Rightarrow>
    (case fh_to_id (cx_vfs ctx) (da_dir fromdirops) of
      Err stat \<Rightarrow> (nfs_reply xid stat [ser_wcc_default, ser_wcc_default], s)
    | Ok from_dirid \<Rightarrow>
    (case fh_to_id (cx_vfs ctx) (da_dir todirops) of
      Err stat \<Rightarrow> (nfs_reply xid stat [ser_wcc_default, ser_wcc_default], s)
    | Ok to_dirid \<Rightarrow>
    (case vfs_getattr (cx_vfs ctx) from_dirid s of
      (Err stat, s) \<Rightarrow> (nfs_reply xid stat [ser_wcc_default, ser_wcc_default], s)
    | (Ok from_dir_attr, s) \<Rightarrow>
    (case vfs_getattr (cx_vfs ctx) to_dirid s of
      (Err stat, s) \<Rightarrow> (nfs_reply xid stat [ser_wcc_default, ser_wcc_default], s)
    | (Ok to_dir_attr, s) \<Rightarrow>
    (case vfs_check_access (cx_vfs ctx) from_dirid (cx_auth ctx) ACCESS3_MODIFY s of
      (from_access, s) \<Rightarrow>
    (case vfs_check_access (cx_vfs ctx) to_dirid (cx_auth ctx) ACCESS3_MODIFY s of
      (to_access, s) \<Rightarrow>
    (case rename_access from_access to_access of
      Err stat \<Rightarrow>
        (nfs_reply xid stat
          [ser_wcc (Some from_dir_attr) (Some from_dir_attr),
           ser_wcc (Some to_dir_attr) (Some to_dir_attr)], s)
    | Ok _ \<Rightarrow>
    (case vfs_rename (cx_vfs ctx) from_dirid (da_name fromdirops) to_dirid (da_name todirops) s of
      (res, s) \<Rightarrow>
    (case getattr_ok (cx_vfs ctx) from_dirid s of (post_from_dir_attr, s) \<Rightarrow>
    (case getattr_ok (cx_vfs ctx) to_dirid s of (post_to_dir_attr, s) \<Rightarrow>
      (nfs_reply xid (case res of Ok _ \<Rightarrow> NFS3_OK | Err e \<Rightarrow> e)
        [ser_wcc (Some from_dir_attr) post_from_dir_attr,
         ser_wcc (Some to_dir_attr) post_to_dir_attr], s))))))))))))))"

definition nfsproc3_link :: "'s nfs_handler" where
  "nfsproc3_link xid input ctx s =
    (if \<not> can_write ctx
     then (nfs_reply xid NFS3ERR_ROFS [ser_post_op_attr None, ser_wcc_default], s)
     else
    (case de_LINK3args input of
      Err e \<Rightarrow> (Err e, s)
    | Ok (args, _) \<Rightarrow>
    (case fh_to_id (cx_vfs ctx) (lka_file args) of
      Err stat \<Rightarrow> (nfs_reply xid stat [ser_post_op_attr None, ser_wcc_default], s)
    | Ok fileid \<Rightarrow>
    (case fh_to_id (cx_vfs ctx) (da_dir (lka_link args)) of
      Err stat \<Rightarrow> (nfs_reply xid stat [ser_post_op_attr None, ser_wcc_default], s)
    | Ok dirid \<Rightarrow>
    (case vfs_getattr (cx_vfs ctx) dirid s of
      (Err stat, s) \<Rightarrow> (nfs_reply xid stat [ser_post_op_attr None, ser_wcc_default], s)
    | (Ok dir_attr, s) \<Rightarrow>
    (case require_access ctx dirid ACCESS3_MODIFY s of
      (Err stat, s) \<Rightarrow>
        (nfs_reply xid stat
          [ser_post_op_attr None, ser_wcc (Some dir_attr) (Some dir_attr)], s)
    | (Ok _, s) \<Rightarrow>
    (case vfs_link (cx_vfs ctx) fileid dirid (da_name (lka_link args)) s of
      (Ok fattr, s) \<Rightarrow>
        (case getattr_ok (cx_vfs ctx) dirid s of (post_dir_attr, s) \<Rightarrow>
          (nfs_reply xid NFS3_OK
            [ser_post_op_attr (Some fattr), ser_wcc (Some dir_attr) post_dir_attr], s))
    | (Err stat, s) \<Rightarrow>
        (case getattr_ok (cx_vfs ctx) fileid s of (file_attr, s) \<Rightarrow>
        (case getattr_ok (cx_vfs ctx) dirid s of (post_dir_attr, s) \<Rightarrow>
          (nfs_reply xid stat
            [ser_post_op_attr file_attr, ser_wcc (Some dir_attr) post_dir_attr], s))))))))))"

definition nfsproc3_commit :: "'s nfs_handler" where
  "nfsproc3_commit xid input ctx s =
    (case de_COMMIT3args input of
      Err e \<Rightarrow> (Err e, s)
    | Ok (args, _) \<Rightarrow>
    (case fh_to_id (cx_vfs ctx) (cma_file args) of
      Err stat \<Rightarrow> (nfs_reply xid stat [ser_wcc_default], s)
    | Ok fid \<Rightarrow>
    (case getattr_ok (cx_vfs ctx) fid s of (pre_attr, s) \<Rightarrow>
    (case vfs_commit (cx_vfs ctx) fid (cma_offset args) (cma_count args) s of
      (Ok fattr, s) \<Rightarrow>
        (nfs_reply xid NFS3_OK [ser_COMMIT3resok
          \<lparr>cmr_file_wcc = \<lparr>wcc_before = map_option wcc_attr_of pre_attr, wcc_after = Some fattr\<rparr>,
           cmr_verf = server_id (cx_vfs ctx)\<rparr>], s)
    | (Err stat, s) \<Rightarrow>
        (case getattr_ok (cx_vfs ctx) fid s of (post_attr, s) \<Rightarrow>
          (nfs_reply xid stat [ser_wcc pre_attr post_attr], s))))))"

section \<open>The shape of replies\<close>

lemma garbage_args_is_reply:
  "ser_rpc_msg (garbage_args_reply_message xid) = Ok out \<Longrightarrow> is_reply xid out"
  using is_replyI [where r = "[]" and m = "garbage_args_reply_message xid"]
  by (simp add: garbage_args_reply_message_def ok_rpc_msg_def ok_rpc_body_def ok_reply_body_def
      ok_accepted_reply_def ok_opaque_auth_def opaque_auth_default_def ok_opaque_def)

lemma create_and_reply_reply:
  "create_and_reply xid ctx dirid dir_attr name how s = (Ok out, s') \<Longrightarrow> is_reply xid out"
  by (auto simp: create_and_reply_def split: sum.splits prod.splits intro: nfs_reply_is_reply)

lemma rmdir_fail_reply:
  "rmdir_fail xid ctx dirid dir_attr stat s = (Ok out, s') \<Longrightarrow> is_reply xid out"
  by (auto simp: rmdir_fail_def split: sum.splits prod.splits intro: nfs_reply_is_reply)

lemmas reply_intros = nfs_reply_is_reply garbage_args_is_reply create_and_reply_reply
  rmdir_fail_reply

lemma setattr_reply [handler_replies]:
  "nfsproc3_setattr xid input ctx s = (Ok out, s') \<Longrightarrow> is_reply xid out"
  by (auto simp: nfsproc3_setattr_def Let_def split: if_splits option.splits sum.splits prod.splits
      intro: reply_intros)

lemma write_reply [handler_replies]:
  "nfsproc3_write xid input ctx s = (Ok out, s') \<Longrightarrow> is_reply xid out"
  by (auto simp: nfsproc3_write_def Let_def split: if_splits option.splits sum.splits prod.splits
      intro: reply_intros)

lemma create_reply [handler_replies]:
  "nfsproc3_create xid input ctx s = (Ok out, s') \<Longrightarrow> is_reply xid out"
  by (auto simp: nfsproc3_create_def Let_def split: if_splits option.splits sum.splits prod.splits
      create_how.splits intro: reply_intros)

lemma mkdir_reply [handler_replies]:
  "nfsproc3_mkdir xid input ctx s = (Ok out, s') \<Longrightarrow> is_reply xid out"
  by (auto simp: nfsproc3_mkdir_def Let_def split: if_splits option.splits sum.splits prod.splits
      intro: reply_intros)

lemma symlink_reply [handler_replies]:
  "nfsproc3_symlink xid input ctx s = (Ok out, s') \<Longrightarrow> is_reply xid out"
  by (auto simp: nfsproc3_symlink_def Let_def split: if_splits option.splits sum.splits prod.splits
      intro: reply_intros)

lemma mknod_reply [handler_replies]:
  "nfsproc3_mknod xid input ctx s = (Ok out, s') \<Longrightarrow> is_reply xid out"
  by (auto simp: nfsproc3_mknod_def Let_def split: if_splits option.splits sum.splits prod.splits
      intro: reply_intros)

lemma remove_reply [handler_replies]:
  "nfsproc3_remove xid input ctx s = (Ok out, s') \<Longrightarrow> is_reply xid out"
  by (auto simp: nfsproc3_remove_def Let_def split: if_splits option.splits sum.splits prod.splits
      intro: reply_intros)

lemma rmdir_reply [handler_replies]:
  "nfsproc3_rmdir xid input ctx s = (Ok out, s') \<Longrightarrow> is_reply xid out"
  by (auto simp: nfsproc3_rmdir_def Let_def split: if_splits option.splits sum.splits prod.splits
      intro: reply_intros)

lemma rename_reply [handler_replies]:
  "nfsproc3_rename xid input ctx s = (Ok out, s') \<Longrightarrow> is_reply xid out"
  by (auto simp: nfsproc3_rename_def Let_def split: if_splits option.splits sum.splits prod.splits
      intro: reply_intros)

lemma link_reply [handler_replies]:
  "nfsproc3_link xid input ctx s = (Ok out, s') \<Longrightarrow> is_reply xid out"
  by (auto simp: nfsproc3_link_def Let_def split: if_splits option.splits sum.splits prod.splits
      intro: reply_intros)

lemma commit_reply [handler_replies]:
  "nfsproc3_commit xid input ctx s = (Ok out, s') \<Longrightarrow> is_reply xid out"
  by (auto simp: nfsproc3_commit_def Let_def split: if_splits option.splits sum.splits prod.splits
      intro: reply_intros)

section \<open>Read-only file systems\<close>

text \<open>On a read-only file system no modifying procedure touches the state.\<close>

named_theorems read_only

lemma setattr_read_only [read_only]:
  "\<not> can_write ctx \<Longrightarrow>
    nfsproc3_setattr xid input ctx s = (nfs_reply xid NFS3ERR_ROFS [ser_wcc_default], s)"
  by (simp add: nfsproc3_setattr_def)

lemma write_read_only [read_only]:
  "\<not> can_write ctx \<Longrightarrow>
    nfsproc3_write xid input ctx s = (nfs_reply xid NFS3ERR_ROFS [ser_wcc_default], s)"
  by (simp add: nfsproc3_write_def)

lemma create_read_only [read_only]:
  "\<not> can_write ctx \<Longrightarrow>
    nfsproc3_create xid input ctx s = (nfs_reply xid NFS3ERR_ROFS [ser_wcc_default], s)"
  by (simp add: nfsproc3_create_def)

lemma mkdir_read_only [read_only]:
  "\<not> can_write ctx \<Longrightarrow>
    nfsproc3_mkdir xid input ctx s = (nfs_reply xid NFS3ERR_ROFS [ser_wcc_default], s)"
  by (simp add: nfsproc3_mkdir_def)

lemma symlink_read_only [read_only]:
  "\<not> can_write ctx \<Longrightarrow>
    nfsproc3_symlink xid input ctx s = (nfs_reply xid NFS3ERR_ROFS [ser_wcc_default], s)"
  by (simp add: nfsproc3_symlink_def)

lemma mknod_read_only [read_only]:
  "\<not> can_write ctx \<Longrightarrow>
    nfsproc3_mknod xid input ctx s = (nfs_reply xid NFS3ERR_ROFS [ser_wcc_default], s)"
  by (simp add: nfsproc3_mknod_def)

lemma remove_read_only [read_only]:
  "\<not> can_write ctx \<Longrightarrow>
    nfsproc3_remove xid input ctx s = (nfs_reply xid NFS3ERR_ROFS [ser_wcc_default], s)"
  by (simp add: nfsproc3_remove_def)

lemma rmdir_read_only [read_only]:
  "\<not> can_write ctx \<Longrightarrow>
    nfsproc3_rmdir xid input ctx s = (nfs_reply xid NFS3ERR_ROFS [ser_wcc_default], s)"
  by (simp add: nfsproc3_rmdir_def)

lemma rename_read_only [read_only]:
  "\<not> can_write ctx \<Longrightarrow>
    nfsproc3_rename xid input ctx s = (nfs_reply xid NFS3ERR_ROFS [ser_wcc_default], s)"
  by (simp add: nfsproc3_rename_def)

lemma link_read_only [read_only]:
  "\<not> can_write ctx \<Longrightarrow>
    nfsproc3_link xid input ctx s = (nfs_reply xid NFS3ERR_ROFS [ser_post_op_attr None, ser_wcc_default], s)"
  by (simp add: nfsproc3_link_def)

end
