(* ===== verification/Nfs3_Readdir.thy ===== *)
theory Nfs3_Readdir
  imports Nfs3_Query
begin

text \<open>
  READDIR and READDIRPLUS (\<open>src/protocol/nfs/v3/readdir.rs\<close>, \<open>readdirplus.rs\<close>) and the counting
  writer that they use to keep a reply within the client's limit (\<open>src/write_counter.rs\<close>). Both
  handlers run the same loop over the entries; they differ in what an entry is written as and
  in the limits that it must fit.
\<close>

section \<open>The counting writer\<close>

record write_counter =
  wc_inner :: bytes
  wc_count :: usize

definition wc_new :: "bytes \<Rightarrow> write_counter" where
  "wc_new inner = \<lparr>wc_inner = inner, wc_count = 0\<rparr>"

definition wc_write :: "bytes \<Rightarrow> write_counter \<Rightarrow> write_counter" where
  "wc_write buf c = \<lparr>wc_inner = wc_inner c @ buf, wc_count = wc_count c + length buf\<rparr>"

definition wc_bytes_written :: "write_counter \<Rightarrow> usize" where
  "wc_bytes_written c = wc_count c"

definition wc_into_inner :: "write_counter \<Rightarrow> bytes" where
  "wc_into_inner c = wc_inner c"

text \<open>\<open>x.serialize(&mut counting_output)?\<close>\<close>

definition wc_serialize :: "written \<Rightarrow> write_counter \<Rightarrow> io_error + write_counter" where
  "wc_serialize w c = (case w of Err e \<Rightarrow> Err e | Ok b \<Rightarrow> Ok (wc_write b c))"

section \<open>The loop over the entries\<close>

text \<open>
  \<open>encode\<close> writes an entry with its cookie, \<open>fits\<close> compares the number of bytes that the reply and
  the directory information would have with the limits. The result says whether all entries were
  written and whether not even the first one fitted.
\<close>

fun write_entries ::
    "('e \<Rightarrow> cookie3 \<Rightarrow> written) \<Rightarrow> ('e \<Rightarrow> filename3) \<Rightarrow> (usize \<Rightarrow> usize \<Rightarrow> bool) \<Rightarrow>
      'e list \<Rightarrow> usize \<Rightarrow> usize \<Rightarrow> bool \<Rightarrow> write_counter \<Rightarrow>
      io_error + write_counter \<times> bool \<times> bool" where
  "write_entries encode name fits [] current_index accumulated_dircount wrote_any c =
    Ok (c, True, False)"
| "write_entries encode name fits (entry # entries) current_index accumulated_dircount wrote_any c =
    (let next_cookie = of_nat (saturating_add current_index 1) in
     case ser_seq [ser_bool True, encode entry next_cookie] of
       Err e \<Rightarrow> Err e
     | Ok write_buf \<Rightarrow>
         let added_dircount = 8 + 4 + length (name entry) + 8;
             added_output_bytes = length write_buf in
         if fits (added_output_bytes + wc_bytes_written c) (added_dircount + accumulated_dircount)
         then write_entries encode name fits entries (saturating_add current_index 1)
                (accumulated_dircount + added_dircount) True (wc_write write_buf c)
         else Ok (c, False, \<not> wrote_any))"

text \<open>What both handlers do with the entries that the file system returned.\<close>

definition listing_reply ::
    "u32 \<Rightarrow> post_op_attr \<Rightarrow> cookieverf3 \<Rightarrow> ('e \<Rightarrow> cookie3 \<Rightarrow> written) \<Rightarrow> ('e \<Rightarrow> filename3) \<Rightarrow>
      (usize \<Rightarrow> usize \<Rightarrow> bool) \<Rightarrow> 'e list \<Rightarrow> bool \<Rightarrow> usize \<Rightarrow> written" where
  "listing_reply xid dir_attr dirversion encode name fits entries result_end start_index =
    (case wc_serialize
        (nfs_reply xid NFS3_OK [ser_post_op_attr dir_attr, ser_opaque_fixed dirversion])
        (wc_new []) of
      Err e \<Rightarrow> Err e
    | Ok c \<Rightarrow>
    (case write_entries encode name fits entries start_index 0 False c of
      Err e \<Rightarrow> Err e
    | Ok (c, all_entries_written, too_small) \<Rightarrow>
    (if too_small then nfs_reply xid NFS3ERR_TOOSMALL [ser_post_op_attr dir_attr]
     else
    (case wc_serialize (ser_bool False) c of
      Err e \<Rightarrow> Err e
    | Ok c \<Rightarrow>
    (case wc_serialize (ser_bool (if all_entries_written then result_end else False)) c of
      Err e \<Rightarrow> Err e
    | Ok c \<Rightarrow> Ok (wc_into_inner c))))))"

definition readdir_entry :: "DirEntrySimple \<Rightarrow> cookie3 \<Rightarrow> written" where
  "readdir_entry entry cookie = ser_entry3
    \<lparr>en_fileid = des_fileid entry, en_name = des_name entry, en_cookie = cookie\<rparr>"

definition readdirplus_entry :: "'s vfs \<Rightarrow> DirEntry \<Rightarrow> cookie3 \<Rightarrow> written" where
  "readdirplus_entry v entry cookie = ser_entryplus3
    \<lparr>ep_fileid = de_fileid entry, ep_name = de_name entry, ep_cookie = cookie,
     ep_name_attributes = Some (de_attr entry),
     ep_name_handle = Some (id_to_fh v (de_fileid entry))\<rparr>"

section \<open>The handlers\<close>

text \<open>The cookie verifier of a directory: its modification time.\<close>

definition dir_version :: "post_op_attr \<Rightarrow> cookieverf3" where
  "dir_version dir_attr =
    (case dir_attr of
      Some attr \<Rightarrow>
        be_bytes 8 (push_bit 32 (ucast (nt_seconds (fa_mtime attr)) :: u64)
          OR ucast (nt_nseconds (fa_mtime attr)))
    | None \<Rightarrow> replicate 8 0)"

definition estimated_max_results :: "count3 \<Rightarrow> usize" where
  "estimated_max_results dircount = unat (max 1 (dircount div 16))"

definition nfsproc3_readdir :: "'s nfs_handler" where
  "nfsproc3_readdir xid input ctx s =
    (case de_READDIR3args input of
      Err e \<Rightarrow> (Err e, s)
    | Ok (args, _) \<Rightarrow>
    (case fh_to_id (cx_vfs ctx) (rra_dir args) of
      Err stat \<Rightarrow> (nfs_reply xid stat [ser_post_op_attr None], s)
    | Ok dirid \<Rightarrow>
    (case getattr_ok (cx_vfs ctx) dirid s of (dir_attr, s) \<Rightarrow>
    (case require_access ctx dirid ACCESS3_READ s of
      (Err stat, s) \<Rightarrow> (nfs_reply xid stat [ser_post_op_attr dir_attr], s)
    | (Ok _, s) \<Rightarrow>
    (let dirversion = dir_version dir_attr;
         has_version = (rra_cookieverf args \<noteq> replicate 8 0) in
    (if has_version \<and> rra_cookieverf args \<noteq> dirversion
     then (nfs_reply xid NFS3ERR_BAD_COOKIE [ser_post_op_attr dir_attr], s)
     else
    (let start_index = unat (rra_cookie args);
         max_bytes_allowed = saturating_sub (unat (rra_dircount args)) 128 in
    (case readdir_simple_index (cx_vfs ctx) dirid start_index
        (estimated_max_results (rra_dircount args)) s of
      (Err stat, s) \<Rightarrow> (nfs_reply xid stat [ser_post_op_attr dir_attr], s)
    | (Ok result, s) \<Rightarrow>
        (listing_reply xid dir_attr dirversion readdir_entry des_name
          (\<lambda>output_bytes dircount. output_bytes < max_bytes_allowed)
          (rds_entries result) (rds_end result) start_index, s)))))))))"

text \<open>What READDIRPLUS makes of the entries that the file system returned.\<close>

definition readdirplus_page ::
    "u32 \<Rightarrow> 's vfs \<Rightarrow> post_op_attr \<Rightarrow> cookieverf3 \<Rightarrow> usize \<Rightarrow> usize \<Rightarrow> ReadDirResult \<Rightarrow> usize \<Rightarrow> written" where
  "readdirplus_page xid v dir_attr dirversion max_bytes_allowed max_dircount_bytes result start_index =
    listing_reply xid dir_attr dirversion (readdirplus_entry v) de_name
      (\<lambda>output_bytes dircount.
        output_bytes < max_bytes_allowed \<and> dircount < max_dircount_bytes)
      (rd_entries result) (rd_end result) start_index"

definition nfsproc3_readdirplus :: "'s nfs_handler" where
  "nfsproc3_readdirplus xid input ctx s =
    (case de_READDIRPLUS3args input of
      Err e \<Rightarrow> (Err e, s)
    | Ok (args, _) \<Rightarrow>
    (case fh_to_id (cx_vfs ctx) (rpa_dir args) of
      Err stat \<Rightarrow> (nfs_reply xid stat [ser_post_op_attr None], s)
    | Ok dirid \<Rightarrow>
    (case getattr_ok (cx_vfs ctx) dirid s of (dir_attr, s) \<Rightarrow>
    (case require_access ctx dirid ACCESS3_READ s of
      (Err stat, s) \<Rightarrow> (nfs_reply xid stat [ser_post_op_attr dir_attr], s)
    | (Ok _, s) \<Rightarrow>
    (let dirversion = dir_version dir_attr;
         has_version = (rpa_cookieverf args \<noteq> replicate 8 0) in
    (if has_version \<and> rpa_cookieverf args \<noteq> dirversion
     then (nfs_reply xid NFS3ERR_BAD_COOKIE [ser_post_op_attr dir_attr], s)
     else
    (let start_index = unat (rpa_cookie args);
         max_bytes_allowed = saturating_sub (unat (rpa_maxcount args)) 128;
         max_dircount_bytes = unat (rpa_dircount args) in
    (case vfs_readdir_index (cx_vfs ctx) dirid start_index
        (estimated_max_results (rpa_dircount args)) s of
      (Err stat, s) \<Rightarrow> (nfs_reply xid stat [ser_post_op_attr dir_attr], s)
    | (Ok result, s) \<Rightarrow>
        (readdirplus_page xid (cx_vfs ctx) dir_attr dirversion max_bytes_allowed max_dircount_bytes
          result start_index, s)))))))))"

section \<open>What the loop writes\<close>

text \<open>The list of entries as it is on the wire, without its end mark.\<close>

primrec entries_bytes ::
    "('e \<Rightarrow> cookie3 \<Rightarrow> written) \<Rightarrow> 'e list \<Rightarrow> usize \<Rightarrow> written" where
  "entries_bytes encode [] i = Ok []"
| "entries_bytes encode (e # es) i =
    ser_seq [ser_bool True, encode e (of_nat (saturating_add i 1)),
      entries_bytes encode es (saturating_add i 1)]"

definition wc_ok :: "write_counter \<Rightarrow> bool" where
  "wc_ok c \<longleftrightarrow> wc_count c = length (wc_inner c)"

lemma wc_ok_new: "wc_ok (wc_new [])"
  by (simp add: wc_ok_def wc_new_def)

lemma wc_ok_write: "wc_ok c \<Longrightarrow> wc_ok (wc_write b c)"
  by (simp add: wc_ok_def wc_write_def)

text \<open>
  The loop writes a prefix of the entries, in order and with consecutive cookies; it stops
  early only before an entry that does not fit, and the last entry written left the reply within
  the limit.
\<close>

lemma write_entries_prefix:
  assumes "write_entries encode name fits es i d w c = Ok (c', all_written, too_small)"
  shows "\<exists>k b. k \<le> length es \<and> entries_bytes encode (take k es) i = Ok b \<and>
    wc_inner c' = wc_inner c @ b \<and> all_written = (k = length es) \<and>
    too_small = (k = 0 \<and> k < length es \<and> \<not> w)"
  using assms
proof (induction es arbitrary: i d w c)
  case Nil
  then show ?case by simp
next
  case (Cons e es)
  obtain buf where buf: "ser_seq [ser_bool True, encode e (of_nat (saturating_add i 1))] = Ok buf"
    using Cons.prems by (auto simp: Let_def split: sum.splits)
  show ?case
  proof (cases "fits (length buf + wc_bytes_written c) (8 + 4 + length (name e) + 8 + d)")
    case True
    with Cons.prems buf have "write_entries encode name fits es (saturating_add i 1)
        (d + (8 + 4 + length (name e) + 8)) True (wc_write buf c) = Ok (c', all_written, too_small)"
      by (simp add: Let_def)
    from Cons.IH [OF this] obtain k b where k: "k \<le> length es"
        "entries_bytes encode (take k es) (saturating_add i 1) = Ok b"
        "wc_inner c' = wc_inner (wc_write buf c) @ b" "all_written = (k = length es)"
        "\<not> too_small" by auto
    show ?thesis
      by (rule exI [of _ "Suc k"], rule exI [of _ "buf @ b"])
        (use k buf in \<open>auto simp: wc_write_def ser_then_Ok\<close>)
  next
    case False
    with Cons.prems buf show ?thesis by (intro exI [of _ 0]) (auto simp: Let_def)
  qed
qed

lemma write_entries_bound:
  assumes "write_entries encode name fits es i d w c = Ok (c', all_written, too_small)"
    and "\<And>b n. fits b n \<Longrightarrow> b < m" and "wc_ok c"
  shows "wc_ok c' \<and> (c' = c \<or> length (wc_inner c') < m)"
  using assms(1,3)
proof (induction es arbitrary: i d w c)
  case Nil
  then show ?case by simp
next
  case (Cons e es)
  obtain buf where buf: "ser_seq [ser_bool True, encode e (of_nat (saturating_add i 1))] = Ok buf"
    using Cons.prems by (auto simp: Let_def split: sum.splits)
  show ?case
  proof (cases "fits (length buf + wc_bytes_written c) (8 + 4 + length (name e) + 8 + d)")
    case True
    with Cons.prems buf have "write_entries encode name fits es (saturating_add i 1)
        (d + (8 + 4 + length (name e) + 8)) True (wc_write buf c) = Ok (c', all_written, too_small)"
      by (simp add: Let_def)
    from Cons.IH [OF this wc_ok_write [OF Cons.prems(2)]]
    show ?thesis using assms(2) [OF True] Cons.prems(2)
      by (auto simp: wc_write_def wc_ok_def wc_bytes_written_def)
  next
    case False
    with Cons.prems buf show ?thesis by (auto simp: Let_def)
  qed
qed

text \<open>A complete listing reply: the header, the entries, the end mark of the list, eof.\<close>

definition listing_page ::
    "u32 \<Rightarrow> post_op_attr \<Rightarrow> cookieverf3 \<Rightarrow> ('e \<Rightarrow> cookie3 \<Rightarrow> written) \<Rightarrow> 'e list \<Rightarrow> usize \<Rightarrow> bool \<Rightarrow>
      written" where
  "listing_page xid dir_attr dirversion encode es i eof = ser_seq
    [nfs_reply xid NFS3_OK [ser_post_op_attr dir_attr, ser_opaque_fixed dirversion],
     entries_bytes encode es i, ser_bool False, ser_bool eof]"

lemma ser_bool_length: "ser_bool b = Ok e \<Longrightarrow> length e = 4"
  by (auto simp: ser_bool_def ser_i32_def)

lemma wc_serialize_Ok: "wc_serialize r c = Ok c' \<longleftrightarrow> (\<exists>b. r = Ok b \<and> c' = wc_write b c)"
  by (auto simp: wc_serialize_def split: sum.splits)

lemma listing_reply_Ok:
  assumes "listing_reply xid da dv encode name fits es fin i = Ok out"
    and lim: "\<And>b n. fits b n \<Longrightarrow> b < m"
  shows "es \<noteq> [] \<and> nfs_reply xid NFS3ERR_TOOSMALL [ser_post_op_attr da] = Ok out \<or>
    (\<exists>k \<le> length es. (k = 0 \<longrightarrow> es = []) \<and> (k \<noteq> 0 \<longrightarrow> 0 < m \<and> length out < m + 8) \<and>
      listing_page xid da dv encode (take k es) i (k = length es \<and> fin) = Ok out)"
proof -
  obtain h where h: "nfs_reply xid NFS3_OK [ser_post_op_attr da, ser_opaque_fixed dv] = Ok h"
    using assms(1) by (auto simp: listing_reply_def wc_serialize_Ok split: sum.splits)
  let ?c = "wc_write h (wc_new [])"
  obtain c' all small where
    w: "write_entries encode name fits es i 0 False ?c = Ok (c', all, small)"
    using assms(1) h by (auto simp: listing_reply_def wc_serialize_def split: sum.splits)
  obtain k b where k: "k \<le> length es" "entries_bytes encode (take k es) i = Ok b"
      "wc_inner c' = wc_inner ?c @ b" "all = (k = length es)"
      "small = (k = 0 \<and> k < length es \<and> \<not> False)"
    using write_entries_prefix [OF w] by blast
  have c'_ok: "wc_ok c' \<and> (c' = ?c \<or> length (wc_inner c') < m)"
    by (rule write_entries_bound [OF w lim wc_ok_write [OF wc_ok_new]])
  show ?thesis
  proof (cases small)
    case True
    then show ?thesis
      using assms(1) h w k by (auto simp: listing_reply_def wc_serialize_def)
  next
    case False
    obtain z where z: "ser_bool False = Ok z" using bool.ser_ok by blast
    obtain e where e: "ser_bool (k = length es \<and> fin) = Ok e" using bool.ser_ok by blast
    have out: "out = h @ b @ z @ e"
      using assms(1) h w k z e False
      by (auto simp: listing_reply_def wc_serialize_def wc_write_def wc_new_def wc_into_inner_def)
    have len: "length h + length b < m" if "b \<noteq> []"
    proof -
      have "c' \<noteq> ?c" using k(3) that by auto
      then show ?thesis using c'_ok k(3) by (simp add: wc_write_def wc_new_def)
    qed
    have b: "b \<noteq> []" if "k \<noteq> 0"
      using that k(1,2)
      by (cases es; cases k) (auto simp: ser_then_Ok dest!: ser_bool_length)
    have "listing_page xid da dv encode (take k es) i (k = length es \<and> fin) = Ok out"
      using h k(2) z e out by (simp add: listing_page_def)
    moreover have "0 < m \<and> length out < m + 8" if "k \<noteq> 0"
      using len [OF b [OF that]] out ser_bool_length [OF z] ser_bool_length [OF e] by simp
    ultimately show ?thesis using k False by auto
  qed
qed

lemma write_entries_total:
  assumes "\<forall>e\<in>set es. \<forall>cookie. \<exists>b. encode e cookie = Ok b"
  shows "\<exists>c' complete too_small.
    write_entries encode name fits es i d w c = Ok (c', complete, too_small)"
  using assms
proof (induction es arbitrary: i d w c)
  case (Cons e es)
  obtain t where t: "ser_bool True = Ok t" using bool.ser_ok by blast
  obtain b where "encode e (of_nat (saturating_add i 1)) = Ok b"
    using Cons.prems by (meson list.set_intros(1))
  then show ?case using t Cons.IH Cons.prems by (auto simp: Let_def)
qed auto

text \<open>A reply whose limit admits every single entry is a page, with an entry if there is one.\<close>

lemma listing_reply_fits:
  assumes h: "nfs_reply xid NFS3_OK [ser_post_op_attr da, ser_opaque_fixed dv] = Ok h"
    and enc: "\<forall>e\<in>set es. \<forall>cookie. \<exists>b. encode e cookie = Ok b \<and> length h + 4 + length b < m"
  shows "\<exists>out k. listing_reply xid da dv encode name (\<lambda>b d. b < m) es fin i = Ok out \<and>
    k \<le> length es \<and> listing_page xid da dv encode (take k es) i (k = length es \<and> fin) = Ok out"
proof -
  let ?c = "wc_write h (wc_new [])"
  obtain c' complete small where
    w: "write_entries encode name (\<lambda>b d. b < m) es i 0 False ?c = Ok (c', complete, small)"
    using write_entries_total [of es encode] enc by meson
  have small: "\<not> small"
  proof (cases es)
    case Nil
    then show ?thesis using w by simp
  next
    case (Cons e es')
    obtain t where t: "ser_bool True = Ok t" using bool.ser_ok by blast
    obtain b where b: "encode e (of_nat (saturating_add i 1)) = Ok b" "length h + 4 + length b < m"
      using enc Cons by (meson list.set_intros(1))
    have "\<exists>c j d. write_entries encode name (\<lambda>b d. b < m) es' j d True c = Ok (c', complete, small)"
      using w t b Cons ser_bool_length [OF t]
      by (auto simp: Let_def wc_write_def wc_new_def wc_bytes_written_def split: if_splits)
    then show ?thesis using write_entries_prefix by blast
  qed
  obtain k b where k: "k \<le> length es" "entries_bytes encode (take k es) i = Ok b"
      "wc_inner c' = wc_inner ?c @ b" "complete = (k = length es)"
    using write_entries_prefix [OF w] by blast
  obtain z where z: "ser_bool False = Ok z" using bool.ser_ok by blast
  obtain e where e: "ser_bool (k = length es \<and> fin) = Ok e" using bool.ser_ok by blast
  have "listing_reply xid da dv encode name (\<lambda>b d. b < m) es fin i = Ok (h @ b @ z @ e)"
    using h w k z e small
    by (auto simp: listing_reply_def wc_serialize_def wc_write_def wc_new_def wc_into_inner_def)
  moreover have "listing_page xid da dv encode (take k es) i (k = length es \<and> fin) = Ok (h @ b @ z @ e)"
    using h k(2) z e by (simp add: listing_page_def)
  ultimately show ?thesis using k(1) by blast
qed

section \<open>Reading a listing\<close>

text \<open>
  How a client reads a listing: it is the specification against which the replies are stated.
  The number of bytes bounds the number of entries.
\<close>

primrec de_entries :: "'a de \<Rightarrow> nat \<Rightarrow> 'a list de" where
  "de_entries d 0 = de_fail UnexpectedEof"
| "de_entries d (Suc n) = de_bind de_bool (\<lambda>more.
    if more then de_bind d (\<lambda>e. de_bind (de_entries d n) (\<lambda>es. de_return (e # es)))
    else de_return [])"

definition client_listing :: "'a de \<Rightarrow> bytes \<Rightarrow> (nfsstat3 \<times> 'a list \<times> bool) option" where
  "client_listing d out =
    (case de_rpc_msg out of
      Err _ \<Rightarrow> None
    | Ok (_, r) \<Rightarrow>
    (case de_nfsstat3 r of
      Err _ \<Rightarrow> None
    | Ok (stat, r) \<Rightarrow>
      if stat \<noteq> NFS3_OK then Some (stat, [], False)
      else
        (case de_bind (de_option de_fattr3) (\<lambda>_. de_bind (de_opaque_fixed 8) (\<lambda>_.
            de_bind (de_entries d (length out)) (\<lambda>es. de_bind de_bool (\<lambda>eof.
            de_return (es, eof))))) r of
          Ok ((es, eof), _) \<Rightarrow> Some (stat, es, eof)
        | Err _ \<Rightarrow> None)))"

definition readdir_client_entry :: "DirEntrySimple \<Rightarrow> cookie3 \<Rightarrow> entry3" where
  "readdir_client_entry e c = \<lparr>en_fileid = des_fileid e, en_name = des_name e, en_cookie = c\<rparr>"

definition readdirplus_client_entry :: "'s vfs \<Rightarrow> DirEntry \<Rightarrow> cookie3 \<Rightarrow> entryplus3" where
  "readdirplus_client_entry v e c = \<lparr>ep_fileid = de_fileid e, ep_name = de_name e, ep_cookie = c,
    ep_name_attributes = Some (de_attr e), ep_name_handle = Some (id_to_fh v (de_fileid e))\<rparr>"

text \<open>Entries with the cookies that follow \<open>i\<close>.\<close>

primrec with_cookies :: "('e \<Rightarrow> cookie3 \<Rightarrow> 'a) \<Rightarrow> 'e list \<Rightarrow> usize \<Rightarrow> 'a list" where
  "with_cookies f [] i = []"
| "with_cookies f (e # es) i =
    f e (of_nat (saturating_add i 1)) # with_cookies f es (saturating_add i 1)"

lemma length_with_cookies [simp]: "length (with_cookies f es i) = length es"
  by (induction es arbitrary: i) auto

lemma with_cookies_nth:
  "k < length es \<Longrightarrow> i + length es \<le> usize_max \<Longrightarrow>
    with_cookies f es i ! k = f (es ! k) (of_nat (i + k + 1))"
  by (induction es arbitrary: i k) (auto simp: saturating_add_def nth_Cons split: nat.split)

lemma de_entries_roundtrip:
  assumes codec: "xdr_codec s d ok"
    and "\<forall>e \<in> set es. \<forall>c. ok (f e c)"
    and "entries_bytes (\<lambda>e c. s (f e c)) es i = Ok b" and "ser_bool False = Ok z"
    and "length es < n"
  shows "de_entries d n (b @ z @ r) = Ok (with_cookies f es i, r)"
  using assms(2,3,5)
proof (induction es arbitrary: i b n)
  case Nil
  then show ?case
    using bool.dec_enc [OF TrueI assms(4)] by (cases n) (auto simp: de_bind_def de_return_def)
next
  case (Cons e es)
  obtain m where n: "n = Suc m" "length es < m" using Cons.prems(3) by (cases n) auto
  let ?c = "of_nat (saturating_add i 1) :: cookie3"
  obtain t x y where b: "ser_bool True = Ok t" "s (f e ?c) = Ok x"
      "entries_bytes (\<lambda>e c. s (f e c)) es (saturating_add i 1) = Ok y" "b = t @ x @ y"
    using Cons.prems(2) by (auto simp: ser_then_Ok)
  have "de_bool (t @ q) = Ok (True, q)" for q by (rule bool.dec_enc [OF TrueI b(1)])
  moreover have "d (x @ q) = Ok (f e ?c, q)" for q
    using xdr_codec.dec_enc [OF codec _ b(2)] Cons.prems(1) by simp
  moreover have "de_entries d m (y @ z @ r) = Ok (with_cookies f es (saturating_add i 1), r)"
    using Cons.IH [OF _ b(3) n(2)] Cons.prems(1) by simp
  ultimately show ?case using n b by (simp add: de_bind_def de_return_def)
qed

lemma entries_bytes_length: "entries_bytes encode es i = Ok b \<Longrightarrow> 4 * length es \<le> length b"
proof (induction es arbitrary: i b)
  case (Cons e es)
  then show ?case
    by (auto simp: ser_then_Ok dest!: ser_bool_length Cons.IH) 
qed simp

lemma client_listing_page:
  assumes codec: "xdr_codec s d ok"
    and page: "listing_page xid da dv (\<lambda>e c. s (f e c)) es i eof = Ok out"
    and dv: "length dv = 8" and ok: "\<forall>e \<in> set es. \<forall>c. ok (f e c)"
  shows "client_listing d out = Some (NFS3_OK, with_cookies f es i, eof)"
proof -
  obtain h b z e where parts:
      "nfs_reply xid NFS3_OK [ser_post_op_attr da, ser_opaque_fixed dv] = Ok h"
      "entries_bytes (\<lambda>e c. s (f e c)) es i = Ok b" "ser_bool False = Ok z"
      "ser_bool eof = Ok e" "out = h @ b @ z @ e"
    using page by (auto simp: listing_page_def ser_then_Ok)
  obtain m t a v where hd: "ser_rpc_msg (make_success_reply xid) = Ok m"
      "ser_nfsstat3 NFS3_OK = Ok t" "ser_option ser_fattr3 da = Ok a" "ser_opaque_fixed dv = Ok v"
      "h = m @ t @ a @ v"
    using parts(1) by (auto simp: nfs_reply_def ser_then_Ok ser_post_op_attr_def)
  note dec = rpc_msg.dec_enc [OF ok_success_reply hd(1)] nfsstat3.dec_enc [OF TrueI hd(2)]
    xdr_codec.dec_enc [OF codec_opt_fattr3 TrueI hd(3)] opaque8.dec_enc [OF dv hd(4)]
    bool.dec_enc [OF TrueI parts(4), where r = "[]"]
  have "length es < length out"
    using entries_bytes_length [OF parts(2)] parts(5) ser_bool_length [OF parts(3)] by simp
  from de_entries_roundtrip [OF codec ok parts(2,3) this]
  show ?thesis
    unfolding client_listing_def using dec parts(5) hd(5)
    by (simp add: de_bind_def de_return_def)
qed

section \<open>The shape of replies\<close>

lemma ser_then_assoc: "ser_then (ser_then a b) c = ser_then a (ser_then b c)"
  by (cases a; cases b; cases c) simp_all

lemma listing_page_eq:
  "listing_page xid da dv encode es i eof = nfs_reply xid NFS3_OK
    [ser_post_op_attr da, ser_opaque_fixed dv, entries_bytes encode es i, ser_bool False,
     ser_bool eof]"
  by (simp add: listing_page_def nfs_reply_def ser_then_assoc)

lemma listing_reply_reply:
  assumes "listing_reply xid da dv encode name fits es fin i = Ok out"
    and "\<And>b n. fits b n \<Longrightarrow> b < m"
  shows "is_reply xid out"
  using listing_reply_Ok [OF assms(1), of m] assms(2)
  by (auto simp: listing_page_eq intro: nfs_reply_is_reply)

lemma readdir_reply [handler_replies]:
  "nfsproc3_readdir xid input ctx s = (Ok out, s') \<Longrightarrow> is_reply xid out"
  by (auto simp: nfsproc3_readdir_def Let_def split: if_splits sum.splits prod.splits
      intro: nfs_reply_is_reply listing_reply_reply)

lemma readdirplus_reply [handler_replies]:
  "nfsproc3_readdirplus xid input ctx s = (Ok out, s') \<Longrightarrow> is_reply xid out"
  by (auto simp: nfsproc3_readdirplus_def readdirplus_page_def Let_def split: if_splits sum.splits prod.splits
      intro: nfs_reply_is_reply listing_reply_reply)

end
