(* ===== verification/Nfs3.thy ===== *)
theory Nfs3
  imports Nfs3_Modify Nfs3_Readdir
begin

text \<open>
  The NFS program: \<open>handle_nfs\<close> of \<open>src/protocol/nfs/v3/mod.rs\<close>, the interface \<open>rpc_program\<close> that the
  RPC layer relies on, and the properties that hold of every procedure.
\<close>

section \<open>The interface of an RPC program\<close>

text \<open>
  The RPC layer hands a call to a program and sends what the program wrote. It relies on one
  thing: what a handler writes when it succeeds is a reply to that call.
\<close>

locale rpc_program =
  fixes handle :: "u32 \<Rightarrow> call_body \<Rightarrow> bytes \<Rightarrow> 'c \<Rightarrow> 's \<Rightarrow> written \<times> 's"
  assumes replies: "handle xid call input c s = (Ok out, s') \<Longrightarrow> is_reply xid out"
begin

lemma reply_nonempty: "handle xid call input c s = (Ok out, s') \<Longrightarrow> out \<noteq> []"
  using replies by (fastforce simp: is_reply_def de_rpc_msg_def de_u32_def de_bind_def
      read_exact_def)

text \<open>The reply starts with the four bytes of the transaction id.\<close>

lemma reply_xid:
  assumes "handle xid call input c s = (Ok out, s')"
  shows "take 4 out = be_bytes 4 xid"
proof -
  from replies [OF assms] obtain m r where m: "de_rpc_msg out = Ok (m, r)" "rm_xid m = xid"
    by (auto simp: is_reply_def split: sum.splits prod.splits)
  then obtain a i where a: "de_u32 out = Ok (a, i)" "rm_xid m = a"
    by (auto simp: de_rpc_msg_def de_Ok)
  then obtain q where q: "out = q @ i" "length q = 4" "a = of_be_bytes q"
    by (auto simp: de_u32_def de_Ok)
  then have "be_bytes 4 a = q" using be_bytes_of_be_bytes [of q, where 'a = 32] by simp
  then show ?thesis using q a m by simp
qed

end

section \<open>Replies without a status\<close>

text \<open>A successful reply and its results.\<close>

definition success_reply :: "u32 \<Rightarrow> written list \<Rightarrow> written" where
  "success_reply xid body = ser_seq (ser_rpc_msg (make_success_reply xid) # body)"

lemma success_reply_Ok:
  assumes "success_reply xid body = Ok out"
  shows "\<exists>r. de_rpc_msg out = Ok (make_success_reply xid, r) \<and> ser_seq body = Ok r"
  using assms rpc_msg.dec_enc [OF ok_success_reply] by (fastforce simp: success_reply_def ser_then_Ok)

lemma success_reply_is_reply: "success_reply xid body = Ok out \<Longrightarrow> is_reply xid out"
  by (drule success_reply_Ok) (auto simp: is_reply_def make_success_reply_def)

text \<open>The result of a call as the client reads it.\<close>

definition reply_result :: "'a de \<Rightarrow> bytes \<Rightarrow> 'a option" where
  "reply_result d out =
    (case de_bind de_rpc_msg (\<lambda>_. d) out of Ok (x, _) \<Rightarrow> Some x | Err _ \<Rightarrow> None)"

lemma success_reply_result:
  assumes "success_reply xid [ser x] = Ok out" "xdr_codec ser d ok" "ok x"
  shows "reply_result d out = Some x"
proof -
  obtain r where r: "de_rpc_msg out = Ok (make_success_reply xid, r)" "ser x = Ok r"
    using success_reply_Ok [OF assms(1)] by auto
  then have "d r = Ok (x, [])" using xdr_codec.dec_enc [OF assms(2,3), of r "[]"] by simp
  then show ?thesis using r by (simp add: reply_result_def de_bind_def)
qed

lemma success_reply_value:
  assumes "xdr_codec ser d ok" "ok x"
  shows "\<exists>out. success_reply xid [ser x] = Ok out \<and> reply_result d out = Some x"
proof -
  obtain b where "ser x = Ok b" using xdr_codec.ser_ok [OF assms] by blast
  then obtain out where "success_reply xid [ser x] = Ok out"
    using rpc_msg.ser_ok [OF ok_success_reply, of xid] by (auto simp: success_reply_def)
  then show ?thesis using success_reply_result [OF _ assms] by blast
qed

lemma success_reply_pair:
  assumes "xdr_codec s1 d1 ok1" "ok1 x" and "xdr_codec s2 d2 ok2" "ok2 y"
  shows "\<exists>out. success_reply xid [s1 x, s2 y] = Ok out \<and>
    reply_result (de_bind d1 (\<lambda>_. d2)) out = Some y"
proof -
  obtain b c where bc: "s1 x = Ok b" "s2 y = Ok c"
    using xdr_codec.ser_ok [OF assms(1,2)] xdr_codec.ser_ok [OF assms(3,4)] by blast
  then obtain out where out: "success_reply xid [s1 x, s2 y] = Ok out"
    using rpc_msg.ser_ok [OF ok_success_reply, of xid] by (auto simp: success_reply_def)
  have "de_rpc_msg out = Ok (make_success_reply xid, b @ c)"
    using success_reply_Ok [OF out] bc by auto
  moreover have "d1 (b @ c) = Ok (x, c)" by (rule xdr_codec.dec_enc [OF assms(1,2) bc(1)])
  moreover have "d2 c = Ok (y, [])" using xdr_codec.dec_enc [OF assms(3,4) bc(2), of "[]"] by simp
  ultimately show ?thesis using out by (auto simp: reply_result_def de_bind_def)
qed

section \<open>The dispatcher\<close>

text \<open>\<open>NFSProgram::from_u32(call.proc).unwrap_or(INVALID)\<close>\<close>

definition nfs_program_of :: "u32 \<Rightarrow> NFSProgram" where
  "nfs_program_of n =
    (case List.find (\<lambda>x. NFSProgram_code x = n) NFSProgram_variants of
      Some p \<Rightarrow> p
    | None \<Rightarrow> NFSPROC3_INVALID)"

definition handle_nfs ::
    "u32 \<Rightarrow> call_body \<Rightarrow> bytes \<Rightarrow> 's rpc_context \<Rightarrow> 's \<Rightarrow> written \<times> 's" where
  "handle_nfs xid call input ctx s =
    (if cb_vers call \<noteq> NFS3_VERSION
     then (ser_rpc_msg (prog_mismatch_reply_message xid NFS3_VERSION), s)
     else
       case nfs_program_of (cb_proc call) of
         NFSPROC3_NULL \<Rightarrow> (nfsproc3_null xid, s)
       | NFSPROC3_GETATTR \<Rightarrow> nfsproc3_getattr xid input ctx s
       | NFSPROC3_LOOKUP \<Rightarrow> nfsproc3_lookup xid input ctx s
       | NFSPROC3_READ \<Rightarrow> nfsproc3_read xid input ctx s
       | NFSPROC3_FSINFO \<Rightarrow> nfsproc3_fsinfo xid input ctx s
       | NFSPROC3_ACCESS \<Rightarrow> nfsproc3_access xid input ctx s
       | NFSPROC3_PATHCONF \<Rightarrow> nfsproc3_pathconf xid input ctx s
       | NFSPROC3_FSSTAT \<Rightarrow> nfsproc3_fsstat xid input ctx s
       | NFSPROC3_READDIR \<Rightarrow> nfsproc3_readdir xid input ctx s
       | NFSPROC3_READDIRPLUS \<Rightarrow> nfsproc3_readdirplus xid input ctx s
       | NFSPROC3_WRITE \<Rightarrow> nfsproc3_write xid input ctx s
       | NFSPROC3_CREATE \<Rightarrow> nfsproc3_create xid input ctx s
       | NFSPROC3_SETATTR \<Rightarrow> nfsproc3_setattr xid input ctx s
       | NFSPROC3_REMOVE \<Rightarrow> nfsproc3_remove xid input ctx s
       | NFSPROC3_RMDIR \<Rightarrow> nfsproc3_rmdir xid input ctx s
       | NFSPROC3_RENAME \<Rightarrow> nfsproc3_rename xid input ctx s
       | NFSPROC3_MKDIR \<Rightarrow> nfsproc3_mkdir xid input ctx s
       | NFSPROC3_SYMLINK \<Rightarrow> nfsproc3_symlink xid input ctx s
       | NFSPROC3_READLINK \<Rightarrow> nfsproc3_readlink xid input ctx s
       | NFSPROC3_MKNOD \<Rightarrow> nfsproc3_mknod xid input ctx s
       | NFSPROC3_LINK \<Rightarrow> nfsproc3_link xid input ctx s
       | NFSPROC3_COMMIT \<Rightarrow> nfsproc3_commit xid input ctx s
       | _ \<Rightarrow> (ser_rpc_msg (proc_unavail_reply_message xid), s))"

section \<open>Replies\<close>

lemma ok_dispatcher_replies:
  "ok_rpc_msg (proc_unavail_reply_message xid)" "ok_rpc_msg (prog_unavail_reply_message xid)"
  "ok_rpc_msg (prog_mismatch_reply_message xid v)" "ok_rpc_msg (rpc_vers_mismatch xid)"
  by (simp_all add: proc_unavail_reply_message_def prog_unavail_reply_message_def
      prog_mismatch_reply_message_def rpc_vers_mismatch_def ok_rpc_msg_def ok_rpc_body_def
      ok_reply_body_def ok_accepted_reply_def ok_opaque_auth_def opaque_auth_default_def
      ok_opaque_def)

lemma dispatcher_replies:
  "ser_rpc_msg (proc_unavail_reply_message xid) = Ok out \<Longrightarrow> is_reply xid out"
  "ser_rpc_msg (prog_unavail_reply_message xid) = Ok out \<Longrightarrow> is_reply xid out"
  "ser_rpc_msg (prog_mismatch_reply_message xid v) = Ok out \<Longrightarrow> is_reply xid out"
  "ser_rpc_msg (rpc_vers_mismatch xid) = Ok out \<Longrightarrow> is_reply xid out"
  using ok_dispatcher_replies [THEN rpc_msg.dec_enc, where r = "[]"]
  by (auto simp: is_reply_def proc_unavail_reply_message_def prog_unavail_reply_message_def
      prog_mismatch_reply_message_def rpc_vers_mismatch_def)

lemma handle_nfs_reply: "handle_nfs xid call input ctx s = (Ok out, s') \<Longrightarrow> is_reply xid out"
  by (cases "nfs_program_of (cb_proc call)")
    (auto simp: handle_nfs_def split: if_splits dest: handler_replies dispatcher_replies)

interpretation nfs_program: rpc_program handle_nfs
  by unfold_locales (rule handle_nfs_reply)

section \<open>What the procedures do to the file system\<close>

text \<open>The queries of a file system leave its state alone.\<close>

definition pure_queries :: "'s vfs \<Rightarrow> bool" where
  "pure_queries v \<longleftrightarrow>
    (\<forall>fid s. snd (vfs_getattr v fid s) = s) \<and>
    (\<forall>fid name s. snd (vfs_lookup v fid name s) = s) \<and>
    (\<forall>fid auth r s. snd (vfs_check_access v fid auth r s) = s)"

lemma pure_getattr: "pure_queries v \<Longrightarrow> vfs_getattr v fid s = (r, s') \<Longrightarrow> s' = s"
  by (metis pure_queries_def snd_conv)

lemma pure_lookup: "pure_queries v \<Longrightarrow> vfs_lookup v fid name s = (r, s') \<Longrightarrow> s' = s"
  by (metis pure_queries_def snd_conv)

lemma pure_check_access: "pure_queries v \<Longrightarrow> vfs_check_access v fid auth a s = (r, s') \<Longrightarrow> s' = s"
  by (metis pure_queries_def snd_conv)

lemma pure_getattr_ok: "pure_queries v \<Longrightarrow> getattr_ok v fid s = (r, s') \<Longrightarrow> s' = s"
  by (auto simp: getattr_ok_def split: prod.splits dest: pure_getattr)

lemma pure_require_access:
  "pure_queries (cx_vfs ctx) \<Longrightarrow> require_access ctx fid a s = (r, s') \<Longrightarrow> s' = s"
  by (auto simp: require_access_def split: prod.splits sum.splits if_splits
      dest: pure_check_access)

lemmas pure_dests = pure_getattr pure_lookup pure_check_access pure_getattr_ok
  pure_require_access

text \<open>
  More generally, the queries of a file system may change its state but keep a property of it: a
  file system that caches keeps the files that it stands for. \<open>pure_queries\<close> is the case of
  the property to be a given state.
\<close>

definition op_keeps :: "('s \<Rightarrow> bool) \<Rightarrow> ('s \<Rightarrow> ('s, 'a) vfs_result) \<Rightarrow> bool" where
  "op_keeps P f \<longleftrightarrow> (\<forall>s. P s \<longrightarrow> P (snd (f s)))"

lemma op_keepsD: "op_keeps P f \<Longrightarrow> f s = (r, s') \<Longrightarrow> P s \<Longrightarrow> P s'"
  by (metis op_keeps_def snd_conv)

definition queries_keep :: "('s \<Rightarrow> bool) \<Rightarrow> 's vfs \<Rightarrow> bool" where
  "queries_keep P v \<longleftrightarrow>
    (\<forall>fid. op_keeps P (vfs_getattr v fid)) \<and>
    (\<forall>fid name. op_keeps P (vfs_lookup v fid name)) \<and>
    (\<forall>fid auth r. op_keeps P (vfs_check_access v fid auth r))"

lemma pure_queries_keep: "pure_queries v \<Longrightarrow> queries_keep P v"
  by (simp add: pure_queries_def queries_keep_def op_keeps_def)

lemma queries_keep_ops:
  assumes "queries_keep P v"
  shows "op_keeps P (vfs_getattr v fid)" "op_keeps P (vfs_lookup v fid name)"
    "op_keeps P (vfs_check_access v fid auth r)"
  using assms by (simp_all add: queries_keep_def)

lemmas keep_getattr = op_keepsD [OF queries_keep_ops(1)]
  and keep_lookup = op_keepsD [OF queries_keep_ops(2)]
  and keep_check_access = op_keepsD [OF queries_keep_ops(3)]

lemma keep_getattr_ok: "queries_keep P v \<Longrightarrow> getattr_ok v fid s = (r, s') \<Longrightarrow> P s \<Longrightarrow> P s'"
  by (auto simp: getattr_ok_def split: prod.splits dest: keep_getattr)

lemma keep_require_access:
  "queries_keep P (cx_vfs ctx) \<Longrightarrow> require_access ctx fid a s = (r, s') \<Longrightarrow> P s \<Longrightarrow> P s'"
  by (auto simp: require_access_def split: prod.splits sum.splits if_splits
      dest: keep_check_access)

lemmas keep_dests = keep_getattr keep_lookup keep_check_access keep_getattr_ok keep_require_access

text \<open>In the states with the property, the client is granted a right on no object.\<close>

definition never_granted :: "('s \<Rightarrow> bool) \<Rightarrow> 's rpc_context \<Rightarrow> u32 \<Rightarrow> bool" where
  "never_granted P ctx right \<longleftrightarrow>
    (\<forall>fid s g. P s \<longrightarrow> fst (vfs_check_access (cx_vfs ctx) fid (cx_auth ctx) right s) = Ok g \<longrightarrow>
      g AND right = 0)"

lemma never_granted_check:
  "never_granted P ctx a \<Longrightarrow> vfs_check_access (cx_vfs ctx) fid (cx_auth ctx) a s = (Ok g, s') \<Longrightarrow>
    P s \<Longrightarrow> g AND a = 0"
  by (metis never_granted_def fst_conv)

lemma never_granted_require:
  "never_granted P ctx a \<Longrightarrow> require_access ctx fid a s = (Ok u, s') \<Longrightarrow> P s \<Longrightarrow> False"
  by (auto simp: require_access_def split: prod.splits sum.splits if_splits
      dest: never_granted_check)

lemma never_granted_rename:
  "never_granted P ctx ACCESS3_MODIFY \<Longrightarrow> rename_access a b = Ok u \<Longrightarrow>
    vfs_check_access (cx_vfs ctx) d (cx_auth ctx) ACCESS3_MODIFY s = (a, s') \<Longrightarrow> P s \<Longrightarrow> False"
  by (auto simp: rename_access_def split: sum.splits dest: never_granted_check)

text \<open>The procedures that need the MODIFY right on a directory or on the file that they write.\<close>

definition guarded_procs :: "NFSProgram list" where
  "guarded_procs = [NFSPROC3_WRITE, NFSPROC3_CREATE, NFSPROC3_MKDIR, NFSPROC3_SYMLINK,
    NFSPROC3_MKNOD, NFSPROC3_REMOVE, NFSPROC3_RMDIR, NFSPROC3_RENAME, NFSPROC3_LINK]"

named_theorems unmodified

lemma write_unmodified [unmodified]:
  assumes "queries_keep P (cx_vfs ctx)" "never_granted P ctx ACCESS3_MODIFY"
  shows "nfsproc3_write xid input ctx s = (w, s') \<Longrightarrow> P s \<Longrightarrow> P s'"
  by (auto simp: nfsproc3_write_def split: if_splits sum.splits prod.splits
      dest: keep_dests [OF assms(1)] never_granted_require [OF assms(2)])

lemma create_unmodified [unmodified]:
  assumes "queries_keep P (cx_vfs ctx)" "never_granted P ctx ACCESS3_MODIFY"
  shows "nfsproc3_create xid input ctx s = (w, s') \<Longrightarrow> P s \<Longrightarrow> P s'"
  by (auto simp: nfsproc3_create_def split: if_splits sum.splits prod.splits
      dest: keep_dests [OF assms(1)] never_granted_require [OF assms(2)])

lemma mkdir_unmodified [unmodified]:
  assumes "queries_keep P (cx_vfs ctx)" "never_granted P ctx ACCESS3_MODIFY"
  shows "nfsproc3_mkdir xid input ctx s = (w, s') \<Longrightarrow> P s \<Longrightarrow> P s'"
  by (auto simp: nfsproc3_mkdir_def split: if_splits sum.splits prod.splits
      dest: keep_dests [OF assms(1)] never_granted_require [OF assms(2)])

lemma symlink_unmodified [unmodified]:
  assumes "queries_keep P (cx_vfs ctx)" "never_granted P ctx ACCESS3_MODIFY"
  shows "nfsproc3_symlink xid input ctx s = (w, s') \<Longrightarrow> P s \<Longrightarrow> P s'"
  by (auto simp: nfsproc3_symlink_def split: if_splits sum.splits prod.splits
      dest: keep_dests [OF assms(1)] never_granted_require [OF assms(2)])

lemma mknod_unmodified [unmodified]:
  assumes "queries_keep P (cx_vfs ctx)" "never_granted P ctx ACCESS3_MODIFY"
  shows "nfsproc3_mknod xid input ctx s = (w, s') \<Longrightarrow> P s \<Longrightarrow> P s'"
  by (auto simp: nfsproc3_mknod_def split: if_splits sum.splits prod.splits
      dest: keep_dests [OF assms(1)] never_granted_require [OF assms(2)])

lemma remove_unmodified [unmodified]:
  assumes "queries_keep P (cx_vfs ctx)" "never_granted P ctx ACCESS3_MODIFY"
  shows "nfsproc3_remove xid input ctx s = (w, s') \<Longrightarrow> P s \<Longrightarrow> P s'"
  by (auto simp: nfsproc3_remove_def split: if_splits sum.splits prod.splits
      dest: keep_dests [OF assms(1)] never_granted_require [OF assms(2)])

lemma rmdir_unmodified [unmodified]:
  assumes "queries_keep P (cx_vfs ctx)" "never_granted P ctx ACCESS3_MODIFY"
  shows "nfsproc3_rmdir xid input ctx s = (w, s') \<Longrightarrow> P s \<Longrightarrow> P s'"
  by (auto simp: nfsproc3_rmdir_def split: if_splits sum.splits prod.splits
      dest: keep_dests [OF assms(1)] never_granted_require [OF assms(2)])

lemma link_unmodified [unmodified]:
  assumes "queries_keep P (cx_vfs ctx)" "never_granted P ctx ACCESS3_MODIFY"
  shows "nfsproc3_link xid input ctx s = (w, s') \<Longrightarrow> P s \<Longrightarrow> P s'"
  by (auto simp: nfsproc3_link_def split: if_splits sum.splits prod.splits
      dest: keep_dests [OF assms(1)] never_granted_require [OF assms(2)])

lemma rename_unmodified [unmodified]:
  assumes "queries_keep P (cx_vfs ctx)" "never_granted P ctx ACCESS3_MODIFY"
  shows "nfsproc3_rename xid input ctx s = (w, s') \<Longrightarrow> P s \<Longrightarrow> P s'"
  by (auto simp: nfsproc3_rename_def split: if_splits sum.splits prod.splits
      dest: keep_dests [OF assms(1)] never_granted_rename [OF assms(2)])

lemma no_modify_no_change:
  assumes "queries_keep P (cx_vfs ctx)" "never_granted P ctx ACCESS3_MODIFY"
    and "nfs_program_of (cb_proc call) \<in> set guarded_procs"
    and "handle_nfs xid call input ctx s = (w, s')" and "P s"
  shows "P s'"
  using assms(3-5) unmodified [OF assms(1,2)]
  by (auto simp: handle_nfs_def guarded_procs_def split: if_splits)

text \<open>The procedures that change the file system; \<open>COMMIT\<close> is not one of them.\<close>

definition modifying_procs :: "NFSProgram list" where
  "modifying_procs = NFSPROC3_SETATTR # guarded_procs"

lemma ser_wcc_ok: "\<exists>b. ser_wcc x y = Ok b"
  using wcc_data.ser_ok by (simp add: ser_wcc_def)

lemma nfs_reply_total: "\<forall>r \<in> set body. \<exists>b. r = Ok b \<Longrightarrow> \<exists>out. nfs_reply xid stat body = Ok out"
proof -
  assume "\<forall>r \<in> set body. \<exists>b. r = Ok b"
  then have "\<exists>b. ser_seq body = Ok b" by (induction body) auto
  moreover obtain h where "ser_rpc_msg (make_success_reply xid) = Ok h"
    using rpc_msg.ser_ok [OF ok_success_reply] by blast
  moreover obtain t where "ser_nfsstat3 stat = Ok t" using nfsstat3.ser_ok by blast
  ultimately show ?thesis by (auto simp: nfs_reply_def)
qed

lemma rofs_reply:
  "\<exists>out. nfs_reply xid NFS3ERR_ROFS [ser_wcc_default] = Ok out"
  "\<exists>out. nfs_reply xid NFS3ERR_ROFS [ser_post_op_attr None, ser_wcc_default] = Ok out"
  by (rule nfs_reply_total; use wcc_data.ser_ok xdr_codec.ser_ok [OF codec_opt_fattr3] in
      \<open>simp add: ser_wcc_default_def ser_post_op_attr_def\<close>)+

lemma read_only_refused:
  assumes "vfs_capabilities (cx_vfs ctx) = ReadOnly" "cb_vers call = NFS3_VERSION"
    and "nfs_program_of (cb_proc call) \<in> set modifying_procs"
  shows "\<exists>out. handle_nfs xid call input ctx s = (Ok out, s) \<and>
    reply_status out = Some NFS3ERR_ROFS"
proof -
  have "\<not> can_write ctx" using assms(1) by (simp add: can_write_def)
  then obtain body where "handle_nfs xid call input ctx s = (nfs_reply xid NFS3ERR_ROFS body, s)"
      "body = [ser_wcc_default] \<or> body = [ser_post_op_attr None, ser_wcc_default]"
    using assms(2,3)
    by (auto simp: handle_nfs_def modifying_procs_def guarded_procs_def read_only)
  then show ?thesis using rofs_reply [of xid] nfs_reply_status by fastforce
qed

text \<open>
  The first argument of every procedure but NULL is a file handle. When it is not one of this
  server instance, the file system is not touched.
\<close>

named_theorems bad_handle

lemma getattr_bad_handle [bad_handle]:
  "de_nfs_fh3 input = Ok (fh, r) \<Longrightarrow> fh_to_id (cx_vfs ctx) fh = Err stat \<Longrightarrow>
    nfsproc3_getattr xid input ctx s = (w, s') \<Longrightarrow> s' = s"
  by (auto simp: nfsproc3_getattr_def  de_Ok split: sum.splits prod.splits if_splits)

lemma lookup_bad_handle [bad_handle]:
  "de_nfs_fh3 input = Ok (fh, r) \<Longrightarrow> fh_to_id (cx_vfs ctx) fh = Err stat \<Longrightarrow>
    nfsproc3_lookup xid input ctx s = (w, s') \<Longrightarrow> s' = s"
  by (auto simp: nfsproc3_lookup_def de_diropargs3_def de_Ok split: sum.splits prod.splits if_splits)

lemma access_bad_handle [bad_handle]:
  "de_nfs_fh3 input = Ok (fh, r) \<Longrightarrow> fh_to_id (cx_vfs ctx) fh = Err stat \<Longrightarrow>
    nfsproc3_access xid input ctx s = (w, s') \<Longrightarrow> s' = s"
  by (auto simp: nfsproc3_access_def  de_Ok split: sum.splits prod.splits if_splits)

lemma readlink_bad_handle [bad_handle]:
  "de_nfs_fh3 input = Ok (fh, r) \<Longrightarrow> fh_to_id (cx_vfs ctx) fh = Err stat \<Longrightarrow>
    nfsproc3_readlink xid input ctx s = (w, s') \<Longrightarrow> s' = s"
  by (auto simp: nfsproc3_readlink_def  de_Ok split: sum.splits prod.splits if_splits)

lemma read_bad_handle [bad_handle]:
  "de_nfs_fh3 input = Ok (fh, r) \<Longrightarrow> fh_to_id (cx_vfs ctx) fh = Err stat \<Longrightarrow>
    nfsproc3_read xid input ctx s = (w, s') \<Longrightarrow> s' = s"
  by (auto simp: nfsproc3_read_def de_READ3args_def de_Ok split: sum.splits prod.splits if_splits)

lemma fsstat_bad_handle [bad_handle]:
  "de_nfs_fh3 input = Ok (fh, r) \<Longrightarrow> fh_to_id (cx_vfs ctx) fh = Err stat \<Longrightarrow>
    nfsproc3_fsstat xid input ctx s = (w, s') \<Longrightarrow> s' = s"
  by (auto simp: nfsproc3_fsstat_def  de_Ok split: sum.splits prod.splits if_splits)

lemma fsinfo_bad_handle [bad_handle]:
  "de_nfs_fh3 input = Ok (fh, r) \<Longrightarrow> fh_to_id (cx_vfs ctx) fh = Err stat \<Longrightarrow>
    nfsproc3_fsinfo xid input ctx s = (w, s') \<Longrightarrow> s' = s"
  by (auto simp: nfsproc3_fsinfo_def  de_Ok split: sum.splits prod.splits if_splits)

lemma pathconf_bad_handle [bad_handle]:
  "de_nfs_fh3 input = Ok (fh, r) \<Longrightarrow> fh_to_id (cx_vfs ctx) fh = Err stat \<Longrightarrow>
    nfsproc3_pathconf xid input ctx s = (w, s') \<Longrightarrow> s' = s"
  by (auto simp: nfsproc3_pathconf_def  de_Ok split: sum.splits prod.splits if_splits)

lemma readdir_bad_handle [bad_handle]:
  "de_nfs_fh3 input = Ok (fh, r) \<Longrightarrow> fh_to_id (cx_vfs ctx) fh = Err stat \<Longrightarrow>
    nfsproc3_readdir xid input ctx s = (w, s') \<Longrightarrow> s' = s"
  by (auto simp: nfsproc3_readdir_def de_READDIR3args_def de_Ok split: sum.splits prod.splits if_splits)

lemma readdirplus_bad_handle [bad_handle]:
  "de_nfs_fh3 input = Ok (fh, r) \<Longrightarrow> fh_to_id (cx_vfs ctx) fh = Err stat \<Longrightarrow>
    nfsproc3_readdirplus xid input ctx s = (w, s') \<Longrightarrow> s' = s"
  by (auto simp: nfsproc3_readdirplus_def de_READDIRPLUS3args_def de_Ok split: sum.splits prod.splits if_splits)

lemma setattr_bad_handle [bad_handle]:
  "de_nfs_fh3 input = Ok (fh, r) \<Longrightarrow> fh_to_id (cx_vfs ctx) fh = Err stat \<Longrightarrow>
    nfsproc3_setattr xid input ctx s = (w, s') \<Longrightarrow> s' = s"
  by (auto simp: nfsproc3_setattr_def de_SETATTR3args_def de_Ok split: sum.splits prod.splits if_splits)

lemma write_bad_handle [bad_handle]:
  "de_nfs_fh3 input = Ok (fh, r) \<Longrightarrow> fh_to_id (cx_vfs ctx) fh = Err stat \<Longrightarrow>
    nfsproc3_write xid input ctx s = (w, s') \<Longrightarrow> s' = s"
  by (auto simp: nfsproc3_write_def de_WRITE3args_def de_Ok split: sum.splits prod.splits if_splits)

lemma create_bad_handle [bad_handle]:
  "de_nfs_fh3 input = Ok (fh, r) \<Longrightarrow> fh_to_id (cx_vfs ctx) fh = Err stat \<Longrightarrow>
    nfsproc3_create xid input ctx s = (w, s') \<Longrightarrow> s' = s"
  by (auto simp: nfsproc3_create_def de_diropargs3_def de_Ok split: sum.splits prod.splits if_splits)

lemma mkdir_bad_handle [bad_handle]:
  "de_nfs_fh3 input = Ok (fh, r) \<Longrightarrow> fh_to_id (cx_vfs ctx) fh = Err stat \<Longrightarrow>
    nfsproc3_mkdir xid input ctx s = (w, s') \<Longrightarrow> s' = s"
  by (auto simp: nfsproc3_mkdir_def de_MKDIR3args_def de_diropargs3_def de_Ok split: sum.splits prod.splits if_splits)

lemma symlink_bad_handle [bad_handle]:
  "de_nfs_fh3 input = Ok (fh, r) \<Longrightarrow> fh_to_id (cx_vfs ctx) fh = Err stat \<Longrightarrow>
    nfsproc3_symlink xid input ctx s = (w, s') \<Longrightarrow> s' = s"
  by (auto simp: nfsproc3_symlink_def de_SYMLINK3args_def de_diropargs3_def de_Ok split: sum.splits prod.splits if_splits)

lemma mknod_bad_handle [bad_handle]:
  "de_nfs_fh3 input = Ok (fh, r) \<Longrightarrow> fh_to_id (cx_vfs ctx) fh = Err stat \<Longrightarrow>
    nfsproc3_mknod xid input ctx s = (w, s') \<Longrightarrow> s' = s"
  by (auto simp: nfsproc3_mknod_def de_MKNOD3args_def de_diropargs3_def de_Ok split: sum.splits prod.splits if_splits)

lemma remove_bad_handle [bad_handle]:
  "de_nfs_fh3 input = Ok (fh, r) \<Longrightarrow> fh_to_id (cx_vfs ctx) fh = Err stat \<Longrightarrow>
    nfsproc3_remove xid input ctx s = (w, s') \<Longrightarrow> s' = s"
  by (auto simp: nfsproc3_remove_def de_diropargs3_def de_Ok split: sum.splits prod.splits if_splits)

lemma rmdir_bad_handle [bad_handle]:
  "de_nfs_fh3 input = Ok (fh, r) \<Longrightarrow> fh_to_id (cx_vfs ctx) fh = Err stat \<Longrightarrow>
    nfsproc3_rmdir xid input ctx s = (w, s') \<Longrightarrow> s' = s"
  by (auto simp: nfsproc3_rmdir_def de_diropargs3_def de_Ok split: sum.splits prod.splits if_splits)

lemma rename_bad_handle [bad_handle]:
  "de_nfs_fh3 input = Ok (fh, r) \<Longrightarrow> fh_to_id (cx_vfs ctx) fh = Err stat \<Longrightarrow>
    nfsproc3_rename xid input ctx s = (w, s') \<Longrightarrow> s' = s"
  by (auto simp: nfsproc3_rename_def de_diropargs3_def de_Ok split: sum.splits prod.splits if_splits)

lemma link_bad_handle [bad_handle]:
  "de_nfs_fh3 input = Ok (fh, r) \<Longrightarrow> fh_to_id (cx_vfs ctx) fh = Err stat \<Longrightarrow>
    nfsproc3_link xid input ctx s = (w, s') \<Longrightarrow> s' = s"
  by (auto simp: nfsproc3_link_def de_LINK3args_def de_Ok split: sum.splits prod.splits if_splits)

lemma commit_bad_handle [bad_handle]:
  "de_nfs_fh3 input = Ok (fh, r) \<Longrightarrow> fh_to_id (cx_vfs ctx) fh = Err stat \<Longrightarrow>
    nfsproc3_commit xid input ctx s = (w, s') \<Longrightarrow> s' = s"
  by (auto simp: nfsproc3_commit_def de_COMMIT3args_def de_Ok split: sum.splits prod.splits if_splits)

lemma bad_handle_untouched:
  assumes "de_nfs_fh3 input = Ok (fh, r)" "fh_to_id (cx_vfs ctx) fh = Err stat"
    and "handle_nfs xid call input ctx s = (w, s')"
  shows "s' = s"
  using assms(3)
  by (cases "nfs_program_of (cb_proc call)")
    (auto simp: handle_nfs_def split: if_splits dest: bad_handle [OF assms(1,2)])

section \<open>Results as the client reads them\<close>

text \<open>The status of a procedure and its result, decoded from a reply.\<close>

definition client_result :: "'a de \<Rightarrow> bytes \<Rightarrow> (nfsstat3 \<times> 'a) option" where
  "client_result d out =
    (case de_bind de_rpc_msg (\<lambda>_. de_bind de_nfsstat3 (\<lambda>stat. de_bind d (\<lambda>x.
        de_return (stat, x)))) out of
      Ok (res, _) \<Rightarrow> Some res
    | Err _ \<Rightarrow> None)"

lemma nfs_reply_result:
  assumes "nfs_reply xid stat body = Ok out" and "\<And>b. ser_seq body = Ok b \<Longrightarrow> d b = Ok (x, r)"
  shows "client_result d out = Some (stat, x)"
proof -
  obtain i i' where "de_rpc_msg out = Ok (make_success_reply xid, i)"
      "de_nfsstat3 i = Ok (stat, i')" "ser_seq body = Ok i'"
    using nfs_reply_Ok [OF assms(1)] by blast
  then show ?thesis using assms(2) by (simp add: client_result_def de_bind_def de_return_def)
qed

lemma nfs_reply_result1:
  assumes "nfs_reply xid stat [ser x] = Ok out" "xdr_codec ser d ok" "ok x"
  shows "client_result d out = Some (stat, x)"
proof (rule nfs_reply_result [OF assms(1), where r = "[]"])
  fix b assume "ser_seq [ser x] = Ok b"
  then show "d b = Ok (x, [])"
    using xdr_codec.dec_enc [OF assms(2,3), of b "[]"] by simp
qed

end
