(* ===== verification/Example_Fs.thy ===== *)
theory Example_Fs
  imports Nfs3
begin

text \<open>
  A concrete file system for the witnesses of the properties: a root directory with id 1 that
  holds one regular file \<open>a\<close> with id 2, whose contents are the state. It grants everything to
  everyone, reads and writes the contents, and refuses the other modifications.
\<close>

definition ex_time :: nfstime3 where
  "ex_time = \<lparr>nt_seconds = 5, nt_nseconds = 6\<rparr>"

definition ex_attr :: "ftype3 \<Rightarrow> fileid3 \<Rightarrow> u64 \<Rightarrow> fattr3" where
  "ex_attr t fid n = \<lparr>fa_ftype = t, fa_mode = 0x1FF, fa_nlink = 1, fa_uid = 0, fa_gid = 0,
    fa_size = n, fa_used = n, fa_rdev = \<lparr>sd_specdata1 = 0, sd_specdata2 = 0\<rparr>, fa_fsid = 0,
    fa_fileid = fid, fa_atime = ex_time, fa_mtime = ex_time, fa_ctime = ex_time\<rparr>"

definition ex_getattr :: "fileid3 \<Rightarrow> bytes \<Rightarrow> (bytes, fattr3) vfs_result" where
  "ex_getattr fid s =
    (if fid = 1 then (Ok (ex_attr NF3DIR 1 0), s)
     else if fid = 2 then (Ok (ex_attr NF3REG 2 (of_nat (length s))), s)
     else (Err NFS3ERR_NOENT, s))"

definition ex_entry :: "bytes \<Rightarrow> DirEntry" where
  "ex_entry s = \<lparr>de_fileid = 2, de_name = [97], de_attr = ex_attr NF3REG 2 (of_nat (length s))\<rparr>"

definition ex_vfs :: "Capabilities \<Rightarrow> u32 \<Rightarrow> bytes vfs" where
  "ex_vfs caps granted = \<lparr>
    vfs_generation = 9, vfs_capabilities = caps, vfs_root_dir = 1,
    vfs_limits_of = default_limits,
    vfs_lookup = (\<lambda>d n s. if d = 1 \<and> n = [97] then (Ok 2, s) else (Err NFS3ERR_NOENT, s)),
    vfs_getattr = ex_getattr,
    vfs_setattr = (\<lambda>fid a s. case sa_size a of
        Some n \<Rightarrow> ex_getattr fid (take (unat n) s) | None \<Rightarrow> ex_getattr fid s),
    vfs_read = (\<lambda>fid off n s. (Ok (take (unat n) (drop (unat off) s),
        length s \<le> unat off + unat n), s)),
    vfs_write = (\<lambda>fid off d how s.
        (Ok (ex_attr NF3REG 2 (of_nat (length d)), how, of_nat (length d)), take (unat off) s @ d)),
    vfs_create = (\<lambda>d n a s. (Err NFS3ERR_NOSPC, s)),
    vfs_create_exclusive = (\<lambda>d n v s. (Err NFS3ERR_NOSPC, s)),
    vfs_mkdir = (\<lambda>d n s. (Err NFS3ERR_NOSPC, s)),
    vfs_remove = (\<lambda>d n s. (Ok (), [])),
    vfs_rename = (\<lambda>d n d' n' s. (Err NFS3ERR_NOSPC, s)),
    vfs_readdir = (\<lambda>d i n s. (Ok \<lparr>rd_entries = take n [ex_entry s], rd_end = (1 \<le> n)\<rparr>, s)),
    vfs_readdir_index = (\<lambda>d i n s.
        if i > 1 then (Err NFS3ERR_BAD_COOKIE, s)
        else (Ok \<lparr>rd_entries = take n (drop i [ex_entry s]), rd_end = (1 \<le> i + n)\<rparr>, s)),
    vfs_symlink = (\<lambda>d n p a s. (Err NFS3ERR_NOSPC, s)),
    vfs_readlink = (\<lambda>fid s. (Err NFS3ERR_INVAL, s)),
    vfs_link = (\<lambda>f d n s. (Err NFS3ERR_NOSPC, s)),
    vfs_mknod = (\<lambda>d n t sd a s. (Err NFS3ERR_NOSPC, s)),
    vfs_commit = (\<lambda>fid off n s. ex_getattr fid s),
    vfs_check_access = (\<lambda>fid auth r s. (Ok (r AND granted), s)),
    vfs_fsstat = (\<lambda>fid s. (Err NFS3ERR_NOTSUPP, s))\<rparr>"

definition ex_ctx :: "Capabilities \<Rightarrow> u32 \<Rightarrow> bytes rpc_context" where
  "ex_ctx caps granted = \<lparr>cx_local_port = 2049, cx_client_addr = [49], cx_auth = auth_unix_default,
    cx_vfs = ex_vfs caps granted, cx_mount_signal = False, cx_export_name = [47]\<rparr>"

text \<open>The bytes of an encoded value, as the arguments of a call.\<close>

definition bytes_of :: "written \<Rightarrow> bytes" where
  "bytes_of w = (case w of Ok b \<Rightarrow> b | Err _ \<Rightarrow> [])"

lemma decode_bytes_of:
  assumes "xdr_codec ser d ok" "ok x"
  shows "d (bytes_of (ser x) @ r) = Ok (x, r)" "d (bytes_of (ser x)) = Ok (x, [])"
proof -
  obtain b where b: "ser x = Ok b" using xdr_codec.ser_ok [OF assms] by blast
  show *: "d (bytes_of (ser x) @ r) = Ok (x, r)" for r
    using xdr_codec.dec_enc [OF assms b] b by (simp add: bytes_of_def)
  show "d (bytes_of (ser x)) = Ok (x, [])" using * [of "[]"] by simp
qed

text \<open>Calls with the empty credentials.\<close>

definition ex_call :: "u32 \<Rightarrow> u32 \<Rightarrow> u32 \<Rightarrow> call_body" where
  "ex_call prog vers proc = \<lparr>cb_rpcvers = 2, cb_prog = prog, cb_vers = vers, cb_proc = proc,
    cb_cred = opaque_auth_default, cb_verf = opaque_auth_default\<rparr>"

definition ex_fh :: "fileid3 \<Rightarrow> nfs_fh3" where
  "ex_fh fid = id_to_fh (ex_vfs ReadWrite 0) fid"

lemma ex_fh_id: "fh_to_id (ex_vfs caps granted) (ex_fh fid) = Ok fid"
  by (simp add: fh_to_id_eq_Ok ex_fh_def id_to_fh_def ex_vfs_def)

lemma ok_ex_fh: "ok_nfs_fh3 (ex_fh fid)"
  by (simp add: ok_nfs_fh3_def ok_opaque_def ex_fh_def id_to_fh_def MAX_XDR_OPAQUE_LENGTH_eq)

lemma ex_ctx_simps:
  "cx_vfs (ex_ctx caps granted) = ex_vfs caps granted" "cx_export_name (ex_ctx caps granted) = [47]"
  "cx_auth (ex_ctx caps granted) = auth_unix_default" "cx_client_addr (ex_ctx caps granted) = [49]"
  by (simp_all add: ex_ctx_def)

lemma ex_vfs_simps:
  "vfs_capabilities (ex_vfs caps granted) = caps" "vfs_generation (ex_vfs caps granted) = 9"
  "vfs_root_dir (ex_vfs caps granted) = 1" "vfs_limits_of (ex_vfs caps granted) = default_limits"
  "vfs_getattr (ex_vfs caps granted) = ex_getattr"
  "vfs_check_access (ex_vfs caps granted) fid auth r t = (Ok (r AND granted), t)"
  "vfs_lookup (ex_vfs caps granted) d n t =
    (if d = 1 \<and> n = [97] then (Ok 2, t) else (Err NFS3ERR_NOENT, t))"
  "vfs_read (ex_vfs caps granted) fid off count t =
    (Ok (take (unat count) (drop (unat off) t), length t \<le> unat off + unat count), t)"
  "vfs_write (ex_vfs caps granted) fid off new how t =
    (Ok (ex_attr NF3REG 2 (of_nat (length new)), how, of_nat (length new)), take (unat off) t @ new)"
  "vfs_setattr (ex_vfs caps granted) fid a t =
    (case sa_size a of Some sz \<Rightarrow> ex_getattr fid (take (unat sz) t) | None \<Rightarrow> ex_getattr fid t)"
  "vfs_readdir_index (ex_vfs caps granted) d i len t =
    (if i > 1 then (Err NFS3ERR_BAD_COOKIE, t)
     else (Ok \<lparr>rd_entries = take len (drop i [ex_entry t]), rd_end = (1 \<le> i + len)\<rparr>, t))"
  by (simp_all add: ex_vfs_def)

lemmas ex_simps = ex_ctx_simps ex_vfs_simps ex_fh_id require_access_def getattr_ok_def ex_getattr_def

text \<open>A reply that is written, and what it holds for the client.\<close>

lemma ex_read_count: "read_count (ex_vfs caps granted) 2 = 2"
  by (simp add: read_count_def ex_vfs_simps default_limits_def Let_def MAX_BLOCK_SIZE_def)

lemma ex_pure: "pure_queries (ex_vfs caps granted)"
  by (auto simp: pure_queries_def ex_simps)

lemma ex_never_granted: "never_granted P (ex_ctx caps 0\<lparr>cx_auth := auth\<rparr>) right" "never_granted P (ex_ctx caps 0) right"
  by (simp_all add: never_granted_def ex_simps)

end
