(* ===== verification/Codec_Properties.thy ===== *)
theory Codec_Properties
  imports Xdr_Aux Example_Fs
begin

text \<open>
  What the codecs of the wire types promise, written out without the locale \<open>xdr_codec\<close> that
  their proofs use, and the file handles that the server gives out.
\<close>

section \<open>Round trips\<close>

text \<open>
  Every value that fits the limits of the decoder can be encoded, its encoding is aligned and is
  decoded to the value again, whatever follows it; and a decoder yields nothing but such values
  and consumes an aligned number of bytes.
\<close>

definition round_trips :: "'a ser \<Rightarrow> 'a de \<Rightarrow> ('a \<Rightarrow> bool) \<Rightarrow> bool" where
  "round_trips ser de ok \<longleftrightarrow>
    (\<forall>x. ok x \<longrightarrow> (\<exists>b. ser x = Ok b \<and> 4 dvd length b \<and> (\<forall>r. de (b @ r) = Ok (x, r)))) \<and>
    (\<forall>s x r. de s = Ok (x, r) \<longrightarrow> ok x \<and> (\<exists>q. s = q @ r \<and> 4 dvd length q))"

lemma codec_round_trips:
  assumes "xdr_codec ser de ok"
  shows "round_trips ser de ok"
proof -
  have "ok x \<and> (\<exists>q. s = q @ r \<and> 4 dvd length q)" if d: "de s = Ok (x, r)" for s x r
  proof -
    have ok: "ok x" by (rule xdr_codec.de_ok [OF assms d])
    then obtain b where b: "ser x = Ok b" "4 dvd length b" using xdr_codec.enc [OF assms] by blast
    then show ?thesis using ok xdr_codec.de_consumes [OF assms d b(1)] by auto
  qed
  then show ?thesis using xdr_codec.enc [OF assms] unfolding round_trips_def by blast
qed

text \<open>No encoding is the beginning of another one.\<close>

lemma codec_prefix_free:
  assumes "xdr_codec ser de ok" "ok x" "ok y" "ser x = Ok b" "ser y = Ok (b @ c)"
  shows "y = x \<and> c = []"
proof -
  have "de (b @ c) = Ok (x, c)" by (rule xdr_codec.dec_enc [OF assms(1,2,4)])
  moreover have "de ((b @ c) @ []) = Ok (y, [])" by (rule xdr_codec.dec_enc [OF assms(1,3,5)])
  ultimately show ?thesis by simp
qed

section \<open>Properties\<close>

text \<open>
  C39: RPC messages survive the wire. A message within the limits of the decoder is encoded as an
  aligned byte string that is decoded to the same message, whatever bytes follow it, and no other
  message is encoded as a longer string that starts with it.
\<close>

theorem rpc_message_codec:
  assumes "ok_rpc_msg m"
  shows "\<exists>b. ser_rpc_msg m = Ok b \<and> 4 dvd length b \<and> (\<forall>r. de_rpc_msg (b @ r) = Ok (m, r)) \<and>
    (\<forall>m' c. ok_rpc_msg m' \<and> ser_rpc_msg m' = Ok (b @ c) \<longrightarrow> m' = m \<and> c = [])"
  using xdr_codec.enc [OF codec_rpc_msg assms] codec_prefix_free [OF codec_rpc_msg assms] by blast

lemma rpc_message_codec_witness:
  "\<exists>b. ser_rpc_msg \<lparr>rm_xid = 7, rm_body = CALL (ex_call NFS3_PROGRAM 3 0)\<rparr> = Ok b \<and>
    de_rpc_msg (b @ [1]) = Ok (\<lparr>rm_xid = 7, rm_body = CALL (ex_call NFS3_PROGRAM 3 0)\<rparr>, [1])"
proof -
  have "ok_rpc_msg \<lparr>rm_xid = 7, rm_body = CALL (ex_call NFS3_PROGRAM 3 0)\<rparr>"
    by (simp add: ok_rpc_msg_def ok_rpc_body_def ok_call_body_def ok_opaque_auth_def ex_call_def
        opaque_auth_default_def ok_opaque_def)
  from rpc_message_codec [OF this] show ?thesis by blast
qed

text \<open>
  C40: The arguments and results of the NFS, mount and port map procedures, and floating point
  numbers as bit patterns, survive the wire: what
  is encoded within the limits is decoded to the same value, and what a decoder accepts is within the limits.
\<close>

theorem nfs_arguments_codec:
  "round_trips ser_f32 de_f32 (\<lambda>_. True) \<and> round_trips ser_f64 de_f64 (\<lambda>_. True) \<and>
   round_trips ser_nfs_fh3 de_nfs_fh3 ok_nfs_fh3 \<and>
   round_trips ser_fattr3 de_fattr3 (\<lambda>_. True) \<and>
   round_trips ser_wcc_data de_wcc_data (\<lambda>_. True) \<and>
   round_trips ser_sattr3 de_sattr3 (\<lambda>_. True) \<and>
   round_trips ser_diropargs3 de_diropargs3 ok_diropargs3 \<and>
   round_trips ser_SETATTR3args de_SETATTR3args ok_SETATTR3args \<and>
   round_trips ser_READ3args de_READ3args ok_READ3args \<and>
   round_trips ser_READ3resok de_READ3resok ok_READ3resok \<and>
   round_trips ser_WRITE3args de_WRITE3args ok_WRITE3args \<and>
   round_trips ser_WRITE3resok de_WRITE3resok ok_WRITE3resok \<and>
   round_trips ser_MKDIR3args de_MKDIR3args ok_MKDIR3args \<and>
   round_trips ser_SYMLINK3args de_SYMLINK3args ok_SYMLINK3args \<and>
   round_trips ser_MKNOD3args de_MKNOD3args ok_MKNOD3args \<and>
   round_trips ser_LINK3args de_LINK3args ok_LINK3args \<and>
   round_trips ser_READDIR3args de_READDIR3args ok_READDIR3args \<and>
   round_trips ser_entry3 de_entry3 ok_entry3 \<and>
   round_trips ser_READDIRPLUS3args de_READDIRPLUS3args ok_READDIRPLUS3args \<and>
   round_trips ser_entryplus3 de_entryplus3 ok_entryplus3 \<and>
   round_trips ser_FSSTAT3resok de_FSSTAT3resok (\<lambda>_. True) \<and>
   round_trips ser_fsinfo3 de_fsinfo3 (\<lambda>_. True) \<and>
   round_trips ser_PATHCONF3resok de_PATHCONF3resok (\<lambda>_. True) \<and>
   round_trips ser_COMMIT3args de_COMMIT3args ok_COMMIT3args \<and>
   round_trips ser_COMMIT3resok de_COMMIT3resok ok_COMMIT3resok \<and>
   round_trips ser_mountres3_ok de_mountres3_ok ok_mountres3_ok \<and>
   round_trips ser_mapping de_mapping (\<lambda>_. True) \<and>
   round_trips ser_pmaplist de_pmaplist (\<lambda>_. True)"
  by (intro conjI; rule codec_round_trips, rule xdr_codecs)

text \<open>
  File handles identify the objects of one server instance: an instance recovers from a handle exactly
  the file id that it was made for, if it issued the handle itself, and answers \<open>NFS3ERR_STALE\<close>
  for handles of an earlier and \<open>NFS3ERR_BADHANDLE\<close> for those of a later instance; it
  accepts no other bytes as a handle.
\<close>

lemma file_handles:
  "fh_to_id v (id_to_fh v' fid) =
      (if vfs_generation v' = vfs_generation v then Ok fid
       else Err (if vfs_generation v' < vfs_generation v then NFS3ERR_STALE else NFS3ERR_BADHANDLE)) \<and>
    length (fh_data (id_to_fh v fid)) = 16 \<and>
    (\<exists>id. fh_to_id v fh = Ok id) = (\<exists>id. fh = id_to_fh v id)"
proof -
  have "fh_to_id v (id_to_fh v' fid) = Ok fid" if "vfs_generation v' = vfs_generation v"
    using that by (simp add: fh_to_id_eq_Ok id_to_fh_def)
  moreover have "length (fh_data (id_to_fh v fid)) = 16" by (simp add: id_to_fh_def)
  ultimately show ?thesis
    using fh_to_id_other_instance [of v' v fid] by (simp add: fh_to_id_eq_Ok)
qed

end
