(* ===== verification/Record_Marking.thy ===== *)
theory Record_Marking
  imports Xdr
begin

text \<open>
  The record marking standard as \<open>src/protocol/rpc/wire.rs\<close> implements it: \<open>read_fragment\<close>,
  \<open>write_fragment\<close> and the reading side of \<open>SocketMessageHandler\<close>. A stream is the bytes that have
  arrived and are not read yet; a reader that waits for more bytes is \<open>Blocked\<close>.
\<close>

section \<open>Fragments\<close>

datatype read_result =
  Blocked                          \<comment> \<open>more bytes are needed\<close>
| Failed                           \<comment> \<open>the record is too long\<close>
| Fragment bool bytes bytes        \<comment> \<open>last fragment or not, the buffer, the rest of the stream\<close>

definition read_fragment :: "bytes \<Rightarrow> bytes \<Rightarrow> read_result" where
  "read_fragment socket append_to =
    (if length socket < 4 then Blocked
     else
       let fragment_header = (of_be_bytes (take 4 socket) :: u32);
           socket = drop 4 socket;
           is_last = fragment_header AND push_bit 31 1 > 0;
           len = unat (fragment_header AND (push_bit 31 1 - 1))
       in if saturating_add (length append_to) len > MAX_RPC_RECORD_LENGTH then Failed
          else if length socket < len then Blocked
          else Fragment is_last (append_to @ take len socket) (drop len socket))"

definition MAX_FRAGMENT_SIZE :: usize where
  "MAX_FRAGMENT_SIZE = 2 ^ 31 - 1"

text \<open>The loop of \<open>write_fragment\<close> from \<open>offset\<close> on: what it writes to the socket.\<close>

function write_fragments :: "usize \<Rightarrow> bytes \<Rightarrow> bytes" where
  "write_fragments offset buf =
    (if offset < length buf then
       let remaining = length buf - offset;
           fragment_size = min remaining MAX_FRAGMENT_SIZE;
           is_last = offset + fragment_size \<ge> length buf;
           fragment_header =
             (if is_last then of_nat fragment_size + push_bit 31 1 else of_nat fragment_size :: u32)
       in be_bytes 4 fragment_header @ take fragment_size (drop offset buf)
          @ write_fragments (offset + fragment_size) buf
     else [])"
  by pat_completeness auto

termination write_fragments
  by (relation "measure (\<lambda>(offset, buf). length buf - offset)")
    (auto simp: MAX_FRAGMENT_SIZE_def)

declare write_fragments.simps [simp del]

definition write_fragment :: "bytes \<Rightarrow> bytes" where
  "write_fragment buf = write_fragments 0 buf"

section \<open>The reader of a connection\<close>

text \<open>
  \<open>SocketMessageHandler::read\<close> in the loop that \<open>process_socket\<close> spawns: complete records are
  submitted in order, until the stream is used up (\<open>alive\<close>) or a fragment is refused.
\<close>

record reader =
  rd_submitted :: "bytes list"   \<comment> \<open>the records submitted to the command queue\<close>
  rd_stream :: bytes
  rd_cur_fragment :: bytes
  rd_alive :: bool

function reader_loop :: "bytes list \<Rightarrow> bytes \<Rightarrow> bytes \<Rightarrow> reader" where
  "reader_loop submitted socket cur_fragment =
    (case read_fragment socket cur_fragment of
      Blocked \<Rightarrow> \<lparr>rd_submitted = submitted, rd_stream = socket, rd_cur_fragment = cur_fragment,
          rd_alive = True\<rparr>
    | Failed \<Rightarrow> \<lparr>rd_submitted = submitted, rd_stream = socket, rd_cur_fragment = cur_fragment,
          rd_alive = False\<rparr>
    | Fragment is_last cur_fragment socket \<Rightarrow>
        if is_last then reader_loop (submitted @ [cur_fragment]) socket []
        else reader_loop submitted socket cur_fragment)"
  by pat_completeness auto

lemma read_fragment_shorter:
  "read_fragment socket buf = Fragment is_last buf' socket' \<Longrightarrow> length socket' < length socket"
  by (auto simp: read_fragment_def Let_def split: if_splits)

termination reader_loop
  by (relation "measure (\<lambda>(submitted, socket, cur_fragment). length socket)")
    (auto dest: read_fragment_shorter)

declare reader_loop.simps [simp del]

section \<open>Headers\<close>

text \<open>The flag of a header is bit 31, and the length is the other bits.\<close>

lemma bit_flag: "bit (push_bit 31 1 :: u32) n \<longleftrightarrow> n = 31"
  unfolding bit_push_bit_iff by (auto simp: bit_1_iff)

lemma header_length:
  "fragment_header AND (push_bit 31 1 - 1) = take_bit 31 (fragment_header :: u32)"
  by (simp add: take_bit_eq_mask mask_eq_exp_minus_1)

lemma header_flag: "fragment_header AND push_bit 31 1 > 0 \<longleftrightarrow> bit (fragment_header :: u32) 31"
proof -
  define flag where "flag = (push_bit 31 1 :: u32)"
  have flag: "bit flag n \<longleftrightarrow> n = 31" for n unfolding flag_def by (rule bit_flag)
  have "fragment_header AND flag = 0 \<longleftrightarrow> \<not> bit fragment_header 31"
  proof
    assume "fragment_header AND flag = 0"
    then have "\<not> bit (fragment_header AND flag) 31" by simp
    then show "\<not> bit fragment_header 31" by (simp add: bit_and_iff flag)
  next
    assume "\<not> bit fragment_header 31"
    then show "fragment_header AND flag = 0" by (intro bit_eqI) (auto simp: bit_and_iff flag)
  qed
  then show ?thesis unfolding flag_def [symmetric] by (simp add: word_gt_0)
qed

lemma header_bits:
  assumes "n < 2 ^ 31"
  shows "unat (take_bit 31 (of_nat n :: u32)) = n" "\<not> bit (of_nat n :: u32) 31"
    "unat (take_bit 31 (of_nat n + push_bit 31 1 :: u32)) = n"
    "bit (of_nat n + push_bit 31 1 :: u32) 31"
proof -
  define flag where "flag = (push_bit 31 1 :: u32)"
  have flag: "bit flag n \<longleftrightarrow> n = 31" for n unfolding flag_def by (rule bit_flag)
  have n: "take_bit 31 (of_nat n :: u32) = of_nat n"
    using assms by (simp add: take_bit_of_nat take_bit_nat_eq_self)
  then show no: "\<not> bit (of_nat n :: u32) 31" by (metis bit_take_bit_iff less_irrefl)
  have sum: "of_nat n + flag = (of_nat n OR flag :: u32)"
    using no by (intro disjunctive_add) (auto simp: flag)
  show un: "unat (take_bit 31 (of_nat n :: u32)) = n"
    using assms by (simp add: n unat_of_nat take_bit_nat_eq_self)
  have "take_bit 31 (of_nat n OR flag :: u32) = take_bit 31 (of_nat n)"
    by (rule bit_eqI) (auto simp: bit_simps flag)
  then show "unat (take_bit 31 (of_nat n + push_bit 31 1 :: u32)) = n"
    unfolding flag_def [symmetric] sum using un by simp
  show "bit (of_nat n + push_bit 31 1 :: u32) 31"
    unfolding flag_def [symmetric] sum by (simp add: bit_or_iff flag)
qed

text \<open>One fragment as a peer writes it.\<close>

definition fragment :: "bool \<Rightarrow> bytes \<Rightarrow> bytes" where
  "fragment is_last body =
    be_bytes 4 (if is_last then of_nat (length body) + push_bit 31 1 else of_nat (length body) :: u32)
    @ body"

lemma MAX_RPC_RECORD_LENGTH_eq: "MAX_RPC_RECORD_LENGTH = 4198400"
  by (simp add: MAX_RPC_RECORD_LENGTH_def MAX_BLOCK_SIZE_def PAGE_SIZE_def div_ceil_def)

lemma read_fragment_fragment:
  assumes "length buf + length body \<le> MAX_RPC_RECORD_LENGTH"
  shows "read_fragment (fragment is_last body @ rest) buf = Fragment is_last (buf @ body) rest"
proof -
  have n: "length body < 2 ^ 31" using assms by (simp add: MAX_RPC_RECORD_LENGTH_eq)
  have sat: "saturating_add (length buf) (length body) = length buf + length body"
    using assms by (simp add: saturating_add_def usize_max_def MAX_RPC_RECORD_LENGTH_eq)
  show ?thesis
    unfolding read_fragment_def fragment_def header_length header_flag Let_def
    using assms header_bits [OF n] sat by (cases is_last) simp_all
qed

lemma write_fragment_eq:
  assumes "buf \<noteq> []" "length buf \<le> MAX_FRAGMENT_SIZE"
  shows "write_fragment buf = fragment True buf"
proof -
  have "write_fragments (length buf) buf = []" by (simp add: write_fragments.simps)
  then show ?thesis
    using assms
    by (simp add: write_fragment_def write_fragments.simps [of 0] Let_def fragment_def min_def)
qed

lemma read_fragment_append:
  "read_fragment s buf = Fragment l b r \<Longrightarrow> read_fragment (s @ t) buf = Fragment l b (r @ t)"
  "read_fragment s buf = Failed \<Longrightarrow> read_fragment (s @ t) buf = Failed"
  by (auto simp: read_fragment_def Let_def split: if_splits)

lemma read_fragment_bound:
  "read_fragment s buf = Fragment l b r \<Longrightarrow> length b \<le> MAX_RPC_RECORD_LENGTH"
  by (auto simp: read_fragment_def Let_def saturating_add_def MAX_RPC_RECORD_LENGTH_eq
      usize_max_def min_def split: if_splits)

section \<open>Chunks\<close>

text \<open>How the stream is cut into chunks on its way does not matter.\<close>

lemma reader_loop_append:
  "reader_loop submitted (s @ t) buf =
    (let r = reader_loop submitted s buf
     in if rd_alive r then reader_loop (rd_submitted r) (rd_stream r @ t) (rd_cur_fragment r)
        else r\<lparr>rd_stream := rd_stream r @ t\<rparr>)"
proof (induction submitted s buf rule: reader_loop.induct)
  case (1 submitted s buf)
  show ?case
  proof (cases "read_fragment s buf")
    case Blocked
    then show ?thesis by (simp add: reader_loop.simps [of submitted s])
  next
    case Failed
    then show ?thesis
      by (simp add: reader_loop.simps [of submitted s] reader_loop.simps [of submitted "s @ t"]
          read_fragment_append)
  next
    case (Fragment l b r)
    then show ?thesis
      using 1 by (simp add: reader_loop.simps [of submitted s] reader_loop.simps [of submitted "s @ t"]
          read_fragment_append)
  qed
qed

lemma reader_loop_prefix:
  "reader_loop (earlier @ submitted) s buf =
    (let r = reader_loop submitted s buf in r\<lparr>rd_submitted := earlier @ rd_submitted r\<rparr>)"
proof (induction submitted s buf rule: reader_loop.induct)
  case (1 submitted s buf)
  show ?case
    using 1 by (cases "read_fragment s buf")
      (simp_all add: reader_loop.simps [of _ s])
qed

lemma reader_loop_earlier:
  "rd_submitted (reader_loop earlier s buf) = earlier @ rd_submitted (reader_loop [] s buf)"
  "rd_stream (reader_loop earlier s buf) = rd_stream (reader_loop [] s buf)"
  "rd_cur_fragment (reader_loop earlier s buf) = rd_cur_fragment (reader_loop [] s buf)"
  "rd_alive (reader_loop earlier s buf) = rd_alive (reader_loop [] s buf)"
  using reader_loop_prefix [of earlier "[]" s buf] by (simp_all add: Let_def)

lemma reader_loop_fragments:
  assumes "length (buf @ concat bodies) \<le> MAX_RPC_RECORD_LENGTH"
  shows "reader_loop submitted (concat (map (fragment False) bodies) @ rest) buf =
    reader_loop submitted rest (buf @ concat bodies)"
  using assms
proof (induction bodies arbitrary: buf)
  case (Cons b bodies)
  then show ?case
    using read_fragment_fragment [of buf b False "concat (map (fragment False) bodies) @ rest"]
      Cons.IH [of "buf @ b"]
    by (simp add: reader_loop.simps [of _ "fragment False b @ _"])
qed simp

text \<open>A record, sent in whatever fragments.\<close>

lemma reader_loop_record:
  assumes "length (concat bodies @ body) \<le> MAX_RPC_RECORD_LENGTH"
  shows "reader_loop submitted (concat (map (fragment False) bodies) @ fragment True body @ rest) [] =
    reader_loop (submitted @ [concat bodies @ body]) rest []"
proof -
  have "reader_loop submitted (fragment True body @ rest) (concat bodies) =
      reader_loop (submitted @ [concat bodies @ body]) rest []"
    using read_fragment_fragment [of "concat bodies" body True rest] assms
    by (simp add: reader_loop.simps [of _ "fragment True body @ _"])
  then show ?thesis using reader_loop_fragments [of "[]" bodies] assms by simp
qed

lemma reader_loop_bound:
  assumes "length buf \<le> MAX_RPC_RECORD_LENGTH"
    and "\<forall>r\<in>set submitted. length r \<le> MAX_RPC_RECORD_LENGTH"
  shows "length (rd_cur_fragment (reader_loop submitted s buf)) \<le> MAX_RPC_RECORD_LENGTH \<and>
    (\<forall>r\<in>set (rd_submitted (reader_loop submitted s buf)). length r \<le> MAX_RPC_RECORD_LENGTH)"
  using assms
proof (induction submitted s buf rule: reader_loop.induct)
  case (1 submitted s buf)
  show ?case
  proof (cases "read_fragment s buf")
    case (Fragment l b r)
    note bound = read_fragment_bound [OF Fragment]
    show ?thesis
    proof (cases l)
      case True
      have eq: "reader_loop submitted s buf = reader_loop (submitted @ [b]) r []"
        using Fragment True by (simp add: reader_loop.simps [of submitted s])
      show ?thesis
        unfolding eq by (rule 1(1) [OF Fragment True]) (use 1(4) bound in auto)
    next
      case False
      have eq: "reader_loop submitted s buf = reader_loop submitted r b"
        using Fragment False by (simp add: reader_loop.simps [of submitted s])
      show ?thesis
        unfolding eq by (rule 1(2) [OF Fragment False bound 1(4)])
    qed
  qed (use 1(3,4) in \<open>simp_all add: reader_loop.simps [of _ s]\<close>)
qed

section \<open>Properties\<close>

text \<open>
  C31: The reader reassembles records whatever way the peer cuts them into fragments and the network
  cuts the stream into chunks. A sequence of records, each as a number of fragments, is submitted
  as exactly these records in this order, and the connection stays alive.
\<close>

theorem records_reassembled:
  assumes "\<forall>(bodies, body)\<in>set recs. length (concat bodies @ body) \<le> MAX_RPC_RECORD_LENGTH"
  shows "reader_loop [] (concat (map (\<lambda>(bodies, body).
      concat (map (fragment False) bodies) @ fragment True body) recs)) [] =
    \<lparr>rd_submitted = map (\<lambda>(bodies, body). concat bodies @ body) recs, rd_stream = [],
     rd_cur_fragment = [], rd_alive = True\<rparr>"
proof -
  have "reader_loop submitted (concat (map (\<lambda>(bodies, body).
      concat (map (fragment False) bodies) @ fragment True body) recs)) [] =
    \<lparr>rd_submitted = submitted @ map (\<lambda>(bodies, body). concat bodies @ body) recs, rd_stream = [],
     rd_cur_fragment = [], rd_alive = True\<rparr>" for submitted
    using assms
  proof (induction recs arbitrary: submitted)
    case Nil
    show ?case by (simp add: reader_loop.simps read_fragment_def)
  next
    case (Cons x recs)
    obtain bodies body where x: "x = (bodies, body)" by fastforce
    then show ?case
      using Cons reader_loop_record [of bodies body submitted] by simp
  qed
  then show ?thesis by simp
qed

lemma records_reassembled_witness:
  "rd_submitted (reader_loop [] (concat (map (\<lambda>(bodies, body).
      concat (map (fragment False) bodies) @ fragment True body)
      [([[1, 2], [], [3]], [4]), ([], [5])])) []) = [[1, 2, 3, 4], [5]]"
  by (subst records_reassembled) (simp_all add: MAX_RPC_RECORD_LENGTH_eq)

text \<open>
  What \<open>write_fragment\<close> sends, the reader reads back: replies that are not empty and not longer
  than the limit for a record come back one by one.
\<close>

lemma write_fragment_roundtrip:
  assumes "\<forall>buf\<in>set msgs. buf \<noteq> [] \<and> length buf \<le> MAX_RPC_RECORD_LENGTH"
  shows "rd_submitted (reader_loop [] (concat (map write_fragment msgs)) []) = msgs"
proof -
  have w: "write_fragment buf = fragment True buf" if "buf \<in> set msgs" for buf
    using assms that by (intro write_fragment_eq) (auto simp: MAX_RPC_RECORD_LENGTH_eq MAX_FRAGMENT_SIZE_def)
  have "rd_submitted (reader_loop submitted (concat (map (fragment True) msgs)) []) = submitted @ msgs"
    for submitted
    using assms
  proof (induction msgs arbitrary: submitted)
    case (Cons m msgs)
    then show ?case using reader_loop_record [of "[]" m submitted] by simp
  qed (simp add: reader_loop.simps read_fragment_def)
  then show ?thesis using w by (simp cong: map_cong)
qed

lemma write_fragment_roundtrip_witness:
  "rd_submitted (reader_loop [] (concat (map write_fragment [[1, 2, 3], [4]])) []) = [[1, 2, 3], [4]]"
  by (rule write_fragment_roundtrip) (simp add: MAX_RPC_RECORD_LENGTH_eq)

text \<open>
  The way the stream is cut into chunks does not matter: reading a chunk, and then the next one
  from the state that the first one left, submits what reading both at once submits; after a refused
  fragment nothing more is read.
\<close>

lemma reader_chunks:
  "reader_loop submitted (s @ t) buf =
    (let r = reader_loop submitted s buf
     in if rd_alive r then reader_loop (rd_submitted r) (rd_stream r @ t) (rd_cur_fragment r)
        else r\<lparr>rd_stream := rd_stream r @ t\<rparr>)"
  by (rule reader_loop_append)

text \<open>
  C32: A peer cannot make the server hold a long record: neither the buffer nor a submitted
  record is ever longer than the limit, whatever the headers in the stream say.
\<close>

theorem reader_bounded:
  "length (rd_cur_fragment (reader_loop [] s [])) \<le> MAX_RPC_RECORD_LENGTH \<and>
    list_all (\<lambda>r. length r \<le> MAX_RPC_RECORD_LENGTH) (rd_submitted (reader_loop [] s []))"
  using reader_loop_bound [of "[]" "[]" s] by (simp add: list_all_iff)

end
