(* ===== verification/Portmap.thy ===== *)
theory Portmap
  imports Xdr_Aux Nfs3 Example_Fs
begin

text \<open>
  The port mapper, \<open>src/protocol/nfs/portmap/*.rs\<close>: a table from programs to ports that clients can
  set, remove, look up and list. The table is a hash map; the properties see it as the partial
  map that \<open>hm_get\<close> reads from it.
\<close>

record PortmapKey =
  pk_prog :: u32
  pk_vers :: u32
  pk_prot :: u32

type_synonym PortmapTable = "(PortmapKey, u16) hash_map"
type_synonym portmap_handler = "u32 \<Rightarrow> bytes \<Rightarrow> PortmapTable \<Rightarrow> written \<times> PortmapTable"

definition key_of :: "mapping \<Rightarrow> PortmapKey" where
  "key_of m = \<lparr>pk_prog = mp_prog m, pk_vers = mp_vers m, pk_prot = mp_prot m\<rparr>"

definition get_port :: "PortmapTable \<Rightarrow> PortmapKey \<Rightarrow> u16 option" where
  "get_port table entry = hm_get table entry"

definition pmapproc_null :: "u32 \<Rightarrow> written" where
  "pmapproc_null xid = ser_rpc_msg (make_success_reply xid)"

definition pmapproc_getport :: portmap_handler where
  "pmapproc_getport xid input table =
    (case de_mapping input of
      Err e \<Rightarrow> (Err e, table)
    | Ok (mapping, _) \<Rightarrow>
        let port = get_port table (key_of mapping);
            result = (case port of None \<Rightarrow> 0 | Some port \<Rightarrow> (ucast port :: u32))
        in (success_reply xid [ser_u32 result], table))"

definition pmapproc_setport :: portmap_handler where
  "pmapproc_setport xid input table =
    (case de_mapping input of
      Err e \<Rightarrow> (Err e, table)
    | Ok (mapping, _) \<Rightarrow>
        let entry = key_of mapping in
        case hm_get table entry of
          None \<Rightarrow> (success_reply xid [ser_bool True], hm_insert entry (ucast (mp_port mapping)) table)
        | Some _ \<Rightarrow> (success_reply xid [ser_bool False], table))"

definition pmapproc_unsetport :: portmap_handler where
  "pmapproc_unsetport xid input table =
    (case de_mapping input of
      Err e \<Rightarrow> (Err e, table)
    | Ok (mapping, _) \<Rightarrow>
        let tcp = \<lparr>pk_prog = mp_prog mapping, pk_vers = mp_vers mapping, pk_prot = IPPROTO_TCP\<rparr>;
            tcp_removed = (hm_get table tcp \<noteq> None);
            table = hm_remove tcp table;
            udp = \<lparr>pk_prog = mp_prog mapping, pk_vers = mp_vers mapping, pk_prot = IPPROTO_UDP\<rparr>;
            udp_removed = (hm_get table udp \<noteq> None);
            table = hm_remove udp table
        in (success_reply xid [ser_bool (tcp_removed \<or> udp_removed)], table))"

definition dump_entries :: "PortmapTable \<Rightarrow> mapping list" where
  "dump_entries table = map (\<lambda>(entry, port).
    \<lparr>mp_prog = pk_prog entry, mp_vers = pk_vers entry, mp_prot = pk_prot entry,
     mp_port = ucast port\<rparr>) (hm_entries table)"

text \<open>\<open>for map in entries.iter().rev() { list_head = Some(pmaplist { map, next: list_head }) }\<close>\<close>

definition dump_list :: "mapping list \<Rightarrow> pmaplist option" where
  "dump_list entries = fold (\<lambda>map list_head. Some (Pmaplist map list_head)) (rev entries) None"

definition pmapproc_dump :: "u32 \<Rightarrow> PortmapTable \<Rightarrow> written" where
  "pmapproc_dump xid table =
    (case dump_list (dump_entries table) of
      Some list \<Rightarrow> success_reply xid [ser_option ser_pmaplist (Some list)]
    | None \<Rightarrow> success_reply xid [ser_u32 0])"

definition portmap_program_of :: "u32 \<Rightarrow> PortmapProgram" where
  "portmap_program_of n =
    (case List.find (\<lambda>x. PortmapProgram_code x = n) PortmapProgram_variants of
      Some p \<Rightarrow> p
    | None \<Rightarrow> PMAPPROC_INVALID)"

definition handle_portmap ::
    "u32 \<Rightarrow> call_body \<Rightarrow> bytes \<Rightarrow> unit \<Rightarrow> PortmapTable \<Rightarrow> written \<times> PortmapTable" where
  "handle_portmap xid call input ctx table =
    (if cb_vers call \<noteq> PORTMAP_VERSION
     then (ser_rpc_msg (prog_mismatch_reply_message xid PORTMAP_VERSION), table)
     else
       case portmap_program_of (cb_proc call) of
         PMAPPROC_NULL \<Rightarrow> (pmapproc_null xid, table)
       | PMAPPROC_GETPORT \<Rightarrow> pmapproc_getport xid input table
       | PMAPPROC_SET \<Rightarrow> pmapproc_setport xid input table
       | PMAPPROC_DUMP \<Rightarrow> (pmapproc_dump xid table, table)
       | PMAPPROC_UNSET \<Rightarrow> pmapproc_unsetport xid input table
       | _ \<Rightarrow> (ser_rpc_msg (proc_unavail_reply_message xid), table))"

section \<open>Replies\<close>

lemma handle_portmap_reply:
  "handle_portmap xid call input ctx table = (Ok out, table') \<Longrightarrow> is_reply xid out"
  using null_reply [of xid out]
  by (cases "portmap_program_of (cb_proc call)")
    (auto simp: handle_portmap_def pmapproc_getport_def pmapproc_setport_def pmapproc_dump_def
      pmapproc_unsetport_def pmapproc_null_def nfsproc3_null_def Let_def
      split: if_splits sum.splits prod.splits option.splits
      intro: success_reply_is_reply dest: dispatcher_replies)

interpretation portmap_program: rpc_program handle_portmap
  by unfold_locales (rule handle_portmap_reply)

section \<open>The table\<close>

text \<open>Only well-formed tables arise: no key occurs twice.\<close>

lemma handle_portmap_ok:
  "hm_ok table \<Longrightarrow> handle_portmap xid call input ctx table = (w, table') \<Longrightarrow> hm_ok table'"
  by (auto simp: handle_portmap_def pmapproc_getport_def pmapproc_setport_def
      pmapproc_unsetport_def Let_def hm.invar_insert hm.invar_remove
      split: if_splits sum.splits prod.splits option.splits PortmapProgram.splits)

text \<open>
  The table as a partial map: SET adds a key that has no port, UNSET forgets the TCP and the UDP
  port of a program, nothing else changes it.
\<close>

definition set_spec :: "mapping \<Rightarrow> (PortmapKey \<rightharpoonup> u16) \<Rightarrow> (PortmapKey \<rightharpoonup> u16)" where
  "set_spec m t = (if t (key_of m) = None then t(key_of m \<mapsto> ucast (mp_port m)) else t)"

definition unset_spec :: "mapping \<Rightarrow> (PortmapKey \<rightharpoonup> u16) \<Rightarrow> (PortmapKey \<rightharpoonup> u16)" where
  "unset_spec m t = t(key_of (m\<lparr>mp_prot := IPPROTO_TCP\<rparr>) := None,
    key_of (m\<lparr>mp_prot := IPPROTO_UDP\<rparr>) := None)"

lemma setport_refines:
  "de_mapping input = Ok (m, r) \<Longrightarrow>
    hm_get (snd (pmapproc_setport xid input table)) = set_spec m (hm_get table)"
  by (auto simp: pmapproc_setport_def Let_def set_spec_def hm.get_insert split: option.split)

lemma unsetport_refines:
  "de_mapping input = Ok (m, r) \<Longrightarrow>
    hm_get (snd (pmapproc_unsetport xid input table)) = unset_spec m (hm_get table)"
  by (auto simp: pmapproc_unsetport_def Let_def unset_spec_def key_of_def hm.get_remove)

lemma getport_result:
  assumes "de_mapping input = Ok (m, r)"
  shows "\<exists>out. pmapproc_getport xid input table = (Ok out, table) \<and>
    reply_result de_u32 out =
      Some (case hm_get table (key_of m) of None \<Rightarrow> 0 | Some port \<Rightarrow> ucast port)"
  using assms success_reply_value [OF codec_u32 TrueI]
  by (simp add: pmapproc_getport_def get_port_def)

lemma pmaplist_of_entries:
  "dump_list es = (case es of [] \<Rightarrow> None | e # es' \<Rightarrow> Some (Pmaplist e (dump_list es')))"
  by (cases es) (simp_all add: dump_list_def)

lemma dump_list_entries:
  "dump_list es = Some l \<Longrightarrow> pmaplist_entries l = es"
proof (induction es arbitrary: l)
  case (Cons e es)
  then show ?case
    by (cases es) (auto simp: pmaplist_of_entries [of "_ # _"] pmaplist_of_entries [of "[]"])
qed (simp add: dump_list_def)

lemma ucast16_32: "ucast (ucast (w :: u32) :: u16) = w AND 0xFFFF"
proof -
  have *: "(0xFFFF :: u32) = mask 16" by (simp add: mask_eq_exp_minus_1)
  show ?thesis unfolding * by (rule bit_eqI) (auto simp: bit_simps)
qed

lemma ucast16_inj: "(ucast (p :: u16) :: u32) = ucast q \<longleftrightarrow> p = q"
proof
  assume eq: "(ucast p :: u32) = ucast q"
  show "p = q"
  proof (rule bit_word_eqI)
    fix n assume "n < LENGTH(16)"
    moreover have "bit (ucast p :: u32) n = bit (ucast q :: u32) n" by (simp only: eq)
    ultimately show "bit p n = bit q n" by (simp add: bit_simps)
  qed
qed simp

lemma key_eta: "\<lparr>pk_prog = pk_prog a, pk_vers = pk_vers a, pk_prot = pk_prot a\<rparr> = a"
  by simp

definition ex_mapping :: mapping where
  "ex_mapping = \<lparr>mp_prog = 100003, mp_vers = 3, mp_prot = IPPROTO_TCP, mp_port = 2049\<rparr>"

lemma ex_mapping_input: "de_mapping (bytes_of (ser_mapping ex_mapping)) = Ok (ex_mapping, [])"
  by (rule decode_bytes_of(2) [OF codec_mapping TrueI])

section \<open>Properties\<close>



text \<open>
  GETPORT finds what SET registered. After a SET of a mapping that was not in the table, a GETPORT for the same program,
  version and protocol is answered with the low 16 bits of the registered port; after an UNSET of a
  TCP mapping it is answered with 0.
\<close>

lemma portmap_set_get:
  assumes "de_mapping input = Ok (m, r)" and "hm_get table (key_of m) = None"
  shows "\<exists>out1 table1 out2.
    pmapproc_setport xid1 input table = (Ok out1, table1) \<and>
    reply_result de_bool out1 = Some True \<and>
    pmapproc_getport xid2 input table1 = (Ok out2, table1) \<and>
    reply_result de_u32 out2 = Some (mp_port m AND 0xFFFF) \<and>
    (mp_prot m = IPPROTO_TCP \<longrightarrow> (\<exists>out4.
      fst (pmapproc_getport xid4 input (snd (pmapproc_unsetport xid3 input table1))) = Ok out4 \<and>
      reply_result de_u32 out4 = Some 0))"
proof -
  let ?t = "hm_insert (key_of m) (ucast (mp_port m)) table"
  obtain out1 where 1: "success_reply xid1 [ser_bool True] = Ok out1"
      "reply_result de_bool out1 = Some True"
    using success_reply_value [OF codec_bool TrueI] by blast
  obtain out2 where 2: "pmapproc_getport xid2 input ?t = (Ok out2, ?t)"
      "reply_result de_u32 out2 = Some (ucast (ucast (mp_port m) :: u16))"
    using getport_result [OF assms(1), of xid2 ?t] by (auto simp: hm.get_insert)
  let ?u = "snd (pmapproc_unsetport xid3 input ?t)"
  have "hm_get ?u (key_of m) = None" if "mp_prot m = IPPROTO_TCP"
    using that unsetport_refines [OF assms(1), of xid3 ?t] by (simp add: unset_spec_def key_of_def)
  then have "\<exists>out4. fst (pmapproc_getport xid4 input ?u) = Ok out4 \<and>
      reply_result de_u32 out4 = Some 0" if "mp_prot m = IPPROTO_TCP"
    using that getport_result [OF assms(1), of xid4 ?u] by auto
  moreover have "pmapproc_setport xid1 input table = (Ok out1, ?t)"
    using assms 1(1) by (simp add: pmapproc_setport_def Let_def)
  ultimately show ?thesis using 1(2) 2 by (auto simp: ucast16_32)
qed

lemma portmap_set_get_witness:
  "\<exists>out1 table1 out2. pmapproc_setport 1 (bytes_of (ser_mapping ex_mapping)) [] = (Ok out1, table1) \<and>
    pmapproc_getport 2 (bytes_of (ser_mapping ex_mapping)) table1 = (Ok out2, table1) \<and>
    reply_result de_u32 out2 = Some 2049"
  using portmap_set_get [OF ex_mapping_input, of "[]" 1 2 3 4]
  by (fastforce simp: hm.get_empty ex_mapping_def)

text \<open>The mappings in a list as it is on the wire.\<close>

definition pmap_entries :: "pmaplist option \<Rightarrow> mapping list" where
  "pmap_entries l = (case l of None \<Rightarrow> [] | Some p \<Rightarrow> pmaplist_entries p)"

text \<open>
  DUMP lists the table. The list that a client decodes from the reply has one entry for every mapping of the
  table and no others.
\<close>

lemma portmap_dump_complete:
  assumes "hm_ok table"
  shows "\<exists>out l. pmapproc_dump xid table = Ok out \<and>
    reply_result (de_option de_pmaplist) out = Some l \<and>
    length (pmap_entries l) = length table \<and>
    (\<forall>k port. hm_get table k = Some port \<longleftrightarrow>
      \<lparr>mp_prog = pk_prog k, mp_vers = pk_vers k, mp_prot = pk_prot k, mp_port = ucast port\<rparr>
        \<in> set (pmap_entries l))"
proof -
  let ?l = "dump_list (dump_entries table)"
  have none: "ser_u32 0 = ser_option ser_pmaplist None"
    by (simp add: ser_option_def ser_bool_def ser_i32_def ser_u32_def)
  have "pmapproc_dump xid table = success_reply xid [ser_option ser_pmaplist ?l]"
    unfolding pmapproc_dump_def none by (simp split: option.split)
  moreover obtain out where "success_reply xid [ser_option ser_pmaplist ?l] = Ok out"
      "reply_result (de_option de_pmaplist) out = Some ?l"
    using success_reply_value [OF codec_option_total [OF codec_pmaplist] TrueI, of xid ?l] by blast
  moreover have "pmap_entries ?l = dump_entries table"
    using dump_list_entries by (cases "dump_entries table")
      (auto simp: dump_list_def pmap_entries_def split: option.split)
  moreover have "hm_get table k = Some port \<longleftrightarrow>
      \<lparr>mp_prog = pk_prog k, mp_vers = pk_vers k, mp_prot = pk_prot k, mp_port = ucast port\<rparr>
        \<in> set (dump_entries table)" for k port
  proof -
    have "(k, port) \<in> set (hm_entries table) \<longleftrightarrow>
      \<lparr>mp_prog = pk_prog k, mp_vers = pk_vers k, mp_prot = pk_prot k, mp_port = ucast port\<rparr>
        \<in> set (dump_entries table)"
      by (cases k) (auto simp: dump_entries_def ucast16_inj image_iff Bex_def key_eta
          intro!: PortmapKey.equality)
    then show ?thesis by (simp add: hm.entries_get [OF assms])
  qed
  moreover have "length (dump_entries table) = length table"
    by (simp add: dump_entries_def hm_entries_def)
  ultimately show ?thesis by simp
qed

lemma portmap_dump_complete_witness:
  "\<exists>out l. pmapproc_dump 7 [(key_of ex_mapping, 2049)] = Ok out \<and>
    reply_result (de_option de_pmaplist) out = Some l \<and> length (pmap_entries l) = 1"
  using portmap_dump_complete [of "[(key_of ex_mapping, 2049)]" 7] by (auto simp: hm_ok_def)

end
