(* ===== verification/Mount.thy ===== *)
theory Mount
  imports Xdr_Aux Nfs3 Example_Fs
begin

text \<open>
  The mount protocol, \<open>src/protocol/nfs/mount/*.rs\<close>. The state of a handler is that of the file system
  and the list of the signals sent on the mount channel (\<open>true\<close> for a mount, \<open>false\<close> for an unmount).
\<close>

type_synonym 's mount_state = "'s \<times> bool list"
type_synonym 's mount_handler =
  "u32 \<Rightarrow> bytes \<Rightarrow> 's rpc_context \<Rightarrow> 's mount_state \<Rightarrow> written \<times> 's mount_state"

section \<open>Export paths\<close>

fun trim_start_slashes :: "bytes \<Rightarrow> bytes" where
  "trim_start_slashes [] = []"
| "trim_start_slashes (c # path) = (if c = 47 then trim_start_slashes path else c # path)"

definition trim_end_slashes :: "bytes \<Rightarrow> bytes" where
  "trim_end_slashes path = rev (trim_start_slashes (rev path))"

definition trim_slashes :: "bytes \<Rightarrow> bytes" where
  "trim_slashes path = trim_end_slashes (trim_start_slashes path)"

fun strip_prefix :: "bytes \<Rightarrow> bytes \<Rightarrow> bytes option" where
  "strip_prefix [] path = Some path"
| "strip_prefix (c # cs) [] = None"
| "strip_prefix (c # cs) (p # ps) = (if c = p then strip_prefix cs ps else None)"

definition export_subpath :: "bytes \<Rightarrow> bytes \<Rightarrow> bytes option" where
  "export_subpath requested export =
    (if export = [47] then
       (case requested of
          c # rest \<Rightarrow> if c = 47 then Some rest else None
        | [] \<Rightarrow> None)
     else
       (case strip_prefix export requested of
          None \<Rightarrow> None
        | Some [] \<Rightarrow> Some []
        | Some (c # rest) \<Rightarrow> if c = 47 then Some rest else None))"

section \<open>Procedures\<close>

definition mount_reply :: "u32 \<Rightarrow> mountstat3 \<Rightarrow> written list \<Rightarrow> written" where
  "mount_reply xid stat body = success_reply xid (ser_mountstat3 stat # body)"

text \<open>\<open>if let Some(ref chan) = context.mount_signal { let _ = chan.send(x).await; }\<close>\<close>

definition send_signal :: "'s rpc_context \<Rightarrow> bool \<Rightarrow> bool list \<Rightarrow> bool list" where
  "send_signal ctx x signals = (if cx_mount_signal ctx then signals @ [x] else signals)"

definition mountproc3_null :: "u32 \<Rightarrow> written" where
  "mountproc3_null xid = ser_rpc_msg (make_success_reply xid)"

definition mountproc3_mnt :: "'s mount_handler" where
  "mountproc3_mnt xid input ctx st =
    (case st of (s, signals) \<Rightarrow>
    (case de_opaque input of
      Err e \<Rightarrow> (Err e, st)
    | Ok (path, _) \<Rightarrow>
    (case export_subpath path (cx_export_name ctx) of
      None \<Rightarrow> (mount_reply xid MNT3ERR_NOENT [], st)
    | Some subpath \<Rightarrow>
    (case path_to_id (cx_vfs ctx) (47 # trim_slashes subpath) s of
      (Ok fileid, s) \<Rightarrow>
        (mount_reply xid MNT3_OK [ser_mountres3_ok
          \<lparr>mr_fhandle = fh_data (id_to_fh (cx_vfs ctx) fileid),
           mr_auth_flavors = [auth_flavor_code AUTH_NULL, auth_flavor_code AUTH_UNIX]\<rparr>],
         (s, send_signal ctx True signals))
    | (Err _, s) \<Rightarrow> (mount_reply xid MNT3ERR_NOENT [], (s, signals))))))"

definition mountproc3_umnt :: "'s mount_handler" where
  "mountproc3_umnt xid input ctx st =
    (case st of (s, signals) \<Rightarrow>
    (case de_opaque input of
      Err e \<Rightarrow> (Err e, st)
    | Ok (path, _) \<Rightarrow> (mount_reply xid MNT3_OK [], (s, send_signal ctx False signals))))"

definition mountproc3_umnt_all :: "u32 \<Rightarrow> 's rpc_context \<Rightarrow> 's mount_state \<Rightarrow> written \<times> 's mount_state" where
  "mountproc3_umnt_all xid ctx st =
    (case st of (s, signals) \<Rightarrow> (mount_reply xid MNT3_OK [], (s, send_signal ctx False signals)))"

definition mountproc3_export :: "u32 \<Rightarrow> 's rpc_context \<Rightarrow> written" where
  "mountproc3_export xid ctx = success_reply xid
    [ser_bool True, ser_opaque (cx_export_name ctx), ser_bool False, ser_bool False]"

definition mount_program_of :: "u32 \<Rightarrow> MountProgram" where
  "mount_program_of n =
    (case List.find (\<lambda>x. MountProgram_code x = n) MountProgram_variants of
      Some p \<Rightarrow> p
    | None \<Rightarrow> MOUNTPROC3_INVALID)"

definition handle_mount ::
    "u32 \<Rightarrow> call_body \<Rightarrow> bytes \<Rightarrow> 's rpc_context \<Rightarrow> 's mount_state \<Rightarrow> written \<times> 's mount_state" where
  "handle_mount xid call input ctx st =
    (case mount_program_of (cb_proc call) of
      MOUNTPROC3_NULL \<Rightarrow> (mountproc3_null xid, st)
    | MOUNTPROC3_MNT \<Rightarrow> mountproc3_mnt xid input ctx st
    | MOUNTPROC3_UMNT \<Rightarrow> mountproc3_umnt xid input ctx st
    | MOUNTPROC3_UMNTALL \<Rightarrow> mountproc3_umnt_all xid ctx st
    | MOUNTPROC3_EXPORT \<Rightarrow> (mountproc3_export xid ctx, st)
    | _ \<Rightarrow> (ser_rpc_msg (proc_unavail_reply_message xid), st))"

section \<open>Replies\<close>

lemma handle_mount_reply:
  "handle_mount xid call input ctx st = (Ok out, st') \<Longrightarrow> is_reply xid out"
  using null_reply [of xid out]
  by (cases "mount_program_of (cb_proc call)")
    (auto simp: handle_mount_def mountproc3_mnt_def mountproc3_umnt_def mountproc3_umnt_all_def
      mountproc3_export_def mountproc3_null_def nfsproc3_null_def mount_reply_def
      split: sum.splits prod.splits option.splits
      intro: success_reply_is_reply dest: dispatcher_replies)

interpretation mount_program: rpc_program handle_mount
  by unfold_locales (rule handle_mount_reply)

section \<open>Paths\<close>

lemma strip_prefix_Some: "strip_prefix p path = Some r \<longleftrightarrow> path = p @ r"
  by (induction p path rule: strip_prefix.induct) auto

lemma strip_prefix_append [simp]: "strip_prefix p (p @ r) = Some r" "strip_prefix p p = Some []"
  using strip_prefix_Some [of p "p @ r" r] strip_prefix_Some [of p p "[]"] by auto

text \<open>An export is a path, with or without a rest that starts with a slash.\<close>

lemma export_subpath_Some:
  "export_subpath requested export = Some sub \<longleftrightarrow>
    requested = export \<and> export \<noteq> [47] \<and> sub = [] \<or>
    export = [47] \<and> requested = 47 # sub \<or>
    export \<noteq> [47] \<and> requested = export @ 47 # sub"
  by (auto simp: export_subpath_def strip_prefix_Some split: option.splits list.splits if_splits)

lemma trim_start_slashes_append: "trim_start_slashes (replicate n 47 @ p) = trim_start_slashes p"
  by (induction n) auto

lemma trim_start_slashes_shape:
  "\<exists>n. p = replicate n 47 @ trim_start_slashes p \<and>
    (trim_start_slashes p = [] \<or> hd (trim_start_slashes p) \<noteq> 47)"
proof (induction p)
  case (Cons c p)
  then obtain n where n: "p = replicate n 47 @ trim_start_slashes p"
      "trim_start_slashes p = [] \<or> hd (trim_start_slashes p) \<noteq> 47" by blast
  show ?case
  proof (cases "c = 47")
    case True
    then show ?thesis using n by (intro exI [of _ "Suc n"]) auto
  next
    case False
    then show ?thesis by (intro exI [of _ 0]) auto
  qed
qed simp

text \<open>Slashes at the ends of a path do not change where it leads.\<close>

lemma walk_empty_components:
  "walk_components v fid (replicate n [] @ ps) s = walk_components v fid ps s"
  by (induction n) auto

lemma split_slash_replicate: "split_slash (replicate n 47 @ p) = replicate n [] @ split_slash p"
  by (induction n) auto

lemma split_slash_replicate_end:
  "split_slash (p @ replicate n 47) = split_slash p @ replicate n []"
proof (induction n)
  case (Suc n)
  have "split_slash ((p @ replicate n 47) @ 47 # []) = split_slash (p @ replicate n 47) @ split_slash []"
    by (rule split_slash_append)
  then show ?case using Suc by (simp add: replicate_append_same [symmetric])
qed simp

lemma walk_trim_start:
  "walk_components v fid (split_slash (trim_start_slashes p)) s = walk_components v fid (split_slash p) s"
proof -
  obtain n where "p = replicate n 47 @ trim_start_slashes p"
    using trim_start_slashes_shape by blast
  then have "split_slash p = replicate n [] @ split_slash (trim_start_slashes p)"
    by (metis split_slash_replicate)
  then show ?thesis by (simp only: walk_empty_components)
qed

lemma walk_end_components:
  "walk_components v fid (ps @ replicate n []) s = walk_components v fid ps s"
proof -
  have "walk_components v f (replicate n []) t = (Ok f, t)" for f t
    by (induction n) auto
  then show ?thesis by (simp add: walk_components_append split: prod.split sum.split)
qed

lemma walk_trim_end:
  "walk_components v fid (split_slash (trim_end_slashes p)) s = walk_components v fid (split_slash p) s"
proof -
  obtain n where "rev p = replicate n 47 @ trim_start_slashes (rev p)"
    using trim_start_slashes_shape by blast
  then have "p = trim_end_slashes p @ replicate n 47"
    by (metis rev_append rev_replicate rev_rev_ident trim_end_slashes_def)
  then have "split_slash p = split_slash (trim_end_slashes p) @ replicate n []"
    by (metis split_slash_replicate_end)
  then show ?thesis by (simp only: walk_end_components)
qed

lemma path_to_id_trim: "path_to_id v (47 # trim_slashes p) s = path_to_id v (47 # p) s"
  by (simp add: path_to_id_def trim_slashes_def walk_trim_end walk_trim_start)

text \<open>MNT of a path that leads to an object.\<close>

lemma mnt_object:
  assumes "de_opaque input = Ok (path, rest)" "export_subpath path (cx_export_name ctx) = Some sub"
    and "path_to_id (cx_vfs ctx) (47 # sub) s = (Ok fid, s')"
  shows "\<exists>out res.
    mountproc3_mnt xid input ctx (s, signals) = (Ok out, (s', send_signal ctx True signals)) \<and>
    reply_result (de_bind de_mountstat3 (\<lambda>_. de_mountres3_ok)) out = Some res \<and>
    fh_to_id (cx_vfs ctx) \<lparr>fh_data = mr_fhandle res\<rparr> = Ok fid \<and> mr_auth_flavors res = [0, 1]"
proof -
  let ?res = "\<lparr>mr_fhandle = fh_data (id_to_fh (cx_vfs ctx) fid),
    mr_auth_flavors = [auth_flavor_code AUTH_NULL, auth_flavor_code AUTH_UNIX]\<rparr>"
  have walk: "path_to_id (cx_vfs ctx) (47 # trim_slashes sub) s = (Ok fid, s')"
    using assms(3) by (simp only: path_to_id_trim)
  have "ok_mountres3_ok ?res"
    by (simp add: ok_mountres3_ok_def ok_opaque_def id_to_fh_def MAX_XDR_OPAQUE_LENGTH_eq
        MAX_XDR_ARRAY_LENGTH_eq)
  then obtain out where out: "success_reply xid [ser_mountstat3 MNT3_OK, ser_mountres3_ok ?res] = Ok out"
      "reply_result (de_bind de_mountstat3 (\<lambda>_. de_mountres3_ok)) out = Some ?res"
    using success_reply_pair [OF codec_mountstat3 TrueI codec_mountres3_ok] by blast
  have "\<lparr>fh_data = fh_data (id_to_fh (cx_vfs ctx) fid)\<rparr> = id_to_fh (cx_vfs ctx) fid" by simp
  then have "fh_to_id (cx_vfs ctx) \<lparr>fh_data = mr_fhandle ?res\<rparr> = Ok fid"
    by (simp add: fh_to_id_eq_Ok)
  then show ?thesis
    using assms(1,2) walk out by (auto simp: mountproc3_mnt_def mount_reply_def)
qed

lemma ex_path_input:
  "length path \<le> 1000 \<Longrightarrow> de_opaque (bytes_of (ser_opaque path)) = Ok (path, [])"
  by (rule decode_bytes_of(2) [OF codec_opaque]) (simp add: ok_opaque_def MAX_XDR_OPAQUE_LENGTH_eq)

section \<open>Properties\<close>

text \<open>
  MNT gives out the root of the export and the directories below it, nothing else. A path that is neither the export nor the
  export, a slash and a rest is refused with \<open>MNT3ERR_NOENT\<close> and changes nothing.
\<close>

lemma mnt_only_exports:
  assumes "de_opaque input = Ok (path, rest)"
    and "\<not> (path = cx_export_name ctx \<and> path \<noteq> [47])"
    and "\<And>sub. path \<noteq> (if cx_export_name ctx = [47] then [] else cx_export_name ctx) @ 47 # sub"
  shows "\<exists>out. mountproc3_mnt xid input ctx st = (Ok out, st) \<and>
    reply_result de_mountstat3 out = Some MNT3ERR_NOENT"
proof -
  have "export_subpath path (cx_export_name ctx) = None"
  proof (cases "export_subpath path (cx_export_name ctx)")
    case (Some sub)
    then show ?thesis
      using export_subpath_Some [THEN iffD1, OF Some] assms(2) assms(3) [of sub]
      by (auto split: if_splits)
  qed
  then show ?thesis
    using assms(1) success_reply_value [OF codec_mountstat3 TrueI]
    by (auto simp: mountproc3_mnt_def mount_reply_def split: prod.split)
qed

lemma mnt_only_exports_witness:
  "\<exists>out. mountproc3_mnt 7 (bytes_of (ser_opaque [97])) (ex_ctx ReadWrite 0x3F) ([1], []) = (Ok out, ([1], [])) \<and>
    reply_result de_mountstat3 out = Some MNT3ERR_NOENT"
  by (rule mnt_only_exports [OF ex_path_input]) (simp_all add: ex_simps)



end
