(* ===== verification/Tracker.thy ===== *)
theory Tracker
  imports Prelude
begin

text \<open>
  The transaction tracker of \<open>src/protocol/rpc/transaction_tracker.rs\<close>, which recognises
  retransmitted calls by transaction id and client address. Times are integers (nanoseconds);
  the clock that an operation reads is its argument, because nothing forces the readings of
  \<open>SystemTime\<close> to grow. The mutex makes every operation atomic, so an operation is a function on
  the whole tracker, and a concurrent use of the tracker is a sequence of operations in some order.
\<close>

section \<open>State and operations\<close>

type_synonym duration = nat
type_synonym system_time = int
type_synonym transaction = "u32 \<times> bytes"

definition from_secs :: "nat \<Rightarrow> duration" where
  "from_secs n = n * 1000000000"

datatype TransactionState = InProgress | Completed system_time bytes

datatype TransactionStatus = Status_New | Status_InProgress | Status_Completed bytes

record TransactionTracker =
  tt_retention_period :: duration
  tt_housekeeping_interval :: duration
  tt_transactions :: "(transaction, TransactionState) hash_map"
  tt_last_housekeeping :: system_time

definition new_tracker :: "duration \<Rightarrow> system_time \<Rightarrow> TransactionTracker" where
  "new_tracker retention_period now =
    \<lparr>tt_retention_period = retention_period,
     tt_housekeeping_interval =
       (if retention_period < from_secs 1 then retention_period
        else max (from_secs 1) (retention_period div 4)),
     tt_transactions = [],
     tt_last_housekeeping = now\<rparr>"

text \<open>\<open>now.duration_since(last)\<close> is an error when the clock went backwards.\<close>

definition should_housekeep :: "system_time \<Rightarrow> system_time \<Rightarrow> duration \<Rightarrow> bool" where
  "should_housekeep last_run now interval =
    (if now < last_run then True else int interval \<le> now - last_run)"

definition housekeeping ::
    "(transaction, TransactionState) hash_map \<Rightarrow> duration \<Rightarrow> system_time \<Rightarrow>
      (transaction, TransactionState) hash_map" where
  "housekeeping transactions max_age now =
    (let cutoff = now - int max_age in
     hm_retain (\<lambda>_ v. case v of
         InProgress \<Rightarrow> True
       | Completed completion_time _ \<Rightarrow> cutoff \<le> completion_time) transactions)"

text \<open>The first half of \<open>check\<close>: the housekeeping that is due.\<close>

definition housekept :: "system_time \<Rightarrow> TransactionTracker \<Rightarrow> TransactionTracker" where
  "housekept now store =
    (if tt_transactions store \<noteq> [] \<and>
        should_housekeep (tt_last_housekeeping store) now (tt_housekeeping_interval store)
     then store\<lparr>tt_transactions := housekeeping (tt_transactions store) (tt_retention_period store) now,
                tt_last_housekeeping := now\<rparr>
     else store)"

definition check :: "transaction \<Rightarrow> system_time \<Rightarrow> TransactionTracker \<Rightarrow>
    TransactionStatus \<times> TransactionTracker" where
  "check key now store =
    (let store = housekept now store in
     case hm_get (tt_transactions store) key of
       None \<Rightarrow>
         (Status_New, store\<lparr>tt_transactions := hm_insert key InProgress (tt_transactions store)\<rparr>)
     | Some InProgress \<Rightarrow> (Status_InProgress, store)
     | Some (Completed completion_time response) \<Rightarrow>
         (Status_Completed response,
          store\<lparr>tt_transactions :=
            hm_insert key (Completed now response) (tt_transactions store)\<rparr>))"

definition record_response ::
    "transaction \<Rightarrow> system_time \<Rightarrow> bytes \<Rightarrow> TransactionTracker \<Rightarrow> TransactionTracker" where
  "record_response key now response store =
    store\<lparr>tt_transactions := hm_insert key (Completed now response) (tt_transactions store)\<rparr>"

definition clear :: "transaction \<Rightarrow> TransactionTracker \<Rightarrow> TransactionTracker" where
  "clear key store = store\<lparr>tt_transactions := hm_remove key (tt_transactions store)\<rparr>"

section \<open>The interface\<close>

text \<open>
  What the dispatcher relies on. \<open>entry\<close> reads what the cache holds of a transaction. A completed
  transaction may be forgotten only when it is older than the retention period, one in progress
  never; apart from that an operation changes the entry of its own transaction only.
\<close>

datatype tracker_op =
  Check transaction system_time
| Record transaction system_time bytes
| Clear transaction

primrec op_within :: "system_time \<Rightarrow> duration \<Rightarrow> tracker_op \<Rightarrow> bool" where
  "op_within start len (Check k now) \<longleftrightarrow> start \<le> now \<and> now \<le> start + int len"
| "op_within start len (Record k now r) \<longleftrightarrow> start \<le> now \<and> now \<le> start + int len"
| "op_within start len (Clear k) \<longleftrightarrow> True"

text \<open>The answers to the checks of a sequence of operations, and the final state.\<close>

fun run_ops ::
    "(transaction \<Rightarrow> system_time \<Rightarrow> 't \<Rightarrow> TransactionStatus \<times> 't) \<Rightarrow>
     (transaction \<Rightarrow> system_time \<Rightarrow> bytes \<Rightarrow> 't \<Rightarrow> 't) \<Rightarrow> (transaction \<Rightarrow> 't \<Rightarrow> 't) \<Rightarrow>
     tracker_op list \<Rightarrow> 't \<Rightarrow> (transaction \<times> TransactionStatus) list \<times> 't" where
  "run_ops chk rec clr [] t = ([], t)"
| "run_ops chk rec clr (Check k now # ops) t =
    (case chk k now t of (st, t) \<Rightarrow>
     case run_ops chk rec clr ops t of (answers, t) \<Rightarrow> ((k, st) # answers, t))"
| "run_ops chk rec clr (Record k now r # ops) t = run_ops chk rec clr ops (rec k now r t)"
| "run_ops chk rec clr (Clear k # ops) t = run_ops chk rec clr ops (clr k t)"

text \<open>A transaction that no check at a time before \<open>start + len\<close> may take for a new one.\<close>

definition held :: "system_time \<Rightarrow> TransactionState option \<Rightarrow> bool" where
  "held start e = (case e of
      None \<Rightarrow> False
    | Some InProgress \<Rightarrow> True
    | Some (Completed c r) \<Rightarrow> start \<le> c)"

locale replay_cache =
  fixes entry :: "'t \<Rightarrow> transaction \<Rightarrow> TransactionState option"
    and retention :: "'t \<Rightarrow> duration"
    and chk :: "transaction \<Rightarrow> system_time \<Rightarrow> 't \<Rightarrow> TransactionStatus \<times> 't"
    and rec :: "transaction \<Rightarrow> system_time \<Rightarrow> bytes \<Rightarrow> 't \<Rightarrow> 't"
    and clr :: "transaction \<Rightarrow> 't \<Rightarrow> 't"
    and invar :: "'t \<Rightarrow> bool"
  assumes chk_key: "invar t \<Longrightarrow> chk k now t = (st, t') \<Longrightarrow>
      st = Status_New \<and> entry t' k = Some InProgress \<and>
        (entry t k = None \<or> (\<exists>c r. entry t k = Some (Completed c r) \<and> c < now - int (retention t))) \<or>
      st = Status_InProgress \<and> entry t k = Some InProgress \<and> entry t' k = Some InProgress \<or>
      (\<exists>c r. st = Status_Completed r \<and> entry t k = Some (Completed c r) \<and>
        entry t' k = Some (Completed now r))"
    and chk_other: "invar t \<Longrightarrow> chk k now t = (st, t') \<Longrightarrow> j \<noteq> k \<Longrightarrow>
      entry t' j = entry t j \<or>
      entry t' j = None \<and> (\<exists>c r. entry t j = Some (Completed c r) \<and> c < now - int (retention t))"
    and rec_entry: "entry (rec k now r t) = (entry t)(k \<mapsto> Completed now r)"
    and clr_entry: "entry (clr k t) = (entry t)(k := None)"
    and chk_retention: "chk k now t = (st, t') \<Longrightarrow> retention t' = retention t"
    and rec_retention: "retention (rec k now r t) = retention t"
    and clr_retention: "retention (clr k t) = retention t"
    and chk_invar: "invar t \<Longrightarrow> chk k now t = (st, t') \<Longrightarrow> invar t'"
    and rec_invar: "invar t \<Longrightarrow> invar (rec k now r t)"
    and clr_invar: "invar t \<Longrightarrow> invar (clr k t)"
begin

lemma chk_held:
  assumes "invar t" "chk k now t = (st, t')" "held start (entry t j)"
    and "start \<le> now" "now \<le> start + int (retention t)"
  shows "held start (entry t' j)" "j = k \<Longrightarrow> st \<noteq> Status_New"
  using assms(3-) chk_key [OF assms(1,2)] chk_other [OF assms(1,2), of j]
  by (cases "j = k"; auto simp: held_def split: option.splits TransactionState.splits)+

lemma held_never_new:
  assumes "invar t" "held start (entry t k)" "Clear k \<notin> set ops"
    and "\<forall>op\<in>set ops. op_within start (retention t) op"
    and "run_ops chk rec clr ops t = (answers, t')"
  shows "(k, Status_New) \<notin> set answers \<and> held start (entry t' k)"
  using assms
proof (induction ops arbitrary: t answers)
  case (Cons op ops)
  show ?case
  proof (cases op)
    case (Check j now)
    obtain st t1 where c: "chk j now t = (st, t1)" by fastforce
    obtain rest where r: "run_ops chk rec clr ops t1 = (rest, t')" "answers = (j, st) # rest"
      using Cons.prems(5) Check c by (auto split: prod.splits)
    have now: "start \<le> now" "now \<le> start + int (retention t)" using Cons.prems(4) Check by auto
    note h = chk_held [OF Cons.prems(1) c Cons.prems(2) now]
    have "(k, Status_New) \<notin> set rest \<and> held start (entry t' k)"
      using Cons.IH [OF chk_invar [OF Cons.prems(1) c] h(1) _ _ r(1)] Cons.prems(3,4)
        chk_retention [OF c] by simp
    then show ?thesis using r(2) h(2) by auto
  next
    case (Record j now r)
    then have "held start (entry (rec j now r t) k)"
      using Cons.prems(2,4) by (auto simp: rec_entry held_def)
    then show ?thesis
      using Cons.IH [OF rec_invar [OF Cons.prems(1)]] Cons.prems Record by (simp add: rec_retention)
  next
    case (Clear j)
    then have "held start (entry (clr j t) k)" using Cons.prems(2,3) by (auto simp: clr_entry)
    then show ?thesis
      using Cons.IH [OF clr_invar [OF Cons.prems(1)]] Cons.prems Clear by (simp add: clr_retention)
  qed
qed auto

text \<open>
  At most one of the checks of a transaction answers that it is new, while nothing clears it and
  the whole sequence takes no longer than the retention period.
\<close>

lemma new_at_most_once:
  assumes "invar t" "Clear k \<notin> set ops" "\<forall>op\<in>set ops. op_within start (retention t) op"
    and "run_ops chk rec clr ops t = (answers, t')"
  shows "length (filter (\<lambda>a. a = (k, Status_New)) answers) \<le> 1"
  using assms
proof (induction ops arbitrary: t answers)
  case (Cons op ops)
  show ?case
  proof (cases op)
    case (Check j now)
    obtain st t1 where c: "chk j now t = (st, t1)" by fastforce
    obtain rest where r: "run_ops chk rec clr ops t1 = (rest, t')" "answers = (j, st) # rest"
      using Cons.prems(4) Check c by (auto split: prod.splits)
    have ops: "Clear k \<notin> set ops" "\<forall>op\<in>set ops. op_within start (retention t1) op"
      using Cons.prems(2,3) chk_retention [OF c] by auto
    note inv = chk_invar [OF Cons.prems(1) c]
    show ?thesis
    proof (cases "(j, st) = (k, Status_New)")
      case True
      then have "entry t1 k = Some InProgress" using chk_key [OF Cons.prems(1) c] by auto
      then have "(k, Status_New) \<notin> set rest"
        using held_never_new [OF inv _ ops r(1)] by (simp add: held_def)
      then have "filter (\<lambda>a. a = (k, Status_New)) rest = []" by (auto simp: filter_empty_conv)
      then show ?thesis using r(2) by simp
    next
      case False
      then show ?thesis using Cons.IH [OF inv ops r(1)] r(2) by auto
    qed
  next
    case (Record j now r)
    then show ?thesis
      using Cons.IH [OF rec_invar [OF Cons.prems(1)]] Cons.prems by (simp add: rec_retention)
  next
    case (Clear j)
    then show ?thesis
      using Cons.IH [OF clr_invar [OF Cons.prems(1)]] Cons.prems by (simp add: clr_retention)
  qed
qed simp

text \<open>What holds of all the recorded responses holds of those that are replayed.\<close>

lemma chk_stored:
  assumes "invar t" "chk k now t = (st, t')" "\<And>j c r. entry t j = Some (Completed c r) \<Longrightarrow> P j r"
  shows "entry t' j = Some (Completed c r) \<Longrightarrow> P j r" "st = Status_Completed r \<Longrightarrow> P k r"
  using chk_key [OF assms(1,2)] chk_other [OF assms(1,2), of j] assms(3)
  by (cases "j = k"; fastforce)+

text \<open>A response is replayed for a retention period after it was last used.\<close>

lemma chk_replays:
  assumes "invar t" "chk k now t = (st, t')" "entry t j = Some (Completed c r)"
    and "now \<le> c + int (retention t)"
  shows "j = k \<Longrightarrow> st = Status_Completed r \<and> entry t' j = Some (Completed now r)"
    "j \<noteq> k \<Longrightarrow> entry t' j = entry t j"
  using chk_key [OF assms(1,2)] chk_other [OF assms(1,2), of j] assms(3,4) by auto

text \<open>While a call is being executed, however long that takes, it is in progress for everyone.\<close>

lemma in_progress_stays:
  assumes "invar t" "entry t k = Some InProgress"
    and "\<And>now r. Record k now r \<notin> set ops" "Clear k \<notin> set ops"
    and "run_ops chk rec clr ops t = (answers, t')"
  shows "entry t' k = Some InProgress \<and> (\<forall>st. (k, st) \<in> set answers \<longrightarrow> st = Status_InProgress)"
  using assms
proof (induction ops arbitrary: t answers)
  case (Cons op ops)
  show ?case
  proof (cases op)
    case (Check j now)
    obtain st t1 where c: "chk j now t = (st, t1)" by fastforce
    obtain rest where r: "run_ops chk rec clr ops t1 = (rest, t')" "answers = (j, st) # rest"
      using Cons.prems(5) Check c by (auto split: prod.splits)
    have "entry t1 k = Some InProgress \<and> (j = k \<longrightarrow> st = Status_InProgress)"
      using Cons.prems(2) chk_key [OF Cons.prems(1) c] chk_other [OF Cons.prems(1) c, of k]
      by (cases "j = k") auto
    then show ?thesis
      using Cons.IH [OF chk_invar [OF Cons.prems(1) c] _ _ _ r(1)] Cons.prems(3,4) r(2) by auto
  next
    case (Record j now r)
    then have "j \<noteq> k" using Cons.prems(3) by auto
    then show ?thesis
      using Cons.IH [OF rec_invar [OF Cons.prems(1)] _ _ _ Cons.prems(5)[unfolded Record run_ops.simps]]
        Cons.prems(2-4) by (simp add: rec_entry)
  next
    case (Clear j)
    then have "j \<noteq> k" using Cons.prems(4) by auto
    then show ?thesis
      using Cons.IH [OF clr_invar [OF Cons.prems(1)] _ _ _ Cons.prems(5)[unfolded Clear run_ops.simps]]
        Cons.prems(2-4) by (simp add: clr_entry)
  qed
qed auto

end

section \<open>The tracker provides it\<close>

definition tt_entry :: "TransactionTracker \<Rightarrow> transaction \<Rightarrow> TransactionState option" where
  "tt_entry store = hm_get (tt_transactions store)"

definition tt_ok :: "TransactionTracker \<Rightarrow> bool" where
  "tt_ok store \<longleftrightarrow> hm_ok (tt_transactions store)"

lemma entry_housekept:
  assumes "tt_ok store"
  shows "tt_entry (housekept now store) j = tt_entry store j \<or>
    tt_entry (housekept now store) j = None \<and> (\<exists>c r. tt_entry store j = Some (Completed c r) \<and>
      c < now - int (tt_retention_period store))"
  using assms
  by (auto simp: housekept_def tt_entry_def tt_ok_def housekeeping_def hm.get_retain Let_def
      split: option.splits TransactionState.splits)

lemma housekept_ok: "tt_ok store \<Longrightarrow> tt_ok (housekept now store)"
  by (simp add: tt_ok_def housekept_def housekeeping_def hm.invar_retain Let_def)

lemma housekept_retention: "tt_retention_period (housekept now store) = tt_retention_period store"
  by (simp add: housekept_def)

lemma check_key:
  assumes "tt_ok t" "check k now t = (st, t')"
  shows "st = Status_New \<and> tt_entry t' k = Some InProgress \<and> (tt_entry t k = None \<or>
      (\<exists>c r. tt_entry t k = Some (Completed c r) \<and> c < now - int (tt_retention_period t))) \<or>
    st = Status_InProgress \<and> tt_entry t k = Some InProgress \<and> tt_entry t' k = Some InProgress \<or>
    (\<exists>c r. st = Status_Completed r \<and> tt_entry t k = Some (Completed c r) \<and>
      tt_entry t' k = Some (Completed now r))"
proof (cases "tt_entry (housekept now t) k")
  case None
  then show ?thesis
    using entry_housekept [OF assms(1), of now k] assms(2)
    by (auto simp: check_def Let_def tt_entry_def hm.get_insert_same)
next
  case (Some e)
  then have "tt_entry t k = Some e" using entry_housekept [OF assms(1), of now k] by auto
  then show ?thesis
    using Some assms(2)
    by (cases e) (auto simp: check_def Let_def tt_entry_def hm.get_insert_same)
qed

lemma check_other:
  assumes "tt_ok t" "check k now t = (st, t')" "j \<noteq> k"
  shows "tt_entry t' j = tt_entry t j \<or> tt_entry t' j = None \<and>
    (\<exists>c r. tt_entry t j = Some (Completed c r) \<and> c < now - int (tt_retention_period t))"
  using entry_housekept [OF assms(1), of now j] assms(2,3)
  by (auto simp: check_def Let_def tt_entry_def hm.get_insert_other
      split: option.splits TransactionState.splits)

lemma check_retention: "check k now t = (st, t') \<Longrightarrow> tt_retention_period t' = tt_retention_period t"
  by (auto simp: check_def Let_def housekept_retention split: option.splits TransactionState.splits)

lemma record_response_retention:
  "tt_retention_period (record_response k now r t) = tt_retention_period t"
  by (simp add: record_response_def)

lemma clear_retention: "tt_retention_period (clear k t) = tt_retention_period t"
  by (simp add: clear_def)

lemma check_ok: "tt_ok t \<Longrightarrow> check k now t = (st, t') \<Longrightarrow> tt_ok t'"
  using housekept_ok [of t now]
  by (auto simp: check_def Let_def tt_ok_def hm.invar_insert
      split: option.splits TransactionState.splits)

lemma record_response_entry:
  "tt_entry (record_response k now r t) = (tt_entry t)(k \<mapsto> Completed now r)"
  by (simp add: tt_entry_def record_response_def hm.get_insert)

lemma clear_entry: "tt_entry (clear k t) = (tt_entry t)(k := None)"
  by (simp add: tt_entry_def clear_def hm.get_remove)

lemma record_response_ok: "tt_ok t \<Longrightarrow> tt_ok (record_response k now r t)"
  by (simp add: tt_ok_def record_response_def hm.invar_insert)

lemma clear_ok: "tt_ok t \<Longrightarrow> tt_ok (clear k t)"
  by (simp add: tt_ok_def clear_def hm.invar_remove)

lemma new_tracker_ok: "tt_ok (new_tracker p now)" "tt_entry (new_tracker p now) k = None"
  by (simp_all add: tt_ok_def new_tracker_def hm.invar_empty tt_entry_def hm.get_empty)

interpretation tracker: replay_cache tt_entry tt_retention_period check record_response clear tt_ok
  by (unfold_locales; fact check_key check_other record_response_entry clear_entry
      check_retention record_response_retention clear_retention check_ok record_response_ok
      clear_ok)

section \<open>Forgetting\<close>

text \<open>The readings of the clock by a sequence of operations.\<close>

definition op_times :: "tracker_op list \<Rightarrow> system_time list" where
  "op_times ops = concat (map (\<lambda>op. case op of
      Check k now \<Rightarrow> [now] | Record k now r \<Rightarrow> [now] | Clear k \<Rightarrow> []) ops)"

lemma op_times_simps [simp]:
  "op_times [] = []" "op_times (Check k now # ops) = now # op_times ops"
  "op_times (Record k now r # ops) = now # op_times ops" "op_times (Clear k # ops) = op_times ops"
  "op_times (ops @ ops') = op_times ops @ op_times ops'"
  by (simp_all add: op_times_def)

text \<open>No completed entry is older, at the last housekeeping, than the retention period.\<close>

definition swept :: "TransactionTracker \<Rightarrow> bool" where
  "swept t \<longleftrightarrow> (\<forall>j c r. tt_entry t j = Some (Completed c r) \<longrightarrow>
    tt_last_housekeeping t - int (tt_retention_period t) \<le> c)"

lemma sweptD:
  "swept t \<Longrightarrow> tt_entry t j = Some (Completed c r) \<Longrightarrow>
    tt_last_housekeeping t - int (tt_retention_period t) \<le> c"
  unfolding swept_def by blast

lemma entry_housekeeping:
  assumes "tt_ok t" "hm_get (housekeeping (tt_transactions t) p now) j = Some (Completed c r)"
  shows "now - int p \<le> c"
  using assms by (auto simp: tt_ok_def housekeeping_def hm.get_retain Let_def
      split: option.splits TransactionState.splits if_splits)

lemma swept_housekept:
  assumes "tt_ok t" "swept t" "tt_entry (housekept now t) j = Some (Completed c r)"
  shows "tt_last_housekeeping (housekept now t) - int (tt_retention_period t) \<le> c"
    "now - int (tt_housekeeping_interval t) \<le> tt_last_housekeeping (housekept now t)"
proof -
  have *: "tt_last_housekeeping (housekept now t) - int (tt_retention_period t) \<le> c \<and>
    now - int (tt_housekeeping_interval t) \<le> tt_last_housekeeping (housekept now t)"
  proof (cases "tt_transactions t \<noteq> [] \<and>
      should_housekeep (tt_last_housekeeping t) now (tt_housekeeping_interval t)")
    case True
    then show ?thesis
      using assms(3) entry_housekeeping [OF assms(1)] by (simp add: housekept_def tt_entry_def)
  next
    case False
    then have same: "housekept now t = t" by (auto simp: housekept_def)
    then have "tt_transactions t \<noteq> []" using assms(3) by (auto simp: tt_entry_def hm.get_empty)
    then show ?thesis
      using False same sweptD [OF assms(2)] assms(3) by (auto simp: should_housekeep_def split: if_splits)
  qed
  show "tt_last_housekeeping (housekept now t) - int (tt_retention_period t) \<le> c"
    "now - int (tt_housekeeping_interval t) \<le> tt_last_housekeeping (housekept now t)"
    using * by blast+
qed

lemma record_swept:
  assumes "swept t" "tt_last_housekeeping t \<le> now"
  shows "swept (record_response k now r t)"
  unfolding swept_def
proof (intro allI impI)
  fix j c q assume "tt_entry (record_response k now r t) j = Some (Completed c q)"
  then have "c = now \<or> tt_entry t j = Some (Completed c q)"
    by (auto simp: record_response_entry split: if_splits)
  then show "tt_last_housekeeping (record_response k now r t) -
      int (tt_retention_period (record_response k now r t)) \<le> c"
    using assms sweptD [OF assms(1)] by (fastforce simp: record_response_def)
qed

lemma record_response_frame:
  "tt_last_housekeeping (record_response k now r t) = tt_last_housekeeping t"
  "tt_housekeeping_interval (record_response k now r t) = tt_housekeeping_interval t"
  by (simp_all add: record_response_def)

lemma clear_frame:
  "tt_last_housekeeping (clear k t) = tt_last_housekeeping t"
  "tt_housekeeping_interval (clear k t) = tt_housekeeping_interval t"
  by (simp_all add: clear_def)

lemma clear_swept: "swept t \<Longrightarrow> swept (clear k t)"
  unfolding swept_def by (simp add: clear_entry) (simp add: clear_def)

lemma housekept_last_le: "tt_last_housekeeping t \<le> now \<Longrightarrow> tt_last_housekeeping (housekept now t) \<le> now"
  by (simp add: housekept_def)

lemma check_completed_entry:
  assumes "check k now t = (st, t')" "tt_entry t' j = Some (Completed c r)"
  shows "c = now \<or> tt_entry (housekept now t) j = Some (Completed c r)"
  using assms by (cases "j = k")
    (auto simp: check_def Let_def tt_entry_def hm.get_insert split: option.splits TransactionState.splits)

lemma check_frame:
  assumes "check k now t = (st, t')"
  shows "tt_last_housekeeping t' = tt_last_housekeeping (housekept now t)"
    "tt_housekeeping_interval t' = tt_housekeeping_interval t"
  using assms by (auto simp: check_def Let_def housekept_def
      split: option.splits TransactionState.splits)

lemma check_swept:
  assumes "tt_ok t" "swept t" "tt_last_housekeeping t \<le> now" "check k now t = (st, t')"
  shows "swept t'" "tt_last_housekeeping t' \<le> now"
    "tt_entry t' j = Some (Completed c r) \<Longrightarrow>
      now - int (tt_retention_period t + tt_housekeeping_interval t) \<le> c"
proof -
  note last_le = housekept_last_le [OF assms(3)]
  then show "tt_last_housekeeping t' \<le> now" using check_frame [OF assms(4)] by simp
  show "swept t'"
    unfolding swept_def
    using check_completed_entry [OF assms(4)] swept_housekept(1) [OF assms(1,2)] last_le
      check_frame [OF assms(4)] check_retention [OF assms(4)] by fastforce
  show "now - int (tt_retention_period t + tt_housekeeping_interval t) \<le> c"
    if "tt_entry t' j = Some (Completed c r)"
    using check_completed_entry [OF assms(4) that] swept_housekept [OF assms(1,2), of now j c r]
    by auto
qed

lemma run_swept:
  assumes "tt_ok t" "swept t" "sorted (tt_last_housekeeping t # op_times (ops @ [Check k now]))"
    and "run_ops check record_response clear (ops @ [Check k now]) t = (answers, t')"
    and "tt_entry t' j = Some (Completed c r)"
  shows "now - int (tt_retention_period t + tt_housekeeping_interval t) \<le> c"
  using assms(1-4)
proof (induction ops arbitrary: t answers)
  case Nil
  then obtain st where "check k now t = (st, t')" by (auto split: prod.splits)
  then show ?case using check_swept(3) Nil assms(5) by auto
next
  case (Cons op ops)
  show ?case
  proof (cases op)
    case (Check i time)
    obtain st t1 where c: "check i time t = (st, t1)" by fastforce
    then show ?thesis
      using Cons.IH [OF check_ok [OF Cons.prems(1) c]] check_swept(1,2) [OF Cons.prems(1,2) _ c]
        Cons.prems(3,4) check_retention [OF c] check_frame(2) [OF c] Check
      by (fastforce split: prod.splits)
  next
    case (Record i time q)
    have run: "run_ops check record_response clear (ops @ [Check k now])
        (record_response i time q t) = (answers, t')"
      using Cons.prems(4) Record by simp
    have "swept (record_response i time q t)"
      using record_swept [OF Cons.prems(2)] Cons.prems(3) Record by simp
    from Cons.IH [OF record_response_ok [OF Cons.prems(1)] this _ run] show ?thesis
      using Cons.prems(3) Record by (simp add: record_response_frame record_response_retention)
  next
    case (Clear i)
    have run: "run_ops check record_response clear (ops @ [Check k now]) (clear i t) = (answers, t')"
      using Cons.prems(4) Clear by simp
    from Cons.IH [OF clear_ok [OF Cons.prems(1)] clear_swept [OF Cons.prems(2)] _ run] show ?thesis
      using Cons.prems(3) Clear by (simp add: clear_frame clear_retention)
  qed
qed

section \<open>Properties\<close>



text \<open>
  A call that is being executed is never taken for a new one or for a completed one, however
  long it takes: until its response is recorded or it is cleared, every check of it answers that it is
  in progress.
\<close>

lemma tracker_in_progress:
  assumes "tt_ok t" "tt_entry t k = Some InProgress"
    and "\<And>now r. Record k now r \<notin> set ops" "Clear k \<notin> set ops"
    and "(k, st) \<in> set (fst (run_ops check record_response clear ops t))"
  shows "st = Status_InProgress"
  using tracker.in_progress_stays [OF assms(1-4) surjective_pairing] assms(5) by simp

lemma tracker_in_progress_witness:
  "((1, []), Status_InProgress) \<in> set (fst (run_ops check record_response clear
      [Record (2, []) 6 [9], Check (1, []) 70] (snd (check (1, []) 3 (new_tracker 10 0)))))"
proof -
  let ?t = "snd (check (1, []) 3 (new_tracker 10 0))"
  let ?ops = "[Record (2, []) 6 [9], Check (1, []) 70]"
  have new: "check (1, []) 3 (new_tracker 10 0) = (fst (check (1, []) 3 (new_tracker 10 0)), ?t)" by simp
  have ok: "tt_ok ?t" by (rule check_ok [OF new_tracker_ok(1) new])
  have entry: "tt_entry ?t (1, []) = Some InProgress"
    using check_key [OF new_tracker_ok(1) new] new_tracker_ok(2) by auto
  obtain st where st: "((1, []), st) \<in> set (fst (run_ops check record_response clear ?ops ?t))"
    by (cases "check (1, []) 70 (record_response (2, []) 6 [9] ?t)") auto
  have "st = Status_InProgress" by (rule tracker_in_progress [OF ok entry _ _ st]) auto
  then show ?thesis using st by simp
qed

text \<open>
  The tracker forgets. In a tracker that was created with retention period \<open>p\<close> and whose clock does not go
  backwards, a check leaves no completed transaction older than \<open>p\<close> plus a quarter of it
  (a second at least; \<open>2 p\<close> when \<open>p\<close> is below a second).
\<close>

lemma tracker_forgets:
  assumes "sorted (t0 # op_times (ops @ [Check k now]))"
    and "run_ops check record_response clear (ops @ [Check k now]) (new_tracker p t0) = (answers, t')"
    and "tt_entry t' j = Some (Completed c r)"
  shows "now - int (p + (if p < from_secs 1 then p else max (from_secs 1) (p div 4))) \<le> c"
proof -
  have "swept (new_tracker p t0)" "tt_last_housekeeping (new_tracker p t0) = t0"
    by (simp_all add: swept_def new_tracker_ok) (simp add: new_tracker_def)
  then show ?thesis
    using run_swept [OF new_tracker_ok(1) _ _ assms(2,3)] assms(1) by (simp add: new_tracker_def)
qed

lemma tracker_forgets_witness:
  "\<exists>c. tt_entry (snd (run_ops check record_response clear
      ([Check (1, []) 1, Record (1, []) 2 [9]] @ [Check (2, []) 3]) (new_tracker 10 0))) (1, []) =
        Some (Completed c [9]) \<and> 3 - int (10 + 10) \<le> c"
proof -
  let ?ops = "[Check (1, []) 1, Record (1, []) 2 [9]]"
  let ?run = "run_ops check record_response clear (?ops @ [Check (2, []) 3]) (new_tracker 10 0)"
  have "tt_entry (snd ?run) (1, []) = Some (Completed 2 [9])"
    by (simp add: check_def housekept_def record_response_def new_tracker_def from_secs_def
        should_housekeep_def tt_entry_def hm_get_def hm_insert_def)
  moreover from tracker_forgets [OF _ surjective_pairing this] have "3 - int (10 + 10) \<le> (2 :: int)"
    by (simp add: from_secs_def)
  ultimately show ?thesis by blast
qed

end
