(* ===== verification/Rpc_Dispatch.thy ===== *)
theory Rpc_Dispatch
  imports Portmap Mount Tracker
begin

text \<open>
  The RPC dispatcher: \<open>handle_rpc\<close> and \<open>process_rpc_command\<close> of \<open>src/protocol/rpc/wire.rs\<close>. The state of
  the server is that of the file system, the port map, the transaction tracker and the signals sent
  on the mount channel. The programs are called through the interface \<open>rpc_program\<close>, the tracker
  through \<open>replay_cache\<close>.
\<close>

section \<open>State\<close>

record 's server =
  sv_fs :: 's
  sv_signals :: "bool list"
  sv_portmap :: PortmapTable
  sv_tracker :: TransactionTracker

datatype RpcOutcome = Send u32 bool | Drop

definition NFS_ACL_PROGRAM :: u32 where "NFS_ACL_PROGRAM = 100227"
definition NFS_ID_MAP_PROGRAM :: u32 where "NFS_ID_MAP_PROGRAM = 100270"
definition NFS_LOCALIO_PROGRAM :: u32 where "NFS_LOCALIO_PROGRAM = 400122"
definition NFS_METADATA_PROGRAM :: u32 where "NFS_METADATA_PROGRAM = 200024"

section \<open>Dispatch\<close>

text \<open>
  The \<open>match\<close> on the program number. An outer error leaves \<open>handle_rpc\<close> at once (a \<open>?\<close> in an arm), the
  inner result is the \<open>res\<close> of the code.
\<close>

definition write_message :: "rpc_msg \<Rightarrow> io_error + written" where
  "write_message m = (case ser_rpc_msg m of Err e \<Rightarrow> Err e | Ok out \<Rightarrow> Ok (Ok out))"

definition dispatch ::
    "u32 \<Rightarrow> call_body \<Rightarrow> bytes \<Rightarrow> 's rpc_context \<Rightarrow> 's server \<Rightarrow> (io_error + written) \<times> 's server" where
  "dispatch xid call input context sv =
    (if cb_prog call = NFS3_PROGRAM then
       (if cb_vers call = NFS3_VERSION then
          (case handle_nfs xid call input context (sv_fs sv) of
            (res, fs) \<Rightarrow> (Ok res, sv\<lparr>sv_fs := fs\<rparr>))
        else (write_message (prog_mismatch_reply_message xid NFS3_VERSION), sv))
     else if cb_prog call = PORTMAP_PROGRAM then
       (case handle_portmap xid call input () (sv_portmap sv) of
         (res, table) \<Rightarrow> (Ok res, sv\<lparr>sv_portmap := table\<rparr>))
     else if cb_prog call = MOUNT_PROGRAM then
       (case handle_mount xid call input context (sv_fs sv, sv_signals sv) of
         (res, fs, signals) \<Rightarrow> (Ok res, sv\<lparr>sv_fs := fs, sv_signals := signals\<rparr>))
     else if cb_prog call = NFS_ACL_PROGRAM \<or> cb_prog call = NFS_ID_MAP_PROGRAM \<or>
         cb_prog call = NFS_METADATA_PROGRAM then
       (write_message (prog_unavail_reply_message xid), sv)
     else if cb_prog call = NFS_LOCALIO_PROGRAM then
       (write_message (prog_unavail_reply_message xid), sv)
     else (write_message (prog_unavail_reply_message xid), sv))"

text \<open>The credentials of a call: those of the connection unless the call carries \<open>AUTH_UNIX\<close>.\<close>

definition call_auth :: "call_body \<Rightarrow> auth_unix \<Rightarrow> io_error + auth_unix" where
  "call_auth call auth =
    (if oa_flavor (cb_cred call) = AUTH_UNIX
     then (case de_auth_unix (oa_body (cb_cred call)) of Err e \<Rightarrow> Err e | Ok (a, _) \<Rightarrow> Ok a)
     else Ok auth)"

definition handle_rpc ::
    "bytes \<Rightarrow> system_time \<Rightarrow> 's rpc_context \<Rightarrow> 's server \<Rightarrow>
      (io_error + RpcOutcome \<times> bytes) \<times> 's server" where
  "handle_rpc input now context0 sv =
    (case de_rpc_msg input of
      Err e \<Rightarrow> (Err e, sv)
    | Ok (recv, input) \<Rightarrow>
    (case rm_body recv of
      REPLY _ \<Rightarrow> (Err OtherError, sv)
    | CALL call \<Rightarrow>
    (case call_auth call (cx_auth context0) of
      Err e \<Rightarrow> (Err e, sv)
    | Ok auth \<Rightarrow>
    (let xid = rm_xid recv;
         context1 = context0\<lparr>cx_auth := auth\<rparr>;
         key = (xid, cx_client_addr context1) in
    (case check key now (sv_tracker sv) of
      (status, tracker) \<Rightarrow>
    (let sv = sv\<lparr>sv_tracker := tracker\<rparr> in
    (case status of
      Status_Completed response \<Rightarrow> (Ok (Send xid False, response), sv)
    | Status_InProgress \<Rightarrow> (Ok (Drop, []), sv)
    | Status_New \<Rightarrow>
        if cb_rpcvers call \<noteq> 2 then
          (case ser_rpc_msg (rpc_vers_mismatch xid) of
            Err e \<Rightarrow> (Err e, sv)
          | Ok out \<Rightarrow> (Ok (Send xid True, out), sv))
        else
          (case dispatch xid call input context1 sv of
            (Err e, sv) \<Rightarrow> (Err e, sv)
          | (Ok (Ok out), sv) \<Rightarrow> (Ok (Send xid True, out), sv)
          | (Ok (Err e), sv) \<Rightarrow>
              (Err e, sv\<lparr>sv_tracker := clear key (sv_tracker sv)\<rparr>)))))))))"

text \<open>
  The result is what the function returns and what it left in the output buffer. \<open>now\<close> is the time
  of the check, \<open>later\<close> the time at which the response is recorded.
\<close>

definition process_rpc_command ::
    "bytes \<Rightarrow> system_time \<Rightarrow> system_time \<Rightarrow> 's rpc_context \<Rightarrow> 's server \<Rightarrow>
      (io_error + bool \<times> bytes) \<times> 's server" where
  "process_rpc_command data now later ctx sv =
    (case handle_rpc data now ctx sv of
      (Err e, sv) \<Rightarrow> (Err e, sv)
    | (Ok (Send xid record, out), sv) \<Rightarrow>
        (Ok (True, out),
         if record \<and> out \<noteq> []
         then sv\<lparr>sv_tracker := record_response (xid, cx_client_addr ctx) later out (sv_tracker sv)\<rparr>
         else sv)
    | (Ok (Drop, out), sv) \<Rightarrow> (Ok (False, out), sv))"

section \<open>Cases\<close>

text \<open>A result of the dispatcher that does not end \<open>handle_rpc\<close> early and is a reply if it is one at all.\<close>

definition answers :: "u32 \<Rightarrow> io_error + written \<Rightarrow> bool" where
  "answers xid res = (case res of
      Err _ \<Rightarrow> False
    | Ok w \<Rightarrow> (case w of Err _ \<Rightarrow> True | Ok out \<Rightarrow> is_reply xid out))"

lemma vers_mismatch_reply: "\<exists>out. ser_rpc_msg (rpc_vers_mismatch xid) = Ok out \<and> is_reply xid out"
  using rpc_msg.ser_ok [OF ok_dispatcher_replies(4), of xid] dispatcher_replies(4) by blast

lemma write_message_answers [simp]:
  "answers xid (write_message (prog_mismatch_reply_message xid v))"
  "answers xid (write_message (prog_unavail_reply_message xid))"
  using rpc_msg.ser_ok [OF ok_dispatcher_replies(3), of xid v] dispatcher_replies(3) [of xid v]
    rpc_msg.ser_ok [OF ok_dispatcher_replies(2), of xid] dispatcher_replies(2) [of xid]
  by (auto simp: answers_def write_message_def)

lemma program_answers:
  "handle_nfs xid call input ctx s = (w, s') \<Longrightarrow> answers xid (Ok w)"
  "handle_portmap xid call input u table = (w, table') \<Longrightarrow> answers xid (Ok w)"
  "handle_mount xid call input ctx st = (w, st') \<Longrightarrow> answers xid (Ok w)"
  by (auto simp: answers_def split: sum.split
      intro: nfs_program.replies portmap_program.replies mount_program.replies)

lemma dispatch_answers:
  assumes "dispatch xid call input ctx sv = (res, sv')"
  shows "answers xid res" "sv_tracker sv' = sv_tracker sv"
  using assms by (auto simp: dispatch_def split: prod.splits if_splits intro: program_answers)

lemma dispatch_Err: "dispatch xid call input ctx sv \<noteq> (Err e, sv')"
  using dispatch_answers(1) [of xid call input ctx sv "Err e" sv'] by (auto simp: answers_def)

lemma is_reply_nonempty: "is_reply xid out \<Longrightarrow> out \<noteq> []"
  by (fastforce simp: is_reply_def de_rpc_msg_def de_u32_def de_bind_def read_exact_def)

text \<open>The execution of a call that the tracker has not seen.\<close>

definition execute ::
    "u32 \<Rightarrow> call_body \<Rightarrow> bytes \<Rightarrow> 's rpc_context \<Rightarrow> 's server \<Rightarrow> written \<times> 's server" where
  "execute xid call input ctx sv =
    (if cb_rpcvers call \<noteq> 2 then (ser_rpc_msg (rpc_vers_mismatch xid), sv)
     else case dispatch xid call input ctx sv of
       (Ok w, sv) \<Rightarrow> (w, sv)
     | (Err e, sv) \<Rightarrow> (Err e, sv))"

lemma execute_result:
  assumes "execute xid call input ctx sv = (w, sv')"
  shows "sv_tracker sv' = sv_tracker sv" "w = Ok out \<Longrightarrow> is_reply xid out"
  using assms vers_mismatch_reply [of xid] dispatch_answers [of xid call input ctx sv]
  by (auto simp: execute_def answers_def split: if_splits prod.splits sum.splits)

text \<open>What the commands that are calls have in common.\<close>

definition is_call :: "bytes \<Rightarrow> 's rpc_context \<Rightarrow> u32 \<Rightarrow> call_body \<Rightarrow> auth_unix \<Rightarrow> bytes \<Rightarrow> bool" where
  "is_call data ctx xid call auth args \<longleftrightarrow>
    de_rpc_msg data = Ok (\<lparr>rm_xid = xid, rm_body = CALL call\<rparr>, args) \<and>
    call_auth call (cx_auth ctx) = Ok auth"

text \<open>A call is replayed, dropped, or executed, as the tracker decides.\<close>

lemma process_call:
  assumes "is_call data ctx xid call auth args"
    and "check (xid, cx_client_addr ctx) now (sv_tracker sv) = (st, t)"
  shows "process_rpc_command data now later ctx sv =
    (case st of
       Status_Completed r \<Rightarrow> (Ok (True, r), sv\<lparr>sv_tracker := t\<rparr>)
     | Status_InProgress \<Rightarrow> (Ok (False, []), sv\<lparr>sv_tracker := t\<rparr>)
     | Status_New \<Rightarrow>
         (case execute xid call args (ctx\<lparr>cx_auth := auth\<rparr>) (sv\<lparr>sv_tracker := t\<rparr>) of
            (Ok out, sv) \<Rightarrow> (Ok (True, out), sv\<lparr>sv_tracker :=
              record_response (xid, cx_client_addr ctx) later out t\<rparr>)
          | (Err e, sv) \<Rightarrow> (Err e, sv\<lparr>sv_tracker := clear (xid, cx_client_addr ctx) t\<rparr>)))"
  (is "?l = ?r")
proof (cases "execute xid call args (ctx\<lparr>cx_auth := auth\<rparr>) (sv\<lparr>sv_tracker := t\<rparr>)")
  case (Pair w sv')
  note ex = execute_result [OF Pair]
  have ne: "w = Ok out \<Longrightarrow> out \<noteq> []" for out using ex(2) is_reply_nonempty by blast
  obtain b where "ser_rpc_msg (rpc_vers_mismatch xid) = Ok b" using vers_mismatch_reply by blast
  then show ?thesis
    using assms Pair ne ex(1)
    by (auto simp: is_call_def process_rpc_command_def handle_rpc_def Let_def execute_def dispatch_Err
        split: sum.splits prod.splits if_splits TransactionStatus.splits)
qed

text \<open>Everything else fails without an effect.\<close>

lemma process_other:
  assumes "\<And>xid call auth args. \<not> is_call data ctx xid call auth args"
  shows "\<exists>e. process_rpc_command data now later ctx sv = (Err e, sv)"
proof (cases "de_rpc_msg data")
  case (Inr x)
  obtain xid b args where x: "x = (\<lparr>rm_xid = xid, rm_body = b\<rparr>, args)" by (metis prod.exhaust rpc_msg.cases)
  show ?thesis
  proof (cases b)
    case (CALL call)
    then obtain e where "call_auth call (cx_auth ctx) = Err e"
      using assms [of xid call _ args] Inr x by (cases "call_auth call (cx_auth ctx)") (auto simp: is_call_def)
    then show ?thesis using Inr x CALL by (simp add: process_rpc_command_def handle_rpc_def)
  next
    case (REPLY r)
    then show ?thesis using Inr x by (simp add: process_rpc_command_def handle_rpc_def)
  qed
qed (simp add: process_rpc_command_def handle_rpc_def)

section \<open>Sequences of commands\<close>

text \<open>
  A command is a record that a connection submitted, with the context of that connection and the
  readings of the clock. The tracker makes the operations of different connections on it atomic;
  here the commands as a whole are taken one after the other, each from the state that the one
  before it left.
\<close>

record 's command =
  cm_data :: bytes
  cm_ctx :: "'s rpc_context"
  cm_now :: system_time
  cm_later :: system_time

primrec serve ::
    "'s command list \<Rightarrow> 's server \<Rightarrow> (io_error + bool \<times> bytes) list \<times> 's server" where
  "serve [] sv = ([], sv)"
| "serve (c # cs) sv =
    (case process_rpc_command (cm_data c) (cm_now c) (cm_later c) (cm_ctx c) sv of
      (res, sv) \<Rightarrow> (case serve cs sv of (results, sv) \<Rightarrow> (res # results, sv)))"

text \<open>What holds of the server at all times: the recorded responses are replies to their calls.\<close>

definition cache_ok :: "TransactionTracker \<Rightarrow> bool" where
  "cache_ok t \<longleftrightarrow> tt_ok t \<and>
    (\<forall>k c r. tt_entry t k = Some (Completed c r) \<longrightarrow> is_reply (fst k) r)"

lemma cache_okI: "tt_ok t \<Longrightarrow> (\<And>k c r. tt_entry t k = Some (Completed c r) \<Longrightarrow> is_reply (fst k) r) \<Longrightarrow> cache_ok t"
  unfolding cache_ok_def by blast

lemma cache_okD: "cache_ok t \<Longrightarrow> tt_ok t" "cache_ok t \<Longrightarrow> tt_entry t k = Some (Completed c r) \<Longrightarrow> is_reply (fst k) r"
  unfolding cache_ok_def by blast+

lemma cache_ok_check:
  assumes "cache_ok t" "check k now t = (st, t')"
  shows "cache_ok t'" "st = Status_Completed r \<Longrightarrow> is_reply (fst k) r"
proof -
  note ok = cache_okD(1) [OF assms(1)]
  show "cache_ok t'"
  proof (rule cache_okI [OF tracker.chk_invar [OF ok assms(2)]])
    fix j c q assume "tt_entry t' j = Some (Completed c q)"
    then show "is_reply (fst j) q"
      by (rule tracker.chk_stored(1) [OF ok assms(2), where P = "\<lambda>j. is_reply (fst j)", rotated])
        (rule cache_okD(2) [OF assms(1)])
  qed
  show "is_reply (fst k) r" if "st = Status_Completed r"
    by (rule tracker.chk_stored(2) [OF ok assms(2), where P = "\<lambda>j. is_reply (fst j)", OF _ that])
      (rule cache_okD(2) [OF assms(1)])
qed

lemma cache_ok_record: "cache_ok t \<Longrightarrow> is_reply (fst k) r \<Longrightarrow> cache_ok (record_response k now r t)"
  by (rule cache_okI)
    (auto simp: tracker.rec_invar tracker.rec_entry cache_okD split: if_splits dest: cache_okD(2))

lemma cache_ok_clear: "cache_ok t \<Longrightarrow> cache_ok (clear k t)"
  by (rule cache_okI)
    (auto simp: tracker.clr_invar tracker.clr_entry cache_okD split: if_splits dest: cache_okD(2))

lemma cache_ok_new: "cache_ok (new_tracker p now)"
  by (simp add: cache_ok_def new_tracker_ok)

lemma process_cache_ok:
  assumes "cache_ok (sv_tracker sv)" "process_rpc_command data now later ctx sv = (res, sv')"
  shows "cache_ok (sv_tracker sv')"
    "res = Ok (True, out) \<Longrightarrow> \<exists>m rest. de_rpc_msg data = Ok (m, rest) \<and> is_reply (rm_xid m) out"
proof -
  have "cache_ok (sv_tracker sv') \<and> (res = Ok (True, out) \<longrightarrow>
    (\<exists>m rest. de_rpc_msg data = Ok (m, rest) \<and> is_reply (rm_xid m) out))"
  proof (cases "\<exists>xid call auth args. is_call data ctx xid call auth args")
    case False
    then show ?thesis using assms process_other [of data ctx now later sv] by auto
  next
    case True
    then obtain xid call auth args where c: "is_call data ctx xid call auth args" by blast
    obtain st t where k: "check (xid, cx_client_addr ctx) now (sv_tracker sv) = (st, t)" by fastforce
    obtain w sv1 where x: "execute xid call args (ctx\<lparr>cx_auth := auth\<rparr>) (sv\<lparr>sv_tracker := t\<rparr>) = (w, sv1)"
      by fastforce
    have "de_rpc_msg data = Ok (\<lparr>rm_xid = xid, rm_body = CALL call\<rparr>, args)"
      using c by (simp add: is_call_def)
    then show ?thesis
      using assms(2) process_call [OF c k, of later] cache_ok_check [OF assms(1) k] x
        execute_result(2) [OF x]
      by (auto split: TransactionStatus.splits sum.splits intro!: cache_ok_record cache_ok_clear)
  qed
  then show "cache_ok (sv_tracker sv')"
    "res = Ok (True, out) \<Longrightarrow> \<exists>m rest. de_rpc_msg data = Ok (m, rest) \<and> is_reply (rm_xid m) out"
    by blast+
qed

text \<open>A recorded response stays, and is what a call of its transaction gets.\<close>

definition recorded :: "transaction \<Rightarrow> system_time \<Rightarrow> bytes \<Rightarrow> 's server \<Rightarrow> bool" where
  "recorded k start out sv \<longleftrightarrow> tt_ok (sv_tracker sv) \<and>
    (\<exists>c. tt_entry (sv_tracker sv) k = Some (Completed c out) \<and> start \<le> c)"

lemma process_tracker:
  assumes "tt_ok (sv_tracker sv)" "process_rpc_command data now later ctx sv = (res, sv')"
  shows "tt_ok (sv_tracker sv')" "tt_retention_period (sv_tracker sv') = tt_retention_period (sv_tracker sv)"
proof -
  have "tt_ok (sv_tracker sv') \<and> tt_retention_period (sv_tracker sv') = tt_retention_period (sv_tracker sv)"
  proof (cases "\<exists>xid call auth args. is_call data ctx xid call auth args")
    case False
    then show ?thesis using assms process_other [of data ctx now later sv] by auto
  next
    case True
    then obtain xid call auth args where c: "is_call data ctx xid call auth args" by blast
    obtain st t where k: "check (xid, cx_client_addr ctx) now (sv_tracker sv) = (st, t)" by fastforce
    show ?thesis
      using assms(2) process_call [OF c k, of later] tracker.chk_invar [OF assms(1) k]
        tracker.chk_retention [OF k]
      by (auto simp: tracker.rec_invar tracker.clr_invar tracker.rec_retention tracker.clr_retention
          split: TransactionStatus.splits sum.splits prod.splits)
  qed
  then show "tt_ok (sv_tracker sv')"
    "tt_retention_period (sv_tracker sv') = tt_retention_period (sv_tracker sv)" by blast+
qed

lemma process_recorded:
  assumes r: "recorded k start out sv" and p: "process_rpc_command data now later ctx sv = (res, sv')"
    and time: "start \<le> now" "now \<le> start + int (tt_retention_period (sv_tracker sv))"
  shows "recorded k start out sv'"
    "is_call data ctx xid call auth args \<Longrightarrow> k = (xid, cx_client_addr ctx) \<Longrightarrow>
      res = Ok (True, out) \<and> sv' = sv\<lparr>sv_tracker := sv_tracker sv'\<rparr>"
proof -
  obtain c where c: "tt_ok (sv_tracker sv)" "tt_entry (sv_tracker sv) k = Some (Completed c out)" "start \<le> c"
    using r unfolding recorded_def by blast
  have now: "now \<le> c + int (tt_retention_period (sv_tracker sv))" using time c(3) by linarith
  have call: "recorded k start out sv' \<and> (k = (xid, cx_client_addr ctx) \<longrightarrow>
      res = Ok (True, out) \<and> sv' = sv\<lparr>sv_tracker := sv_tracker sv'\<rparr>)"
    if x: "is_call data ctx xid call auth args" for xid call auth args
  proof -
    obtain st t where k: "check (xid, cx_client_addr ctx) now (sv_tracker sv) = (st, t)" by fastforce
    note replay = tracker.chk_replays [OF c(1) k c(2) now]
    have ok: "tt_ok (sv_tracker sv')" by (rule process_tracker(1) [OF c(1) p])
    show ?thesis
    proof (cases "k = (xid, cx_client_addr ctx)")
      case True
      then have "res = Ok (True, out) \<and> sv' = sv\<lparr>sv_tracker := t\<rparr>"
        using p process_call [OF x k, of later] replay(1) by simp
      then show ?thesis using replay(1) [OF True] time(1) ok by (auto simp: recorded_def)
    next
      case False
      then have "tt_entry (sv_tracker sv') k = tt_entry (sv_tracker sv) k"
        using p process_call [OF x k, of later] replay(2)
        by (auto simp: tracker.rec_entry tracker.clr_entry
            split: TransactionStatus.splits sum.splits prod.splits)
      then show ?thesis using False c ok by (auto simp: recorded_def)
    qed
  qed
  show "recorded k start out sv'"
  proof (cases "\<exists>xid call auth args. is_call data ctx xid call auth args")
    case True
    then show ?thesis using call by blast
  next
    case False
    then show ?thesis using r p process_other [of data ctx now later sv] by auto
  qed
  show "is_call data ctx xid call auth args \<Longrightarrow> k = (xid, cx_client_addr ctx) \<Longrightarrow>
      res = Ok (True, out) \<and> sv' = sv\<lparr>sv_tracker := sv_tracker sv'\<rparr>"
    using call by blast
qed

text \<open>After a call was answered its response is recorded.\<close>

lemma process_records:
  assumes ok: "tt_ok (sv_tracker sv)" and x: "is_call data ctx xid call auth args"
    and p: "process_rpc_command data now later ctx sv = (Ok (True, out), sv')"
    and time: "start \<le> now" "start \<le> later"
  shows "recorded (xid, cx_client_addr ctx) start out sv'"
proof -
  obtain st t where k: "check (xid, cx_client_addr ctx) now (sv_tracker sv) = (st, t)" by fastforce
  have "tt_ok (sv_tracker sv')" by (rule process_tracker(1) [OF ok p])
  then show ?thesis
    using p process_call [OF x k, of later] tracker.chk_key [OF ok k] time
    by (auto simp: recorded_def tracker.rec_entry
        split: TransactionStatus.splits sum.splits prod.splits)
qed

text \<open>Commands within a retention period.\<close>

definition commands_within :: "system_time \<Rightarrow> duration \<Rightarrow> 's command list \<Rightarrow> bool" where
  "commands_within start len cs \<longleftrightarrow> list_all (\<lambda>c. start \<le> cm_now c \<and> cm_now c \<le> start + int len) cs"

lemma serve_recorded:
  "recorded k start out sv \<Longrightarrow> commands_within start (tt_retention_period (sv_tracker sv)) cs \<Longrightarrow>
    serve cs sv = (results, sv') \<Longrightarrow>
    recorded k start out sv' \<and> tt_retention_period (sv_tracker sv') = tt_retention_period (sv_tracker sv)"
proof (induction cs arbitrary: sv results)
  case (Cons c cs)
  obtain res sv1 where p: "process_rpc_command (cm_data c) (cm_now c) (cm_later c) (cm_ctx c) sv = (res, sv1)"
    by fastforce
  obtain rest where s: "serve cs sv1 = (rest, sv')"
    using Cons.prems(3) p by (auto split: prod.splits)
  have time: "cm_now c \<ge> start" "cm_now c \<le> start + int (tt_retention_period (sv_tracker sv))"
    and cs: "commands_within start (tt_retention_period (sv_tracker sv)) cs"
    using Cons.prems(2) by (auto simp: commands_within_def)
  have "tt_ok (sv_tracker sv)" using Cons.prems(1) by (simp add: recorded_def)
  note ret = process_tracker(2) [OF this p]
  show ?case
    using Cons.IH [OF process_recorded(1) [OF Cons.prems(1) p time] _ s] cs ret by simp
qed simp

definition ex_server :: "'s \<Rightarrow> 's server" where
  "ex_server s = \<lparr>sv_fs = s, sv_signals = [], sv_portmap = [], sv_tracker = new_tracker (from_secs 60) 0\<rparr>"

definition ex_data :: "u32 \<Rightarrow> call_body \<Rightarrow> bytes" where
  "ex_data xid call = bytes_of (ser_rpc_msg \<lparr>rm_xid = xid, rm_body = CALL call\<rparr>)"

lemma ex_is_call: "is_call (ex_data xid (ex_call prog vers proc) @ args) ctx xid (ex_call prog vers proc) (cx_auth ctx) args"
proof -
  have "ok_rpc_msg \<lparr>rm_xid = xid, rm_body = CALL (ex_call prog vers proc)\<rparr>"
    by (simp add: ok_rpc_msg_def ok_rpc_body_def ok_call_body_def ok_opaque_auth_def ex_call_def
        opaque_auth_default_def ok_opaque_def)
  then show ?thesis
    by (simp add: is_call_def ex_data_def decode_bytes_of(1) [OF codec_rpc_msg])
      (simp add: call_auth_def ex_call_def opaque_auth_default_def)
qed

text \<open>A call that a new server has not seen is executed.\<close>

lemma ex_process:
  assumes "is_call data ctx xid call auth args"
    and "\<And>t. execute xid call args (ctx\<lparr>cx_auth := auth\<rparr>) (ex_server s\<lparr>sv_tracker := t\<rparr>) =
      (w, ex_server s'\<lparr>sv_tracker := t\<rparr>)"
  shows "\<exists>sv'. process_rpc_command data now later ctx (ex_server s) =
    (case w of Ok out \<Rightarrow> Ok (True, out) | Err e \<Rightarrow> Err e, sv') \<and> sv_fs sv' = s'"
proof -
  have new: "sv_tracker (ex_server s) = new_tracker (from_secs 60) 0" by (simp add: ex_server_def)
  obtain st t where k: "check (xid, cx_client_addr ctx) now (sv_tracker (ex_server s)) = (st, t)" by fastforce
  have "st = Status_New"
    using tracker.chk_key [OF new_tracker_ok(1) k [unfolded new]] by (simp add: new_tracker_ok(2))
  then show ?thesis
    using process_call [OF assms(1) k, of later] assms(2) [of t]
    by (auto simp: ex_server_def split: sum.split)
qed

lemma ex_null_ctx:
  "\<exists>out sv'. process_rpc_command (ex_data 7 (ex_call NFS3_PROGRAM 3 0)) now later ctx (ex_server s)
    = (Ok (True, out), sv') \<and> sv_fs sv' = s"
proof -
  obtain out where "nfsproc3_null 7 = Ok out"
    using rpc_msg.ser_ok [OF ok_success_reply] by (metis nfsproc3_null_def)
  moreover have "nfs_program_of 0 = NFSPROC3_NULL" by code_simp
  ultimately have "execute 7 (ex_call NFS3_PROGRAM 3 0) [] ctx (ex_server s\<lparr>sv_tracker := t\<rparr>) =
      (Ok out, ex_server s\<lparr>sv_tracker := t\<rparr>)" for ctx :: "'a rpc_context" and t
    by (simp add: execute_def dispatch_def handle_nfs_def ex_call_def NFS3_VERSION_def ex_server_def)
  from ex_process [OF ex_is_call [of _ _ _ _ "[]"] this] show ?thesis by (simp, blast)
qed

lemma ex_null:
  "\<exists>out sv'. process_rpc_command (ex_data 7 (ex_call NFS3_PROGRAM 3 0)) now later (ex_ctx caps granted) (ex_server s)
    = (Ok (True, out), sv')"
  using ex_null_ctx [of now later "ex_ctx caps granted" s] by auto

text \<open>A file system that grants rights to the user 0 only, and a call of another user.\<close>

definition ex_root_ctx :: "bytes rpc_context" where
  "ex_root_ctx = ex_ctx ReadWrite 0\<lparr>cx_vfs := ex_vfs ReadWrite 0\<lparr>vfs_check_access :=
    (\<lambda>fid auth r s. (Ok (if au_uid auth = 0 then r else 0), s))\<rparr>\<rparr>"

definition ex_user :: auth_unix where
  "ex_user = \<lparr>au_stamp = 0, au_machinename = [], au_uid = 1000, au_gid = 1000, au_gids = []\<rparr>"

definition ex_user_call :: call_body where
  "ex_user_call = ex_call NFS3_PROGRAM 3 7\<lparr>cb_cred :=
    \<lparr>oa_flavor = AUTH_UNIX, oa_body = bytes_of (ser_auth_unix ex_user)\<rparr>\<rparr>"

lemma ex_user_is_call: "is_call (ex_data 7 ex_user_call @ args) ctx 7 ex_user_call ex_user args"
proof -
  have user: "ok_auth_unix ex_user"
    by (simp add: ok_auth_unix_def ex_user_def ok_opaque_def)
  have "ok_opaque (bytes_of (ser_auth_unix ex_user))"
    by (simp add: bytes_of_def ser_auth_unix_def ex_user_def ser_u32_def ser_string_def ser_opaque_def
        ser_usize_as_u32_def write_padding_def padding_len_def ALIGNMENT_def ser_vec_def ok_opaque_def
        MAX_XDR_OPAQUE_LENGTH_eq)
  then have "ok_rpc_msg \<lparr>rm_xid = 7, rm_body = CALL ex_user_call\<rparr>"
    by (simp add: ok_rpc_msg_def ok_rpc_body_def ok_call_body_def ok_opaque_auth_def ex_user_call_def
        ex_call_def opaque_auth_default_def ok_opaque_def)
  from decode_bytes_of(1) [OF codec_rpc_msg this] show ?thesis
    by (simp add: is_call_def ex_data_def call_auth_def ex_user_call_def
        decode_bytes_of(2) [OF codec_auth_unix user])
qed

text \<open>A call whose credentials are granted MODIFY nowhere keeps what the queries keep.\<close>

lemma process_no_modify:
  assumes "is_call data ctx xid call auth args"
    and "cb_prog call = NFS3_PROGRAM" "nfs_program_of (cb_proc call) \<in> set guarded_procs"
    and "queries_keep P (cx_vfs ctx)" "never_granted P (ctx\<lparr>cx_auth := auth\<rparr>) ACCESS3_MODIFY"
    and "process_rpc_command data now later ctx sv = (res, sv')" "P (sv_fs sv)"
  shows "P (sv_fs sv')"
proof -
  obtain st t where k: "check (xid, cx_client_addr ctx) now (sv_tracker sv) = (st, t)" by fastforce
  have "P (sv_fs (snd (execute xid call args (ctx\<lparr>cx_auth := auth\<rparr>) (sv\<lparr>sv_tracker := t\<rparr>))))"
    using assms(2,7) no_modify_no_change [OF _ assms(5,3)] assms(4)
    by (auto simp: execute_def dispatch_def split: prod.splits sum.splits)
  then show ?thesis
    using assms(6,7) process_call [OF assms(1) k, of later]
    by (auto split: TransactionStatus.splits sum.splits prod.splits)
qed

section \<open>Properties of the dispatcher\<close>

text \<open>
  C1: A retransmitted call is answered from the recorded response and executed only once. When a call was
  answered and the same transaction comes again from the same client, after any other commands,
  all within a retention period, then the answer is the very same bytes, and neither the file
  system, nor the port map, nor the mount channel sees the repeated call.
\<close>

theorem retransmission_replayed:
  assumes "tt_ok (sv_tracker sv)" "is_call data ctx xid call auth args"
    and "process_rpc_command data t1 t2 ctx sv = (Ok (True, out), sv1)"
    and "serve cs sv1 = (results, sv2)" "commands_within (min t1 t2) (tt_retention_period (sv_tracker sv)) cs"
    and "is_call data' ctx' xid call' auth' args'" "cx_client_addr ctx' = cx_client_addr ctx"
    and "min t1 t2 \<le> t3" "t3 \<le> min t1 t2 + int (tt_retention_period (sv_tracker sv))"
    and "process_rpc_command data' t3 t4 ctx' sv2 = (res, sv3)"
  shows "res = Ok (True, out) \<and> sv_fs sv3 = sv_fs sv2 \<and> sv_portmap sv3 = sv_portmap sv2 \<and>
    sv_signals sv3 = sv_signals sv2"
proof -
  have ret: "tt_retention_period (sv_tracker sv1) = tt_retention_period (sv_tracker sv)"
    by (rule process_tracker(2) [OF assms(1,3)])
  have "recorded (xid, cx_client_addr ctx) (min t1 t2) out sv1"
    by (rule process_records [OF assms(1-3)]) auto
  from serve_recorded [OF this _ assms(4)] assms(5) ret
  have 2: "recorded (xid, cx_client_addr ctx) (min t1 t2) out sv2"
    and "tt_retention_period (sv_tracker sv2) = tt_retention_period (sv_tracker sv)"
    by auto
  then have "t3 \<le> min t1 t2 + int (tt_retention_period (sv_tracker sv2))" using assms(9) by simp
  from process_recorded(2) [OF 2 assms(10,8) this assms(6)] assms(7)
  have "res = Ok (True, out) \<and> sv3 = sv2\<lparr>sv_tracker := sv_tracker sv3\<rparr>" by simp
  then show ?thesis by (metis server.select_convs server.surjective server.update_convs(4))
qed

lemma retransmission_replayed_witness:
  "\<exists>out. fst (process_rpc_command (ex_data 7 (ex_call NFS3_PROGRAM 3 0)) 1 2 (ex_ctx ReadWrite 0) (ex_server [5]))
      = Ok (True, out) \<and>
    fst (process_rpc_command (ex_data 7 (ex_call NFS3_PROGRAM 3 0)) 30 31 (ex_ctx ReadWrite 0)
      (snd (serve [\<lparr>cm_data = [1, 2, 3], cm_ctx = ex_ctx ReadWrite 0, cm_now = 20, cm_later = 21\<rparr>]
        (snd (process_rpc_command (ex_data 7 (ex_call NFS3_PROGRAM 3 0)) 1 2 (ex_ctx ReadWrite 0) (ex_server [5]))))))
      = Ok (True, out)"
proof -
  let ?d = "ex_data 7 (ex_call NFS3_PROGRAM 3 0)" and ?ctx = "ex_ctx ReadWrite 0"
  let ?cs = "[\<lparr>cm_data = [1, 2, 3], cm_ctx = ex_ctx ReadWrite 0, cm_now = 20, cm_later = 21\<rparr>]"
  obtain out sv1 where p: "process_rpc_command ?d 1 2 ?ctx (ex_server [5]) = (Ok (True, out), sv1)"
    using ex_null by blast
  have call: "is_call ?d ?ctx 7 (ex_call NFS3_PROGRAM 3 0) (cx_auth ?ctx) []"
    using ex_is_call [of 7 NFS3_PROGRAM 3 0 "[]" ?ctx] by simp
  have ok: "tt_ok (sv_tracker (ex_server [5]))"
    "tt_retention_period (sv_tracker (ex_server [5])) = 60000000000"
    by (simp_all add: ex_server_def new_tracker_ok) (simp add: new_tracker_def from_secs_def)
  have "fst (process_rpc_command ?d 30 31 ?ctx (snd (serve ?cs sv1))) = Ok (True, out)"
    using retransmission_replayed [OF ok(1) call p surjective_pairing _ call refl _ _ surjective_pairing,
        of ?cs 30 31] by (simp add: ok(2) commands_within_def)
  then show ?thesis using p by simp
qed

text \<open>
  While a call is being executed, its retransmissions are dropped: nothing is sent, nothing but the
  housekeeping of the tracker happens, and the call stays in progress.
\<close>

lemma in_progress_dropped:
  assumes "tt_ok (sv_tracker sv)" "is_call data ctx xid call auth args"
    and "tt_entry (sv_tracker sv) (xid, cx_client_addr ctx) = Some InProgress"
  shows "\<exists>t. process_rpc_command data now later ctx sv = (Ok (False, []), sv\<lparr>sv_tracker := t\<rparr>) \<and>
    tt_entry t (xid, cx_client_addr ctx) = Some InProgress"
proof -
  obtain st t where k: "check (xid, cx_client_addr ctx) now (sv_tracker sv) = (st, t)" by fastforce
  then have "st = Status_InProgress \<and> tt_entry t (xid, cx_client_addr ctx) = Some InProgress"
    using tracker.chk_key [OF assms(1) k] assms(3) by auto
  then show ?thesis using process_call [OF assms(2) k] by auto
qed

lemma in_progress_dropped_witness:
  "fst (process_rpc_command (ex_data 7 (ex_call NFS3_PROGRAM 3 0)) 30 31 (ex_ctx ReadWrite 0)
    (ex_server [5]\<lparr>sv_tracker := snd (check (7, [49]) 1 (new_tracker (from_secs 60) 0))\<rparr>)) = Ok (False, [])"
proof -
  let ?t = "snd (check (7, [49]) 1 (new_tracker (from_secs 60) 0))"
  have new: "check (7, [49]) 1 (new_tracker (from_secs 60) 0) = (fst (check (7, [49]) 1 (new_tracker (from_secs 60) 0)), ?t)"
    by simp
  have ok: "tt_ok ?t" by (rule check_ok [OF new_tracker_ok(1) new])
  have "tt_entry ?t (7, [49]) = Some InProgress"
    using check_key [OF new_tracker_ok(1) new] new_tracker_ok(2) by auto
  then show ?thesis
    using in_progress_dropped [OF _ ex_is_call [of 7 NFS3_PROGRAM 3 0 "[]" "ex_ctx ReadWrite 0"],
        of "ex_server [5]\<lparr>sv_tracker := ?t\<rparr>" 30 31] ok
    by (auto simp: ex_simps)
qed

text \<open>
  A call that fails can be repeated: the tracker forgets it, so that its retransmission is not
  taken for one that is still in progress.
\<close>

lemma failed_call_forgotten:
  assumes "is_call data ctx xid call auth args"
    and "process_rpc_command data now later ctx sv = (Err e, sv')"
  shows "tt_entry (sv_tracker sv') (xid, cx_client_addr ctx) = None"
proof -
  obtain st t where k: "check (xid, cx_client_addr ctx) now (sv_tracker sv) = (st, t)" by fastforce
  show ?thesis
    using assms(2) process_call [OF assms(1) k, of later]
    by (auto simp: tracker.clr_entry split: TransactionStatus.splits sum.splits prod.splits)
qed

lemma failed_call_forgotten_witness:
  "\<exists>e sv'. process_rpc_command (ex_data 7 (ex_call NFS3_PROGRAM 3 1)) 1 2 (ex_ctx ReadWrite 0) (ex_server [5])
    = (Err e, sv') \<and> tt_entry (sv_tracker sv') (7, [49]) = None"
proof -
  have "nfs_program_of 1 = NFSPROC3_GETATTR" by code_simp
  moreover have "de_nfs_fh3 [] = Err UnexpectedEof"
    by (simp add: de_nfs_fh3_def de_opaque_def de_usize_as_u32_def de_u32_def read_exact_def de_bind_def)
  ultimately have "execute 7 (ex_call NFS3_PROGRAM 3 1) [] ctx (ex_server [5]\<lparr>sv_tracker := t\<rparr>) =
      (Err UnexpectedEof, ex_server [5]\<lparr>sv_tracker := t\<rparr>)" for ctx :: "bytes rpc_context" and t
    by (simp add: execute_def dispatch_def handle_nfs_def nfsproc3_getattr_def ex_call_def NFS3_VERSION_def
        ex_server_def)
  from ex_process [OF ex_is_call [of _ _ _ _ "[]"] this]
  obtain sv' where p: "process_rpc_command (ex_data 7 (ex_call NFS3_PROGRAM 3 1)) 1 2 (ex_ctx ReadWrite 0)
      (ex_server [5]) = (Err UnexpectedEof, sv')"
    by (simp, blast)
  from failed_call_forgotten [OF ex_is_call [of _ _ _ _ "[]", unfolded append_Nil2] p] p
  show ?thesis by (simp add: ex_simps)
qed





end
