(* ===== verification/Connection.thy ===== *)
theory Connection
  imports Record_Marking Rpc_Dispatch
begin

text \<open>
  A connection: the command queue (\<open>src/protocol/rpc/command_queue.rs\<close>), the tasks of
  \<open>SocketMessageHandler\<close> (\<open>src/protocol/rpc/wire.rs\<close>) and \<open>process_socket\<close> (\<open>src/tcp.rs\<close>). The tasks run
  concurrently and exchange values through unbounded channels, which are lists here; a step of the
  relation is a step of one of them, or a command of another connection on the shared state.
\<close>

section \<open>The command queue\<close>

record ResponseBuffer =
  rb_buffer :: bytes
  rb_has_content :: bool

definition with_capacity :: ResponseBuffer where
  "with_capacity = \<lparr>rb_buffer = [], rb_has_content = False\<rparr>"

definition mark_has_content :: "ResponseBuffer \<Rightarrow> ResponseBuffer" where
  "mark_has_content b = b\<lparr>rb_has_content := True\<rparr>"

definition into_inner :: "ResponseBuffer \<Rightarrow> bytes" where
  "into_inner b = rb_buffer b"

definition clear_buffer :: "ResponseBuffer \<Rightarrow> ResponseBuffer" where
  "clear_buffer b = b\<lparr>rb_buffer := [], rb_has_content := False\<rparr>"

text \<open>Writing through \<open>Cursor::new(&mut buffer)\<close> overwrites the buffer from its start.\<close>

definition cursor_write :: "bytes \<Rightarrow> bytes \<Rightarrow> bytes" where
  "cursor_write out old = out @ drop (length out) old"

type_synonym CommandResult = "io_error + ResponseBuffer option"

text \<open>
  The worker's treatment of one command. What a failed command leaves in the buffer is not
  modelled: it is any \<open>leftover\<close>.
\<close>

definition work_command ::
    "bytes \<Rightarrow> system_time \<Rightarrow> system_time \<Rightarrow> 's rpc_context \<Rightarrow> bytes \<Rightarrow> ResponseBuffer \<Rightarrow> 's server \<Rightarrow>
      CommandResult \<times> ResponseBuffer \<times> 's server" where
  "work_command data now later ctx leftover output_buffer sv =
    (let output_buffer = clear_buffer output_buffer in
     case process_rpc_command data now later ctx sv of
       (Ok (needed, out), sv) \<Rightarrow>
         let output_buffer = output_buffer\<lparr>rb_buffer := cursor_write out (rb_buffer output_buffer)\<rparr>
         in if needed then (Ok (Some (mark_has_content output_buffer)), with_capacity, sv)
            else (Ok None, output_buffer, sv)
     | (Err e, sv) \<Rightarrow> (Err e, output_buffer\<lparr>rb_buffer := leftover\<rparr>, sv))"

text \<open>The task that passes results on to the socket.\<close>

definition forward_result :: "CommandResult \<Rightarrow> (io_error + bytes) list" where
  "forward_result result =
    (case result of
      Ok (Some response_buffer) \<Rightarrow>
        if rb_has_content response_buffer then [Ok (into_inner response_buffer)] else []
    | Ok None \<Rightarrow> []
    | Err e \<Rightarrow> [Err e])"

section \<open>The tasks of a connection\<close>

text \<open>
  The last two fields are history: the bytes that arrived, and the commands that the worker
  finished with their results.
\<close>

record 's connection =
  cn_stream :: bytes                          \<comment> \<open>in the duplex stream, not read yet\<close>
  cn_cur_fragment :: bytes
  cn_reading :: bool                          \<comment> \<open>the loop around \<open>read\<close> is running\<close>
  cn_queue :: "bytes list"
  cn_output_buffer :: ResponseBuffer
  cn_results :: "CommandResult list"
  cn_messages :: "(io_error + bytes) list"
  cn_open :: bool                             \<comment> \<open>\<open>process_socket\<close> is running\<close>
  cn_sent :: bytes                            \<comment> \<open>written to the socket\<close>
  cn_server :: "'s server"
  cn_arrived :: bytes
  cn_done :: "(bytes \<times> (io_error + bool \<times> bytes)) list"

definition accepted :: "'s server \<Rightarrow> 's connection" where
  "accepted sv =
    \<lparr>cn_stream = [], cn_cur_fragment = [], cn_reading = True, cn_queue = [],
     cn_output_buffer = with_capacity, cn_results = [], cn_messages = [], cn_open = True,
     cn_sent = [], cn_server = sv, cn_arrived = [], cn_done = []\<rparr>"

text \<open>A step of one of the tasks.\<close>

inductive task_step :: "'s rpc_context \<Rightarrow> 's connection \<Rightarrow> 's connection \<Rightarrow> bool"
  for ctx :: "'s rpc_context" where
  read_part: "\<lbrakk>cn_reading c; read_fragment (cn_stream c) (cn_cur_fragment c) = Fragment False buf rest\<rbrakk> \<Longrightarrow>
    task_step ctx c (c\<lparr>cn_stream := rest, cn_cur_fragment := buf\<rparr>)"
| read_last: "\<lbrakk>cn_reading c; read_fragment (cn_stream c) (cn_cur_fragment c) = Fragment True buf rest\<rbrakk> \<Longrightarrow>
    task_step ctx c (c\<lparr>cn_stream := rest, cn_cur_fragment := [], cn_queue := cn_queue c @ [buf]\<rparr>)"
| read_refused: "\<lbrakk>cn_reading c; read_fragment (cn_stream c) (cn_cur_fragment c) = Failed\<rbrakk> \<Longrightarrow>
    task_step ctx c (c\<lparr>cn_reading := False\<rparr>)"
| read_eof: "\<lbrakk>cn_reading c; \<not> cn_open c; read_fragment (cn_stream c) (cn_cur_fragment c) = Blocked\<rbrakk> \<Longrightarrow>
    task_step ctx c (c\<lparr>cn_reading := False\<rparr>)"
| work: "\<lbrakk>cn_queue c = data # queue;
      work_command data now later ctx leftover (cn_output_buffer c) (cn_server c) = (result, buffer, sv)\<rbrakk> \<Longrightarrow>
    task_step ctx c (c\<lparr>cn_queue := queue, cn_output_buffer := buffer, cn_server := sv,
      cn_results := cn_results c @ [result],
      cn_done := cn_done c @ [(data, fst (process_rpc_command data now later ctx (cn_server c)))]\<rparr>)"
| forward: "cn_results c = result # results \<Longrightarrow>
    task_step ctx c (c\<lparr>cn_results := results, cn_messages := cn_messages c @ forward_result result\<rparr>)"
| send: "\<lbrakk>cn_open c; cn_messages c = Ok msg # msgs\<rbrakk> \<Longrightarrow>
    task_step ctx c (c\<lparr>cn_messages := msgs, cn_sent := cn_sent c @ write_fragment msg\<rparr>)"
| fail: "\<lbrakk>cn_open c; cn_messages c = Err e # msgs\<rbrakk> \<Longrightarrow>
    task_step ctx c (c\<lparr>cn_messages := msgs, cn_open := False\<rparr>)"

text \<open>
  What happens to a connection: its tasks move on, bytes arrive, the peer hangs up, or another
  connection executes a command on the state that they share.
\<close>

inductive conn_step :: "'s rpc_context \<Rightarrow> 's connection \<Rightarrow> 's connection \<Rightarrow> bool"
  for ctx :: "'s rpc_context" where
  receive: "\<lbrakk>cn_open c; chunk \<noteq> []; length chunk \<le> 128000\<rbrakk> \<Longrightarrow>
    conn_step ctx c (c\<lparr>cn_arrived := cn_arrived c @ chunk,
      cn_stream := (if cn_reading c then cn_stream c @ chunk else cn_stream c)\<rparr>)"
| task: "task_step ctx c c' \<Longrightarrow> conn_step ctx c c'"
| hang_up: "cn_open c \<Longrightarrow> conn_step ctx c (c\<lparr>cn_open := False\<rparr>)"
| other: "process_rpc_command data now later ctx' (cn_server c) = (res, sv) \<Longrightarrow>
    conn_step ctx c (c\<lparr>cn_server := sv\<rparr>)"

inductive conn_reachable :: "'s rpc_context \<Rightarrow> 's server \<Rightarrow> 's connection \<Rightarrow> bool"
  for ctx :: "'s rpc_context" and sv :: "'s server" where
  start: "conn_reachable ctx sv (accepted sv)"
| step: "\<lbrakk>conn_reachable ctx sv c; conn_step ctx c c'\<rbrakk> \<Longrightarrow> conn_reachable ctx sv c'"

inductive_cases task_stepE: "task_step ctx c c'"

inductive_cases conn_stepE: "conn_step ctx c c'"

section \<open>What a command sends\<close>

definition answer :: "io_error + bool \<times> bytes \<Rightarrow> (io_error + bytes) list" where
  "answer res = (case res of
      Err e \<Rightarrow> [Err e]
    | Ok (needed, out) \<Rightarrow> if needed then [Ok out] else [])"

text \<open>Neither an earlier response nor what a failed command left in the buffer is ever sent.\<close>

lemma work_command_answer:
  "work_command data now later ctx leftover buffer sv = (result, buffer', sv') \<Longrightarrow>
    forward_result result = answer (fst (process_rpc_command data now later ctx sv)) \<and>
    sv' = snd (process_rpc_command data now later ctx sv)"
  by (auto simp: work_command_def forward_result_def answer_def Let_def clear_buffer_def
      cursor_write_def into_inner_def mark_has_content_def split: prod.splits sum.splits if_splits)

section \<open>Invariants\<close>

text \<open>The records in the order in which the reader submitted them.\<close>

definition submitted :: "'s connection \<Rightarrow> bytes list" where
  "submitted c = map fst (cn_done c) @ cn_queue c"

definition reads_stream :: "'s connection \<Rightarrow> bool" where
  "reads_stream c \<longleftrightarrow>
    (if cn_reading c
     then reader_loop [] (cn_arrived c) [] = reader_loop (submitted c) (cn_stream c) (cn_cur_fragment c)
     else prefix (submitted c) (rd_submitted (reader_loop [] (cn_arrived c) [])))"

definition answers_of :: "'s connection \<Rightarrow> (io_error + bytes) list" where
  "answers_of c = concat (map (answer \<circ> snd) (cn_done c))"

definition in_order :: "'s connection \<Rightarrow> bool" where
  "in_order c \<longleftrightarrow> (\<exists>msgs. cn_sent c = concat (map write_fragment msgs) \<and>
    (if cn_open c
     then map Ok msgs @ cn_messages c @ concat (map forward_result (cn_results c)) = answers_of c
     else prefix (map Ok msgs) (answers_of c)))"

definition answers_calls :: "'s connection \<Rightarrow> bool" where
  "answers_calls c \<longleftrightarrow> cache_ok (sv_tracker (cn_server c)) \<and>
    (\<forall>data out. (data, Ok (True, out)) \<in> set (cn_done c) \<longrightarrow>
      (\<exists>m rest. de_rpc_msg data = Ok (m, rest) \<and> is_reply (rm_xid m) out))"

lemma reader_loop_submits: "prefix earlier (rd_submitted (reader_loop earlier s buf))"
  by (simp add: reader_loop_earlier(1) [of earlier])

lemma reader_loop_mono:
  "prefix (rd_submitted (reader_loop [] s [])) (rd_submitted (reader_loop [] (s @ t) []))"
  using reader_loop_submits by (simp add: reader_loop_append [of "[]" s] Let_def)

lemma reads_stream_task:
  assumes "reads_stream c" "task_step ctx c c'"
  shows "reads_stream c'"
  using assms(2)
proof cases
  case (read_refused)
  then show ?thesis using assms(1) reader_loop_submits [of "submitted c"]
    by (simp add: reads_stream_def submitted_def)
next
  case (read_eof)
  then show ?thesis using assms(1) reader_loop_submits [of "submitted c"]
    by (simp add: reads_stream_def submitted_def)
next
  case (read_part buf rest)
  then show ?thesis using assms(1)
    by (simp add: reads_stream_def submitted_def reader_loop.simps [of _ "cn_stream c"])
next
  case (read_last buf rest)
  then show ?thesis using assms(1)
    by (simp add: reads_stream_def submitted_def reader_loop.simps [of _ "cn_stream c"])
qed (use assms(1) in \<open>simp_all add: reads_stream_def submitted_def split: if_splits\<close>)

lemma reads_stream_step:
  assumes "reads_stream c" "conn_step ctx c c'"
  shows "reads_stream c'"
  using assms(2)
proof cases
  case (receive chunk)
  show ?thesis
  proof (cases "cn_reading c")
    case True
    then have "reader_loop [] (cn_arrived c @ chunk) [] =
        reader_loop (submitted c) (cn_stream c @ chunk) (cn_cur_fragment c)"
      using assms(1) by (simp add: reads_stream_def reader_loop_append)
    then show ?thesis using receive(1) True by (simp add: reads_stream_def submitted_def)
  next
    case False
    then show ?thesis using receive(1) assms(1) reader_loop_mono prefix_order.trans
      by (fastforce simp: reads_stream_def submitted_def)
  qed
next
  case task
  then show ?thesis by (rule reads_stream_task [OF assms(1)])
qed (use assms(1) in \<open>simp_all add: reads_stream_def submitted_def split: if_splits\<close>)

lemma in_orderI:
  "cn_sent c = concat (map write_fragment msgs) \<Longrightarrow>
    (if cn_open c
     then map Ok msgs @ cn_messages c @ concat (map forward_result (cn_results c)) = answers_of c
     else prefix (map Ok msgs) (answers_of c)) \<Longrightarrow> in_order c"
  unfolding in_order_def by blast

lemma in_orderE:
  assumes "in_order c"
  obtains msgs where "cn_sent c = concat (map write_fragment msgs)"
    "if cn_open c
     then map Ok msgs @ cn_messages c @ concat (map forward_result (cn_results c)) = answers_of c
     else prefix (map Ok msgs) (answers_of c)"
    "prefix (map Ok msgs) (answers_of c)"
proof -
  obtain msgs where m: "cn_sent c = concat (map write_fragment msgs)"
      "if cn_open c
       then map Ok msgs @ cn_messages c @ concat (map forward_result (cn_results c)) = answers_of c
       else prefix (map Ok msgs) (answers_of c)"
    using assms unfolding in_order_def by blast
  then have "prefix (map Ok msgs) (answers_of c)"
    using prefixI [OF sym] by (metis (full_types))
  with m show ?thesis by (rule that)
qed

lemma in_order_task:
  assumes "in_order c" "task_step ctx c c'"
  shows "in_order c'"
proof -
  obtain msgs where m: "cn_sent c = concat (map write_fragment msgs)"
      "if cn_open c
       then map Ok msgs @ cn_messages c @ concat (map forward_result (cn_results c)) = answers_of c
       else prefix (map Ok msgs) (answers_of c)"
    and closing: "prefix (map Ok msgs) (answers_of c)"
    using in_orderE [OF assms(1)] .
  show ?thesis
    using assms(2)
  proof cases
    case (work data queue now later leftover result buffer sv)
    have "answers_of c' = answers_of c @ forward_result result"
      using work(1) work_command_answer [OF work(3)] by (simp add: answers_of_def)
    then show ?thesis using work(1) m by (intro in_orderI [of _ msgs]) (auto split: if_splits)
  next
    case (send msg msgs')
    then show ?thesis
      using m by (intro in_orderI [of _ "msgs @ [msg]"]) (auto simp: answers_of_def)
  next
    case (fail e msgs')
    then show ?thesis
      using m(1) closing by (intro in_orderI [of _ msgs]) (auto simp: answers_of_def)
  qed (use m in \<open>auto simp: answers_of_def split: if_splits intro!: in_orderI [of _ msgs]\<close>)
qed

lemma in_order_step:
  assumes "in_order c" "conn_step ctx c c'"
  shows "in_order c'"
proof -
  obtain msgs where m: "cn_sent c = concat (map write_fragment msgs)"
      "if cn_open c
       then map Ok msgs @ cn_messages c @ concat (map forward_result (cn_results c)) = answers_of c
       else prefix (map Ok msgs) (answers_of c)"
    and closing: "prefix (map Ok msgs) (answers_of c)"
    using in_orderE [OF assms(1)] .
  show ?thesis
    using assms(2)
  proof cases
    case hang_up
    then show ?thesis
      using m(1) closing by (intro in_orderI [of _ msgs]) (auto simp: answers_of_def)
  next
    case task
    then show ?thesis by (rule in_order_task [OF assms(1)])
  qed (use m in \<open>auto simp: answers_of_def split: if_splits intro!: in_orderI [of _ msgs]\<close>)
qed

lemma answers_calls_task:
  assumes "answers_calls c" "task_step ctx c c'"
  shows "answers_calls c'"
  using assms(2)
proof cases
  case (work data queue now later leftover result buffer sv)
  obtain res sv' where p: "process_rpc_command data now later ctx (cn_server c) = (res, sv')" by fastforce
  then have "sv = sv'" using work_command_answer [OF work(3)] by simp
  then show ?thesis
    using assms(1) work(1) p process_cache_ok [OF _ p] by (auto simp: answers_calls_def)
qed (use assms(1) in \<open>simp_all add: answers_calls_def\<close>)

lemma answers_calls_step:
  assumes "answers_calls c" "conn_step ctx c c'"
  shows "answers_calls c'"
  using assms(2)
proof cases
  case task
  then show ?thesis by (rule answers_calls_task [OF assms(1)])
next
  case (other data now later ctx' res sv)
  then show ?thesis
    using assms(1) process_cache_ok(1) [OF _ other(2)] by (simp add: answers_calls_def)
qed (use assms(1) in \<open>simp_all add: answers_calls_def\<close>)

lemma conn_invariant:
  assumes "conn_reachable ctx sv c" "cache_ok (sv_tracker sv)"
  shows "reads_stream c \<and> in_order c \<and> answers_calls c"
  using assms(1)
proof induction
  case start
  show ?case
    using assms(2) by (auto simp: accepted_def reads_stream_def submitted_def answers_calls_def
        answers_of_def intro: in_orderI [of _ "[]"])
next
  case (step c c')
  then show ?case using reads_stream_step in_order_step answers_calls_step by blast
qed

lemma reads_stream_prefix:
  assumes "reads_stream c"
  shows "prefix (submitted c) (rd_submitted (reader_loop [] (cn_arrived c) []))"
  using assms reader_loop_submits [of "submitted c"] by (auto simp: reads_stream_def split: if_splits)

section \<open>Progress\<close>

text \<open>The work that is left: every step of a task makes it less.\<close>

definition pending :: "'s connection \<Rightarrow> nat" where
  "pending c = 4 * length (cn_stream c) + (if cn_reading c then 1 else 0) + 3 * length (cn_queue c) +
    2 * length (cn_results c) + length (cn_messages c)"

lemma task_pending: "task_step ctx c c' \<Longrightarrow> pending c' < pending c"
proof (induction rule: task_step.induct)
  case (read_part c buf rest)
  then show ?case using read_fragment_shorter [OF read_part(2)] by (simp add: pending_def)
next
  case (read_last c buf rest)
  then show ?case using read_fragment_shorter [OF read_last(2)] by (simp add: pending_def)
next
  case (forward c result results)
  have "length (forward_result result) \<le> 1"
    by (simp add: forward_result_def split: sum.split option.split)
  then show ?case using forward by (simp add: pending_def)
qed (simp_all add: pending_def)

lemma tasks_pending: "(task_step ctx ^^ n) c c' \<Longrightarrow> n + pending c' \<le> pending c"
  by (induction n arbitrary: c') (fastforce dest: task_pending)+

lemma tasks_reachable: "(task_step ctx)\<^sup>*\<^sup>* c c' \<Longrightarrow> conn_reachable ctx sv c \<Longrightarrow> conn_reachable ctx sv c'"
  by (induction rule: rtranclp_induct) (auto intro: conn_reachable.step conn_step.task)

lemma tasks_arrived: "(task_step ctx)\<^sup>*\<^sup>* c c' \<Longrightarrow> cn_arrived c' = cn_arrived c"
  by (induction rule: rtranclp_induct) (auto elim: task_stepE)

text \<open>When no task can move, all queues are empty and the reader waits for bytes.\<close>

lemma tasks_at_rest:
  assumes "\<And>c'. \<not> task_step ctx c c'"
  shows "cn_queue c = []" "cn_results c = []" "cn_open c \<Longrightarrow> cn_messages c = []"
    "cn_reading c \<Longrightarrow> read_fragment (cn_stream c) (cn_cur_fragment c) = Blocked"
proof -
  show "cn_queue c = []"
  proof (cases "cn_queue c")
    case (Cons data queue)
    obtain result buffer sv where "work_command data 0 0 ctx [] (cn_output_buffer c) (cn_server c) = (result, buffer, sv)"
      by (metis prod_cases3)
    then show ?thesis using assms task_step.work [OF Cons] by blast
  qed
  show "cn_results c = []" using assms task_step.forward by (cases "cn_results c") blast+
  show "cn_messages c = []" if "cn_open c"
  proof (cases "cn_messages c")
    case (Cons msg msgs)
    then show ?thesis
      using assms task_step.send [OF that] task_step.fail [OF that] by (cases msg) blast+
  qed
  show "read_fragment (cn_stream c) (cn_cur_fragment c) = Blocked" if "cn_reading c"
  proof (cases "read_fragment (cn_stream c) (cn_cur_fragment c)")
    case (Fragment is_last buf rest)
    then show ?thesis
      using assms task_step.read_last [OF that, of buf rest ctx] task_step.read_part [OF that, of buf rest ctx]
      by (cases is_last) auto
  next
    case Failed
    then show ?thesis using assms task_step.read_refused [OF that] by blast
  qed
qed

text \<open>A connection that receives one call in one fragment, executes it and sends the answer.\<close>

lemma ex_data_length: "length (ex_data 7 (ex_call NFS3_PROGRAM 3 0)) = 40"
  by (simp add: ex_data_def bytes_of_def ser_rpc_msg_def ser_rpc_body_def ser_call_body_def ex_call_def
      opaque_auth_default_def ser_opaque_auth_def ser_auth_flavor_def ser_enum_def ser_i32_def
      ser_opaque_def ser_usize_as_u32_def ser_u32_def write_padding_def padding_len_def ALIGNMENT_def)

lemma ex_connection:
  "\<exists>c out. conn_reachable (ex_ctx ReadWrite 0) (ex_server [5]) c \<and>
    cn_arrived c = fragment True (ex_data 7 (ex_call NFS3_PROGRAM 3 0)) \<and>
    cn_done c = [(ex_data 7 (ex_call NFS3_PROGRAM 3 0), Ok (True, out))] \<and>
    cn_sent c = write_fragment out \<and> cn_open c \<and> cn_reading c \<and> pending c = 1"
proof -
  let ?d = "ex_data 7 (ex_call NFS3_PROGRAM 3 0)" and ?ctx = "ex_ctx ReadWrite 0"
  obtain out sv where p: "process_rpc_command ?d 1 2 ?ctx (ex_server [5]) = (Ok (True, out), sv)"
    using ex_null by blast
  let ?c0 = "accepted (ex_server [5])"
  have len: "length (fragment True ?d) = 44" "fragment True ?d \<noteq> []"
    by (auto simp: fragment_def ex_data_length)
  let ?c1 = "?c0\<lparr>cn_arrived := fragment True ?d, cn_stream := fragment True ?d\<rparr>"
  have 1: "conn_step ?ctx ?c0 ?c1"
    using conn_step.receive [of ?c0 "fragment True ?d" ?ctx] len by (simp add: accepted_def)
  have "read_fragment (fragment True ?d @ []) [] = Fragment True ([] @ ?d) []"
    by (rule read_fragment_fragment) (simp add: ex_data_length MAX_RPC_RECORD_LENGTH_eq)
  then have 2: "task_step ?ctx ?c1 (?c1\<lparr>cn_stream := [], cn_cur_fragment := [], cn_queue := [?d]\<rparr>)"
    using task_step.read_last [of ?c1 ?d "[]" ?ctx] by (simp add: accepted_def)
  let ?c2 = "?c1\<lparr>cn_stream := [], cn_cur_fragment := [], cn_queue := [?d]\<rparr>"
  let ?r = "Ok (Some (mark_has_content (with_capacity\<lparr>rb_buffer := out\<rparr>)))"
  have w: "work_command ?d 1 2 ?ctx [] with_capacity (ex_server [5]) = (?r, with_capacity, sv)"
    using p by (simp add: work_command_def Let_def clear_buffer_def with_capacity_def cursor_write_def)
  let ?c3 = "?c2\<lparr>cn_queue := [], cn_server := sv, cn_results := [?r], cn_done := [(?d, Ok (True, out))]\<rparr>"
  have 3: "task_step ?ctx ?c2 ?c3"
    using task_step.work [of ?c2 ?d "[]" 1 2 ?ctx "[]" ?r with_capacity sv] w p by (simp add: accepted_def)
  let ?c4 = "?c3\<lparr>cn_results := [], cn_messages := [Ok out]\<rparr>"
  have 4: "task_step ?ctx ?c3 ?c4"
    using task_step.forward [of ?c3 ?r "[]" ?ctx]
    by (simp add: accepted_def forward_result_def mark_has_content_def into_inner_def)
  let ?c5 = "?c4\<lparr>cn_messages := [], cn_sent := write_fragment out\<rparr>"
  have 5: "task_step ?ctx ?c4 ?c5"
    using task_step.send [of ?c4 out "[]" ?ctx] by (simp add: accepted_def)
  have "conn_reachable ?ctx (ex_server [5]) ?c5"
    by (rule conn_reachable.step [OF _ conn_step.task [OF 5]],
        rule conn_reachable.step [OF _ conn_step.task [OF 4]],
        rule conn_reachable.step [OF _ conn_step.task [OF 3]],
        rule conn_reachable.step [OF _ conn_step.task [OF 2]],
        rule conn_reachable.step [OF _ 1], rule conn_reachable.start)
  then show ?thesis by (intro exI [of _ ?c5] exI [of _ out]) (simp add: accepted_def pending_def)
qed

lemma ex_server_tracker: "sv_tracker (ex_server s) = new_tracker (from_secs 60) 0"
  by (simp add: ex_server_def)

section \<open>Properties\<close>

text \<open>
  C2: Commands are executed in the order in which they were sent. However the bytes of a connection are cut
  into chunks and however its tasks interleave with each other and with other connections, the
  commands that the worker has executed are the first ones of the records in the bytes that
  arrived.
\<close>

theorem commands_in_order:
  assumes "conn_reachable ctx sv c" "sv_tracker sv = new_tracker p t0"
  shows "prefix (map fst (cn_done c)) (rd_submitted (reader_loop [] (cn_arrived c) []))"
proof -
  have "cache_ok (sv_tracker sv)" using assms(2) by (simp add: cache_ok_new)
  then have "prefix (submitted c) (rd_submitted (reader_loop [] (cn_arrived c) []))"
    using conn_invariant [OF assms(1)] reads_stream_prefix by blast
  then show ?thesis unfolding submitted_def by (rule append_prefixD)
qed

lemma commands_in_order_witness:
  "\<exists>c. conn_reachable (ex_ctx ReadWrite 0) (ex_server [5]) c \<and>
    map fst (cn_done c) = [ex_data 7 (ex_call NFS3_PROGRAM 3 0)] \<and>
    prefix (map fst (cn_done c)) (rd_submitted (reader_loop [] (cn_arrived c) []))"
  using ex_connection commands_in_order [OF _ ex_server_tracker] by fastforce

text \<open>
  C3: Replies leave in the order of their commands, whole and unmixed. What was written to the socket is the record
  marking of a number of messages, which are the first of the answers to the executed commands; nothing
  of an earlier reply or of a failed command gets into them, and nothing follows a failure.
\<close>

theorem replies_in_order:
  assumes "conn_reachable ctx sv c" "sv_tracker sv = new_tracker p t0"
  shows "\<exists>msgs. cn_sent c = concat (map write_fragment msgs) \<and>
    prefix (map Ok msgs) (concat (map (answer \<circ> snd) (cn_done c)))"
proof -
  have "cache_ok (sv_tracker sv)" using assms(2) by (simp add: cache_ok_new)
  then have "in_order c" using conn_invariant [OF assms(1)] by blast
  then show ?thesis by (elim in_orderE) (auto simp: answers_of_def)
qed

lemma replies_in_order_witness:
  "\<exists>c out msgs. conn_reachable (ex_ctx ReadWrite 0) (ex_server [5]) c \<and> cn_sent c = write_fragment out \<and>
    cn_sent c = concat (map write_fragment msgs) \<and> prefix (map Ok msgs) [Ok out :: io_error + bytes]"
proof -
  obtain c out where c: "conn_reachable (ex_ctx ReadWrite 0) (ex_server [5]) c"
      "cn_done c = [(ex_data 7 (ex_call NFS3_PROGRAM 3 0), Ok (True, out))]" "cn_sent c = write_fragment out"
    using ex_connection by blast
  have "concat (map (answer \<circ> snd) (cn_done c)) = [Ok out]" by (simp add: c(2) answer_def)
  then show ?thesis using replies_in_order [OF c(1) ex_server_tracker] c(1,3) by metis
qed

text \<open>
  C5: A client gets replies to its own calls only. Every answer of a connection is an RPC reply with the
  transaction id of the record that it was computed from, also when it is replayed and
  whatever the other connections do with the shared tracker.
\<close>

theorem replies_answer_calls:
  assumes "conn_reachable ctx sv c" "sv_tracker sv = new_tracker p t0"
    and "(data, Ok (True, out)) \<in> set (cn_done c)"
  shows "\<exists>m rest. de_rpc_msg data = Ok (m, rest) \<and> is_reply (rm_xid m) out"
proof -
  have "cache_ok (sv_tracker sv)" using assms(2) by (simp add: cache_ok_new)
  then show ?thesis using conn_invariant [OF assms(1)] assms(3) unfolding answers_calls_def by blast
qed

lemma replies_answer_calls_witness:
  "\<exists>c out. conn_reachable (ex_ctx ReadWrite 0) (ex_server [5]) c \<and> cn_sent c = write_fragment out \<and>
    (\<exists>m rest. de_rpc_msg (ex_data 7 (ex_call NFS3_PROGRAM 3 0)) = Ok (m, rest) \<and> is_reply (rm_xid m) out)"
  using ex_connection replies_answer_calls [OF _ ex_server_tracker] by fastforce

text \<open>
  C4: Every call is answered. In any reachable state of a connection its tasks come to rest after a bounded
  number of steps, whatever order they run in. When they have come to rest and neither the connection
  nor the reader has failed, every record that has arrived is executed, and the answers of all of
  them are written to the socket.
\<close>

theorem calls_answered:
  assumes "conn_reachable ctx sv c" "sv_tracker sv = new_tracker p t0"
  shows "(\<forall>n c'. (task_step ctx ^^ n) c c' \<longrightarrow> n \<le> pending c) \<and>
    (\<forall>c'. (task_step ctx)\<^sup>*\<^sup>* c c' \<longrightarrow> (\<forall>c''. \<not> task_step ctx c' c'') \<longrightarrow> cn_open c' \<longrightarrow> cn_reading c' \<longrightarrow>
      map fst (cn_done c') = rd_submitted (reader_loop [] (cn_arrived c) []) \<and>
      (\<exists>msgs. concat (map (answer \<circ> snd) (cn_done c')) = map Ok msgs \<and>
        cn_sent c' = concat (map write_fragment msgs)))"
proof (intro conjI allI impI)
  show "n \<le> pending c" if "(task_step ctx ^^ n) c c'" for n c'
    using tasks_pending [OF that] by simp
next
  fix c' assume run: "(task_step ctx)\<^sup>*\<^sup>* c c'" and rest: "\<forall>c''. \<not> task_step ctx c' c''"
    and up: "cn_open c'" "cn_reading c'"
  have "cache_ok (sv_tracker sv)" using assms(2) by (simp add: cache_ok_new)
  then have inv: "reads_stream c'" "in_order c'"
    using conn_invariant [OF tasks_reachable [OF run assms(1)]] by blast+
  note idle = tasks_at_rest [of ctx c', OF rest [rule_format]]
  have "reader_loop [] (cn_arrived c') [] = reader_loop (map fst (cn_done c')) (cn_stream c') (cn_cur_fragment c')"
    using inv(1) up(2) idle(1) by (simp add: reads_stream_def submitted_def)
  then show "map fst (cn_done c') = rd_submitted (reader_loop [] (cn_arrived c) [])"
    using idle(4) [OF up(2)] tasks_arrived [OF run] by (simp add: reader_loop.simps [of _ "cn_stream c'"])
  show "\<exists>msgs. concat (map (answer \<circ> snd) (cn_done c')) = map Ok msgs \<and>
      cn_sent c' = concat (map write_fragment msgs)"
    using inv(2) up(1) idle(2) idle(3) [OF up(1)] unfolding in_order_def answers_of_def
    by (metis (no_types, lifting) append_Nil2 concat.simps(1) list.simps(8))
qed

lemma calls_answered_witness:
  "\<exists>c out. conn_reachable (ex_ctx ReadWrite 0) (ex_server [5]) c \<and>
    map fst (cn_done c) = rd_submitted (reader_loop [] (cn_arrived c) []) \<and> cn_sent c = write_fragment out"
proof -
  obtain c out where c: "conn_reachable (ex_ctx ReadWrite 0) (ex_server [5]) c" "cn_sent c = write_fragment out"
      "cn_open c" "cn_reading c" "pending c = 1"
    using ex_connection by blast
  have "\<not> task_step (ex_ctx ReadWrite 0) c c'" for c'
  proof
    assume step: "task_step (ex_ctx ReadWrite 0) c c'"
    have "cn_stream c = []" "cn_queue c = []" "cn_results c = []" "cn_messages c = []"
      using c(4,5) by (auto simp: pending_def)
    then show False using step c(3) by (auto simp: read_fragment_def elim: task_stepE)
  qed
  then show ?thesis using calls_answered [OF c(1) ex_server_tracker] c by blast
qed

end
