(* ===== verification/Tcp.thy ===== *)
theory Tcp
  imports Connection
begin

text \<open>
  The listener of \<open>src/tcp.rs\<close>: how it is bound and configured, and which context it gives to an
  accepted connection. The operating system's \<open>TcpListener::bind\<close> is the parameter \<open>tcp_bind\<close> (the
  local port it was bound to, or nothing), and the parser of socket addresses of the standard
  library is the parameter \<open>parse_addr\<close>; the tracker and the port map that the listener shares
  with its connections are part of \<open>server\<close>.
\<close>

section \<open>Addresses\<close>

fun dec_digits :: "nat \<Rightarrow> bytes" where
  "dec_digits n =
    (if n < 10 then [48 + of_nat n] else dec_digits (n div 10) @ [48 + of_nat (n mod 10)])"

declare dec_digits.simps [simp del]

text \<open>\<open>format!("127.88.{}.{}", ((hostnum >> 8) & 0xFF) as u8, (hostnum & 0xFF) as u8)\<close>\<close>

definition generate_host_ip :: "u16 \<Rightarrow> bytes" where
  "generate_host_ip hostnum =
    [49, 50, 55, 46, 56, 56, 46]
    @ dec_digits (unat (ucast (drop_bit 8 hostnum AND 0xFF) :: u8))
    @ 46 # dec_digits (unat (ucast (hostnum AND 0xFF) :: u8))"

section \<open>The listener\<close>

record 's NFSTcpListener =
  ln_addr :: "bytes \<times> u16"        \<comment> \<open>the address that was given to \<open>TcpListener::bind\<close>\<close>
  ln_port :: u16
  ln_arcfs :: "'s vfs"
  ln_mount_signal :: bool
  ln_export_name :: bytes
  ln_require_privileged_source_port :: bool

datatype bind_error = AddrNotAvailable | BindFailed | CantBindAutomatically

definition bind_internal ::
    "(bytes \<times> u16 \<Rightarrow> u16 option) \<Rightarrow> bytes \<times> u16 \<Rightarrow> 's vfs \<Rightarrow> bind_error + 's NFSTcpListener" where
  "bind_internal tcp_bind addr arcfs =
    (case tcp_bind addr of
      None \<Rightarrow> Err BindFailed
    | Some port \<Rightarrow> Ok
        \<lparr>ln_addr = addr, ln_port = port, ln_arcfs = arcfs, ln_mount_signal = False,
         ln_export_name = [47], ln_require_privileged_source_port = False\<rparr>)"

text \<open>The state that a fresh listener shares with its connections.\<close>

definition bound_server :: "'s \<Rightarrow> system_time \<Rightarrow> 's server" where
  "bound_server fs now =
    \<lparr>sv_fs = fs, sv_signals = [], sv_portmap = [], sv_tracker = new_tracker (from_secs 60) now\<rparr>"

definition NUM_TRIES :: u16 where
  "NUM_TRIES = 32"

primrec bind_tries ::
    "(bytes \<times> u16 \<Rightarrow> u16 option) \<Rightarrow> u16 \<Rightarrow> 's vfs \<Rightarrow> u16 list \<Rightarrow> bind_error + 's NFSTcpListener" where
  "bind_tries tcp_bind port arcfs [] = Err CantBindAutomatically"
| "bind_tries tcp_bind port arcfs (try_ip # tries) =
    (let result = bind_internal tcp_bind (generate_host_ip try_ip, port) arcfs
     in if is_ok result then result else bind_tries tcp_bind port arcfs tries)"

text \<open>\<open>str::parse::<u16>\<close>: an optional plus sign and at least one digit, within the range.\<close>

definition is_digit :: "u8 \<Rightarrow> bool" where
  "is_digit c \<longleftrightarrow> 48 \<le> c \<and> c \<le> 57"

definition of_digits :: "bytes \<Rightarrow> nat" where
  "of_digits ds = foldl (\<lambda>n d. 10 * n + unat (d - 48)) 0 ds"

definition parse_u16 :: "bytes \<Rightarrow> u16 option" where
  "parse_u16 str =
    (let digits = (case str of c # rest \<Rightarrow> if c = 43 then rest else str | [] \<Rightarrow> []) in
     if digits \<noteq> [] \<and> list_all is_digit digits \<and> of_digits digits \<le> 65535
     then Some (of_nat (of_digits digits)) else None)"

text \<open>\<open>"auto:"\<close>\<close>

definition auto_prefix :: bytes where
  "auto_prefix = [97, 117, 116, 111, 58]"

definition bind_listener ::
    "(bytes \<Rightarrow> (bytes \<times> u16) option) \<Rightarrow> (bytes \<times> u16 \<Rightarrow> u16 option) \<Rightarrow> bytes \<Rightarrow> 's vfs \<Rightarrow>
      bind_error + 's NFSTcpListener" where
  "bind_listener parse_addr tcp_bind ipstr fs =
    (case strip_prefix auto_prefix ipstr of
      Some port_str \<Rightarrow>
        (case parse_u16 port_str of
          None \<Rightarrow> Err AddrNotAvailable
        | Some port \<Rightarrow> bind_tries tcp_bind port fs (map of_nat [1..<unat NUM_TRIES + 1]))
    | None \<Rightarrow>
        (case parse_addr ipstr of
          None \<Rightarrow> Err AddrNotAvailable
        | Some addr \<Rightarrow> bind_internal tcp_bind addr fs))"

definition with_export_name :: "bytes \<Rightarrow> 's NFSTcpListener \<Rightarrow> 's NFSTcpListener" where
  "with_export_name export_name ln =
    ln\<lparr>ln_export_name := 47 # trim_start_slashes (trim_end_slashes export_name)\<rparr>"

definition require_privileged_source_port :: "bool \<Rightarrow> 's NFSTcpListener \<Rightarrow> 's NFSTcpListener" where
  "require_privileged_source_port require ln = ln\<lparr>ln_require_privileged_source_port := require\<rparr>"

definition set_mount_listener :: "'s NFSTcpListener \<Rightarrow> 's NFSTcpListener" where
  "set_mount_listener ln = ln\<lparr>ln_mount_signal := True\<rparr>"

definition get_listen_port :: "'s NFSTcpListener \<Rightarrow> u16" where
  "get_listen_port ln = ln_port ln"

text \<open>
  One round of \<open>handle_forever\<close> for a peer: the context of the new connection, or \<open>None\<close> when the
  connection is rejected. \<open>peer_addr\<close> is the printed address.
\<close>

definition accept_peer :: "'s NFSTcpListener \<Rightarrow> bytes \<Rightarrow> u16 \<Rightarrow> 's rpc_context option" where
  "accept_peer ln peer_addr peer_port =
    (if ln_require_privileged_source_port ln \<and> peer_port \<ge> 1024 then None
     else Some
       \<lparr>cx_local_port = ln_port ln, cx_client_addr = peer_addr, cx_auth = auth_unix_default,
        cx_vfs = ln_arcfs ln, cx_mount_signal = ln_mount_signal ln,
        cx_export_name = ln_export_name ln\<rparr>)"

section \<open>Lemmas\<close>

lemma digit_value: "k < 10 \<Longrightarrow> unat ((48 + of_nat k :: u8) - 48) = k"
  by (simp add: unat_of_nat take_bit_nat_eq_self)

lemma of_digits_snoc: "of_digits (ds @ [d]) = 10 * of_digits ds + unat (d - 48)"
  by (simp add: of_digits_def)

lemma of_digits_dec: "of_digits (dec_digits n) = n"
proof (induction n rule: dec_digits.induct)
  case (1 n)
  show ?case
  proof (cases "n < 10")
    case True
    then show ?thesis
      using digit_value [of n] by (simp add: dec_digits.simps [of n] of_digits_def del: add_diff_cancel_left')
  next
    case False
    then show ?thesis
      using 1 digit_value [of "n mod 10"]
      by (simp add: dec_digits.simps [of n] of_digits_snoc del: add_diff_cancel_left')
  qed
qed

lemma digit_no_dot:
  assumes "k < 10"
  shows "(48 + of_nat k :: u8) \<noteq> 46"
proof -
  have "unat (of_nat (48 + k) :: u8) = 48 + k"
    using assms by (simp only: unat_of_nat take_bit_nat_eq_self)
      (simp add: take_bit_nat_eq_self)
  then have *: "unat (48 + of_nat k :: u8) = 48 + k" by simp
  show ?thesis
  proof
    assume eq: "(48 + of_nat k :: u8) = 46"
    show False using * unfolding eq by simp
  qed
qed

lemma dec_digits_no_dot: "46 \<notin> set (dec_digits n)"
proof (induction n rule: dec_digits.induct)
  case (1 n)
  show ?case
    using 1 digit_no_dot [of n] digit_no_dot [of "n mod 10"]
    by (auto simp: dec_digits.simps [of n])
qed

lemma dotted_inj:
  assumes "dec_digits a @ 46 # dec_digits b = dec_digits a' @ 46 # dec_digits b'"
  shows "a = a' \<and> b = b'"
proof -
  have take: "takeWhile (\<lambda>c. c \<noteq> 46) (dec_digits n @ 46 # xs) = dec_digits n" for n xs
    using dec_digits_no_dot [of n] by (subst takeWhile_append2) auto
  have "dec_digits a = dec_digits a'" using assms take by metis
  moreover from this have "dec_digits b = dec_digits b'" using assms by simp
  ultimately show ?thesis by (metis of_digits_dec)
qed

lemma trim_start_slashes_hd: "trim_start_slashes p = [] \<or> hd (trim_start_slashes p) \<noteq> 47"
  using trim_start_slashes_shape [of p] by blast

section \<open>Properties\<close>

text \<open>
  The addresses that \<open>bind\<close> tries automatically are all different: the host number can be recovered from
  the address.
\<close>

lemma generate_host_ip_inj: "generate_host_ip a = generate_host_ip b \<longleftrightarrow> a = b"
proof
  assume "generate_host_ip a = generate_host_ip b"
  then have "unat (ucast (drop_bit 8 a AND 0xFF) :: u8) = unat (ucast (drop_bit 8 b AND 0xFF) :: u8) \<and>
      unat (ucast (a AND 0xFF) :: u8) = unat (ucast (b AND 0xFF) :: u8)"
    unfolding generate_host_ip_def by (intro dotted_inj) simp
  then have eq: "(ucast (drop_bit 8 a AND 0xFF) :: u8) = ucast (drop_bit 8 b AND 0xFF)"
      "(ucast (a AND 0xFF) :: u8) = ucast (b AND 0xFF)"
    by (simp_all add: word_unat_eq_iff)
  show "a = b"
  proof (rule bit_word_eqI)
    fix n assume n: "n < LENGTH(16)"
    have mask: "(0xFF :: u16) = mask 8" by (simp add: mask_eq_exp_minus_1)
    have "bit (ucast (drop_bit 8 a AND mask 8) :: u8) (n - 8) = bit (ucast (drop_bit 8 b AND mask 8) :: u8) (n - 8)"
        "bit (ucast (a AND mask 8) :: u8) n = bit (ucast (b AND mask 8) :: u8) n"
      using eq unfolding mask by simp_all
    then show "bit a n = bit b n"
      using n by (cases "n < 8") (auto simp: bit_simps not_less)
  qed
qed simp

lemma bind_tries_first:
  "bind_tries tcp_bind port fs tries =
    (case List.find (\<lambda>try_ip. tcp_bind (generate_host_ip try_ip, port) \<noteq> None) tries of
      None \<Rightarrow> Err CantBindAutomatically
    | Some try_ip \<Rightarrow> bind_internal tcp_bind (generate_host_ip try_ip, port) fs)"
  by (induction tries) (auto simp: bind_internal_def Let_def split: option.splits)

text \<open>
  Automatic binding takes the first of the 32 addresses that can be bound and fails only
  when none can.
\<close>

lemma auto_bind_first:
  assumes "parse_u16 port_str = Some port"
  shows "bind_listener parse_addr tcp_bind (auto_prefix @ port_str) fs =
    (case List.find (\<lambda>try_ip. tcp_bind (generate_host_ip try_ip, port) \<noteq> None) (map of_nat [1..<33]) of
      None \<Rightarrow> Err CantBindAutomatically
    | Some try_ip \<Rightarrow> bind_internal tcp_bind (generate_host_ip try_ip, port) fs)"
  using assms by (simp add: bind_listener_def NUM_TRIES_def bind_tries_first)

text \<open>
  A server that requires privileged source ports accepts a peer exactly when its port is below 1024;
  a connection starts with the default credentials and the listener's file system and export.
\<close>

lemma privileged_ports_only:
  "accept_peer (require_privileged_source_port True ln) peer_addr peer_port =
    (if unat peer_port < 1024
     then Some \<lparr>cx_local_port = get_listen_port ln, cx_client_addr = peer_addr,
       cx_auth = auth_unix_default, cx_vfs = ln_arcfs ln, cx_mount_signal = ln_mount_signal ln,
       cx_export_name = ln_export_name ln\<rparr>
     else None)"
  by (simp add: accept_peer_def require_privileged_source_port_def get_listen_port_def
      word_le_nat_alt not_less)

lemma trim_end_slashes_last: "trim_end_slashes p = [] \<or> last (trim_end_slashes p) \<noteq> 47"
  using trim_start_slashes_hd [of "rev p"] by (auto simp: trim_end_slashes_def last_rev)

lemma trim_start_slashes_last:
  "trim_start_slashes p = [] \<or> last (trim_start_slashes p) = last p"
proof -
  obtain n where "p = replicate n 47 @ trim_start_slashes p" using trim_start_slashes_shape by blast
  then show ?thesis by (metis last_appendR)
qed

lemma trim_start_slashes_id: "p = [] \<or> hd p \<noteq> 47 \<Longrightarrow> trim_start_slashes p = p"
  by (cases p) auto

lemma trim_end_slashes_id: "p = [] \<or> last p \<noteq> 47 \<Longrightarrow> trim_end_slashes p = p"
  using trim_start_slashes_id [of "rev p"] by (auto simp: trim_end_slashes_def hd_rev)

text \<open>
  The export name is normalised: it is a slash and a name that neither starts nor ends with
  a slash, and normalising it again changes nothing.
\<close>

lemma export_name_normal:
  "\<exists>name. ln_export_name (with_export_name export_name ln) = 47 # name \<and>
    (name = [] \<or> hd name \<noteq> 47 \<and> last name \<noteq> 47) \<and>
    with_export_name (47 # name) ln = with_export_name export_name ln"
proof -
  define name where "name = trim_start_slashes (trim_end_slashes export_name)"
  have name: "name = [] \<or> hd name \<noteq> 47 \<and> last name \<noteq> 47"
    using trim_start_slashes_hd [of "trim_end_slashes export_name"]
      trim_start_slashes_last [of "trim_end_slashes export_name"]
      trim_end_slashes_last [of export_name] by (auto simp: name_def)
  have "trim_start_slashes (trim_end_slashes (47 # name)) = name"
  proof (cases "name = []")
    case True
    then show ?thesis by (simp add: trim_end_slashes_def)
  next
    case False
    then have "trim_end_slashes (47 # name) = 47 # name"
      using name by (intro trim_end_slashes_id) simp
    then show ?thesis using trim_start_slashes_id [of name] name by auto
  qed
  then show ?thesis
    using name by (intro exI [of _ name]) (auto simp: with_export_name_def name_def)
qed



end
