(* ===== verification/Host.thy ===== *)
theory Host
  imports Xdr_Nfs3_Ops
begin

text \<open>
  The operating system's file system as the mirror file system sees it: the calls of
  \<open>std::fs\<close>, \<open>tokio::fs\<close>, \<open>filetime\<close> and \<open>libc\<close> that the code makes are the fields of a
  record, functions on a state of the host of their own. Nothing is assumed of them here; in
  particular a call may find a host that other processes have changed. Paths are byte strings.

  The second part is the vocabulary for operations that may fail with an NFS status or panic.
\<close>

section \<open>The host\<close>

text \<open>The kinds of I/O errors that the code tells apart.\<close>

datatype host_error =
  HostNotFound | HostPermissionDenied | HostNotADirectory | HostAlreadyExists | HostInvalidInput
| HostLoop | HostOther

datatype file_kind = KindFile | KindSymlink | KindDir | KindOther

text \<open>\<open>std::fs::Metadata\<close>; the \<open>i64\<close> times are given by their bit patterns.\<close>

record Metadata =
  md_kind :: file_kind
  md_dev :: u64
  md_ino :: u64
  md_mode :: u32
  md_nlink :: u64
  md_uid :: u32
  md_gid :: u32
  md_size :: u64
  md_atime :: u64
  md_atime_nsec :: u64
  md_mtime :: u64
  md_mtime_nsec :: u64
  md_ctime :: u64
  md_ctime_nsec :: u64

record statvfs =
  f_bsize :: u64
  f_frsize :: u64
  f_blocks :: u64
  f_bfree :: u64
  f_bavail :: u64
  f_files :: u64
  f_ffree :: u64
  f_favail :: u64

text \<open>How a file is opened: \<open>File::open\<close>, \<open>File::create\<close> and the uses of \<open>OpenOptions\<close>.\<close>

record open_options =
  oo_read :: bool
  oo_write :: bool
  oo_create :: bool
  oo_truncate :: bool
  oo_create_new :: bool
  oo_nofollow :: bool

definition no_options :: open_options where
  "no_options = \<lparr>oo_read = False, oo_write = False, oo_create = False, oo_truncate = False,
    oo_create_new = False, oo_nofollow = False\<rparr>"

type_synonym path = bytes
type_synonym fd = nat
type_synonym ('h, 'a) host_call = "'h \<Rightarrow> (host_error + 'a) \<times> 'h"

record 'h host =
  h_metadata :: "path \<Rightarrow> ('h, Metadata) host_call"
  h_symlink_metadata :: "path \<Rightarrow> ('h, Metadata) host_call"
  h_open :: "open_options \<Rightarrow> path \<Rightarrow> ('h, fd) host_call"
  h_file_metadata :: "fd \<Rightarrow> ('h, Metadata) host_call"
  h_seek :: "fd \<Rightarrow> u64 \<Rightarrow> ('h, unit) host_call"
  h_read_exact :: "fd \<Rightarrow> usize \<Rightarrow> ('h, bytes) host_call"
  h_write_all :: "fd \<Rightarrow> bytes \<Rightarrow> ('h, unit) host_call"
  h_flush :: "fd \<Rightarrow> ('h, unit) host_call"
  h_sync_all :: "fd \<Rightarrow> ('h, unit) host_call"
  h_set_len :: "fd \<Rightarrow> u64 \<Rightarrow> ('h, unit) host_call"
  h_file_set_permissions :: "fd \<Rightarrow> u32 \<Rightarrow> ('h, unit) host_call"
  h_set_permissions :: "path \<Rightarrow> u32 \<Rightarrow> ('h, unit) host_call"
  h_chown :: "path \<Rightarrow> u32 \<Rightarrow> u32 \<Rightarrow> ('h, unit) host_call"
  h_set_file_atime :: "path \<Rightarrow> nfstime3 option \<Rightarrow> ('h, unit) host_call" \<comment> \<open>\<open>None\<close> is now\<close>
  h_set_file_mtime :: "path \<Rightarrow> nfstime3 option \<Rightarrow> ('h, unit) host_call"
  h_read_dir :: "path \<Rightarrow> ('h, (host_error + bytes) list) host_call"
  h_read_link :: "path \<Rightarrow> ('h, bytes) host_call"
  h_create_dir :: "path \<Rightarrow> ('h, unit) host_call"
  h_symlink :: "bytes \<Rightarrow> path \<Rightarrow> ('h, unit) host_call"
  h_hard_link :: "path \<Rightarrow> path \<Rightarrow> ('h, unit) host_call"
  h_remove_dir :: "path \<Rightarrow> ('h, unit) host_call"
  h_remove_file :: "path \<Rightarrow> ('h, unit) host_call"
  h_rename :: "path \<Rightarrow> path \<Rightarrow> ('h, unit) host_call"
  h_statvfs :: "path \<Rightarrow> ('h, statvfs) host_call"

text \<open>
  \<open>PathBuf::push\<close> on Unix: an absolute path replaces the buffer, any other is appended after
  a slash.
\<close>

definition path_push :: "path \<Rightarrow> bytes \<Rightarrow> path" where
  "path_push buf p =
    (if p \<noteq> [] \<and> hd p = 47 then p
     else if buf \<noteq> [] \<and> last buf \<noteq> 47 then buf @ 47 # p
     else buf @ p)"

section \<open>Operations\<close>

text \<open>
  An operation on a state: \<open>None\<close> is a panic (or a stack overflow), otherwise it returns its result
  or the NFS error and the new state.
\<close>

type_synonym ('s, 'a) op = "'s \<Rightarrow> ((nfsstat3 + 'a) \<times> 's) option"

definition returns :: "'a \<Rightarrow> ('s, 'a) op" where
  "returns x s = Some (Ok x, s)"

definition fails :: "nfsstat3 \<Rightarrow> ('s, 'a) op" where
  "fails e s = Some (Err e, s)"

definition panics :: "('s, 'a) op" where
  "panics s = None"

text \<open>\<open>let x = m?; f x\<close>\<close>

definition andthen :: "('s, 'a) op \<Rightarrow> ('a \<Rightarrow> ('s, 'b) op) \<Rightarrow> ('s, 'b) op" where
  "andthen m f s =
    (case m s of
      None \<Rightarrow> None
    | Some (Err e, s) \<Rightarrow> Some (Err e, s)
    | Some (Ok x, s) \<Rightarrow> f x s)"

text \<open>The result of an operation as a value: \<open>match m\<close>, \<open>let _ = m\<close>.\<close>

definition attempt :: "('s, 'a) op \<Rightarrow> ('s, nfsstat3 + 'a) op" where
  "attempt m s = (case m s of None \<Rightarrow> None | Some (r, s) \<Rightarrow> Some (Ok r, s))"

definition reads :: "('s \<Rightarrow> 'a) \<Rightarrow> ('s, 'a) op" where
  "reads f s = Some (Ok (f s), s)"

definition modifies :: "('s \<Rightarrow> 's) \<Rightarrow> ('s, unit) op" where
  "modifies f s = Some (Ok (), f s)"

text \<open>\<open>x?\<close> for a result, \<open>x.unwrap()\<close> for an option.\<close>

definition result_of :: "nfsstat3 + 'a \<Rightarrow> ('s, 'a) op" where
  "result_of r = (case r of Err e \<Rightarrow> fails e | Ok x \<Rightarrow> returns x)"

definition unwrap :: "'a option \<Rightarrow> ('s, 'a) op" where
  "unwrap x = (case x of None \<Rightarrow> panics | Some y \<Rightarrow> returns y)"

text \<open>\<open>r.map_err(|_| e)?\<close> and \<open>r.map_err(f)?\<close>\<close>

definition or_nfs :: "nfsstat3 \<Rightarrow> host_error + 'a \<Rightarrow> ('s, 'a) op" where
  "or_nfs e r = (case r of Err _ \<Rightarrow> fails e | Ok x \<Rightarrow> returns x)"

definition map_err :: "(host_error \<Rightarrow> nfsstat3) \<Rightarrow> host_error + 'a \<Rightarrow> ('s, 'a) op" where
  "map_err f r = (case r of Err e \<Rightarrow> fails (f e) | Ok x \<Rightarrow> returns x)"

text \<open>
  An operation on a state that a panic destroys: the task of the request is gone then, and there is no
  state that a later operation could find. The model answers \<open>SERVERFAULT\<close> from then on.
\<close>

definition settle :: "('s, 'a) op \<Rightarrow> 's option \<Rightarrow> (nfsstat3 + 'a) \<times> 's option" where
  "settle f state =
    (case Option.bind state f of
      None \<Rightarrow> (Err NFS3ERR_SERVERFAULT, None)
    | Some (r, s) \<Rightarrow> (r, Some s))"

lemma settle_Ok: "settle f (Some s) = (Ok x, st) \<longleftrightarrow> (\<exists>s'. f s = Some (Ok x, s') \<and> st = Some s')"
  by (auto simp: settle_def split: option.splits)

lemma settle_Some: "settle f (Some s) = (case f s of None \<Rightarrow> (Err NFS3ERR_SERVERFAULT, None)
    | Some (r, s) \<Rightarrow> (r, Some s))"
  by (simp add: settle_def)

section \<open>Invariants of operations\<close>

text \<open>An operation preserves an invariant, whether it succeeds or fails.\<close>

definition preserves :: "('s \<Rightarrow> bool) \<Rightarrow> ('s, 'a) op \<Rightarrow> bool" where
  "preserves I m \<longleftrightarrow> (\<forall>s r s'. I s \<longrightarrow> m s = Some (r, s') \<longrightarrow> I s')"

named_theorems preserves_rules

lemma preservesI: "(\<And>s r s'. I s \<Longrightarrow> m s = Some (r, s') \<Longrightarrow> I s') \<Longrightarrow> preserves I m"
  by (simp add: preserves_def)

lemma preservesD: "preserves I m \<Longrightarrow> I s \<Longrightarrow> m s = Some (r, s') \<Longrightarrow> I s'"
  by (simp add: preserves_def)

lemma preserves_returns [preserves_rules]: "preserves I (returns x)"
  by (simp add: preserves_def returns_def)

lemma preserves_fails [preserves_rules]: "preserves I (fails e)"
  by (simp add: preserves_def fails_def)

lemma preserves_panics [preserves_rules]: "preserves I panics"
  by (simp add: preserves_def panics_def)

lemma preserves_andthen [preserves_rules]:
  assumes "preserves I m" "\<And>x. preserves I (f x)"
  shows "preserves I (andthen m f)"
proof (rule preservesI)
  fix s r s' assume I: "I s" and run: "andthen m f s = Some (r, s')"
  then obtain q t where m: "m s = Some (q, t)" by (auto simp: andthen_def split: option.splits)
  then have "I t" using preservesD [OF assms(1) I] by blast
  then show "I s'"
    using run m preservesD [OF assms(2)] by (cases q) (auto simp: andthen_def)
qed

lemma preserves_attempt [preserves_rules]: "preserves I m \<Longrightarrow> preserves I (attempt m)"
  by (auto simp: preserves_def attempt_def split: option.splits)

lemma preserves_reads [preserves_rules]: "preserves I (reads f)"
  by (simp add: preserves_def reads_def)

lemma preserves_modifies: "(\<And>s. I s \<Longrightarrow> I (f s)) \<Longrightarrow> preserves I (modifies f)"
  by (simp add: preserves_def modifies_def)

lemma preserves_result_of [preserves_rules]: "preserves I (result_of r)"
  by (simp add: result_of_def preserves_rules split: sum.split)

lemma preserves_unwrap [preserves_rules]: "preserves I (unwrap x)"
  by (simp add: unwrap_def preserves_rules split: option.split)

lemma preserves_or_nfs [preserves_rules]: "preserves I (or_nfs e r)"
  by (simp add: or_nfs_def preserves_rules split: sum.split)

lemma preserves_map_err [preserves_rules]: "preserves I (map_err f r)"
  by (simp add: map_err_def preserves_rules split: sum.split)

text \<open>Reading a successful run backwards.\<close>

lemma andthen_Some:
  "andthen m f s = Some (Ok y, s') \<longleftrightarrow> (\<exists>x s1. m s = Some (Ok x, s1) \<and> f x s1 = Some (Ok y, s'))"
  by (auto simp: andthen_def split: option.splits sum.splits)

lemma returns_Some: "returns x s = Some (r, s') \<longleftrightarrow> r = Ok x \<and> s' = s"
  by (auto simp: returns_def)

lemma panics_Some: "panics s \<noteq> Some x"
  by (simp add: panics_def)

lemma fails_Some: "fails e s = Some (r, s') \<longleftrightarrow> r = Err e \<and> s' = s"
  by (auto simp: fails_def)

lemma reads_Some: "reads f s = Some (r, s') \<longleftrightarrow> r = Ok (f s) \<and> s' = s"
  by (auto simp: reads_def)

lemma modifies_Some: "modifies f s = Some (r, s') \<longleftrightarrow> r = Ok () \<and> s' = f s"
  by (auto simp: modifies_def)

lemma attempt_Some: "attempt m s = Some (r, s') \<longleftrightarrow> (\<exists>q. r = Ok q \<and> m s = Some (q, s'))"
  by (auto simp: attempt_def split: option.split)

lemma result_of_Some: "result_of r s = Some (q, s') \<longleftrightarrow> q = r \<and> s' = s"
  by (auto simp: result_of_def returns_def fails_def split: sum.split)

lemma unwrap_Some: "unwrap x s = Some (r, s') \<longleftrightarrow> (\<exists>y. x = Some y \<and> r = Ok y \<and> s' = s)"
  by (auto simp: unwrap_def returns_def panics_def split: option.split)

lemma or_nfs_Some:
  "or_nfs e x s = Some (r, s') \<longleftrightarrow> s' = s \<and> r = (case x of Err _ \<Rightarrow> Err e | Ok y \<Rightarrow> Ok y)"
  by (auto simp: or_nfs_def returns_def fails_def split: sum.split)

lemma map_err_Some:
  "map_err f x s = Some (r, s') \<longleftrightarrow> s' = s \<and> r = (case x of Err h \<Rightarrow> Err (f h) | Ok y \<Rightarrow> Ok y)"
  by (auto simp: map_err_def returns_def fails_def split: sum.split)

lemmas op_Some = andthen_Some returns_Some fails_Some reads_Some modifies_Some attempt_Some
  result_of_Some unwrap_Some or_nfs_Some map_err_Some

end
