(* ===== verification/Fs_Util.thy ===== *)
theory Fs_Util
  imports Host
begin

text \<open>
  The helpers of \<open>src/fs_util.rs\<close>: the attributes of a file from the host's metadata, whether
  two snapshots differ, and SETATTR on a path or on an open file.
\<close>

section \<open>Metadata\<close>

definition metadata_differ :: "Metadata \<Rightarrow> Metadata \<Rightarrow> bool" where
  "metadata_differ lhs rhs \<longleftrightarrow>
    md_ino lhs \<noteq> md_ino rhs \<or> md_mtime lhs \<noteq> md_mtime rhs \<or> md_size lhs \<noteq> md_size rhs \<or>
    md_kind lhs \<noteq> md_kind rhs"

definition fattr3_differ :: "fattr3 \<Rightarrow> fattr3 \<Rightarrow> bool" where
  "fattr3_differ lhs rhs \<longleftrightarrow>
    fa_fileid lhs \<noteq> fa_fileid rhs \<or>
    nt_seconds (fa_mtime lhs) \<noteq> nt_seconds (fa_mtime rhs) \<or>
    nt_nseconds (fa_mtime lhs) \<noteq> nt_nseconds (fa_mtime rhs) \<or>
    nt_seconds (fa_ctime lhs) \<noteq> nt_seconds (fa_ctime rhs) \<or>
    nt_nseconds (fa_ctime lhs) \<noteq> nt_nseconds (fa_ctime rhs) \<or>
    fa_size lhs \<noteq> fa_size rhs \<or>
    fa_nlink lhs \<noteq> fa_nlink rhs \<or>
    fa_ftype lhs \<noteq> fa_ftype rhs"

definition mode_unmask :: "u32 \<Rightarrow> u32" where
  "mode_unmask mode = mode AND 0x1FF"

text \<open>
  The casts \<open>as u32\<close> keep the low 32 bits. The three branches of the code differ in the
  type only; everything that is neither a file nor a symbolic link is reported as a directory.
\<close>

definition ftype_of_metadata :: "Metadata \<Rightarrow> ftype3" where
  "ftype_of_metadata meta =
    (if md_kind meta = KindFile then NF3REG
     else if md_kind meta = KindSymlink then NF3LNK
     else NF3DIR)"

definition metadata_to_fattr3 :: "fileid3 \<Rightarrow> Metadata \<Rightarrow> fattr3" where
  "metadata_to_fattr3 fid meta =
    (let size = md_size meta; file_mode = mode_unmask (md_mode meta) in
     \<lparr>fa_ftype = ftype_of_metadata meta, fa_mode = file_mode, fa_nlink = ucast (md_nlink meta),
      fa_uid = md_uid meta, fa_gid = md_gid meta, fa_size = size, fa_used = size,
      fa_rdev = \<lparr>sd_specdata1 = 0, sd_specdata2 = 0\<rparr>, fa_fsid = 0, fa_fileid = fid,
      fa_atime = \<lparr>nt_seconds = ucast (md_atime meta), nt_nseconds = ucast (md_atime_nsec meta)\<rparr>,
      fa_mtime = \<lparr>nt_seconds = ucast (md_mtime meta), nt_nseconds = ucast (md_mtime_nsec meta)\<rparr>,
      fa_ctime = \<lparr>nt_seconds = ucast (md_ctime meta), nt_nseconds = ucast (md_ctime_nsec meta)\<rparr>\<rparr>)"

section \<open>Operations on the host\<close>

text \<open>A call of the host on its own state; its error is a value.\<close>

definition call_host :: "('h, 'a) host_call \<Rightarrow> ('h, host_error + 'a) op" where
  "call_host c h = (case c h of (r, h) \<Rightarrow> Some (Ok r, h))"

definition exists_no_traverse :: "'h host \<Rightarrow> path \<Rightarrow> ('h, bool) op" where
  "exists_no_traverse H path =
    andthen (call_host (h_symlink_metadata H path)) (\<lambda>meta. returns (is_ok meta))"

definition path_setattr :: "'h host \<Rightarrow> path \<Rightarrow> sattr3 \<Rightarrow> ('h, unit) op" where
  "path_setattr H path setattr =
    andthen (case sa_atime setattr of
        ATIME_SET_TO_SERVER_TIME \<Rightarrow>
          andthen (call_host (h_set_file_atime H path None)) (\<lambda>_. returns ())
      | ATIME_SET_TO_CLIENT_TIME time \<Rightarrow>
          andthen (call_host (h_set_file_atime H path (Some time))) (\<lambda>_. returns ())
      | _ \<Rightarrow> returns ()) (\<lambda>_.
    andthen (case sa_mtime setattr of
        MTIME_SET_TO_SERVER_TIME \<Rightarrow>
          andthen (call_host (h_set_file_mtime H path None)) (\<lambda>_. returns ())
      | MTIME_SET_TO_CLIENT_TIME time \<Rightarrow>
          andthen (call_host (h_set_file_mtime H path (Some time))) (\<lambda>_. returns ())
      | _ \<Rightarrow> returns ()) (\<lambda>_.
    andthen (case sa_mode setattr of
        Some mode \<Rightarrow>
          andthen (call_host (h_set_permissions H path (mode_unmask mode))) (\<lambda>_. returns ())
      | None \<Rightarrow> returns ()) (\<lambda>_.
    case sa_size setattr of
      Some size3 \<Rightarrow>
        andthen (call_host (h_open H (no_options\<lparr>oo_read := True, oo_write := True\<rparr>) path)) (\<lambda>r.
        andthen (or_nfs NFS3ERR_IO r) (\<lambda>file.
        andthen (call_host (h_set_len H file size3)) (\<lambda>r.
        or_nfs NFS3ERR_IO r)))
    | None \<Rightarrow> returns ())))"

definition file_setattr :: "'h host \<Rightarrow> fd \<Rightarrow> sattr3 \<Rightarrow> ('h, unit) op" where
  "file_setattr H file setattr =
    andthen (case sa_mode setattr of
        Some mode \<Rightarrow>
          andthen (call_host (h_file_set_permissions H file (mode_unmask mode))) (\<lambda>_. returns ())
      | None \<Rightarrow> returns ()) (\<lambda>_.
    case sa_size setattr of
      Some size3 \<Rightarrow> andthen (call_host (h_set_len H file size3)) (\<lambda>r. or_nfs NFS3ERR_IO r)
    | None \<Rightarrow> returns ())"

section \<open>Lemmas\<close>

lemma call_host_Some: "call_host c h = Some (r, h') \<longleftrightarrow> (\<exists>q. r = Ok q \<and> c h = (q, h'))"
  by (auto simp: call_host_def split: prod.split)

lemma fileid_metadata [simp]: "fa_fileid (metadata_to_fattr3 fid meta) = fid"
  by (simp add: metadata_to_fattr3_def Let_def)

text \<open>No mode reaches a client, or the host, with more than the nine permission bits.\<close>

lemma mode_unmask_bits: "bit (mode_unmask mode) n \<longleftrightarrow> n < 9 \<and> bit mode n"
proof -
  have "(0x1FF :: u32) = mask 9" by (simp add: mask_eq_exp_minus_1)
  then have "bit (0x1FF :: u32) n \<longleftrightarrow> n < 9" by (simp only: bit_mask_iff) auto
  then show ?thesis by (auto simp: mode_unmask_def bit_and_iff)
qed

lemma mode_unmask_idem: "mode_unmask (mode_unmask mode) = mode_unmask mode"
  by (rule bit_eqI) (simp add: mode_unmask_bits)

text \<open>The fields that \<open>fattr3_differ\<close> ignores.\<close>

lemma fattr3_differ_iff:
  "\<not> fattr3_differ a b \<longleftrightarrow> fa_fileid a = fa_fileid b \<and> fa_mtime a = fa_mtime b \<and>
    fa_ctime a = fa_ctime b \<and> fa_size a = fa_size b \<and> fa_nlink a = fa_nlink b \<and>
    fa_ftype a = fa_ftype b"
proof -
  have "x = y \<longleftrightarrow> nt_seconds x = nt_seconds y \<and> nt_nseconds x = nt_nseconds y" for x y :: nfstime3
    by (cases x; cases y) simp
  then show ?thesis by (auto simp: fattr3_differ_def)
qed

end
