(* ===== verification/Mirror_Map.thy ===== *)
theory Mirror_Map
  imports Fs_Util "HOL-Library.List_Lexorder"
begin

text \<open>
  The map of the mirror file system (\<open>src/bin/fernfs/fs_map.rs\<close>, \<open>fs_entry.rs\<close>,
  \<open>error_handling.rs\<close>): file ids, the paths they are known under, and the inodes of the host.
  The interning of names (\<open>intaglio::osstr::SymbolTable\<close>) is a parameter, as is the host. The
  counter of file ids is a number here; the code's \<open>AtomicU64\<close> holds it modulo \<open>2 ^ 64\<close>.
\<close>

section \<open>Ordered sets and maps\<close>

text \<open>\<open>BTreeSet\<close> and \<open>BTreeMap\<close> as sorted lists; paths are ordered lexicographically.\<close>

definition bset_insert :: "'a::linorder \<Rightarrow> 'a list \<Rightarrow> 'a list" where
  "bset_insert x xs = (if x \<in> set xs then xs else insort x xs)"

definition bset_remove :: "'a \<Rightarrow> 'a list \<Rightarrow> 'a list" where
  "bset_remove x xs = filter (\<lambda>y. y \<noteq> x) xs"

type_synonym ('k, 'v) btree_map = "('k \<times> 'v) list"

primrec bmap_insert :: "'k::linorder \<Rightarrow> 'v \<Rightarrow> ('k, 'v) btree_map \<Rightarrow> ('k, 'v) btree_map" where
  "bmap_insert k v [] = [(k, v)]"
| "bmap_insert k v (x # xs) =
    (if k < fst x then (k, v) # x # xs
     else if k = fst x then (k, v) # xs
     else x # bmap_insert k v xs)"

definition bmap_remove :: "'k \<Rightarrow> ('k, 'v) btree_map \<Rightarrow> ('k, 'v) btree_map" where
  "bmap_remove k m = filter (\<lambda>x. fst x \<noteq> k) m"

section \<open>State\<close>

type_synonym symbol = nat
type_synonym sympath = "symbol list"

text \<open>The symbol table: its state is \<open>'t\<close>; \<open>intern\<close> fails when the table is full.\<close>

record 't interner =
  in_intern :: "bytes \<Rightarrow> 't \<Rightarrow> (symbol \<times> 't) option"
  in_check_interned :: "'t \<Rightarrow> bytes \<Rightarrow> symbol option"
  in_get :: "'t \<Rightarrow> symbol \<Rightarrow> bytes option"

record FSEntry =
  fe_name :: sympath
  fe_aliases :: "sympath list"
  fe_fsmeta :: fattr3
  fe_children_meta :: fattr3
  fe_children :: "(symbol, fileid3) btree_map option"
  fe_exclusive_verifier :: "createverf3 option"

definition new_entry :: "sympath \<Rightarrow> fattr3 \<Rightarrow> FSEntry" where
  "new_entry name fsmeta =
    \<lparr>fe_name = name, fe_aliases = [name], fe_fsmeta = fsmeta, fe_children_meta = fsmeta,
     fe_children = None, fe_exclusive_verifier = None\<rparr>"

definition is_directory :: "FSEntry \<Rightarrow> bool" where
  "is_directory entry \<longleftrightarrow> fa_ftype (fe_fsmeta entry) = NF3DIR"

definition has_children :: "FSEntry \<Rightarrow> bool" where
  "has_children entry \<longleftrightarrow> fe_children entry \<noteq> None"

definition add_child :: "symbol \<Rightarrow> fileid3 \<Rightarrow> FSEntry \<Rightarrow> FSEntry" where
  "add_child name child_id entry =
    (case fe_children entry of
      Some children \<Rightarrow> entry\<lparr>fe_children := Some (bmap_insert name child_id children)\<rparr>
    | None \<Rightarrow> entry\<lparr>fe_children := Some [(name, child_id)]\<rparr>)"

definition remove_child :: "symbol \<Rightarrow> FSEntry \<Rightarrow> FSEntry" where
  "remove_child name entry =
    (case fe_children entry of
      Some children \<Rightarrow> entry\<lparr>fe_children := Some (bmap_remove name children)\<rparr>
    | None \<Rightarrow> entry)"

text \<open>\<open>children.insert\<close> under \<open>if let Some(ref mut children)\<close>\<close>

definition insert_child :: "symbol \<Rightarrow> fileid3 \<Rightarrow> FSEntry \<Rightarrow> FSEntry" where
  "insert_child name child_id entry =
    (case fe_children entry of
      Some children \<Rightarrow> entry\<lparr>fe_children := Some (bmap_insert name child_id children)\<rparr>
    | None \<Rightarrow> entry)"

record InodeKey =
  ik_dev :: u64
  ik_ino :: u64

definition from_meta :: "Metadata \<Rightarrow> InodeKey" where
  "from_meta meta = \<lparr>ik_dev = md_dev meta, ik_ino = md_ino meta\<rparr>"

record 't FSMap =
  fm_root :: path
  fm_next_fileid :: nat
  fm_intern :: 't
  fm_id_to_path :: "(fileid3, FSEntry) hash_map"
  fm_path_to_id :: "(sympath, fileid3) hash_map"
  fm_inode_to_id :: "(InodeKey, fileid3) hash_map"
  fm_id_to_inode :: "(fileid3, InodeKey) hash_map"

text \<open>\<open>FSMap::new\<close>, given the metadata of the root, and the symbol table of \<open>SymbolTable::new\<close>.\<close>

definition new_fsmap :: "'t \<Rightarrow> path \<Rightarrow> Metadata \<Rightarrow> 't FSMap" where
  "new_fsmap intern root root_meta =
    (let root_entry = new_entry [] (metadata_to_fattr3 1 root_meta);
         root_inode = from_meta root_meta in
     \<lparr>fm_root = root, fm_next_fileid = 1, fm_intern = intern, fm_id_to_path = [(0, root_entry)],
      fm_path_to_id = [([], 0)], fm_inode_to_id = [(root_inode, 0)],
      fm_id_to_inode = [(0, root_inode)]\<rparr>)"

section \<open>Operations on the map\<close>

definition sym_to_path :: "'t interner \<Rightarrow> 't FSMap \<Rightarrow> sympath \<Rightarrow> path option" where
  "sym_to_path N m symlist =
    foldl (\<lambda>ret i. case ret of
        None \<Rightarrow> None
      | Some p \<Rightarrow> map_option (path_push p) (in_get N (fm_intern m) i)) (Some (fm_root m)) symlist"

definition sym_to_fname :: "'t interner \<Rightarrow> 't FSMap \<Rightarrow> sympath \<Rightarrow> bytes option" where
  "sym_to_fname N m symlist = (if symlist = [] then Some [] else in_get N (fm_intern m) (last symlist))"

text \<open>\<open>if let Some(entry) = self.id_to_path.get_mut(&id) { *entry = f(entry) }\<close>\<close>

definition update_entry :: "fileid3 \<Rightarrow> (FSEntry \<Rightarrow> FSEntry) \<Rightarrow> 't FSMap \<Rightarrow> 't FSMap" where
  "update_entry fid f m =
    (case hm_get (fm_id_to_path m) fid of
      None \<Rightarrow> m
    | Some entry \<Rightarrow> m\<lparr>fm_id_to_path := hm_insert fid (f entry) (fm_id_to_path m)\<rparr>)"

definition remove_alias :: "sympath \<Rightarrow> FSEntry \<Rightarrow> FSEntry" where
  "remove_alias path entry =
    (let aliases = bset_remove path (fe_aliases entry) in
     entry\<lparr>fe_aliases := aliases,
       fe_name := (if fe_name entry = path
         then (case aliases of new_primary # _ \<Rightarrow> new_primary | [] \<Rightarrow> fe_name entry)
         else fe_name entry)\<rparr>)"

definition remove_path :: "sympath \<Rightarrow> 't FSMap \<Rightarrow> fileid3 option \<times> 't FSMap" where
  "remove_path path m =
    (case hm_get (fm_path_to_id m) path of
      None \<Rightarrow> (None, m)
    | Some fileid \<Rightarrow>
    (let m = m\<lparr>fm_path_to_id := hm_remove path (fm_path_to_id m)\<rparr> in
    (case hm_get (fm_id_to_path m) fileid of
      None \<Rightarrow> (Some fileid, m)
    | Some entry \<Rightarrow>
        if fe_aliases (remove_alias path entry) = [] then
          (let m = m\<lparr>fm_id_to_path := hm_remove fileid (fm_id_to_path m)\<rparr> in
           (Some fileid,
            case hm_get (fm_id_to_inode m) fileid of
              None \<Rightarrow> m
            | Some inode \<Rightarrow>
                m\<lparr>fm_id_to_inode := hm_remove fileid (fm_id_to_inode m),
                  fm_inode_to_id := hm_remove inode (fm_inode_to_id m)\<rparr>))
        else (Some fileid, update_entry fileid (remove_alias path) m))))"

definition rename_alias :: "sympath \<Rightarrow> sympath \<Rightarrow> FSEntry \<Rightarrow> FSEntry" where
  "rename_alias old_path new_path entry =
    entry\<lparr>fe_aliases :=
        (if old_path \<in> set (fe_aliases entry)
         then bset_insert new_path (bset_remove old_path (fe_aliases entry))
         else fe_aliases entry),
      fe_name := (if fe_name entry = old_path then new_path else fe_name entry)\<rparr>"

definition rename_one :: "sympath \<times> sympath \<times> fileid3 \<Rightarrow> 't FSMap \<Rightarrow> 't FSMap" where
  "rename_one u m =
    (case u of (old_path, new_path, fileid) \<Rightarrow>
      update_entry fileid (rename_alias old_path new_path)
        (m\<lparr>fm_path_to_id := hm_insert new_path fileid (hm_remove old_path (fm_path_to_id m))\<rparr>))"

definition rename_updates ::
    "sympath \<Rightarrow> sympath \<Rightarrow> (sympath, fileid3) hash_map \<Rightarrow> (sympath \<times> sympath \<times> fileid3) list" where
  "rename_updates from_prefix to_prefix paths =
    map (\<lambda>(path, fileid). (path, to_prefix @ drop (length from_prefix) path, fileid))
      (filter (\<lambda>(path, fileid). prefix from_prefix path) (hm_entries paths))"

definition rename_path_prefix :: "sympath \<Rightarrow> sympath \<Rightarrow> 't FSMap \<Rightarrow> 't FSMap" where
  "rename_path_prefix from_prefix to_prefix m =
    (if from_prefix = to_prefix then m
     else fold rename_one (rename_updates from_prefix to_prefix (fm_path_to_id m)) m)"

text \<open>
  \<open>remove_path_tree\<close> calls itself for the children that are directories. \<open>None\<close> is the overflow of
  a stack that holds \<open>depth\<close> of its frames.
\<close>

primrec remove_children ::
    "(sympath \<Rightarrow> fileid3 \<Rightarrow> 't FSMap \<Rightarrow> 't FSMap option) \<Rightarrow> sympath \<Rightarrow> (symbol \<times> fileid3) list \<Rightarrow>
      't FSMap \<Rightarrow> 't FSMap option" where
  "remove_children tree path [] m = Some m"
| "remove_children tree path (child # children) m =
    (let child_path = path @ [fst child] in
     case (case hm_get (fm_id_to_path m) (snd child) of
         Some child_entry \<Rightarrow>
           if is_directory child_entry then tree child_path (snd child) m
           else Some (snd (remove_path child_path m))
       | None \<Rightarrow> Some (snd (remove_path child_path m))) of
       None \<Rightarrow> None
     | Some m \<Rightarrow> remove_children tree path children m)"

primrec remove_path_tree :: "nat \<Rightarrow> sympath \<Rightarrow> fileid3 \<Rightarrow> 't FSMap \<Rightarrow> 't FSMap option" where
  "remove_path_tree 0 path fid m = None"
| "remove_path_tree (Suc depth) path fid m =
    (case hm_get (fm_id_to_path m) fid of
      None \<Rightarrow> Some m
    | Some entry \<Rightarrow>
    (case (case (is_directory entry, fe_children entry) of
        (True, Some children) \<Rightarrow> remove_children (remove_path_tree depth) path children m
      | _ \<Rightarrow> Some m) of
      None \<Rightarrow> None
    | Some m \<Rightarrow> Some (snd (remove_path path m))))"

definition delete_entry :: "nat \<Rightarrow> fileid3 \<Rightarrow> 't FSMap \<Rightarrow> 't FSMap option" where
  "delete_entry depth fid m =
    (case hm_get (fm_id_to_path m) fid of
      None \<Rightarrow> Some m
    | Some entry \<Rightarrow> remove_path_tree depth (fe_name entry) fid m)"

definition find_entry :: "fileid3 \<Rightarrow> 't FSMap \<Rightarrow> nfsstat3 + FSEntry" where
  "find_entry fid m =
    (case hm_get (fm_id_to_path m) fid of None \<Rightarrow> Err NFS3ERR_NOENT | Some entry \<Rightarrow> Ok entry)"

definition find_child :: "'t interner \<Rightarrow> fileid3 \<Rightarrow> bytes \<Rightarrow> 't FSMap \<Rightarrow> nfsstat3 + fileid3" where
  "find_child N fid filename m =
    (case hm_get (fm_id_to_path m) fid of
      None \<Rightarrow> Err NFS3ERR_NOENT
    | Some entry \<Rightarrow>
    (case in_check_interned N (fm_intern m) filename of
      None \<Rightarrow> Err NFS3ERR_NOENT
    | Some name_sym \<Rightarrow>
    (case hm_get (fm_path_to_id m) (fe_name entry @ [name_sym]) of
      None \<Rightarrow> Err NFS3ERR_NOENT
    | Some child \<Rightarrow> Ok child)))"

definition create_new_entry :: "sympath \<Rightarrow> Metadata \<Rightarrow> 't FSMap \<Rightarrow> fileid3 \<times> 't FSMap" where
  "create_new_entry fullpath meta m =
    (let next_id = of_nat (fm_next_fileid m); inode_key = from_meta meta in
     (next_id,
      m\<lparr>fm_next_fileid := fm_next_fileid m + 1,
        fm_id_to_path :=
          hm_insert next_id (new_entry fullpath (metadata_to_fattr3 next_id meta)) (fm_id_to_path m),
        fm_path_to_id := hm_insert fullpath next_id (fm_path_to_id m),
        fm_inode_to_id := hm_insert inode_key next_id (fm_inode_to_id m),
        fm_id_to_inode := hm_insert next_id inode_key (fm_id_to_inode m)\<rparr>))"

definition create_detached :: "sympath \<Rightarrow> Metadata \<Rightarrow> 't FSMap \<Rightarrow> fileid3 \<times> 't FSMap" where
  "create_detached fullpath meta m =
    (let inode_key = from_meta meta in
     case hm_get (fm_inode_to_id m) inode_key of
       Some existing_id \<Rightarrow>
         (let m = update_entry existing_id (\<lambda>entry.
                entry\<lparr>fe_fsmeta := metadata_to_fattr3 existing_id meta,
                  fe_aliases := bset_insert fullpath (fe_aliases entry)\<rparr>) m
          in (existing_id,
            m\<lparr>fm_path_to_id := hm_insert fullpath existing_id (fm_path_to_id m),
              fm_id_to_inode := (case hm_get (fm_id_to_inode m) existing_id of
                  None \<Rightarrow> hm_insert existing_id inode_key (fm_id_to_inode m)
                | Some _ \<Rightarrow> fm_id_to_inode m)\<rparr>))
     | None \<Rightarrow> create_new_entry fullpath meta m)"

definition create_entry :: "sympath \<Rightarrow> Metadata \<Rightarrow> 't FSMap \<Rightarrow> fileid3 \<times> 't FSMap" where
  "create_entry fullpath meta m =
    (let inode_key = from_meta meta in
     case hm_get (fm_path_to_id m) fullpath of
       Some chid \<Rightarrow>
         if hm_get (fm_id_to_inode m) chid = Some inode_key
         then (chid, update_entry chid (\<lambda>chent.
                chent\<lparr>fe_fsmeta := metadata_to_fattr3 chid meta\<rparr>) m)
         else create_detached fullpath meta (snd (remove_path fullpath m))
     | None \<Rightarrow> create_detached fullpath meta m)"

section \<open>The invariant of the map\<close>

text \<open>
  Every path leads to an entry that knows it, every entry is known under its name, inodes and file
  ids correspond one to one, exactly the ids with an entry have an inode, and ids are below the
  counter. The converse of the first part does not hold: an entry may list paths that lead
  elsewhere, as those of a file do that has vanished on the host (see theory \<open>Mirror_Limits\<close>).
\<close>

definition entry_ok :: "FSEntry \<Rightarrow> bool" where
  "entry_ok e \<longleftrightarrow> fe_name e \<in> set (fe_aliases e) \<and> sorted (fe_aliases e) \<and> distinct (fe_aliases e)"

definition paths_known :: "'t FSMap \<Rightarrow> bool" where
  "paths_known m \<longleftrightarrow> (\<forall>p fid. hm_get (fm_path_to_id m) p = Some fid \<longrightarrow>
    (\<exists>e. hm_get (fm_id_to_path m) fid = Some e \<and> p \<in> set (fe_aliases e)))"

definition inodes_ok :: "'t FSMap \<Rightarrow> bool" where
  "inodes_ok m \<longleftrightarrow>
    (\<forall>k fid. hm_get (fm_inode_to_id m) k = Some fid \<longleftrightarrow> hm_get (fm_id_to_inode m) fid = Some k) \<and>
    (\<forall>fid. hm_get (fm_id_to_inode m) fid = None \<longleftrightarrow> hm_get (fm_id_to_path m) fid = None)"

definition entries_ok :: "'t FSMap \<Rightarrow> bool" where
  "entries_ok m \<longleftrightarrow> (\<forall>fid e. hm_get (fm_id_to_path m) fid = Some e \<longrightarrow>
    entry_ok e \<and> unat fid < fm_next_fileid m)"

definition tables_ok :: "'t FSMap \<Rightarrow> bool" where
  "tables_ok m \<longleftrightarrow> hm_ok (fm_id_to_path m) \<and> hm_ok (fm_path_to_id m) \<and>
    hm_ok (fm_inode_to_id m) \<and> hm_ok (fm_id_to_inode m)"

definition fm_ok :: "'t FSMap \<Rightarrow> bool" where
  "fm_ok m \<longleftrightarrow> tables_ok m \<and> paths_known m \<and> inodes_ok m \<and> entries_ok m"

lemma paths_knownD:
  "paths_known m \<Longrightarrow> hm_get (fm_path_to_id m) p = Some fid \<Longrightarrow>
    \<exists>e. hm_get (fm_id_to_path m) fid = Some e \<and> p \<in> set (fe_aliases e)"
  by (simp add: paths_known_def)

lemma entries_okD:
  "entries_ok m \<Longrightarrow> hm_get (fm_id_to_path m) fid = Some e \<Longrightarrow> entry_ok e \<and> unat fid < fm_next_fileid m"
  by (simp add: entries_ok_def)

lemma inode_iff:
  "fm_ok m \<Longrightarrow> hm_get (fm_inode_to_id m) k = Some fid \<longleftrightarrow> hm_get (fm_id_to_inode m) fid = Some k"
  by (simp add: fm_ok_def inodes_ok_def)

lemma inode_entry:
  "fm_ok m \<Longrightarrow> hm_get (fm_id_to_inode m) fid = None \<longleftrightarrow> hm_get (fm_id_to_path m) fid = None"
  by (simp add: fm_ok_def inodes_ok_def)

lemma inode_has_entry:
  "fm_ok m \<Longrightarrow> hm_get (fm_id_to_inode m) fid = Some k \<Longrightarrow> \<exists>e. hm_get (fm_id_to_path m) fid = Some e"
  using inode_entry [of m fid] by (cases "hm_get (fm_id_to_path m) fid") auto

lemma fm_okI: "tables_ok m \<Longrightarrow> paths_known m \<Longrightarrow> inodes_ok m \<Longrightarrow> entries_ok m \<Longrightarrow> fm_ok m"
  by (simp add: fm_ok_def)

lemma set_bset [simp]:
  "set (bset_insert x xs) = insert x (set xs)" "set (bset_remove x xs) = set xs - {x}"
  by (auto simp: bset_insert_def bset_remove_def set_insort_key)

lemma bset_sorted:
  "sorted xs \<and> distinct xs \<Longrightarrow> sorted (bset_insert x xs) \<and> distinct (bset_insert x xs)"
  "sorted xs \<and> distinct xs \<Longrightarrow> sorted (bset_remove x xs) \<and> distinct (bset_remove x xs)"
  by (auto simp: bset_insert_def bset_remove_def sorted_insort distinct_insort
      intro: sorted_wrt_filter)

lemma new_entry_ok: "entry_ok (new_entry p a)"
  by (simp add: entry_ok_def new_entry_def)

lemma remove_alias_ok:
  assumes "entry_ok e" "fe_aliases (remove_alias p e) \<noteq> []"
  shows "entry_ok (remove_alias p e)"
proof -
  define xs where "xs = bset_remove p (fe_aliases e)"
  have xs: "set xs = set (fe_aliases e) - {p}" "sorted xs" "distinct xs"
    using assms(1) bset_sorted(2) [of "fe_aliases e" p] by (simp_all add: xs_def entry_ok_def)
  have "xs \<noteq> []" using assms(2) by (simp add: remove_alias_def Let_def xs_def)
  then show ?thesis
    using assms(1) xs by (cases xs) (auto simp: entry_ok_def remove_alias_def Let_def xs_def [symmetric])
qed

lemma rename_alias_ok:
  "entry_ok e \<Longrightarrow> p \<in> set (fe_aliases e) \<Longrightarrow> entry_ok (rename_alias p q e)"
  using bset_sorted(2) [of "fe_aliases e" p] bset_sorted(1) [of "bset_remove p (fe_aliases e)" q]
  by (auto simp: entry_ok_def rename_alias_def)

lemma new_fsmap_ok: "fm_ok (new_fsmap t root meta)"
  by (rule fm_okI) (auto simp: new_fsmap_def Let_def tables_ok_def hm_ok_def paths_known_def inodes_ok_def
      entries_ok_def hm_get_def entry_ok_def new_entry_def split: if_splits)

section \<open>The operations preserve it\<close>

lemma update_entry_simps [simp]:
  "fm_path_to_id (update_entry fid f m) = fm_path_to_id m"
  "fm_inode_to_id (update_entry fid f m) = fm_inode_to_id m"
  "fm_id_to_inode (update_entry fid f m) = fm_id_to_inode m"
  "fm_next_fileid (update_entry fid f m) = fm_next_fileid m"
  "fm_intern (update_entry fid f m) = fm_intern m"
  "fm_root (update_entry fid f m) = fm_root m"
  by (simp_all add: update_entry_def split: option.split)

lemma update_entry_get:
  "hm_get (fm_id_to_path (update_entry fid f m)) i =
    (if i = fid then map_option f (hm_get (fm_id_to_path m) i) else hm_get (fm_id_to_path m) i)"
  by (simp add: update_entry_def hm.get_insert split: option.split)

lemma update_entry_path:
  "update_entry fid f (m\<lparr>fm_path_to_id := t\<rparr>) = (update_entry fid f m)\<lparr>fm_path_to_id := t\<rparr>"
  by (simp add: update_entry_def split: option.split)

lemma update_entry_ok_gen:
  assumes m: "fm_ok m"
    and f: "\<And>e. hm_get (fm_id_to_path m) fid = Some e \<Longrightarrow> entry_ok (f e) \<and>
      (\<forall>p. hm_get (fm_path_to_id m) p = Some fid \<longrightarrow> p \<in> set (fe_aliases (f e)))"
  shows "fm_ok (update_entry fid f m)"
proof (rule fm_okI)
  show "tables_ok (update_entry fid f m)"
    using m by (auto simp: fm_ok_def tables_ok_def update_entry_def hm.invar_insert split: option.split)
  show "paths_known (update_entry fid f m)"
    using m f by (fastforce simp: fm_ok_def paths_known_def update_entry_get)
  show "inodes_ok (update_entry fid f m)"
    using m by (auto simp: fm_ok_def inodes_ok_def update_entry_get)
  show "entries_ok (update_entry fid f m)"
    using m f by (auto simp: fm_ok_def entries_ok_def update_entry_get split: if_splits)
qed

lemma update_entry_ok:
  assumes "fm_ok m" "\<And>e. fe_aliases (f e) = fe_aliases e \<and> fe_name (f e) = fe_name e"
  shows "fm_ok (update_entry fid f m)"
  using assms by (intro update_entry_ok_gen)
    (fastforce simp: fm_ok_def entry_ok_def dest: entries_okD paths_knownD)+

lemma forget_path_ok:
  assumes "fm_ok m"
  shows "fm_ok (m\<lparr>fm_path_to_id := hm_remove p (fm_path_to_id m)\<rparr>)"
  using assms by (auto simp: fm_ok_def tables_ok_def paths_known_def inodes_ok_def entries_ok_def
      hm.invar_remove hm.get_remove split: if_splits)

lemma learn_path_ok:
  assumes "fm_ok m" "hm_get (fm_id_to_path m) fid = Some e" "p \<in> set (fe_aliases e)"
  shows "fm_ok (m\<lparr>fm_path_to_id := hm_insert p fid (fm_path_to_id m)\<rparr>)"
  using assms by (auto simp: fm_ok_def tables_ok_def paths_known_def inodes_ok_def entries_ok_def
      hm.invar_insert hm.get_insert split: if_splits)

lemma drop_entry_ok:
  assumes m: "fm_ok m" and none: "\<And>p. hm_get (fm_path_to_id m) p \<noteq> Some fid"
    and k: "hm_get (fm_id_to_inode m) fid = Some k"
  shows "fm_ok (m\<lparr>fm_id_to_path := hm_remove fid (fm_id_to_path m),
    fm_id_to_inode := hm_remove fid (fm_id_to_inode m),
    fm_inode_to_id := hm_remove k (fm_inode_to_id m)\<rparr>)"
proof (rule fm_okI)
  show "inodes_ok (m\<lparr>fm_id_to_path := hm_remove fid (fm_id_to_path m),
      fm_id_to_inode := hm_remove fid (fm_id_to_inode m),
      fm_inode_to_id := hm_remove k (fm_inode_to_id m)\<rparr>)"
  proof -
    have A: "hm_get (fm_inode_to_id m) j = Some i \<longleftrightarrow> hm_get (fm_id_to_inode m) i = Some j" for i j
      using m by (simp add: fm_ok_def inodes_ok_def)
    have B: "hm_get (fm_id_to_inode m) i = None \<longleftrightarrow> hm_get (fm_id_to_path m) i = None" for i
      using m by (simp add: fm_ok_def inodes_ok_def)
    have "i = fid" if "hm_get (fm_id_to_inode m) i = Some k" for i
      using A [of k i] A [of k fid] that k by simp
    then have C: "hm_get (fm_id_to_inode m) i = Some k \<longleftrightarrow> i = fid" for i using k by blast
    show ?thesis
      unfolding inodes_ok_def
    proof (intro conjI allI)
      fix j i
      show "hm_get (fm_inode_to_id (m\<lparr>fm_id_to_path := hm_remove fid (fm_id_to_path m),
            fm_id_to_inode := hm_remove fid (fm_id_to_inode m),
            fm_inode_to_id := hm_remove k (fm_inode_to_id m)\<rparr>)) j = Some i \<longleftrightarrow>
          hm_get (fm_id_to_inode (m\<lparr>fm_id_to_path := hm_remove fid (fm_id_to_path m),
            fm_id_to_inode := hm_remove fid (fm_id_to_inode m),
            fm_inode_to_id := hm_remove k (fm_inode_to_id m)\<rparr>)) i = Some j"
        using A [of j i] C [of i] k by (cases "j = k"; cases "i = fid") (auto simp: hm.get_remove)
    qed (use B in \<open>simp add: hm.get_remove\<close>)
  qed
qed (use m none in \<open>auto simp: fm_ok_def tables_ok_def paths_known_def entries_ok_def
      hm.invar_remove hm.get_remove split: if_splits\<close>)

lemma remove_path_ok:
  assumes m: "fm_ok m"
  shows "fm_ok (snd (remove_path p m))"
proof (cases "hm_get (fm_path_to_id m) p")
  case None
  then show ?thesis using m by (simp add: remove_path_def)
next
  case (Some fid)
  let ?m = "m\<lparr>fm_path_to_id := hm_remove p (fm_path_to_id m)\<rparr>"
  note ok = forget_path_ok [OF m, of p]
  obtain e where e: "hm_get (fm_id_to_path m) fid = Some e" "p \<in> set (fe_aliases e)"
    using paths_knownD [of m p fid] m Some by (auto simp: fm_ok_def)
  have others: "q \<in> set (fe_aliases (remove_alias p e))" if "hm_get (fm_path_to_id ?m) q = Some fid" for q
    using that paths_knownD [of m q fid] m e(1)
    by (auto simp: fm_ok_def hm.get_remove remove_alias_def Let_def split: if_splits)
  show ?thesis
  proof (cases "fe_aliases (remove_alias p e) = []")
    case True
    obtain k where "hm_get (fm_id_to_inode m) fid = Some k"
      using m e(1) by (fastforce simp: fm_ok_def inodes_ok_def)
    then show ?thesis
      using Some e(1) True others drop_entry_ok [OF ok, of fid k]
      by (auto simp: remove_path_def Let_def)
  next
    case False
    have "entry_ok e" using m e(1) by (auto simp: fm_ok_def dest: entries_okD)
    then have "fm_ok (update_entry fid (remove_alias p) ?m)"
      using remove_alias_ok [OF _ False] others e(1) by (intro update_entry_ok_gen [OF ok]) auto
    then show ?thesis using Some e(1) False by (simp add: remove_path_def Let_def)
  qed
qed

lemma rename_alias_set:
  "set (fe_aliases (rename_alias old new e)) =
    (if old \<in> set (fe_aliases e) then insert new (set (fe_aliases e) - {old}) else set (fe_aliases e))"
  by (simp add: rename_alias_def)

lemma rename_one_ok:
  assumes m: "fm_ok m" and e: "hm_get (fm_id_to_path m) fid = Some e" "old \<in> set (fe_aliases e)"
  shows "fm_ok (rename_one (old, new, fid) m)"
proof -
  let ?m = "m\<lparr>fm_path_to_id := hm_remove old (fm_path_to_id m)\<rparr>"
  let ?n = "update_entry fid (rename_alias old new) ?m"
  have others: "q \<in> set (fe_aliases (rename_alias old new e))" if "hm_get (fm_path_to_id ?m) q = Some fid" for q
    using that paths_knownD [of m q fid] m e(1)
    by (auto simp: fm_ok_def hm.get_remove rename_alias_def split: if_splits)
  have "entry_ok e" using m e(1) by (auto simp: fm_ok_def dest: entries_okD)
  then have "fm_ok ?n"
    using rename_alias_ok [OF _ e(2)] others e(1) by (intro update_entry_ok_gen [OF forget_path_ok [OF m]]) auto
  from learn_path_ok [OF this, of fid "rename_alias old new e" new] e
  have "fm_ok (?n\<lparr>fm_path_to_id := hm_insert new fid (fm_path_to_id ?n)\<rparr>)"
    by (simp add: update_entry_get rename_alias_def)
  then show ?thesis by (simp add: rename_one_def update_entry_path)
qed

lemma rename_fold_ok:
  assumes "fm_ok m" "distinct (map fst us)"
    and "\<forall>(old, new, fid) \<in> set us. \<exists>e. hm_get (fm_id_to_path m) fid = Some e \<and> old \<in> set (fe_aliases e)"
  shows "fm_ok (fold rename_one us m)"
  using assms
proof (induction us arbitrary: m)
  case (Cons u us)
  obtain old new fid where u: "u = (old, new, fid)" by (metis prod.exhaust)
  obtain e where e: "hm_get (fm_id_to_path m) fid = Some e" "old \<in> set (fe_aliases e)"
    using Cons.prems(3) u by auto
  have "\<exists>e. hm_get (fm_id_to_path (rename_one u m)) fid' = Some e \<and> old' \<in> set (fe_aliases e)"
    if us: "(old', new', fid') \<in> set us" for old' new' fid'
  proof -
    have ne: "old' \<noteq> old" using Cons.prems(2) u us by force
    obtain e' where "hm_get (fm_id_to_path m) fid' = Some e'" "old' \<in> set (fe_aliases e')"
      using bspec [OF Cons.prems(3), of "(old', new', fid')"] us by auto
    then show ?thesis using ne u by (auto simp: rename_one_def update_entry_get rename_alias_set)
  qed
  then have "\<forall>(old, new, fid) \<in> set us. \<exists>e. hm_get (fm_id_to_path (rename_one u m)) fid = Some e \<and>
      old \<in> set (fe_aliases e)"
    by blast
  then show ?case using Cons.IH [of "rename_one u m"] rename_one_ok [OF Cons.prems(1) e, of new] Cons.prems(2) u
    by simp
qed simp

lemma rename_path_prefix_ok:
  assumes m: "fm_ok m"
  shows "fm_ok (rename_path_prefix from_prefix to_prefix m)"
proof -
  let ?us = "rename_updates from_prefix to_prefix (fm_path_to_id m)"
  have ok: "hm_ok (fm_path_to_id m)" using m by (simp add: fm_ok_def tables_ok_def)
  have "map fst ?us = map fst (filter (\<lambda>(path, fileid). prefix from_prefix path) (hm_entries (fm_path_to_id m)))"
    by (simp add: rename_updates_def case_prod_beta comp_def)
  then have "distinct (map fst ?us)"
    using hm.entries_distinct [OF ok] by (simp add: distinct_map_filter)
  moreover have "\<forall>(old, new, fid) \<in> set ?us. \<exists>e. hm_get (fm_id_to_path m) fid = Some e \<and> old \<in> set (fe_aliases e)"
    using m hm.entries_get [OF ok] by (auto simp: rename_updates_def fm_ok_def dest!: paths_knownD)
  ultimately show ?thesis using rename_fold_ok [OF m] m by (simp add: rename_path_prefix_def)
qed

lemma remove_children_ok:
  assumes "\<And>p fid m m'. fm_ok m \<Longrightarrow> tree p fid m = Some m' \<Longrightarrow> fm_ok m'"
    and "fm_ok m" "remove_children tree path cs m = Some m'"
  shows "fm_ok m'"
  using assms(2,3)
proof (induction cs arbitrary: m)
  case (Cons c cs)
  from Cons.prems obtain m1 where m1: "remove_children tree path cs m1 = Some m'"
      "tree (path @ [fst c]) (snd c) m = Some m1 \<or> m1 = snd (remove_path (path @ [fst c]) m)"
    by (auto simp: Let_def split: option.splits if_splits)
  then have "fm_ok m1" using assms(1) Cons.prems(1) remove_path_ok by blast
  then show ?case using Cons.IH m1(1) by blast
qed simp

lemma remove_path_tree_ok:
  "fm_ok m \<Longrightarrow> remove_path_tree depth path fid m = Some m' \<Longrightarrow> fm_ok m'"
proof (induction depth arbitrary: path fid m m')
  case (Suc depth)
  show ?case
  proof (cases "hm_get (fm_id_to_path m) fid")
    case (Some e)
    then obtain m1 where "m' = snd (remove_path path m1)" and
      m1: "m1 = m \<or> (\<exists>cs. remove_children (remove_path_tree depth) path cs m = Some m1)"
      using Suc.prems(2) by (auto split: option.splits bool.splits)
    moreover have "fm_ok m1" using m1 Suc.prems(1) remove_children_ok Suc.IH by blast
    ultimately show ?thesis using remove_path_ok by blast
  qed (use Suc.prems in simp)
qed simp

lemma delete_entry_ok:
  "fm_ok m \<Longrightarrow> delete_entry depth fid m = Some m' \<Longrightarrow> fm_ok m'"
  by (auto simp: delete_entry_def split: option.splits dest: remove_path_tree_ok)

lemma remove_path_next [simp]: "fm_next_fileid (snd (remove_path p m)) = fm_next_fileid m"
  by (simp add: remove_path_def Let_def split: option.split)

lemma create_new_entry_ok:
  assumes m: "fm_ok m" and n: "fm_next_fileid m < 2 ^ 64"
    and new: "hm_get (fm_inode_to_id m) (from_meta meta) = None"
  shows "fm_ok (snd (create_new_entry p meta m))"
proof -
  let ?i = "of_nat (fm_next_fileid m) :: fileid3" and ?k = "from_meta meta"
  have i: "unat ?i = fm_next_fileid m" using n by (simp add: unat_of_nat take_bit_nat_eq_self)
  have "hm_get (fm_id_to_path m) ?i = None"
    using m i by (cases "hm_get (fm_id_to_path m) ?i") (auto simp: fm_ok_def dest: entries_okD)
  moreover from this have none: "hm_get (fm_id_to_inode m) ?i = None"
    using m by (simp add: fm_ok_def inodes_ok_def)
  moreover have "hm_get (fm_inode_to_id m) k \<noteq> Some ?i" for k
    using none inode_iff [OF m] by simp
  moreover have "hm_get (fm_id_to_inode m) j \<noteq> Some ?k" for j
    using new m unfolding fm_ok_def inodes_ok_def by (metis option.distinct(1))
  ultimately have "inodes_ok (snd (create_new_entry p meta m))"
    using m by (auto simp: fm_ok_def inodes_ok_def create_new_entry_def Let_def hm.get_insert)
  moreover have "entries_ok (snd (create_new_entry p meta m))"
    using m i by (auto simp: fm_ok_def entries_ok_def create_new_entry_def Let_def hm.get_insert new_entry_ok
        less_SucI)
  moreover have "paths_known (snd (create_new_entry p meta m))"
    using m \<open>hm_get (fm_id_to_path m) ?i = None\<close>
    by (fastforce simp: fm_ok_def paths_known_def create_new_entry_def Let_def hm.get_insert new_entry_def)
  moreover have "tables_ok (snd (create_new_entry p meta m))"
    using m by (simp add: fm_ok_def tables_ok_def create_new_entry_def Let_def hm.invar_insert)
  ultimately show ?thesis by (intro fm_okI)
qed

lemma create_detached_ok:
  assumes m: "fm_ok m" and n: "fm_next_fileid m < 2 ^ 64"
  shows "fm_ok (snd (create_detached p meta m))"
proof (cases "hm_get (fm_inode_to_id m) (from_meta meta)")
  case None
  then show ?thesis using create_new_entry_ok [OF m n None] by (simp add: create_detached_def)
next
  case (Some fid)
  let ?f = "\<lambda>e. e\<lparr>fe_fsmeta := metadata_to_fattr3 fid meta, fe_aliases := bset_insert p (fe_aliases e)\<rparr>"
  have k: "hm_get (fm_id_to_inode m) fid = Some (from_meta meta)"
    using Some m by (simp add: fm_ok_def inodes_ok_def)
  then obtain e where e: "hm_get (fm_id_to_path m) fid = Some e"
    using inode_has_entry [OF m] by blast
  have "entry_ok e" using m e by (auto simp: fm_ok_def dest: entries_okD)
  then have "entry_ok (?f e)" using bset_sorted(1) [of "fe_aliases e" p] by (simp add: entry_ok_def)
  moreover have "\<forall>q. hm_get (fm_path_to_id m) q = Some fid \<longrightarrow> q \<in> set (fe_aliases (?f e))"
    using m e by (auto simp: fm_ok_def dest!: paths_knownD)
  ultimately have "fm_ok (update_entry fid ?f m)" using e by (intro update_entry_ok_gen [OF m]) auto
  from learn_path_ok [OF this, of fid "?f e" p] e
  have "fm_ok ((update_entry fid ?f m)\<lparr>fm_path_to_id := hm_insert p fid (fm_path_to_id m)\<rparr>)"
    by (simp add: update_entry_get)
  moreover have "(snd (create_detached p meta m)) =
      (update_entry fid ?f m)\<lparr>fm_path_to_id := hm_insert p fid (fm_path_to_id m)\<rparr>"
    using Some k by (simp add: create_detached_def Let_def)
  ultimately show ?thesis by (simp only:)
qed

lemma create_entry_ok:
  assumes "fm_ok m" "fm_next_fileid m < 2 ^ 64"
  shows "fm_ok (snd (create_entry p meta m))"
  using assms create_detached_ok [OF remove_path_ok [OF assms(1)], of p p meta] create_detached_ok [OF assms, of p meta]
  by (auto simp: create_entry_def Let_def intro: update_entry_ok split: option.split)

lemma create_entry_next: "fm_next_fileid m \<le> fm_next_fileid (snd (create_entry p meta m))"
  "fm_next_fileid (snd (create_entry p meta m)) \<le> Suc (fm_next_fileid m)"
  by (auto simp: create_entry_def create_detached_def create_new_entry_def Let_def split: option.split)

text \<open>A created entry is found under its path, and has the attributes of the host's file.\<close>

lemma create_detached_found:
  assumes "fm_ok m" "create_detached p meta m = (fid, m')"
  shows "hm_get (fm_path_to_id m') p = Some fid \<and>
    (\<exists>e. hm_get (fm_id_to_path m') fid = Some e \<and> fe_fsmeta e = metadata_to_fattr3 fid meta \<and>
      p \<in> set (fe_aliases e))"
proof (cases "hm_get (fm_inode_to_id m) (from_meta meta)")
  case (Some i)
  then obtain e where "hm_get (fm_id_to_path m) i = Some e"
    using inode_has_entry [OF assms(1)] inode_iff [OF assms(1)] by blast
  then show ?thesis
    using Some assms(2) by (auto simp: create_detached_def Let_def hm.get_insert update_entry_get)
qed (use assms(2) in \<open>auto simp: create_detached_def create_new_entry_def Let_def hm.get_insert new_entry_def\<close>)

lemma create_entry_found:
  assumes m: "fm_ok m" and c: "create_entry p meta m = (fid, m')"
  shows "hm_get (fm_path_to_id m') p = Some fid \<and>
    (\<exists>e. hm_get (fm_id_to_path m') fid = Some e \<and> fe_fsmeta e = metadata_to_fattr3 fid meta \<and>
      p \<in> set (fe_aliases e))"
proof (cases "\<exists>i. hm_get (fm_path_to_id m) p = Some i \<and> hm_get (fm_id_to_inode m) i = Some (from_meta meta)")
  case True
  then obtain i where i: "hm_get (fm_path_to_id m) p = Some i" "hm_get (fm_id_to_inode m) i = Some (from_meta meta)"
    by blast
  then obtain e where "hm_get (fm_id_to_path m) i = Some e" "p \<in> set (fe_aliases e)"
    using paths_knownD [of m p i] m by (auto simp: fm_ok_def)
  then show ?thesis using i c by (auto simp: create_entry_def Let_def update_entry_get)
next
  case False
  then have "create_detached p meta m = (fid, m') \<or> create_detached p meta (snd (remove_path p m)) = (fid, m')"
    using c by (auto simp: create_entry_def Let_def split: option.splits if_splits)
  then show ?thesis using create_detached_found m remove_path_ok by blast
qed

section \<open>Removing a tree\<close>

text \<open>
  The recursion over the children ends when the directories are ranked: every child directory
  has a smaller rank, and the stack is deep enough for the rank. The removal of entries
  keeps a ranking.
\<close>

definition ranked :: "(fileid3 \<Rightarrow> nat) \<Rightarrow> 't FSMap \<Rightarrow> bool" where
  "ranked rank m \<longleftrightarrow> (\<forall>fid e cs. hm_get (fm_id_to_path m) fid = Some e \<longrightarrow>
    fe_children e = Some cs \<longrightarrow> (\<forall>c \<in> set cs. rank (snd c) < rank fid))"

lemma remove_path_entry:
  assumes "hm_get (fm_id_to_path (snd (remove_path p m))) fid = Some e"
  shows "\<exists>e'. hm_get (fm_id_to_path m) fid = Some e' \<and> fe_children e' = fe_children e \<and>
    fe_fsmeta e' = fe_fsmeta e"
  using assms
  by (auto simp: remove_path_def Let_def hm.get_remove update_entry_get remove_alias_def
      split: option.splits if_splits)

lemma ranked_remove_path: "ranked rank m \<Longrightarrow> ranked rank (snd (remove_path p m))"
  unfolding ranked_def by (metis remove_path_entry)

lemma remove_children_total:
  assumes tree: "\<And>p c m. c \<in> snd ` set cs \<Longrightarrow> ranked rank m \<Longrightarrow> \<exists>m'. tree p c m = Some m' \<and> ranked rank m'"
    and "ranked rank m"
  shows "\<exists>m'. remove_children tree path cs m = Some m' \<and> ranked rank m'"
  using assms
proof (induction cs arbitrary: m)
  case (Cons c cs)
  have "\<exists>m1. (case hm_get (fm_id_to_path m) (snd c) of
      Some child_entry \<Rightarrow> if is_directory child_entry then tree (path @ [fst c]) (snd c) m
        else Some (snd (remove_path (path @ [fst c]) m))
    | None \<Rightarrow> Some (snd (remove_path (path @ [fst c]) m))) = Some m1 \<and> ranked rank m1"
    using Cons.prems(1) [of "snd c" m "path @ [fst c]"] Cons.prems(2) ranked_remove_path
    by (auto split: option.split)
  then obtain m1 where m1: "(case hm_get (fm_id_to_path m) (snd c) of
      Some child_entry \<Rightarrow> if is_directory child_entry then tree (path @ [fst c]) (snd c) m
        else Some (snd (remove_path (path @ [fst c]) m))
    | None \<Rightarrow> Some (snd (remove_path (path @ [fst c]) m))) = Some m1" "ranked rank m1" by blast
  obtain m' where "remove_children tree path cs m1 = Some m'" "ranked rank m'"
    using Cons.IH [of m1] Cons.prems(1) m1(2) by auto
  then show ?case using m1 by (simp add: Let_def)
qed simp

lemma remove_path_tree_total:
  fixes m :: "'a FSMap"
  shows "ranked rank m \<Longrightarrow> rank fid < depth \<Longrightarrow> \<exists>m'. remove_path_tree depth path fid m = Some m' \<and> ranked rank m'"
proof (induction depth arbitrary: path fid m)
  case (Suc depth)
  show ?case
  proof (cases "hm_get (fm_id_to_path m) fid")
    case None
    then show ?thesis using Suc.prems(1) by simp
  next
    case (Some e)
    have "\<exists>m1. remove_children (remove_path_tree depth) path cs m = Some m1 \<and> ranked rank m1"
      if "fe_children e = Some cs" for cs
    proof (rule remove_children_total [OF _ Suc.prems(1)])
      fix p c and m :: "'a FSMap" assume "c \<in> snd ` set cs" "ranked rank m"
      moreover from this have "rank c < rank fid"
        using Suc.prems(1) Some that unfolding ranked_def by blast
      ultimately show "\<exists>m'. remove_path_tree depth p c m = Some m' \<and> ranked rank m'"
        using Suc.IH [of m c p] Suc.prems(2) by simp
    qed
    then show ?thesis
      using Some Suc.prems(1) ranked_remove_path
      by (cases "is_directory e"; cases "fe_children e") (force split: option.split)+
  qed
qed simp

end
