(* ===== verification/Mirror_Fs.thy ===== *)
theory Mirror_Fs
  imports Mirror_Map Permissions Vfs
begin

text \<open>
  The mirror file system of \<open>src/bin/fernfs/fs.rs\<close>, which exports a directory of the host, and
  the operations of its map that ask the host (\<open>refresh_entry\<close>, \<open>refresh_dir_list\<close> of
  \<open>fs_map.rs\<close>). An operation works on the map and on the host; the mutex around the map makes it
  atomic with respect to the map, except that \<open>check_access\<close>, \<open>read\<close>, \<open>write\<close>, \<open>readlink\<close>
  give the lock back before they call the host, which makes no difference to one operation.
  What the host does in between is up to the host.
\<close>

section \<open>State\<close>

record ('t, 'h) mirror =
  mi_fsmap :: "'t FSMap"
  mi_host :: 'h

text \<open>The symbol table and the host, and the depth of the stack.\<close>

record ('t, 'h) environment =
  en_interner :: "'t interner"
  en_host :: "'h host"
  en_depth :: nat

type_synonym ('t, 'h, 'a) mirror_op = "(('t, 'h) mirror, 'a) op"

definition fsmap_of :: "('t FSMap \<Rightarrow> 'a) \<Rightarrow> ('t, 'h, 'a) mirror_op" where
  "fsmap_of f = reads (\<lambda>s. f (mi_fsmap s))"

definition fsmap_update :: "('t FSMap \<Rightarrow> 't FSMap) \<Rightarrow> ('t, 'h, unit) mirror_op" where
  "fsmap_update f = modifies (\<lambda>s. s\<lparr>mi_fsmap := f (mi_fsmap s)\<rparr>)"

definition fsmap_run :: "('t FSMap \<Rightarrow> 'a \<times> 't FSMap) \<Rightarrow> ('t, 'h, 'a) mirror_op" where
  "fsmap_run f s = (case f (mi_fsmap s) of (x, m) \<Rightarrow> Some (Ok x, s\<lparr>mi_fsmap := m\<rparr>))"

definition fsmap_try :: "('t FSMap \<Rightarrow> 't FSMap option) \<Rightarrow> ('t, 'h, unit) mirror_op" where
  "fsmap_try f s = map_option (\<lambda>m. (Ok (), s\<lparr>mi_fsmap := m\<rparr>)) (f (mi_fsmap s))"

definition on_host :: "('h, 'a) op \<Rightarrow> ('t, 'h, 'a) mirror_op" where
  "on_host f s = map_option (\<lambda>(r, h). (r, s\<lparr>mi_host := h\<rparr>)) (f (mi_host s))"

definition host_call :: "('h, 'a) host_call \<Rightarrow> ('t, 'h, host_error + 'a) mirror_op" where
  "host_call c = on_host (call_host c)"

section \<open>Names and paths\<close>

definition path_of :: "('t, 'h) environment \<Rightarrow> sympath \<Rightarrow> ('t, 'h, path) mirror_op" where
  "path_of E symlist =
    andthen (fsmap_of (\<lambda>m. sym_to_path (en_interner E) m symlist)) unwrap"

definition path_exists :: "('t, 'h) environment \<Rightarrow> path \<Rightarrow> ('t, 'h, bool) mirror_op" where
  "path_exists E path = on_host (exists_no_traverse (en_host E) path)"

definition intern_name :: "('t, 'h) environment \<Rightarrow> bytes \<Rightarrow> ('t, 'h, symbol) mirror_op" where
  "intern_name E name =
    andthen (fsmap_of (\<lambda>m. in_intern (en_interner E) name (fm_intern m))) (\<lambda>r.
    andthen (unwrap r) (\<lambda>(s, t).
    andthen (fsmap_update (\<lambda>m. m\<lparr>fm_intern := t\<rparr>)) (\<lambda>_. returns s)))"

definition entry_of :: "fileid3 \<Rightarrow> ('t, 'h, FSEntry) mirror_op" where
  "entry_of fid = andthen (fsmap_of (find_entry fid)) result_of"

definition symlink_metadata :: "('t, 'h) environment \<Rightarrow> path \<Rightarrow> ('t, 'h, Metadata) mirror_op" where
  "symlink_metadata E path =
    andthen (host_call (h_symlink_metadata (en_host E) path)) (or_nfs NFS3ERR_IO)"

section \<open>Refreshing\<close>

datatype RefreshResult = Refresh_Delete | Refresh_Reload | Refresh_Noop

text \<open>The paths of an entry that still exist; the others are forgotten.\<close>

primrec existing_aliases :: "('t, 'h) environment \<Rightarrow> sympath list \<Rightarrow> ('t, 'h, sympath list) mirror_op" where
  "existing_aliases E [] = returns []"
| "existing_aliases E (alias # aliases) =
    andthen (path_of E alias) (\<lambda>path.
    andthen (path_exists E path) (\<lambda>exists.
    andthen (if exists then returns ()
      else fsmap_update (\<lambda>m. m\<lparr>fm_path_to_id := hm_remove alias (fm_path_to_id m)\<rparr>)) (\<lambda>_.
    andthen (existing_aliases E aliases) (\<lambda>rest.
    returns (if exists then alias # rest else rest)))))"

definition delete_and_return :: "('t, 'h) environment \<Rightarrow> fileid3 \<Rightarrow> ('t, 'h, RefreshResult) mirror_op" where
  "delete_and_return E fid =
    andthen (fsmap_try (delete_entry (en_depth E) fid)) (\<lambda>_. returns Refresh_Delete)"

definition refresh_meta ::
    "('t, 'h) environment \<Rightarrow> fileid3 \<Rightarrow> FSEntry \<Rightarrow> Metadata \<Rightarrow> ('t, 'h, RefreshResult) mirror_op" where
  "refresh_meta E fid entry meta =
    (let attr = metadata_to_fattr3 fid meta in
     if \<not> fattr3_differ attr (fe_fsmeta entry) then returns Refresh_Noop
     else if fa_ftype (fe_fsmeta entry) \<noteq> fa_ftype attr then delete_and_return E fid
     else
     andthen (fsmap_of (\<lambda>m. hm_get (fm_id_to_path m) fid)) (\<lambda>e.
     andthen (unwrap e) (\<lambda>_.
     andthen (fsmap_update (update_entry fid (\<lambda>e. e\<lparr>fe_fsmeta := attr\<rparr>))) (\<lambda>_.
     returns Refresh_Reload))))"

definition refresh_inode ::
    "('t, 'h) environment \<Rightarrow> fileid3 \<Rightarrow> FSEntry \<Rightarrow> sympath \<Rightarrow> ('t, 'h, RefreshResult) mirror_op" where
  "refresh_inode E fid entry primary =
    andthen (path_of E primary) (\<lambda>path.
    andthen (symlink_metadata E path) (\<lambda>meta.
    let inode_key = from_meta meta in
    andthen (fsmap_of (\<lambda>m. hm_get (fm_id_to_inode m) fid)) (\<lambda>inode.
    if inode \<noteq> Some inode_key then delete_and_return E fid
    else
    andthen (fsmap_update (\<lambda>m.
      m\<lparr>fm_id_to_inode := hm_insert fid inode_key (fm_id_to_inode m),
        fm_inode_to_id := hm_insert inode_key fid (fm_inode_to_id m)\<rparr>)) (\<lambda>_.
    refresh_meta E fid entry meta))))"

definition refresh_entry :: "('t, 'h) environment \<Rightarrow> fileid3 \<Rightarrow> ('t, 'h, RefreshResult) mirror_op" where
  "refresh_entry E fid =
    andthen (entry_of fid) (\<lambda>entry.
    andthen (existing_aliases E (fe_aliases entry)) (\<lambda>existing.
    case existing of
      [] \<Rightarrow> delete_and_return E fid
    | primary # _ \<Rightarrow>
    andthen (fsmap_update (update_entry fid (\<lambda>e. e\<lparr>fe_aliases := existing, fe_name := primary\<rparr>))) (\<lambda>_.
    refresh_inode E fid entry primary)))"

definition listing_error :: "host_error \<Rightarrow> nfsstat3" where
  "listing_error err =
    (case err of
      HostNotFound \<Rightarrow> NFS3ERR_NOENT
    | HostPermissionDenied \<Rightarrow> NFS3ERR_ACCES
    | HostNotADirectory \<Rightarrow> NFS3ERR_NOTDIR
    | _ \<Rightarrow> NFS3ERR_IO)"

primrec list_children ::
    "('t, 'h) environment \<Rightarrow> sympath \<Rightarrow> path \<Rightarrow> (host_error + bytes) list \<Rightarrow>
      (symbol, fileid3) btree_map \<Rightarrow> ('t, 'h, (symbol, fileid3) btree_map) mirror_op" where
  "list_children E cur_path path [] new_children = returns new_children"
| "list_children E cur_path path (next_entry # listing) new_children =
    andthen (map_err listing_error next_entry) (\<lambda>file_name.
    andthen (intern_name E file_name) (\<lambda>s.
    andthen (symlink_metadata E (path_push path file_name)) (\<lambda>meta.
    andthen (fsmap_run (create_entry (cur_path @ [s]) meta)) (\<lambda>next_id.
    list_children E cur_path path listing (bmap_insert s next_id new_children)))))"

primrec remove_old_children ::
    "sympath \<Rightarrow> (symbol, fileid3) btree_map \<Rightarrow> (symbol \<times> fileid3) list \<Rightarrow> 't FSMap \<Rightarrow> 't FSMap" where
  "remove_old_children name new_children [] m = m"
| "remove_old_children name new_children (child # old_children) m =
    remove_old_children name new_children old_children
      (if map_of new_children (fst child) = None
       then snd (remove_path (name @ [fst child]) m) else m)"

definition refresh_dir_list :: "('t, 'h) environment \<Rightarrow> fileid3 \<Rightarrow> ('t, 'h, unit) mirror_op" where
  "refresh_dir_list E fid =
    andthen (entry_of fid) (\<lambda>entry.
    if \<not> is_directory entry then returns ()
    else
    andthen (path_of E (fe_name entry)) (\<lambda>path.
    andthen (host_call (h_read_dir (en_host E) path)) (\<lambda>r.
    andthen (map_err listing_error r) (\<lambda>listing.
    andthen (list_children E (fe_name entry) path listing []) (\<lambda>new_children.
    andthen (case fe_children entry of
        Some old_children \<Rightarrow> fsmap_update (remove_old_children (fe_name entry) new_children old_children)
      | None \<Rightarrow> returns ()) (\<lambda>_.
    fsmap_update (update_entry fid (\<lambda>e.
      e\<lparr>fe_children := Some new_children, fe_children_meta := fe_fsmeta e\<rparr>))))))))"

section \<open>Creating objects\<close>

datatype CreateFSObject =
  FsDirectory | FsFile sattr3 | FsExclusive createverf3 | FsSymlink sattr3 nfspath3

definition object_is_directory :: "CreateFSObject \<Rightarrow> bool" where
  "object_is_directory obj = (case obj of FsDirectory \<Rightarrow> True | _ \<Rightarrow> False)"

definition object_is_file :: "CreateFSObject \<Rightarrow> bool" where
  "object_is_file obj = (case obj of FsFile _ \<Rightarrow> True | _ \<Rightarrow> False)"

definition object_is_exclusive :: "CreateFSObject \<Rightarrow> bool" where
  "object_is_exclusive obj = (case obj of FsExclusive _ \<Rightarrow> True | _ \<Rightarrow> False)"

definition object_is_symlink :: "CreateFSObject \<Rightarrow> bool" where
  "object_is_symlink obj = (case obj of FsSymlink _ _ \<Rightarrow> True | _ \<Rightarrow> False)"

definition get_attributes :: "CreateFSObject \<Rightarrow> sattr3 option" where
  "get_attributes obj = (case obj of FsFile attrs \<Rightarrow> Some attrs | FsSymlink attrs _ \<Rightarrow> Some attrs | _ \<Rightarrow> None)"

definition get_symlink_target :: "CreateFSObject \<Rightarrow> nfspath3 option" where
  "get_symlink_target obj = (case obj of FsSymlink _ target \<Rightarrow> Some target | _ \<Rightarrow> None)"

definition check_exclusive_existing ::
    "('t, 'h) environment \<Rightarrow> fileid3 \<Rightarrow> filename3 \<Rightarrow> createverf3 \<Rightarrow> path \<Rightarrow>
      ('t, 'h, (fileid3 \<times> fattr3) option) mirror_op" where
  "check_exclusive_existing E dirid objectname verifier path =
    andthen (fsmap_of (find_child (en_interner E) dirid objectname)) (\<lambda>child.
    case child of
      Err _ \<Rightarrow> returns None
    | Ok existing_id \<Rightarrow>
    andthen (fsmap_of (find_entry existing_id)) (\<lambda>entry.
    case entry of
      Err _ \<Rightarrow> returns None
    | Ok entry \<Rightarrow>
        if fe_exclusive_verifier entry = Some verifier
        then andthen (symlink_metadata E path) (\<lambda>meta.
          returns (Some (existing_id, metadata_to_fattr3 existing_id meta)))
        else returns None))"

text \<open>The answer of an exclusive create to an object that exists already.\<close>

definition exclusive_existing ::
    "('t, 'h) environment \<Rightarrow> fileid3 \<Rightarrow> filename3 \<Rightarrow> createverf3 \<Rightarrow> path \<Rightarrow>
      ('t, 'h, (fileid3 \<times> fattr3) option) mirror_op" where
  "exclusive_existing E dirid objectname verifier path =
    andthen (check_exclusive_existing E dirid objectname verifier path) (\<lambda>existing.
    case existing of
      Some result \<Rightarrow> returns (Some result)
    | None \<Rightarrow> fails NFS3ERR_EXIST)"

definition check_before_create ::
    "('t, 'h) environment \<Rightarrow> fileid3 \<Rightarrow> filename3 \<Rightarrow> CreateFSObject \<Rightarrow> path \<Rightarrow>
      ('t, 'h, (fileid3 \<times> fattr3) option) mirror_op" where
  "check_before_create E dirid objectname object path =
    (case object of
      FsExclusive verifier \<Rightarrow>
        andthen (path_exists E path) (\<lambda>exists.
        if exists then exclusive_existing E dirid objectname verifier path
        else returns None)
    | _ \<Rightarrow> returns None)"

text \<open>The object is made on the host; an exclusive create may still find it there.\<close>

definition create_on_host ::
    "('t, 'h) environment \<Rightarrow> fileid3 \<Rightarrow> filename3 \<Rightarrow> CreateFSObject \<Rightarrow> path \<Rightarrow>
      ('t, 'h, (fileid3 \<times> fattr3) option) mirror_op" where
  "create_on_host E dirid objectname object path =
    (case object of
      FsDirectory \<Rightarrow>
        andthen (path_exists E path) (\<lambda>exists.
        if exists then fails NFS3ERR_EXIST
        else
        andthen (host_call (h_create_dir (en_host E) path)) (\<lambda>r.
        andthen (or_nfs NFS3ERR_IO r) (\<lambda>_. returns None)))
    | FsFile setattr \<Rightarrow>
        andthen (host_call (h_open (en_host E)
          (no_options\<lparr>oo_write := True, oo_create := True, oo_truncate := True\<rparr>) path)) (\<lambda>r.
        andthen (or_nfs NFS3ERR_IO r) (\<lambda>file.
        andthen (attempt (on_host (file_setattr (en_host E) file setattr))) (\<lambda>_. returns None)))
    | FsExclusive verifier \<Rightarrow>
        andthen (host_call (h_open (en_host E)
          (no_options\<lparr>oo_write := True, oo_create_new := True\<rparr>) path)) (\<lambda>r.
        case r of
          Ok _ \<Rightarrow> returns None
        | Err err \<Rightarrow>
            if err = HostAlreadyExists then exclusive_existing E dirid objectname verifier path
            else fails NFS3ERR_IO)
    | FsSymlink _ target \<Rightarrow>
        andthen (path_exists E path) (\<lambda>exists.
        if exists then fails NFS3ERR_EXIST
        else
        andthen (host_call (h_symlink (en_host E) target path)) (\<lambda>r.
        andthen (or_nfs NFS3ERR_IO r) (\<lambda>_. returns None))))"

text \<open>A new name in the map and among the children of its directory.\<close>

definition register_child ::
    "('t, 'h) environment \<Rightarrow> fileid3 \<Rightarrow> sympath \<Rightarrow> bytes \<Rightarrow> path \<Rightarrow>
      ('t, 'h, fileid3 \<times> Metadata) mirror_op" where
  "register_child E dirid dirname objectname path =
    andthen (intern_name E objectname) (\<lambda>s.
    andthen (symlink_metadata E path) (\<lambda>meta.
    andthen (fsmap_run (create_entry (dirname @ [s]) meta)) (\<lambda>fileid.
    andthen (entry_of dirid) (\<lambda>_.
    andthen (fsmap_update (update_entry dirid (insert_child s fileid))) (\<lambda>_.
    returns (fileid, meta))))))"

definition create_fs_object ::
    "('t, 'h) environment \<Rightarrow> fileid3 \<Rightarrow> filename3 \<Rightarrow> CreateFSObject \<Rightarrow>
      ('t, 'h, fileid3 \<times> fattr3) mirror_op" where
  "create_fs_object E dirid objectname object =
    andthen (entry_of dirid) (\<lambda>ent.
    andthen (path_of E (fe_name ent)) (\<lambda>dir.
    let path = path_push dir objectname in
    andthen (check_before_create E dirid objectname object path) (\<lambda>existing.
    case existing of
      Some result \<Rightarrow> returns result
    | None \<Rightarrow>
    andthen (create_on_host E dirid objectname object path) (\<lambda>existing.
    case existing of
      Some result \<Rightarrow> returns result
    | None \<Rightarrow>
    andthen (refresh_entry E dirid) (\<lambda>_.
    andthen (register_child E dirid (fe_name ent) objectname path) (\<lambda>(fileid, meta).
    andthen (case object of
        FsExclusive verifier \<Rightarrow>
          fsmap_update (update_entry fileid (\<lambda>e. e\<lparr>fe_exclusive_verifier := Some verifier\<rparr>))
      | _ \<Rightarrow> returns ()) (\<lambda>_.
    returns (fileid, metadata_to_fattr3 fileid meta))))))))"

section \<open>Queries\<close>

definition mirror_lookup ::
    "('t, 'h) environment \<Rightarrow> fileid3 \<Rightarrow> filename3 \<Rightarrow> ('t, 'h, fileid3) mirror_op" where
  "mirror_lookup E dirid filename =
    (let from_disk =
       andthen (entry_of dirid) (\<lambda>dirent.
       andthen (path_of E (fe_name dirent)) (\<lambda>dir.
       andthen (path_exists E (path_push dir filename)) (\<lambda>exists.
       if \<not> exists then fails NFS3ERR_NOENT
       else
       andthen (refresh_entry E dirid) (\<lambda>refreshed.
       if refreshed = Refresh_Delete then fails NFS3ERR_NOENT
       else
       andthen (refresh_dir_list E dirid) (\<lambda>_.
       andthen (fsmap_of (find_child (en_interner E) dirid filename)) result_of)))))
     in
     andthen (fsmap_of (find_child (en_interner E) dirid filename)) (\<lambda>child.
     case child of
       Err _ \<Rightarrow> from_disk
     | Ok fid \<Rightarrow>
     andthen (fsmap_of (\<lambda>m. hm_get (fm_id_to_path m) fid)) (\<lambda>entry.
     if entry = None then from_disk
     else
     andthen (refresh_entry E fid) (\<lambda>refreshed.
     if refreshed = Refresh_Delete then from_disk
     else
     andthen (fsmap_of (find_child (en_interner E) dirid filename)) (\<lambda>child.
     if is_ok child then returns fid else fails NFS3ERR_NOENT)))))"

definition mirror_getattr :: "('t, 'h) environment \<Rightarrow> fileid3 \<Rightarrow> ('t, 'h, fattr3) mirror_op" where
  "mirror_getattr E fid =
    andthen (refresh_entry E fid) (\<lambda>refreshed.
    if refreshed = Refresh_Delete then fails NFS3ERR_NOENT
    else
    andthen (entry_of fid) (\<lambda>ent.
    andthen (path_of E (fe_name ent)) (\<lambda>_.
    returns (fe_fsmeta ent))))"

definition open_error :: "host_error \<Rightarrow> nfsstat3" where
  "open_error err =
    (case err of
      HostNotFound \<Rightarrow> NFS3ERR_NOENT
    | HostPermissionDenied \<Rightarrow> NFS3ERR_ACCES
    | _ \<Rightarrow> NFS3ERR_IO)"

definition mirror_check_access ::
    "('t, 'h) environment \<Rightarrow> fileid3 \<Rightarrow> auth_unix \<Rightarrow> u32 \<Rightarrow> ('t, 'h, u32) mirror_op" where
  "mirror_check_access E fid auth access =
    andthen (entry_of fid) (\<lambda>ent.
    andthen (path_of E (fe_name ent)) (\<lambda>path.
    andthen (host_call (h_open (en_host E) (no_options\<lparr>oo_read := True, oo_nofollow := True\<rparr>) path)) (\<lambda>file.
    andthen (case file of
        Ok handle \<Rightarrow> andthen (host_call (h_file_metadata (en_host E) handle)) (or_nfs NFS3ERR_IO)
      | Err err \<Rightarrow>
          if err = HostLoop then symlink_metadata E path
          else fails (open_error err)) (\<lambda>meta.
    returns (access_mask (metadata_to_fattr3 fid meta) auth ReadWrite access)))))"

text \<open>
  \<open>offset + count\<close> wraps around; \<open>end - start\<close> then is more than a vector can hold, which is a
  panic (in a debug build the addition panics already).
\<close>

definition mirror_read ::
    "('t, 'h) environment \<Rightarrow> fileid3 \<Rightarrow> u64 \<Rightarrow> u32 \<Rightarrow> ('t, 'h, bytes \<times> bool) mirror_op" where
  "mirror_read E fid offset count =
    andthen (entry_of fid) (\<lambda>ent.
    andthen (path_of E (fe_name ent)) (\<lambda>path.
    andthen (host_call (h_open (en_host E) (no_options\<lparr>oo_read := True\<rparr>) path)) (\<lambda>r.
    andthen (or_nfs NFS3ERR_NOENT r) (\<lambda>f.
    andthen (host_call (h_file_metadata (en_host E) f)) (\<lambda>r.
    andthen (or_nfs NFS3ERR_NOENT r) (\<lambda>meta.
    let len = md_size meta;
        end0 = offset + ucast count;
        eof = (end0 \<ge> len);
        start = (if offset \<ge> len then len else offset);
        end1 = (if end0 > len then len else end0) in
    andthen (host_call (h_seek (en_host E) f start)) (\<lambda>r.
    andthen (or_nfs NFS3ERR_IO r) (\<lambda>_.
    if end1 < start then panics
    else
    andthen (host_call (h_read_exact (en_host E) f (unat (end1 - start)))) (\<lambda>r.
    andthen (or_nfs NFS3ERR_IO r) (\<lambda>buf.
    returns (buf, eof)))))))))))"

definition entry_attr :: "fileid3 \<Rightarrow> FSEntry \<Rightarrow> fattr3" where
  "entry_attr fid entry = (fe_fsmeta entry)\<lparr>fa_fileid := fid\<rparr>"

primrec child_entries ::
    "('t, 'h) environment \<Rightarrow> (symbol \<times> fileid3) list \<Rightarrow> ('t, 'h, DirEntry list) mirror_op" where
  "child_entries E [] = returns []"
| "child_entries E (child # children) =
    andthen (entry_of (snd child)) (\<lambda>fileent.
    andthen (fsmap_of (\<lambda>m. in_get (en_interner E) (fm_intern m) (fst child))) (\<lambda>name.
    andthen (unwrap name) (\<lambda>name.
    andthen (child_entries E children) (\<lambda>rest.
    returns (\<lparr>de_fileid = snd child, de_name = name, de_attr = entry_attr (snd child) fileent\<rparr> # rest)))))"

text \<open>The entries from an index on: the loop pushes before it compares with the maximum.\<close>

definition window :: "DirEntry list \<Rightarrow> fileid3 \<Rightarrow> usize \<Rightarrow> nfsstat3 + ReadDirResult" where
  "window all_entries start_after max_entries =
    (if start_after \<noteq> 0 \<and> unat start_after > length all_entries then Err NFS3ERR_BAD_COOKIE
     else
       let start_index = unat start_after;
           remaining_length = length all_entries - start_index;
           entries = take (max 1 max_entries) (drop start_index all_entries) in
       Ok \<lparr>rd_entries = entries, rd_end = (length entries = remaining_length)\<rparr>)"

definition mirror_readdir ::
    "('t, 'h) environment \<Rightarrow> fileid3 \<Rightarrow> fileid3 \<Rightarrow> usize \<Rightarrow> ('t, 'h, ReadDirResult) mirror_op" where
  "mirror_readdir E dirid start_after max_entries =
    andthen (refresh_entry E dirid) (\<lambda>_.
    andthen (refresh_dir_list E dirid) (\<lambda>_.
    andthen (entry_of dirid) (\<lambda>entry.
    if \<not> is_directory entry then fails NFS3ERR_NOTDIR
    else
    andthen (result_of (case fe_children entry of None \<Rightarrow> Err NFS3ERR_IO | Some cs \<Rightarrow> Ok cs)) (\<lambda>children.
    let self_entry = \<lparr>de_fileid = dirid, de_name = [46], de_attr = entry_attr dirid entry\<rparr> in
    andthen (if fe_name entry = [] then returns dirid
      else andthen (fsmap_of (\<lambda>m. hm_get (fm_path_to_id m) (butlast (fe_name entry)))) (\<lambda>p.
        result_of (case p of None \<Rightarrow> Err NFS3ERR_IO | Some fid \<Rightarrow> Ok fid))) (\<lambda>parent_id.
    andthen (entry_of parent_id) (\<lambda>parent_entry.
    let parent = \<lparr>de_fileid = parent_id, de_name = [46, 46], de_attr = entry_attr parent_id parent_entry\<rparr> in
    andthen (path_of E (fe_name entry)) (\<lambda>_.
    andthen (child_entries E children) (\<lambda>entries.
    result_of (window (self_entry # parent # entries) start_after max_entries)))))))))"

definition saturating_mul :: "u64 \<Rightarrow> u64 \<Rightarrow> u64" where
  "saturating_mul a b = (if unat a * unat b < 2 ^ 64 then a * b else - 1)"

definition statvfs_for_path :: "('t, 'h) environment \<Rightarrow> path \<Rightarrow> ('t, 'h, statvfs) mirror_op" where
  "statvfs_for_path E path =
    (if 0 \<in> set path then fails NFS3ERR_INVAL
     else andthen (host_call (h_statvfs (en_host E) path)) (or_nfs NFS3ERR_IO))"

definition mirror_fsstat :: "('t, 'h) environment \<Rightarrow> fileid3 \<Rightarrow> ('t, 'h, FSSTAT3resok) mirror_op" where
  "mirror_fsstat E root_fileid =
    andthen (attempt (mirror_getattr E root_fileid)) (\<lambda>obj_attr.
    andthen (fsmap_of fm_root) (\<lambda>root_path.
    andthen (statvfs_for_path E root_path) (\<lambda>stats.
    let block_size = (if f_frsize stats > 0 then f_frsize stats else f_bsize stats) in
    returns \<lparr>fss_obj_attributes = ok_of obj_attr,
      fss_tbytes = saturating_mul block_size (f_blocks stats),
      fss_fbytes = saturating_mul block_size (f_bfree stats),
      fss_abytes = saturating_mul block_size (f_bavail stats),
      fss_tfiles = f_files stats, fss_ffiles = f_ffree stats, fss_afiles = f_favail stats,
      fss_invarsec = 0\<rparr>)))"

definition mirror_readlink :: "('t, 'h) environment \<Rightarrow> fileid3 \<Rightarrow> ('t, 'h, nfspath3) mirror_op" where
  "mirror_readlink E fid =
    andthen (entry_of fid) (\<lambda>ent.
    andthen (path_of E (fe_name ent)) (\<lambda>path.
    andthen (host_call (h_read_link (en_host E) path)) (\<lambda>r.
    map_err (\<lambda>err. case err of
        HostInvalidInput \<Rightarrow> NFS3ERR_BADTYPE
      | HostNotFound \<Rightarrow> NFS3ERR_NOENT
      | _ \<Rightarrow> NFS3ERR_IO) r)))"

definition mirror_commit ::
    "('t, 'h) environment \<Rightarrow> fileid3 \<Rightarrow> u64 \<Rightarrow> u32 \<Rightarrow> ('t, 'h, fattr3) mirror_op" where
  "mirror_commit E file_id offset count = mirror_getattr E file_id"

section \<open>Modifications\<close>

definition mirror_setattr :: "('t, 'h) environment \<Rightarrow> fileid3 \<Rightarrow> sattr3 \<Rightarrow> ('t, 'h, fattr3) mirror_op" where
  "mirror_setattr E fid setattr =
    andthen (entry_of fid) (\<lambda>entry.
    andthen (path_of E (fe_name entry)) (\<lambda>path.
    andthen (on_host (path_setattr (en_host E) path setattr)) (\<lambda>_.
    andthen (symlink_metadata E path) (\<lambda>metadata.
    andthen (fsmap_update (update_entry fid (\<lambda>e. e\<lparr>fe_fsmeta := metadata_to_fattr3 fid metadata\<rparr>))) (\<lambda>_.
    returns (metadata_to_fattr3 fid metadata))))))"

definition mirror_write ::
    "('t, 'h) environment \<Rightarrow> fileid3 \<Rightarrow> u64 \<Rightarrow> bytes \<Rightarrow> stable_how \<Rightarrow>
      ('t, 'h, fattr3 \<times> stable_how \<times> count3) mirror_op" where
  "mirror_write E fid offset data how =
    andthen (entry_of fid) (\<lambda>ent.
    andthen (path_of E (fe_name ent)) (\<lambda>path.
    andthen (host_call (h_open (en_host E) (no_options\<lparr>oo_write := True, oo_create := True\<rparr>) path)) (\<lambda>r.
    andthen (or_nfs NFS3ERR_IO r) (\<lambda>f.
    andthen (host_call (h_seek (en_host E) f offset)) (\<lambda>r.
    andthen (or_nfs NFS3ERR_IO r) (\<lambda>_.
    andthen (host_call (h_write_all (en_host E) f data)) (\<lambda>r.
    andthen (or_nfs NFS3ERR_IO r) (\<lambda>_.
    andthen (host_call (h_flush (en_host E) f)) (\<lambda>_.
    andthen (host_call (h_sync_all (en_host E) f)) (\<lambda>_.
    andthen (host_call (h_file_metadata (en_host E) f)) (\<lambda>r.
    andthen (or_nfs NFS3ERR_IO r) (\<lambda>meta.
    let attr = metadata_to_fattr3 fid meta in
    andthen (fsmap_update (update_entry fid (\<lambda>e. e\<lparr>fe_fsmeta := attr\<rparr>))) (\<lambda>_.
    returns (attr, FILE_SYNC, of_nat (length data)))))))))))))))"

definition mirror_create ::
    "('t, 'h) environment \<Rightarrow> fileid3 \<Rightarrow> filename3 \<Rightarrow> sattr3 \<Rightarrow> ('t, 'h, fileid3 \<times> fattr3) mirror_op" where
  "mirror_create E dirid filename setattr = create_fs_object E dirid filename (FsFile setattr)"

definition mirror_create_exclusive ::
    "('t, 'h) environment \<Rightarrow> fileid3 \<Rightarrow> filename3 \<Rightarrow> createverf3 \<Rightarrow> ('t, 'h, fileid3) mirror_op" where
  "mirror_create_exclusive E dirid filename verifier = fails NFS3ERR_NOTSUPP"

definition mirror_mkdir ::
    "('t, 'h) environment \<Rightarrow> fileid3 \<Rightarrow> filename3 \<Rightarrow> ('t, 'h, fileid3 \<times> fattr3) mirror_op" where
  "mirror_mkdir E dirid dirname = create_fs_object E dirid dirname FsDirectory"

definition mirror_symlink ::
    "('t, 'h) environment \<Rightarrow> fileid3 \<Rightarrow> filename3 \<Rightarrow> nfspath3 \<Rightarrow> sattr3 \<Rightarrow>
      ('t, 'h, fileid3 \<times> fattr3) mirror_op" where
  "mirror_symlink E dirid linkname target attr =
    create_fs_object E dirid linkname (FsSymlink attr target)"

definition mirror_remove :: "('t, 'h) environment \<Rightarrow> fileid3 \<Rightarrow> filename3 \<Rightarrow> ('t, 'h, unit) mirror_op" where
  "mirror_remove E dirid filename =
    andthen (entry_of dirid) (\<lambda>ent.
    andthen (path_of E (fe_name ent)) (\<lambda>dir.
    let path = path_push dir filename in
    andthen (host_call (h_symlink_metadata (en_host E) path)) (\<lambda>meta.
    case meta of
      Err _ \<Rightarrow> fails NFS3ERR_NOENT
    | Ok meta \<Rightarrow>
    andthen (if md_kind meta = KindDir
      then andthen (host_call (h_remove_dir (en_host E) path)) (or_nfs NFS3ERR_IO)
      else andthen (host_call (h_remove_file (en_host E) path)) (or_nfs NFS3ERR_IO)) (\<lambda>_.
    andthen (intern_name E filename) (\<lambda>filesym.
    andthen (fsmap_run (remove_path (fe_name ent @ [filesym]))) (\<lambda>_.
    andthen (fsmap_update (update_entry dirid (remove_child filesym))) (\<lambda>_.
    andthen (attempt (refresh_entry E dirid)) (\<lambda>_.
    returns ()))))))))"

text \<open>
  \<open>PathBuf\<close> compares by components: repeated slashes and dots within a path do not count, a dot
  at the start of a relative path does.
\<close>

definition path_components :: "path \<Rightarrow> bool \<times> bytes list" where
  "path_components p =
    (let parts = split_slash p; absolute = (p \<noteq> [] \<and> hd p = 47);
         kept = filter (\<lambda>c. c \<noteq> [] \<and> c \<noteq> [46]) parts in
     (absolute, if \<not> absolute \<and> hd parts = [46] then [46] # kept else kept))"

definition same_inode ::
    "('t, 'h) environment \<Rightarrow> path \<Rightarrow> path \<Rightarrow> ('t, 'h, bool) mirror_op" where
  "same_inode E from_path to_path =
    andthen (host_call (h_symlink_metadata (en_host E) from_path)) (\<lambda>from_meta.
    andthen (host_call (h_symlink_metadata (en_host E) to_path)) (\<lambda>to_meta.
    returns (case (from_meta, to_meta) of
        (Ok a, Ok b) \<Rightarrow> md_dev a = md_dev b \<and> md_ino a = md_ino b
      | _ \<Rightarrow> False)))"

text \<open>What a rename on the host does to the map.\<close>

definition rename_target :: "('t, 'h) environment \<Rightarrow> sympath \<Rightarrow> ('t, 'h, unit) mirror_op" where
  "rename_target E to_sympath =
    andthen (fsmap_of (\<lambda>m. hm_get (fm_path_to_id m) to_sympath)) (\<lambda>target.
    case target of
      None \<Rightarrow> returns ()
    | Some target_id \<Rightarrow>
    andthen (fsmap_of (\<lambda>m. hm_get (fm_id_to_path m) target_id)) (\<lambda>entry.
    let target_is_dir = (case entry of None \<Rightarrow> False | Some entry \<Rightarrow> is_directory entry) in
    if target_is_dir then fsmap_try (remove_path_tree (en_depth E) to_sympath target_id)
    else andthen (fsmap_run (remove_path to_sympath)) (\<lambda>_. returns ())))"

definition rename_in_map ::
    "('t, 'h) environment \<Rightarrow> fileid3 \<Rightarrow> symbol \<Rightarrow> sympath \<Rightarrow> fileid3 \<Rightarrow> symbol \<Rightarrow> sympath \<Rightarrow>
      ('t, 'h, unit) mirror_op" where
  "rename_in_map E from_dirid oldsym from_sympath to_dirid newsym to_sympath =
    andthen (fsmap_of (\<lambda>m. hm_get (fm_path_to_id m) from_sympath)) (\<lambda>known.
    if known = None then returns ()
    else
    andthen (rename_target E to_sympath) (\<lambda>_.
    andthen (fsmap_update (rename_path_prefix from_sympath to_sympath)) (\<lambda>_.
    andthen (fsmap_of (\<lambda>m. hm_get (fm_path_to_id m) to_sympath)) (\<lambda>new_id.
    andthen (fsmap_update (update_entry from_dirid (remove_child oldsym))) (\<lambda>_.
    case new_id of
      Some fileid \<Rightarrow> fsmap_update (update_entry to_dirid (insert_child newsym fileid))
    | None \<Rightarrow> returns ())))))"

definition mirror_rename ::
    "('t, 'h) environment \<Rightarrow> fileid3 \<Rightarrow> filename3 \<Rightarrow> fileid3 \<Rightarrow> filename3 \<Rightarrow> ('t, 'h, unit) mirror_op" where
  "mirror_rename E from_dirid from_filename to_dirid to_filename =
    andthen (entry_of from_dirid) (\<lambda>from_dirent.
    andthen (path_of E (fe_name from_dirent)) (\<lambda>from_dir.
    let from_path = path_push from_dir from_filename in
    andthen (entry_of to_dirid) (\<lambda>to_dirent.
    andthen (path_of E (fe_name to_dirent)) (\<lambda>to_dir.
    andthen (path_exists E to_dir) (\<lambda>exists.
    if \<not> exists then fails NFS3ERR_NOENT
    else
    let to_path = path_push to_dir to_filename in
    andthen (path_exists E from_path) (\<lambda>exists.
    if \<not> exists then fails NFS3ERR_NOENT
    else if path_components from_path = path_components to_path then returns ()
    else
    andthen (same_inode E from_path to_path) (\<lambda>same.
    if same then returns ()
    else
    andthen (host_call (h_rename (en_host E) from_path to_path)) (\<lambda>r.
    andthen (or_nfs NFS3ERR_IO r) (\<lambda>_.
    andthen (intern_name E from_filename) (\<lambda>oldsym.
    andthen (intern_name E to_filename) (\<lambda>newsym.
    andthen (rename_in_map E from_dirid oldsym (fe_name from_dirent @ [oldsym])
      to_dirid newsym (fe_name to_dirent @ [newsym])) (\<lambda>_.
    andthen (attempt (refresh_entry E from_dirid)) (\<lambda>_.
    andthen (if to_dirid \<noteq> from_dirid
      then andthen (attempt (refresh_entry E to_dirid)) (\<lambda>_. returns ())
      else returns ()) (\<lambda>_.
    returns ()))))))))))))))"

definition mirror_link ::
    "('t, 'h) environment \<Rightarrow> fileid3 \<Rightarrow> fileid3 \<Rightarrow> filename3 \<Rightarrow> ('t, 'h, fattr3) mirror_op" where
  "mirror_link E file_id link_dir_id link_name =
    andthen (entry_of file_id) (\<lambda>file_entry.
    andthen (path_of E (fe_name file_entry)) (\<lambda>source_path.
    andthen (entry_of link_dir_id) (\<lambda>dir_entry.
    andthen (path_of E (fe_name dir_entry)) (\<lambda>dir.
    let target_path = path_push dir link_name in
    andthen (path_exists E target_path) (\<lambda>exists.
    if exists then fails NFS3ERR_EXIST
    else
    andthen (host_call (h_hard_link (en_host E) source_path target_path)) (\<lambda>r.
    andthen (or_nfs NFS3ERR_IO r) (\<lambda>_.
    andthen (register_child E link_dir_id (fe_name dir_entry) link_name target_path) (\<lambda>_.
    andthen (symlink_metadata E source_path) (\<lambda>source_meta.
    let source_attr = metadata_to_fattr3 file_id source_meta in
    andthen (fsmap_update (update_entry file_id (\<lambda>e. e\<lparr>fe_fsmeta := source_attr\<rparr>))) (\<lambda>_.
    returns source_attr))))))))))"

text \<open>
  MKNOD makes a regular file as a placeholder; the four branches of the code (character and block
  devices, pipes, sockets) are the same.
\<close>

definition make_placeholder :: "('t, 'h) environment \<Rightarrow> path \<Rightarrow> sattr3 \<Rightarrow> ('t, 'h, unit) mirror_op" where
  "make_placeholder E path attrs =
    (let mode = (case sa_mode attrs of Some m \<Rightarrow> m | None \<Rightarrow> 0x1B6) in
     andthen (host_call (h_open (en_host E)
       (no_options\<lparr>oo_write := True, oo_truncate := True, oo_create := True\<rparr>) path)) (\<lambda>r.
     andthen (or_nfs NFS3ERR_IO r) (\<lambda>_.
     andthen (host_call (h_set_permissions (en_host E) path mode)) (\<lambda>r.
     andthen (or_nfs NFS3ERR_IO r) (\<lambda>_.
     case (sa_uid attrs, sa_gid attrs) of
       (Some uid, Some gid) \<Rightarrow>
         andthen (host_call (h_chown (en_host E) path uid gid)) (or_nfs NFS3ERR_IO)
     | _ \<Rightarrow> returns ())))))"

definition mirror_mknod ::
    "('t, 'h) environment \<Rightarrow> fileid3 \<Rightarrow> filename3 \<Rightarrow> ftype3 \<Rightarrow> specdata3 \<Rightarrow> sattr3 \<Rightarrow>
      ('t, 'h, fileid3 \<times> fattr3) mirror_op" where
  "mirror_mknod E dir_id name ftype specdata attrs =
    andthen (entry_of dir_id) (\<lambda>dir_entry.
    andthen (path_of E (fe_name dir_entry)) (\<lambda>dir.
    let path = path_push dir name in
    andthen (path_exists E path) (\<lambda>exists.
    if exists then fails NFS3ERR_EXIST
    else
    andthen (if ftype \<in> {NF3CHR, NF3BLK, NF3FIFO, NF3SOCK} then make_placeholder E path attrs
      else fails NFS3ERR_BADTYPE) (\<lambda>_.
    andthen (register_child E dir_id (fe_name dir_entry) name path) (\<lambda>(fileid, meta).
    returns (fileid, metadata_to_fattr3 fileid meta))))))"

section \<open>The file system\<close>

text \<open>
  The trait \<open>NFSFileSystem\<close> for the mirror. Its state is \<open>None\<close> once an operation has panicked: the
  theorems say nothing of what follows.
\<close>

type_synonym ('t, 'h) mirror_state = "('t, 'h) mirror option"

definition mirror_vfs :: "('t, 'h) environment \<Rightarrow> u64 \<Rightarrow> ('t, 'h) mirror_state vfs" where
  "mirror_vfs E generation =
    (let base = \<lparr>
       vfs_generation = generation, vfs_capabilities = ReadWrite, vfs_root_dir = 0,
       vfs_limits_of = default_limits,
       vfs_lookup = (\<lambda>dirid filename. settle (mirror_lookup E dirid filename)),
       vfs_getattr = (\<lambda>fid. settle (mirror_getattr E fid)),
       vfs_setattr = (\<lambda>fid setattr. settle (mirror_setattr E fid setattr)),
       vfs_read = (\<lambda>fid offset count. settle (mirror_read E fid offset count)),
       vfs_write = (\<lambda>fid offset data how. settle (mirror_write E fid offset data how)),
       vfs_create = (\<lambda>dirid filename setattr. settle (mirror_create E dirid filename setattr)),
       vfs_create_exclusive =
         (\<lambda>dirid filename verifier. settle (mirror_create_exclusive E dirid filename verifier)),
       vfs_mkdir = (\<lambda>dirid dirname. settle (mirror_mkdir E dirid dirname)),
       vfs_remove = (\<lambda>dirid filename. settle (mirror_remove E dirid filename)),
       vfs_rename = (\<lambda>from_dirid from_filename to_dirid to_filename.
         settle (mirror_rename E from_dirid from_filename to_dirid to_filename)),
       vfs_readdir = (\<lambda>dirid start_after max_entries. settle (mirror_readdir E dirid start_after max_entries)),
       vfs_readdir_index = (\<lambda>dirid start_index max_entries s. (Err NFS3ERR_NOTSUPP, s)),
       vfs_symlink = (\<lambda>dirid linkname target attr. settle (mirror_symlink E dirid linkname target attr)),
       vfs_readlink = (\<lambda>fid. settle (mirror_readlink E fid)),
       vfs_link = (\<lambda>file_id link_dir_id link_name. settle (mirror_link E file_id link_dir_id link_name)),
       vfs_mknod = (\<lambda>dir_id name ftype specdata attrs. settle (mirror_mknod E dir_id name ftype specdata attrs)),
       vfs_commit = (\<lambda>file_id offset count. settle (mirror_commit E file_id offset count)),
       vfs_check_access = (\<lambda>fid auth access. settle (mirror_check_access E fid auth access)),
       vfs_fsstat = (\<lambda>root_fileid. settle (mirror_fsstat E root_fileid))\<rparr>
     in base\<lparr>vfs_readdir_index := default_readdir_index base\<rparr>)"

text \<open>\<open>MirrorFS::new\<close>: the root must be there, the generation is the time in milliseconds.\<close>

definition new_mirror :: "'h host \<Rightarrow> 't \<Rightarrow> path \<Rightarrow> 'h \<Rightarrow> ('t, 'h) mirror option" where
  "new_mirror H intern root h =
    (case h_metadata H root h of
      (Err _, h) \<Rightarrow> None
    | (Ok root_meta, h) \<Rightarrow> Some \<lparr>mi_fsmap = new_fsmap intern root root_meta, mi_host = h\<rparr>)"

end
