(* ===== verification/Cli.thy ===== *)
theory Cli
  imports Tcp Mirror_Fs
begin

text \<open>
  The command line of the server (\<open>src/bin/fernfs/main.rs\<close>): how the arguments are parsed, and how the
  listener is made from them. Arguments are UTF-8 strings as bytes; an exit of the process is a result of its own.
\<close>

section \<open>Arguments\<close>

definition utf8 :: "string \<Rightarrow> bytes" where
  "utf8 s = map of_char s"

record options =
  op_require_privileged :: bool
  op_host :: bytes
  op_port :: u16
  op_path :: "bytes option"
  op_verbose :: bool

definition DEFAULT_HOST :: bytes where
  "DEFAULT_HOST = utf8 ''127.0.0.1''"

definition DEFAULT_PORT :: u16 where
  "DEFAULT_PORT = 11111"

definition default_options :: options where
  "default_options = \<lparr>op_require_privileged = True, op_host = DEFAULT_HOST, op_port = DEFAULT_PORT,
    op_path = None, op_verbose = False\<rparr>"

text \<open>The ways in which the process ends with status 2, by the message that it prints.\<close>

datatype usage_error =
  MissingValue bytes | EmptyHost | InvalidPort bytes | UnknownFlag bytes | ExtraArgument bytes | NoDirectory

datatype outcome = Help | Exits usage_error | Runs options

definition parse_host :: "bytes \<Rightarrow> usage_error + bytes" where
  "parse_host value = (if value = [] then Err EmptyHost else Ok value)"

definition parse_port :: "bytes \<Rightarrow> usage_error + u16" where
  "parse_port value = (case parse_u16 value of None \<Rightarrow> Err (InvalidPort value) | Some port \<Rightarrow> Ok port)"

definition require_value :: "bytes \<Rightarrow> bytes list \<Rightarrow> usage_error + bytes \<times> bytes list" where
  "require_value flag args = (case args of [] \<Rightarrow> Err (MissingValue flag) | value # args \<Rightarrow> Ok (value, args))"

definition set_host :: "bytes \<Rightarrow> options \<Rightarrow> usage_error + options" where
  "set_host value op = (case parse_host value of Err e \<Rightarrow> Err e | Ok host \<Rightarrow> Ok (op\<lparr>op_host := host\<rparr>))"

definition set_port :: "bytes \<Rightarrow> options \<Rightarrow> usage_error + options" where
  "set_port value op = (case parse_port value of Err e \<Rightarrow> Err e | Ok port \<Rightarrow> Ok (op\<lparr>op_port := port\<rparr>))"

text \<open>One round of the loop: the argument, the arguments after it, and the options so far.\<close>

datatype round_result = Shows_help | Ends usage_error | Next "bytes list" options

definition next_if :: "bytes list \<Rightarrow> usage_error + options \<Rightarrow> round_result" where
  "next_if args r = (case r of Err e \<Rightarrow> Ends e | Ok op \<Rightarrow> Next args op)"

definition parse_arg :: "bytes \<Rightarrow> bytes list \<Rightarrow> options \<Rightarrow> round_result" where
  "parse_arg arg args op =
    (if arg = utf8 ''--verbose'' \<or> arg = utf8 ''-v'' then Next args (op\<lparr>op_verbose := True\<rparr>)
     else if arg = utf8 ''--allow-unprivileged-source-port''
       then Next args (op\<lparr>op_require_privileged := False\<rparr>)
     else if arg = utf8 ''--host'' \<or> arg = utf8 ''-h'' then
       (case require_value (utf8 ''--host'') args of
         Err e \<Rightarrow> Ends e | Ok (value, args) \<Rightarrow> next_if args (set_host value op))
     else if arg = utf8 ''--port'' \<or> arg = utf8 ''-p'' then
       (case require_value (utf8 ''--port'') args of
         Err e \<Rightarrow> Ends e | Ok (value, args) \<Rightarrow> next_if args (set_port value op))
     else if arg = utf8 ''--help'' then Shows_help
     else case strip_prefix (utf8 ''--host='') arg of
       Some value \<Rightarrow> next_if args (set_host value op)
     | None \<Rightarrow> (case strip_prefix (utf8 ''-h='') arg of
       Some value \<Rightarrow> next_if args (set_host value op)
     | None \<Rightarrow> (case strip_prefix (utf8 ''--port='') arg of
       Some value \<Rightarrow> next_if args (set_port value op)
     | None \<Rightarrow>
         if arg \<noteq> [] \<and> hd arg = 45 then Ends (UnknownFlag arg)
         else if op_path op \<noteq> None then Ends (ExtraArgument arg)
         else Next args (op\<lparr>op_path := Some arg\<rparr>))))"

lemma parse_arg_shorter: "parse_arg arg args op = Next args' op' \<Longrightarrow> length args' \<le> length args"
  by (auto simp: parse_arg_def require_value_def next_if_def split: if_splits option.splits sum.splits
      list.splits prod.splits)

text \<open>The loop over the arguments, and the check for the directory after it.\<close>

function parse_args :: "bytes list \<Rightarrow> options \<Rightarrow> outcome" where
  "parse_args [] op = (if op_path op = None then Exits NoDirectory else Runs op)"
| "parse_args (arg # args) op =
    (case parse_arg arg args op of
      Shows_help \<Rightarrow> Help
    | Ends e \<Rightarrow> Exits e
    | Next args' op' \<Rightarrow> parse_args args' op')"
  by pat_completeness auto

termination parse_args
  by (relation "measure (\<lambda>(args, op). length args)") (auto dest: parse_arg_shorter)

section \<open>Starting the server\<close>

text \<open>An IPv6 address is put into brackets.\<close>

definition bind_addr :: "options \<Rightarrow> bytes" where
  "bind_addr op =
    (let host = op_host op; port = dec_digits (unat (op_port op)) in
     if 58 \<in> set host then
       if hd host = 91 \<and> last host = 93 then host @ 58 # port
       else 91 # host @ 93 # 58 # port
     else host @ 58 # port)"

text \<open>\<open>MirrorFS::new\<close> and \<open>bind\<close> panic on failure: then no server is started.\<close>

definition start_server ::
    "(bytes \<Rightarrow> (bytes \<times> u16) option) \<Rightarrow> (bytes \<times> u16 \<Rightarrow> u16 option) \<Rightarrow> ('t, 'h) environment \<Rightarrow> 't \<Rightarrow> 'h \<Rightarrow>
      u64 \<Rightarrow> system_time \<Rightarrow> options \<Rightarrow>
      (('t, 'h) mirror_state NFSTcpListener \<times> ('t, 'h) mirror_state server) option" where
  "start_server parse_addr tcp_bind E t h generation now op =
    Option.bind (op_path op) (\<lambda>path.
    Option.bind (new_mirror (en_host E) t path h) (\<lambda>fs.
    case bind_listener parse_addr tcp_bind (bind_addr op) (mirror_vfs E generation) of
      Err _ \<Rightarrow> None
    | Ok listener \<Rightarrow>
        Some (require_privileged_source_port (op_require_privileged op) listener, bound_server (Some fs) now)))"

section \<open>What the parser does\<close>

text \<open>The arguments that say the same as the options.\<close>

definition render :: "options \<Rightarrow> bytes list" where
  "render op =
    (if op_verbose op then [utf8 ''-v''] else []) @
    (if op_require_privileged op then [] else [utf8 ''--allow-unprivileged-source-port'']) @
    [utf8 ''--host'', op_host op, utf8 ''--port='' @ dec_digits (unat (op_port op))] @
    (case op_path op of None \<Rightarrow> [] | Some path \<Rightarrow> [path])"

lemma dec_digits_digits: "list_all is_digit (dec_digits n) \<and> dec_digits n \<noteq> []"
proof (induction n rule: dec_digits.induct)
  case (1 n)
  have digit: "is_digit (48 + of_nat k)" if "k < 10" for k
  proof -
    have "unat (48 + of_nat k :: u8) = 48 + k"
      using that unat_of_nat [of "48 + k", where 'a = 8] by (simp add: take_bit_nat_eq_self)
    then show ?thesis using that by (simp add: is_digit_def word_le_nat_alt)
  qed
  then show ?case using 1 by (auto simp: dec_digits.simps [of n])
qed

lemma parse_dec: "parse_u16 (dec_digits (unat p)) = Some p"
proof -
  have d: "list_all is_digit (dec_digits (unat p))" "dec_digits (unat p) \<noteq> []"
    using dec_digits_digits by blast+
  then obtain c cs where c: "dec_digits (unat p) = c # cs" "is_digit c" by (cases "dec_digits (unat p)") auto
  then have "c \<noteq> 43" by (auto simp: is_digit_def)
  moreover have "unat p < 2 ^ LENGTH(16)" by (rule unsigned_less)
  ultimately show ?thesis using d c of_digits_dec [of "unat p"] by (simp add: parse_u16_def Let_def)
qed

text \<open>The arguments lead to the options that they say, whatever came before.\<close>

lemma of_char_flags:
  "utf8 ''-v'' = [45, 118]" "utf8 ''-h'' = [45, 104]" "utf8 ''-p'' = [45, 112]"
  "utf8 ''--host'' = [45, 45, 104, 111, 115, 116]" "utf8 ''--port'' = [45, 45, 112, 111, 114, 116]"
  "utf8 ''--help'' = [45, 45, 104, 101, 108, 112]"
  "utf8 ''--verbose'' = [45, 45, 118, 101, 114, 98, 111, 115, 101]"
  "utf8 ''--host='' = [45, 45, 104, 111, 115, 116, 61]" "utf8 ''-h='' = [45, 104, 61]"
  "utf8 ''--port='' = [45, 45, 112, 111, 114, 116, 61]"
  by code_simp+

lemma long_flag: "\<exists>cs. utf8 ''--allow-unprivileged-source-port'' = 45 # 45 # 97 # cs"
  by (rule exI [of _ "utf8 ''llow-unprivileged-source-port''"]) code_simp

lemma parse_arg_flags:
  "parse_arg (utf8 ''-v'') args op = Next args (op\<lparr>op_verbose := True\<rparr>)"
  "parse_arg (utf8 ''--allow-unprivileged-source-port'') args op = Next args (op\<lparr>op_require_privileged := False\<rparr>)"
  "host \<noteq> [] \<Longrightarrow> parse_arg (utf8 ''--host'') (host # args) op = Next args (op\<lparr>op_host := host\<rparr>)"
  "parse_arg (utf8 ''--port='' @ dec_digits (unat p)) args op = Next args (op\<lparr>op_port := p\<rparr>)"
  "op_path op = None \<Longrightarrow> path = [] \<or> hd path \<noteq> 45 \<Longrightarrow> parse_arg path args op = Next args (op\<lparr>op_path := Some path\<rparr>)"
proof -
  obtain cs where flag: "utf8 ''--allow-unprivileged-source-port'' = 45 # 45 # 97 # cs" using long_flag by blast
  note simps = parse_arg_def of_char_flags flag require_value_def next_if_def set_host_def parse_host_def
    set_port_def parse_port_def parse_dec
  show "parse_arg (utf8 ''-v'') args op = Next args (op\<lparr>op_verbose := True\<rparr>)" by (simp add: simps)
  show "parse_arg (utf8 ''--allow-unprivileged-source-port'') args op = Next args (op\<lparr>op_require_privileged := False\<rparr>)"
    by (simp add: simps)
  show "host \<noteq> [] \<Longrightarrow> parse_arg (utf8 ''--host'') (host # args) op = Next args (op\<lparr>op_host := host\<rparr>)"
    by (simp add: simps)
  show "parse_arg (utf8 ''--port='' @ dec_digits (unat p)) args op = Next args (op\<lparr>op_port := p\<rparr>)"
    by (simp add: simps)
  show "op_path op = None \<Longrightarrow> path = [] \<or> hd path \<noteq> 45 \<Longrightarrow> parse_arg path args op = Next args (op\<lparr>op_path := Some path\<rparr>)"
    by (cases path) (auto simp: simps)
qed

lemma cli_roundtrip:
  assumes "op_host op \<noteq> []" and "op_path op = Some path" and "path = [] \<or> hd path \<noteq> 45"
  shows "parse_args (render op) default_options = Runs op"
  using assms
  by (cases op) (simp add: render_def parse_arg_flags default_options_def)

text \<open>
  Ports that are not privileged are accepted only when the flag for it is given.
\<close>

lemma parse_arg_privileged:
  assumes "parse_arg arg args op = Next args' op'" and "op_require_privileged op"
    and "arg \<noteq> utf8 ''--allow-unprivileged-source-port''"
  shows "op_require_privileged op' \<and> set args' \<subseteq> set args"
  using assms
  by (auto simp: parse_arg_def require_value_def next_if_def set_host_def set_port_def
      split: if_splits option.splits sum.splits list.splits prod.splits)

lemma privileged_by_default:
  assumes "parse_args args op = Runs op'" and "op_require_privileged op"
    and "utf8 ''--allow-unprivileged-source-port'' \<notin> set args"
  shows "op_require_privileged op'"
  using assms
proof (induction args op rule: parse_args.induct)
  case (2 arg args op)
  then show ?case
    using parse_arg_privileged [of arg args op] by (auto split: round_result.splits)
qed (auto split: if_splits)

lemma started_privileged:
  assumes "parse_args args default_options = Runs op"
    and "utf8 ''--allow-unprivileged-source-port'' \<notin> set args"
    and "start_server parse_addr tcp_bind E t h g now op = Some (listener, sv)"
    and "accept_peer listener addr port = Some ctx"
  shows "unat port < 1024"
proof -
  have "op_require_privileged op"
    using privileged_by_default [OF assms(1) _ assms(2)] by (simp add: default_options_def)
  then obtain l where "listener = require_privileged_source_port True l"
    using assms(3) by (cases "bind_listener parse_addr tcp_bind (bind_addr op) (mirror_vfs E g)")
      (auto simp: start_server_def bind_eq_Some_conv)
  then show ?thesis using assms(4) privileged_ports_only [of l addr port] by (auto split: if_splits)
qed

end
