(* ===== verification/Mirror_Invariant.thy ===== *)
theory Mirror_Invariant
  imports Mirror_Fs "HOL-Library.Sublist"
begin

text \<open>
  The invariant of the mirror's map holds in every state that the operations of the mirror file
  system reach from a new one, whatever the host answers, as long as fewer than \<open>2 ^ 64\<close> file ids have
  been handed out: the counter starts again at 0 afterwards, and ids are given twice.
\<close>

section \<open>The invariant\<close>

definition mirror_ok :: "('t, 'h) mirror \<Rightarrow> bool" where
  "mirror_ok s \<longleftrightarrow> (fm_next_fileid (mi_fsmap s) < 2 ^ 64 \<longrightarrow> fm_ok (mi_fsmap s))"

text \<open>What an update of the map has to keep.\<close>

definition map_keeps :: "('t FSMap \<Rightarrow> 't FSMap) \<Rightarrow> bool" where
  "map_keeps f \<longleftrightarrow> (\<forall>m. fm_next_fileid m \<le> fm_next_fileid (f m) \<and>
    (fm_ok m \<longrightarrow> fm_next_fileid (f m) < 2 ^ 64 \<longrightarrow> fm_ok (f m)))"

lemma map_keepsI:
  assumes "\<And>m. fm_next_fileid m \<le> fm_next_fileid (f m)"
    and "\<And>m. fm_ok m \<Longrightarrow> fm_next_fileid (f m) < 2 ^ 64 \<Longrightarrow> fm_ok (f m)"
  shows "map_keeps f"
  using assms by (simp add: map_keeps_def)

lemma map_keeps_ok: "map_keeps f \<Longrightarrow> mirror_ok s \<Longrightarrow> mirror_ok (s\<lparr>mi_fsmap := f (mi_fsmap s)\<rparr>)"
  by (simp add: map_keeps_def mirror_ok_def) (meson le_less_trans)

lemma keeps_update_entry:
  "(\<And>e. fe_aliases (f e) = fe_aliases e \<and> fe_name (f e) = fe_name e) \<Longrightarrow> map_keeps (update_entry fid f)"
  by (rule map_keepsI) (auto intro: update_entry_ok)

lemma keeps_remove_path: "map_keeps (\<lambda>m. snd (remove_path p m))"
  by (rule map_keepsI) (auto intro: remove_path_ok)

lemma keeps_create_entry: "map_keeps (\<lambda>m. snd (create_entry p meta m))"
proof (rule map_keepsI)
  fix m :: "'a FSMap"
  assume "fm_ok m" "fm_next_fileid (snd (create_entry p meta m)) < 2 ^ 64"
  then show "fm_ok (snd (create_entry p meta m))"
    using create_entry_next(1) [of m p meta] by (intro create_entry_ok) auto
qed (rule create_entry_next(1))

lemma rename_one_next: "fm_next_fileid (rename_one u m) = fm_next_fileid m"
  by (simp add: rename_one_def split: prod.split)

lemma rename_path_prefix_next: "fm_next_fileid (rename_path_prefix p q m) = fm_next_fileid m"
proof -
  have "fm_next_fileid (fold rename_one us m) = fm_next_fileid m" for us
    by (induction us arbitrary: m) (simp_all add: rename_one_next)
  then show ?thesis by (simp add: rename_path_prefix_def)
qed

lemma keeps_rename: "map_keeps (rename_path_prefix p q)"
  by (rule map_keepsI) (simp_all add: rename_path_prefix_next rename_path_prefix_ok)

lemma keeps_remove_old_children: "map_keeps (remove_old_children name new_children old_children)"
proof -
  have "fm_next_fileid (remove_old_children name new_children old_children m) = fm_next_fileid m" for m :: "'a FSMap"
    by (induction old_children arbitrary: m) simp_all
  moreover have "fm_ok m \<Longrightarrow> fm_ok (remove_old_children name new_children old_children m)" for m :: "'a FSMap"
    by (induction old_children arbitrary: m) (simp_all add: remove_path_ok)
  ultimately show ?thesis by (intro map_keepsI) simp_all
qed

lemma remove_children_next:
  assumes "\<And>p fid m m'. tree p fid m = Some m' \<Longrightarrow> fm_next_fileid m' = fm_next_fileid m"
    and "remove_children tree path cs m = Some m'"
  shows "fm_next_fileid m' = fm_next_fileid m"
  using assms(2)
proof (induction cs arbitrary: m)
  case (Cons c cs)
  from Cons.prems obtain m1 where m1: "remove_children tree path cs m1 = Some m'"
      "tree (path @ [fst c]) (snd c) m = Some m1 \<or> m1 = snd (remove_path (path @ [fst c]) m)"
    by (auto simp: Let_def split: option.splits if_splits)
  then show ?case using Cons.IH [OF m1(1)] assms(1) by auto
qed simp

lemma remove_path_tree_next:
  "remove_path_tree depth path fid m = Some m' \<Longrightarrow> fm_next_fileid m' = fm_next_fileid m"
proof (induction depth arbitrary: path fid m m')
  case (Suc depth)
  show ?case
  proof (cases "hm_get (fm_id_to_path m) fid")
    case (Some e)
    then obtain m1 where "m' = snd (remove_path path m1)" and
      m1: "m1 = m \<or> (\<exists>cs. remove_children (remove_path_tree depth) path cs m = Some m1)"
      using Suc.prems by (auto split: option.splits bool.splits)
    moreover have "fm_next_fileid m1 = fm_next_fileid m" using m1 remove_children_next Suc.IH by blast
    ultimately show ?thesis by simp
  qed (use Suc.prems in simp)
qed simp

section \<open>The vocabulary keeps it\<close>

lemma preserves_fsmap_of [preserves_rules]: "preserves mirror_ok (fsmap_of f)"
  by (simp add: fsmap_of_def preserves_rules)

lemma preserves_fsmap_update: "map_keeps f \<Longrightarrow> preserves mirror_ok (fsmap_update f)"
  unfolding fsmap_update_def by (intro preserves_modifies map_keeps_ok)

lemma preserves_fsmap_run: "map_keeps (\<lambda>m. snd (f m)) \<Longrightarrow> preserves mirror_ok (fsmap_run f)"
  by (rule preservesI) (auto simp: fsmap_run_def split: prod.splits dest!: map_keeps_ok)

lemma preserves_fsmap_try:
  assumes "\<And>m m'. f m = Some m' \<Longrightarrow> fm_next_fileid m' = fm_next_fileid m"
    and "\<And>m m'. fm_ok m \<Longrightarrow> f m = Some m' \<Longrightarrow> fm_ok m'"
  shows "preserves mirror_ok (fsmap_try f)"
  using assms by (intro preservesI) (force simp: fsmap_try_def mirror_ok_def)

lemma preserves_on_host [preserves_rules]: "preserves mirror_ok (on_host f)"
  by (auto simp: preserves_def on_host_def mirror_ok_def)

lemma preserves_host_call [preserves_rules]: "preserves mirror_ok (host_call c)"
  by (simp add: host_call_def preserves_rules)

lemma preserves_if [preserves_rules]:
  "preserves I a \<Longrightarrow> preserves I b \<Longrightarrow> preserves I (if c then a else b)"
  by simp

lemma preserves_Let [preserves_rules]: "(\<And>x. preserves I (f x)) \<Longrightarrow> preserves I (Let c f)"
  by simp

lemma preserves_case_prod [preserves_rules]:
  "(\<And>x y. preserves I (f x y)) \<Longrightarrow> preserves I (case z of (x, y) \<Rightarrow> f x y)"
  by (cases z) simp

lemma preserves_case_option [preserves_rules]:
  "preserves I a \<Longrightarrow> (\<And>x. preserves I (b x)) \<Longrightarrow> preserves I (case z of None \<Rightarrow> a | Some x \<Rightarrow> b x)"
  by (cases z) simp_all

lemma preserves_case_sum [preserves_rules]:
  "(\<And>x. preserves I (a x)) \<Longrightarrow> (\<And>x. preserves I (b x)) \<Longrightarrow>
    preserves I (case z of Err x \<Rightarrow> a x | Ok x \<Rightarrow> b x)"
  by (cases z) simp_all

lemma preserves_case_object [preserves_rules]:
  "preserves I a \<Longrightarrow> (\<And>x. preserves I (b x)) \<Longrightarrow> (\<And>x. preserves I (c x)) \<Longrightarrow> (\<And>x y. preserves I (d x y)) \<Longrightarrow>
    preserves I (case z of FsDirectory \<Rightarrow> a | FsFile x \<Rightarrow> b x | FsExclusive x \<Rightarrow> c x | FsSymlink x y \<Rightarrow> d x y)"
  by (cases z) simp_all

lemmas keeps_map = preserves_fsmap_update [OF keeps_update_entry] preserves_fsmap_run [OF keeps_remove_path]
  preserves_fsmap_run [OF keeps_create_entry] preserves_fsmap_update [OF keeps_rename]
  preserves_fsmap_update [OF keeps_remove_old_children]
  preserves_fsmap_try [OF remove_path_tree_next remove_path_tree_ok]

section \<open>Every operation keeps it\<close>

lemma preserves_path_of [preserves_rules]: "preserves mirror_ok (path_of E p)"
  by (simp add: path_of_def preserves_rules)

lemma preserves_path_exists [preserves_rules]: "preserves mirror_ok (path_exists E p)"
  by (simp add: path_exists_def preserves_rules)

lemma preserves_entry_of [preserves_rules]: "preserves mirror_ok (entry_of fid)"
  by (simp add: entry_of_def preserves_rules)

lemma preserves_symlink_metadata [preserves_rules]: "preserves mirror_ok (symlink_metadata E p)"
  by (simp add: symlink_metadata_def preserves_rules)

lemma keeps_intern: "map_keeps (\<lambda>m. m\<lparr>fm_intern := t\<rparr>)"
  by (rule map_keepsI) (simp_all add: fm_ok_def tables_ok_def paths_known_def inodes_ok_def entries_ok_def)

lemma preserves_intern_name [preserves_rules]: "preserves mirror_ok (intern_name E name)"
  by (simp add: intern_name_def preserves_rules preserves_fsmap_update keeps_intern)

lemma preserves_delete_and_return [preserves_rules]: "preserves mirror_ok (delete_and_return E fid)"
proof -
  have "preserves mirror_ok (fsmap_try (delete_entry (en_depth E) fid) :: ('a, 'b, unit) mirror_op)"
    by (rule preserves_fsmap_try) (auto simp: delete_entry_def remove_path_tree_next
        intro: remove_path_tree_ok split: option.splits)
  then show ?thesis by (simp add: delete_and_return_def preserves_rules)
qed

text \<open>
  Refreshing an entry takes two steps that only together keep the map in order: the paths that are
  gone lose their id, then the entry loses those aliases.
\<close>

lemma path_of_Some:
  "path_of E p s = Some (r, s') \<longleftrightarrow>
    (\<exists>q. sym_to_path (en_interner E) (mi_fsmap s) p = Some q \<and> r = Ok q \<and> s' = s)"
  by (auto simp: path_of_def fsmap_of_def andthen_def reads_def unwrap_def returns_def panics_def
      split: option.splits)

lemma path_exists_Some:
  "path_exists E p s = Some (r, s') \<longleftrightarrow>
    (case h_symlink_metadata (en_host E) p (mi_host s) of (meta, h) \<Rightarrow>
      r = Ok (is_ok meta) \<and> s' = s\<lparr>mi_host := h\<rparr>)"
  by (auto simp: path_exists_def on_host_def exists_no_traverse_def call_host_def andthen_def returns_def
      split: prod.splits)

lemma existing_aliases_spec:
  assumes "existing_aliases E aliases s = Some (r, s')"
  shows "\<exists>ex t. r = Ok ex \<and> subseq ex aliases \<and> mi_fsmap s' = (mi_fsmap s)\<lparr>fm_path_to_id := t\<rparr> \<and>
    (mirror_ok s \<longrightarrow> mirror_ok s') \<and>
    (\<forall>p fid. hm_get t p = Some fid \<longrightarrow> hm_get (fm_path_to_id (mi_fsmap s)) p = Some fid \<and>
      (p \<in> set aliases \<longrightarrow> p \<in> set ex))"
  using assms
proof (induction aliases arbitrary: s r s')
  case Nil
  then show ?case by (auto simp: returns_def intro!: exI [of _ "fm_path_to_id (mi_fsmap s)"])
next
  case (Cons a as)
  let ?forget = "\<lambda>m. m\<lparr>fm_path_to_id := hm_remove a (fm_path_to_id m)\<rparr>"
  obtain path where path: "sym_to_path (en_interner E) (mi_fsmap s) a = Some path"
    using Cons.prems by (cases "sym_to_path (en_interner E) (mi_fsmap s) a")
      (auto simp: andthen_def path_of_def fsmap_of_def reads_def unwrap_def panics_def)
  obtain meta h where meta: "h_symlink_metadata (en_host E) path (mi_host s) = (meta, h)" by fastforce
  have of_path: "path_of E a s = Some (Ok path, s)" using path by (simp add: path_of_Some)
  have ex: "path_exists E path s = Some (Ok (is_ok meta), s\<lparr>mi_host := h\<rparr>)" using meta by (simp add: path_exists_Some)
  define s1 where "s1 = (if is_ok meta then s\<lparr>mi_host := h\<rparr>
    else s\<lparr>mi_host := h, mi_fsmap := ?forget (mi_fsmap s)\<rparr>)"
  have "existing_aliases E (a # as) s = andthen (existing_aliases E as)
      (\<lambda>rest. returns (if is_ok meta then a # rest else rest)) s1"
    using of_path ex by (cases "is_ok meta") (simp_all add: s1_def andthen_def returns_def fsmap_update_def modifies_def)
  then obtain q where q: "existing_aliases E as s1 = Some (q, s')"
    and r: "r = (case q of Err e \<Rightarrow> Err e | Ok rest \<Rightarrow> Ok (if is_ok meta then a # rest else rest))"
    using Cons.prems by (auto simp: andthen_def returns_def split: option.splits sum.splits)
  from Cons.IH [OF q] obtain exs t where IH: "q = Ok exs" "subseq exs as"
      "mi_fsmap s' = (mi_fsmap s1)\<lparr>fm_path_to_id := t\<rparr>" "mirror_ok s1 \<longrightarrow> mirror_ok s'"
      "\<forall>p fid. hm_get t p = Some fid \<longrightarrow> hm_get (fm_path_to_id (mi_fsmap s1)) p = Some fid \<and>
        (p \<in> set as \<longrightarrow> p \<in> set exs)" by blast
  have "map_keeps (?forget :: 'a FSMap \<Rightarrow> 'a FSMap)" by (rule map_keepsI) (simp_all add: forget_path_ok)
  from map_keeps_ok [OF this, of s] have ok: "mirror_ok s \<longrightarrow> mirror_ok s1"
    by (simp add: s1_def mirror_ok_def)
  have map: "(mi_fsmap s1)\<lparr>fm_path_to_id := t\<rparr> = (mi_fsmap s)\<lparr>fm_path_to_id := t\<rparr>"
    by (simp add: s1_def)
  have paths: "hm_get (fm_path_to_id (mi_fsmap s)) p = Some fid \<and> (p = a \<longrightarrow> is_ok meta)"
    if "hm_get (fm_path_to_id (mi_fsmap s1)) p = Some fid" for p fid
    using that by (auto simp: s1_def hm.get_remove split: if_splits)
  have "subseq (if is_ok meta then a # exs else exs) (a # as)" using IH(2) by auto
  moreover have "\<forall>p fid. hm_get t p = Some fid \<longrightarrow> hm_get (fm_path_to_id (mi_fsmap s)) p = Some fid \<and>
      (p \<in> set (a # as) \<longrightarrow> p \<in> set (if is_ok meta then a # exs else exs))"
  proof (intro allI impI)
    fix p fid assume "hm_get t p = Some fid"
    then have "hm_get (fm_path_to_id (mi_fsmap s1)) p = Some fid" "p \<in> set as \<longrightarrow> p \<in> set exs"
      using IH(5) by simp_all
    then show "hm_get (fm_path_to_id (mi_fsmap s)) p = Some fid \<and>
        (p \<in> set (a # as) \<longrightarrow> p \<in> set (if is_ok meta then a # exs else exs))"
      using paths [of p fid] by auto
  qed
  ultimately show ?case
    using r IH(1,3,4) map ok by (intro exI [of _ "if is_ok meta then a # exs else exs"] exI [of _ t]) simp
qed

lemma andthen_cases:
  assumes "andthen m f s = Some (r, s')"
  obtains e where "m s = Some (Err e, s')" "r = Err e"
  | x t where "m s = Some (Ok x, t)" "f x t = Some (r, s')"
  using assms by (auto simp: andthen_def split: option.splits sum.splits)

lemma preserves_refresh_meta [preserves_rules]: "preserves mirror_ok (refresh_meta E fid entry meta)"
  unfolding refresh_meta_def Let_def by (intro preserves_rules keeps_map) simp

lemma learn_inode_ok:
  assumes "mirror_ok s" "hm_get (fm_id_to_inode (mi_fsmap s)) fid = Some k"
  shows "mirror_ok (s\<lparr>mi_fsmap := (mi_fsmap s)\<lparr>fm_id_to_inode := hm_insert fid k (fm_id_to_inode (mi_fsmap s)),
    fm_inode_to_id := hm_insert k fid (fm_inode_to_id (mi_fsmap s))\<rparr>\<rparr>)"
proof -
  have "fm_ok (m\<lparr>fm_id_to_inode := hm_insert fid k (fm_id_to_inode m),
      fm_inode_to_id := hm_insert k fid (fm_inode_to_id m)\<rparr>)"
    if m: "fm_ok m" "hm_get (fm_id_to_inode m) fid = Some k" for m :: "'a FSMap"
  proof -
    have "hm_get (fm_inode_to_id m) k = Some fid" using m by (simp add: inode_iff)
    then have "hm_get (hm_insert k fid (fm_inode_to_id m)) j = hm_get (fm_inode_to_id m) j"
      "hm_get (hm_insert fid k (fm_id_to_inode m)) i = hm_get (fm_id_to_inode m) i" for i j
      using m(2) by (auto simp: hm.get_insert)
    then show ?thesis using m(1)
      by (simp add: fm_ok_def tables_ok_def paths_known_def inodes_ok_def entries_ok_def hm.invar_insert)
  qed
  then show ?thesis using assms by (simp add: mirror_ok_def)
qed

lemma preserves_refresh_inode [preserves_rules]: "preserves mirror_ok (refresh_inode E fid entry primary)"
proof -
  let ?learn = "\<lambda>key m. m\<lparr>fm_id_to_inode := hm_insert fid key (fm_id_to_inode m),
    fm_inode_to_id := hm_insert key fid (fm_inode_to_id m)\<rparr>"
  have "preserves mirror_ok (andthen (fsmap_of (\<lambda>m. hm_get (fm_id_to_inode m) fid)) (\<lambda>inode.
      if inode \<noteq> Some key then delete_and_return E fid
      else andthen (fsmap_update (?learn key)) (\<lambda>_. refresh_meta E fid entry meta)))" for key meta
  proof (rule preservesI)
    fix s r s' assume ok: "mirror_ok (s :: ('a, 'b) mirror)"
      and run: "andthen (fsmap_of (\<lambda>m. hm_get (fm_id_to_inode m) fid)) (\<lambda>inode.
        if inode \<noteq> Some key then delete_and_return E fid
        else andthen (fsmap_update (?learn key)) (\<lambda>_. refresh_meta E fid entry meta)) s = Some (r, s')"
    show "mirror_ok s'"
    proof (cases "hm_get (fm_id_to_inode (mi_fsmap s)) fid = Some key")
      case True
      then have "refresh_meta E fid entry meta (s\<lparr>mi_fsmap := ?learn key (mi_fsmap s)\<rparr>) = Some (r, s')"
        using run by (simp add: andthen_def fsmap_of_def reads_def fsmap_update_def modifies_def)
      then show ?thesis using preservesD [OF preserves_refresh_meta learn_inode_ok [OF ok True]] by blast
    next
      case False
      then have "delete_and_return E fid s = Some (r, s')"
        using run by (simp add: andthen_def fsmap_of_def reads_def)
      then show ?thesis using preservesD [OF preserves_delete_and_return ok] by blast
    qed
  qed
  note step = this
  show ?thesis unfolding refresh_inode_def Let_def
    by (intro preserves_andthen preserves_path_of preserves_symlink_metadata step [unfolded Let_def])
qed

lemma keep_existing_ok:
  assumes ok: "fm_ok m" and e: "hm_get (fm_id_to_path m) fid = Some e"
    and ex: "subseq (p # ps) (fe_aliases e)"
    and paths: "\<And>q. hm_get (fm_path_to_id m) q = Some fid \<Longrightarrow> q \<in> set (fe_aliases e) \<Longrightarrow> q \<in> set (p # ps)"
  shows "fm_ok (update_entry fid (\<lambda>e. e\<lparr>fe_aliases := p # ps, fe_name := p\<rparr>) m)"
proof (rule update_entry_ok_gen [OF ok])
  fix e' assume "hm_get (fm_id_to_path m) fid = Some e'"
  then have e': "e' = e" using e by simp
  have "entry_ok e" using ok e by (auto simp: fm_ok_def dest: entries_okD)
  moreover obtain N where "p # ps = nths (fe_aliases e) N" using ex by (auto simp: subseq_conv_nths)
  ultimately have "sorted (p # ps)" "distinct (p # ps)"
    by (simp_all only: entry_ok_def sorted_nths distinct_nthsI)
  then have "entry_ok (e'\<lparr>fe_aliases := p # ps, fe_name := p\<rparr>)" by (simp add: entry_ok_def)
  moreover have "q \<in> set (p # ps)" if "hm_get (fm_path_to_id m) q = Some fid" for q
    using paths [OF that] paths_knownD [of m q fid] that ok e by (auto simp: fm_ok_def)
  ultimately show "entry_ok (e'\<lparr>fe_aliases := p # ps, fe_name := p\<rparr>) \<and>
      (\<forall>q. hm_get (fm_path_to_id m) q = Some fid \<longrightarrow> q \<in> set (fe_aliases (e'\<lparr>fe_aliases := p # ps, fe_name := p\<rparr>)))"
    by simp
qed

lemma preserves_refresh_entry [preserves_rules]: "preserves mirror_ok (refresh_entry E fid)"
proof (rule preservesI)
  fix s r s' assume ok: "mirror_ok (s :: ('a, 'b) mirror)" and run: "refresh_entry E fid s = Some (r, s')"
  show "mirror_ok s'"
  proof (cases "hm_get (fm_id_to_path (mi_fsmap s)) fid")
    case None
    then show ?thesis using run ok
      by (auto simp: refresh_entry_def entry_of_def fsmap_of_def find_entry_def andthen_def reads_def
          result_of_def fails_def)
  next
    case (Some e)
    then have "andthen (existing_aliases E (fe_aliases e)) (\<lambda>existing. case existing of
        [] \<Rightarrow> delete_and_return E fid
      | primary # _ \<Rightarrow> andthen (fsmap_update (update_entry fid (\<lambda>e. e\<lparr>fe_aliases := existing, fe_name := primary\<rparr>)))
          (\<lambda>_. refresh_inode E fid e primary)) s = Some (r, s')"
      using run by (simp add: refresh_entry_def entry_of_def fsmap_of_def find_entry_def andthen_def reads_def
          result_of_def returns_def)
    then show ?thesis
    proof (cases rule: andthen_cases)
      case (1 err)
      then show ?thesis using existing_aliases_spec [OF 1(1)] by simp
    next
      case (2 ex s1)
      from existing_aliases_spec [OF 2(1)] obtain t where sub: "subseq ex (fe_aliases e)"
        and map: "mi_fsmap s1 = (mi_fsmap s)\<lparr>fm_path_to_id := t\<rparr>" and ok1: "mirror_ok s1"
        and paths: "\<forall>p fid. hm_get t p = Some fid \<longrightarrow> p \<in> set (fe_aliases e) \<longrightarrow> p \<in> set ex"
        using ok by auto
      show ?thesis
      proof (cases ex)
        case Nil
        then show ?thesis using 2(2) preservesD [OF preserves_delete_and_return ok1] by simp
      next
        case (Cons p ps)
        let ?f = "\<lambda>e. e\<lparr>fe_aliases := ex, fe_name := p\<rparr>"
        have "mirror_ok (s1\<lparr>mi_fsmap := update_entry fid ?f (mi_fsmap s1)\<rparr>)"
          using keep_existing_ok [of "mi_fsmap s1" fid e p ps] ok1 Some sub paths map Cons
          by (auto simp: mirror_ok_def)
        moreover have "refresh_inode E fid e p (s1\<lparr>mi_fsmap := update_entry fid ?f (mi_fsmap s1)\<rparr>) = Some (r, s')"
          using 2(2) Cons by (simp add: andthen_def fsmap_update_def modifies_def)
        ultimately show ?thesis using preservesD [OF preserves_refresh_inode] by blast
      qed
    qed
  qed
qed

lemma preserves_list_children [preserves_rules]:
  "preserves mirror_ok (list_children E cur_path path listing new_children)"
  by (induction listing arbitrary: new_children)
    (simp_all add: preserves_rules keeps_map)

lemma preserves_refresh_dir_list [preserves_rules]: "preserves mirror_ok (refresh_dir_list E fid)"
  unfolding refresh_dir_list_def by (intro preserves_rules keeps_map) simp

lemma preserves_check_exclusive [preserves_rules]:
  "preserves mirror_ok (check_exclusive_existing E dirid objectname verifier path)"
  "preserves mirror_ok (exclusive_existing E dirid objectname verifier path)"
  unfolding exclusive_existing_def check_exclusive_existing_def by (intro preserves_rules)+

lemma preserves_create_steps [preserves_rules]:
  "preserves mirror_ok (check_before_create E dirid objectname object path)"
  "preserves mirror_ok (create_on_host E dirid objectname object path)"
  unfolding check_before_create_def create_on_host_def by (intro preserves_rules)+

lemma insert_child_name [simp]:
  "fe_aliases (insert_child n c e) = fe_aliases e" "fe_name (insert_child n c e) = fe_name e"
  "fe_aliases (remove_child n e) = fe_aliases e" "fe_name (remove_child n e) = fe_name e"
  by (simp_all add: insert_child_def remove_child_def split: option.split)

lemma preserves_register_child [preserves_rules]:
  "preserves mirror_ok (register_child E dirid dirname objectname path)"
  unfolding register_child_def by (intro preserves_rules keeps_map) simp

lemma preserves_create_fs_object [preserves_rules]:
  "preserves mirror_ok (create_fs_object E dirid objectname object)"
  unfolding create_fs_object_def Let_def by (intro preserves_rules keeps_map) simp

lemma preserves_child_entries [preserves_rules]: "preserves mirror_ok (child_entries E children)"
  by (induction children) (simp_all add: preserves_rules)

lemma preserves_queries [preserves_rules]:
  "preserves mirror_ok (mirror_lookup E dirid filename)"
  "preserves mirror_ok (mirror_getattr E fid)"
  "preserves mirror_ok (mirror_check_access E fid auth access)"
  "preserves mirror_ok (mirror_read E fid offset count)"
  "preserves mirror_ok (mirror_readdir E dirid start_after max_entries)"
  "preserves mirror_ok (statvfs_for_path E path)"
  "preserves mirror_ok (mirror_readlink E fid)"
  unfolding mirror_lookup_def mirror_getattr_def mirror_check_access_def mirror_read_def
    mirror_readdir_def statvfs_for_path_def mirror_readlink_def Let_def
  by (intro preserves_rules)+

lemma preserves_fsstat [preserves_rules]: "preserves mirror_ok (mirror_fsstat E root_fileid)"
  unfolding mirror_fsstat_def Let_def by (intro preserves_rules)

lemma preserves_rename_in_map [preserves_rules]:
  "preserves mirror_ok (rename_target E to_sympath)"
  "preserves mirror_ok (rename_in_map E from_dirid oldsym from_sympath to_dirid newsym to_sympath)"
  unfolding rename_in_map_def rename_target_def Let_def by (intro preserves_rules keeps_map; simp)+

lemma preserves_modifications [preserves_rules]:
  "preserves mirror_ok (mirror_setattr E fid setattr)"
  "preserves mirror_ok (mirror_write E fid offset data how)"
  "preserves mirror_ok (mirror_remove E dirid filename)"
  "preserves mirror_ok (same_inode E from_path to_path)"
  "preserves mirror_ok (mirror_link E file_id link_dir_id link_name)"
  "preserves mirror_ok (make_placeholder E path attrs)"
  unfolding mirror_setattr_def mirror_write_def mirror_remove_def same_inode_def mirror_link_def
    make_placeholder_def Let_def by (intro preserves_rules keeps_map; simp)+

lemma preserves_rename_mknod [preserves_rules]:
  "preserves mirror_ok (mirror_rename E from_dirid from_filename to_dirid to_filename)"
  "preserves mirror_ok (mirror_mknod E dir_id name ftype specdata sattrs)"
  unfolding mirror_rename_def mirror_mknod_def Let_def by (intro preserves_rules)+

end
