(* ===== verification/Example_Mirror.thy ===== *)
theory Example_Mirror
  imports Mirror_Invariant
begin

text \<open>
  A concrete host and symbol table for the witnesses: the host holds a list of files with their
  metadata and contents (of less than 100 bytes where they are measured), and one file position; symbols are positions in a list of names.
\<close>

record ex_host_state =
  xh_files :: "(path \<times> Metadata \<times> bytes) list"
  xh_pos :: nat

definition ex_meta :: "file_kind \<Rightarrow> u64 \<Rightarrow> u64 \<Rightarrow> Metadata" where
  "ex_meta kind ino len = \<lparr>md_kind = kind, md_dev = 1, md_ino = ino, md_mode = 0x1A4, md_nlink = 1,
    md_uid = 5, md_gid = 5, md_size = len, md_atime = 9, md_atime_nsec = 0, md_mtime = 9,
    md_mtime_nsec = 0, md_ctime = 9, md_ctime_nsec = 0\<rparr>"

definition ex_stat :: "path \<Rightarrow> (ex_host_state, Metadata) host_call" where
  "ex_stat p h = (case map_of (xh_files h) p of
      None \<Rightarrow> (Err HostNotFound, h) | Some f \<Rightarrow> (Ok (fst f), h))"

definition ex_open :: "open_options \<Rightarrow> path \<Rightarrow> (ex_host_state, fd) host_call" where
  "ex_open opts p h = (case map_of (xh_files h) p of
      None \<Rightarrow> (Err HostNotFound, h)
    | Some _ \<Rightarrow> (Ok (length (takeWhile (\<lambda>f. fst f \<noteq> p) (xh_files h))), h))"

definition ex_remove :: "path \<Rightarrow> (ex_host_state, unit) host_call" where
  "ex_remove p h = (case map_of (xh_files h) p of
      None \<Rightarrow> (Err HostNotFound, h)
    | Some _ \<Rightarrow> (Ok (), h\<lparr>xh_files := filter (\<lambda>f. fst f \<noteq> p) (xh_files h)\<rparr>))"

definition ex_write :: "fd \<Rightarrow> bytes \<Rightarrow> (ex_host_state, unit) host_call" where
  "ex_write f d h = (if f < length (xh_files h)
    then let (p, meta, b) = xh_files h ! f; at = xh_pos h in
      (Ok (), h\<lparr>xh_files := (xh_files h)[f := (p, meta,
        take at (b @ replicate (at - length b) 0) @ d @ drop (at + length d) b)]\<rparr>)
    else (Err HostInvalidInput, h))"

definition ex_host :: "ex_host_state host" where
  "ex_host = \<lparr>h_metadata = ex_stat, h_symlink_metadata = ex_stat, h_open = ex_open,
    h_file_metadata = (\<lambda>f h. if f < length (xh_files h)
      then let (meta, b) = snd (xh_files h ! f) in
        if length b < 100 then (Ok (meta\<lparr>md_size := of_nat (length b)\<rparr>), h) else (Err HostOther, h)
      else (Err HostInvalidInput, h)),
    h_seek = (\<lambda>f off h. (Ok (), h\<lparr>xh_pos := unat off\<rparr>)),
    h_read_exact = (\<lambda>f n h. let b = drop (xh_pos h) (snd (snd (xh_files h ! f))) in
      if length b < n then (Err HostOther, h) else (Ok (take n b), h)),
    h_write_all = ex_write, h_flush = (\<lambda>f h. (Ok (), h)),
    h_sync_all = (\<lambda>f h. (Ok (), h)), h_set_len = (\<lambda>f n h. (Err HostOther, h)),
    h_file_set_permissions = (\<lambda>f n h. (Err HostOther, h)),
    h_set_permissions = (\<lambda>p n h. (Err HostOther, h)), h_chown = (\<lambda>p u g h. (Err HostOther, h)),
    h_set_file_atime = (\<lambda>p t h. (Err HostOther, h)), h_set_file_mtime = (\<lambda>p t h. (Err HostOther, h)),
    h_read_dir = (\<lambda>p h. (Ok [], h)), h_read_link = (\<lambda>p h. (Err HostInvalidInput, h)),
    h_create_dir = (\<lambda>p h. (Err HostOther, h)), h_symlink = (\<lambda>t p h. (Err HostOther, h)),
    h_hard_link = (\<lambda>p q h. (Err HostOther, h)), h_remove_dir = ex_remove,
    h_remove_file = ex_remove, h_rename = (\<lambda>p q h. (Err HostOther, h)),
    h_statvfs = (\<lambda>p h. (Err HostOther, h))\<rparr>"

definition ex_interner :: "bytes list interner" where
  "ex_interner = \<lparr>
    in_intern = (\<lambda>n t. let i = length (takeWhile (\<lambda>m. m \<noteq> n) t) in
      Some (i, if i < length t then t else t @ [n])),
    in_check_interned = (\<lambda>t n. let i = length (takeWhile (\<lambda>m. m \<noteq> n) t) in
      if i < length t then Some i else None),
    in_get = (\<lambda>t i. if i < length t then Some (t ! i) else None)\<rparr>"

definition ex_env :: "(bytes list, ex_host_state) environment" where
  "ex_env = \<lparr>en_interner = ex_interner, en_host = ex_host, en_depth = 100\<rparr>"

text \<open>The root \<open>/r\<close> holds a file \<open>a\<close> of three bytes; there is a file \<open>/x\<close> outside of it.\<close>

definition ex_files :: "ex_host_state" where
  "ex_files = \<lparr>xh_files = [([47, 114], ex_meta KindDir 1 0, []),
    ([47, 114, 47, 97], ex_meta KindFile 2 3, [7, 8, 9]), ([47, 120], ex_meta KindFile 3 0, [])],
    xh_pos = 0\<rparr>"

text \<open>The file has been looked up: it has the id 1.\<close>

definition ex_map :: "bytes list FSMap" where
  "ex_map = snd (create_entry [0] (ex_meta KindFile 2 3)
    (new_fsmap [[97]] [47, 114] (ex_meta KindDir 1 0)))"

definition ex_mirror :: "(bytes list, ex_host_state) mirror" where
  "ex_mirror = \<lparr>mi_fsmap = ex_map, mi_host = ex_files\<rparr>"

lemma ex_env_simps [simp]:
  "en_interner ex_env = ex_interner" "en_host ex_env = ex_host" "en_depth ex_env = 100"
  "mi_fsmap ex_mirror = ex_map" "mi_host ex_mirror = ex_files"
  by (simp_all add: ex_env_def ex_mirror_def)

lemma ex_map_ok: "fm_ok ex_map"
  unfolding ex_map_def by (rule create_entry_ok [OF new_fsmap_ok]) (simp add: new_fsmap_def Let_def)

lemma ex_new: "new_mirror ex_host [[97]] [47, 114] ex_files =
    Some \<lparr>mi_fsmap = new_fsmap [[97]] [47, 114] (ex_meta KindDir 1 0), mi_host = ex_files\<rparr>"
  by (simp add: new_mirror_def ex_host_def ex_stat_def ex_files_def)

text \<open>What the files hold, and what opening a file gives.\<close>

definition ex_contents :: "ex_host_state \<Rightarrow> path \<Rightarrow> bytes option" where
  "ex_contents h p = map_option snd (map_of (xh_files h) p)"

lemma map_of_position:
  assumes "map_of xs p = Some x"
  shows "xs ! length (takeWhile (\<lambda>f. fst f \<noteq> p) xs) = (p, x) \<and>
    length (takeWhile (\<lambda>f. fst f \<noteq> p) xs) < length xs"
  using assms by (induction xs) (auto split: if_splits)

lemma map_of_replaced:
  assumes "map_of xs p = Some x"
  shows "map_of (xs[length (takeWhile (\<lambda>f. fst f \<noteq> p) xs) := (p, y)]) p = Some y"
  using assms by (induction xs) (auto split: if_splits)

lemma ex_open_file:
  assumes "ex_open opts path h = (Ok f, h1)"
  shows "\<exists>m b. map_of (xh_files h) path = Some (m, b) \<and> h1 = h \<and>
    xh_files h ! f = (path, m, b) \<and> f < length (xh_files h) \<and>
    f = length (takeWhile (\<lambda>f. fst f \<noteq> path) (xh_files h))"
  using assms map_of_position [of "xh_files h" path] by (auto simp: ex_open_def split: option.splits)

end
