(* ===== verification/Vfs_Invariants.thy ===== *)
theory Vfs_Invariants
  imports Host Rpc_Dispatch
begin

text \<open>
  What the server does to a file system, whatever clients send: a property of the state that every
  operation of the file system keeps is kept by every procedure, by every command and by every
  sequence of commands. When the file system declares itself read-only, the operations that read are
  enough.
\<close>

section \<open>Operations that keep a property\<close>

definition reads_keep :: "('s \<Rightarrow> bool) \<Rightarrow> 's vfs \<Rightarrow> bool" where
  "reads_keep P v \<longleftrightarrow> queries_keep P v \<and>
    (\<forall>fid off n. op_keeps P (vfs_read v fid off n)) \<and>
    (\<forall>fid i k. op_keeps P (vfs_readdir_index v fid i k)) \<and>
    (\<forall>fid. op_keeps P (vfs_readlink v fid)) \<and>
    (\<forall>fid. op_keeps P (vfs_fsstat v fid)) \<and>
    (\<forall>fid off n. op_keeps P (vfs_commit v fid off n))"

definition vfs_keeps :: "('s \<Rightarrow> bool) \<Rightarrow> 's vfs \<Rightarrow> bool" where
  "vfs_keeps P v \<longleftrightarrow> reads_keep P v \<and>
    (\<forall>fid a. op_keeps P (vfs_setattr v fid a)) \<and>
    (\<forall>fid off bs how. op_keeps P (vfs_write v fid off bs how)) \<and>
    (\<forall>d n a. op_keeps P (vfs_create v d n a)) \<and>
    (\<forall>d n vf. op_keeps P (vfs_create_exclusive v d n vf)) \<and>
    (\<forall>d n. op_keeps P (vfs_mkdir v d n)) \<and>
    (\<forall>d n. op_keeps P (vfs_remove v d n)) \<and>
    (\<forall>d n d' n'. op_keeps P (vfs_rename v d n d' n')) \<and>
    (\<forall>d n target a. op_keeps P (vfs_symlink v d n target a)) \<and>
    (\<forall>f d n. op_keeps P (vfs_link v f d n)) \<and>
    (\<forall>d n t sd a. op_keeps P (vfs_mknod v d n t sd a))"

lemma reads_keep_queries: "reads_keep P v \<Longrightarrow> queries_keep P v"
  by (simp add: reads_keep_def)

lemma vfs_keeps_reads: "vfs_keeps P v \<Longrightarrow> reads_keep P v"
  by (simp add: vfs_keeps_def)

lemma reads_keep_ops:
  assumes "reads_keep P v"
  shows "op_keeps P (vfs_read v fid off n)"
    "op_keeps P (vfs_readdir_index v fid i k)"
    "op_keeps P (vfs_readlink v fid)"
    "op_keeps P (vfs_fsstat v fid)"
    "op_keeps P (vfs_commit v fid off n)"
  using assms by (simp_all add: reads_keep_def)

lemma vfs_keeps_ops:
  assumes "vfs_keeps P v"
  shows "op_keeps P (vfs_setattr v fid a)"
    "op_keeps P (vfs_write v fid off bs how)"
    "op_keeps P (vfs_create v d n a)"
    "op_keeps P (vfs_create_exclusive v d n vf)"
    "op_keeps P (vfs_mkdir v d n)"
    "op_keeps P (vfs_remove v d n)"
    "op_keeps P (vfs_rename v d n d' n')"
    "op_keeps P (vfs_symlink v d n target a)"
    "op_keeps P (vfs_link v f d n)"
    "op_keeps P (vfs_mknod v d n t sd a)"
  using assms by (simp_all add: vfs_keeps_def)

lemmas keep_read_dests = keep_dests [OF reads_keep_queries] reads_keep_ops [THEN op_keepsD]

lemmas keep_write_dests = keep_dests [OF reads_keep_queries [OF vfs_keeps_reads]]
  vfs_keeps_ops [THEN op_keepsD]

text \<open>A property of a state that a panic destroys, as long as no operation has panicked.\<close>

definition unless_crashed :: "('s \<Rightarrow> bool) \<Rightarrow> 's option \<Rightarrow> bool" where
  "unless_crashed I state \<longleftrightarrow> (\<forall>s. state = Some s \<longrightarrow> I s)"

lemma settle_keeps: "preserves I f \<Longrightarrow> op_keeps (unless_crashed I) (settle f)"
  by (auto simp: op_keeps_def unless_crashed_def settle_def bind_eq_Some_conv dest: preservesD
      split: option.splits prod.splits bind_splits)

lemma settle_crashed: "op_keeps (\<lambda>state. state = None) (settle f)"
  by (simp add: op_keeps_def settle_def)

text \<open>The default methods of the trait keep what the others keep.\<close>

lemma defaults_keep:
  "(\<And>i. op_keeps P (vfs_getattr v i)) \<Longrightarrow> op_keeps P (default_check_access v i auth r)"
  "(\<And>i. op_keeps P (vfs_getattr v i)) \<Longrightarrow> op_keeps P (default_fsstat v i)"
  "(\<And>d i n. op_keeps P (vfs_readdir v d i n)) \<Longrightarrow> op_keeps P (default_readdir_index v d k m)"
  by (auto simp: op_keeps_def default_readdir_index_def default_check_access_def default_fsstat_def
      getattr_ok_def Let_def split: prod.splits sum.splits) (metis snd_conv)+

section \<open>Procedures\<close>

named_theorems reads_kept

lemma getattr_keeps [reads_kept]:
  "reads_keep P (cx_vfs ctx) \<Longrightarrow> nfsproc3_getattr xid input ctx s = (w, s') \<Longrightarrow> P s \<Longrightarrow> P s'"
  by (auto simp: nfsproc3_getattr_def Let_def split: if_splits sum.splits prod.splits
      dest: keep_read_dests)

lemma lookup_keeps [reads_kept]:
  "reads_keep P (cx_vfs ctx) \<Longrightarrow> nfsproc3_lookup xid input ctx s = (w, s') \<Longrightarrow> P s \<Longrightarrow> P s'"
  by (auto simp: nfsproc3_lookup_def Let_def split: if_splits sum.splits prod.splits
      dest: keep_read_dests)

lemma access_keeps [reads_kept]:
  "reads_keep P (cx_vfs ctx) \<Longrightarrow> nfsproc3_access xid input ctx s = (w, s') \<Longrightarrow> P s \<Longrightarrow> P s'"
  by (auto simp: nfsproc3_access_def Let_def split: if_splits sum.splits prod.splits
      dest: keep_read_dests)

lemma readlink_keeps [reads_kept]:
  "reads_keep P (cx_vfs ctx) \<Longrightarrow> nfsproc3_readlink xid input ctx s = (w, s') \<Longrightarrow> P s \<Longrightarrow> P s'"
  by (auto simp: nfsproc3_readlink_def Let_def split: if_splits sum.splits prod.splits
      dest: keep_read_dests)

lemma read_keeps [reads_kept]:
  "reads_keep P (cx_vfs ctx) \<Longrightarrow> nfsproc3_read xid input ctx s = (w, s') \<Longrightarrow> P s \<Longrightarrow> P s'"
  by (auto simp: nfsproc3_read_def Let_def split: if_splits sum.splits prod.splits
      dest: keep_read_dests)

lemma fsstat_keeps [reads_kept]:
  "reads_keep P (cx_vfs ctx) \<Longrightarrow> nfsproc3_fsstat xid input ctx s = (w, s') \<Longrightarrow> P s \<Longrightarrow> P s'"
  by (auto simp: nfsproc3_fsstat_def Let_def split: if_splits sum.splits prod.splits
      dest: keep_read_dests)

lemma fsinfo_keeps [reads_kept]:
  "reads_keep P (cx_vfs ctx) \<Longrightarrow> nfsproc3_fsinfo xid input ctx s = (w, s') \<Longrightarrow> P s \<Longrightarrow> P s'"
  by (auto simp: nfsproc3_fsinfo_def vfs_fsinfo_def Let_def split: if_splits sum.splits prod.splits
      dest: keep_read_dests)

lemma pathconf_keeps [reads_kept]:
  "reads_keep P (cx_vfs ctx) \<Longrightarrow> nfsproc3_pathconf xid input ctx s = (w, s') \<Longrightarrow> P s \<Longrightarrow> P s'"
  by (auto simp: nfsproc3_pathconf_def Let_def split: if_splits sum.splits prod.splits
      dest: keep_read_dests)

lemma readdir_keeps [reads_kept]:
  "reads_keep P (cx_vfs ctx) \<Longrightarrow> nfsproc3_readdir xid input ctx s = (w, s') \<Longrightarrow> P s \<Longrightarrow> P s'"
  by (auto simp: nfsproc3_readdir_def readdir_simple_index_def Let_def split: if_splits sum.splits prod.splits
      dest: keep_read_dests)

lemma readdirplus_keeps [reads_kept]:
  "reads_keep P (cx_vfs ctx) \<Longrightarrow> nfsproc3_readdirplus xid input ctx s = (w, s') \<Longrightarrow> P s \<Longrightarrow> P s'"
  by (auto simp: nfsproc3_readdirplus_def Let_def split: if_splits sum.splits prod.splits
      dest: keep_read_dests)

lemma commit_keeps [reads_kept]:
  "reads_keep P (cx_vfs ctx) \<Longrightarrow> nfsproc3_commit xid input ctx s = (w, s') \<Longrightarrow> P s \<Longrightarrow> P s'"
  by (auto simp: nfsproc3_commit_def Let_def split: if_splits sum.splits prod.splits
      dest: keep_read_dests)

named_theorems modifications_kept

lemma setattr_keeps [modifications_kept]:
  "vfs_keeps P (cx_vfs ctx) \<Longrightarrow> nfsproc3_setattr xid input ctx s = (w, s') \<Longrightarrow> P s \<Longrightarrow> P s'"
  by (auto simp: nfsproc3_setattr_def Let_def split: if_splits sum.splits prod.splits option.splits
      dest: keep_write_dests)

lemma write_keeps [modifications_kept]:
  "vfs_keeps P (cx_vfs ctx) \<Longrightarrow> nfsproc3_write xid input ctx s = (w, s') \<Longrightarrow> P s \<Longrightarrow> P s'"
  by (auto simp: nfsproc3_write_def Let_def split: if_splits sum.splits prod.splits option.splits
      dest: keep_write_dests)

lemma create_object_keeps:
  "vfs_keeps P (cx_vfs ctx) \<Longrightarrow> create_object ctx dirid name how s = (r, s') \<Longrightarrow> P s \<Longrightarrow> P s'"
  by (auto simp: create_object_def create_new_def split: create_how.splits sum.splits prod.splits
      dest: keep_write_dests)

lemma create_and_reply_keeps:
  "vfs_keeps P (cx_vfs ctx) \<Longrightarrow> create_and_reply xid ctx dirid a name how s = (w, s') \<Longrightarrow> P s \<Longrightarrow> P s'"
  by (auto simp: create_and_reply_def split: sum.splits prod.splits
      dest: keep_write_dests create_object_keeps)

lemma create_keeps [modifications_kept]:
  "vfs_keeps P (cx_vfs ctx) \<Longrightarrow> nfsproc3_create xid input ctx s = (w, s') \<Longrightarrow> P s \<Longrightarrow> P s'"
  by (auto simp: nfsproc3_create_def split: if_splits sum.splits prod.splits create_how.splits
      dest: keep_write_dests create_and_reply_keeps)

lemma mkdir_keeps [modifications_kept]:
  "vfs_keeps P (cx_vfs ctx) \<Longrightarrow> nfsproc3_mkdir xid input ctx s = (w, s') \<Longrightarrow> P s \<Longrightarrow> P s'"
  by (auto simp: nfsproc3_mkdir_def Let_def split: if_splits sum.splits prod.splits option.splits
      dest: keep_write_dests)

lemma symlink_keeps [modifications_kept]:
  "vfs_keeps P (cx_vfs ctx) \<Longrightarrow> nfsproc3_symlink xid input ctx s = (w, s') \<Longrightarrow> P s \<Longrightarrow> P s'"
  by (auto simp: nfsproc3_symlink_def Let_def split: if_splits sum.splits prod.splits option.splits
      dest: keep_write_dests)

lemma mknod_keeps [modifications_kept]:
  "vfs_keeps P (cx_vfs ctx) \<Longrightarrow> nfsproc3_mknod xid input ctx s = (w, s') \<Longrightarrow> P s \<Longrightarrow> P s'"
  by (auto simp: nfsproc3_mknod_def Let_def split: if_splits sum.splits prod.splits option.splits
      dest: keep_write_dests)

lemma remove_keeps [modifications_kept]:
  "vfs_keeps P (cx_vfs ctx) \<Longrightarrow> nfsproc3_remove xid input ctx s = (w, s') \<Longrightarrow> P s \<Longrightarrow> P s'"
  by (auto simp: nfsproc3_remove_def Let_def split: if_splits sum.splits prod.splits option.splits
      dest: keep_write_dests)

lemma rmdir_keeps [modifications_kept]:
  "vfs_keeps P (cx_vfs ctx) \<Longrightarrow> nfsproc3_rmdir xid input ctx s = (w, s') \<Longrightarrow> P s \<Longrightarrow> P s'"
  by (auto simp: nfsproc3_rmdir_def rmdir_fail_def Let_def split: if_splits sum.splits prod.splits option.splits
      dest: keep_write_dests)

lemma rename_keeps [modifications_kept]:
  "vfs_keeps P (cx_vfs ctx) \<Longrightarrow> nfsproc3_rename xid input ctx s = (w, s') \<Longrightarrow> P s \<Longrightarrow> P s'"
  by (auto simp: nfsproc3_rename_def Let_def split: if_splits sum.splits prod.splits option.splits
      dest: keep_write_dests)

lemma link_keeps [modifications_kept]:
  "vfs_keeps P (cx_vfs ctx) \<Longrightarrow> nfsproc3_link xid input ctx s = (w, s') \<Longrightarrow> P s \<Longrightarrow> P s'"
  by (auto simp: nfsproc3_link_def Let_def split: if_splits sum.splits prod.splits option.splits
      dest: keep_write_dests)

section \<open>Programs\<close>

text \<open>The NFS program keeps a property of the file systems that a context may hold.\<close>

definition nfs_keeps :: "('s \<Rightarrow> bool) \<Rightarrow> 's vfs \<Rightarrow> bool" where
  "nfs_keeps P v \<longleftrightarrow> queries_keep P v \<and> (\<forall>xid call input ctx s w s'. cx_vfs ctx = v \<longrightarrow>
    handle_nfs xid call input ctx s = (w, s') \<longrightarrow> P s \<longrightarrow> P s')"

lemma nfs_keepsD:
  "nfs_keeps P (cx_vfs ctx) \<Longrightarrow> handle_nfs xid call input ctx s = (w, s') \<Longrightarrow> P s \<Longrightarrow> P s'"
  unfolding nfs_keeps_def by blast

lemma nfs_keeps_vfs:
  assumes "vfs_keeps P v"
  shows "nfs_keeps P v"
  unfolding nfs_keeps_def
proof (intro conjI allI impI)
  fix xid call input s w s' and ctx :: "'a rpc_context"
  assume v: "cx_vfs ctx = v" and run: "handle_nfs xid call input ctx s = (w, s')" and P: "P s"
  note keep = reads_kept [of P ctx] modifications_kept [of P ctx]
  show "P s'"
    using run P vfs_keeps_reads [OF assms] assms unfolding v [symmetric]
    by (cases "nfs_program_of (cb_proc call)")
      (auto simp: handle_nfs_def split: if_splits dest: keep)
qed (rule reads_keep_queries [OF vfs_keeps_reads [OF assms]])

lemma nfs_keeps_read_only:
  assumes "vfs_capabilities v = ReadOnly" "reads_keep P v"
  shows "nfs_keeps P v"
  unfolding nfs_keeps_def
proof (intro conjI allI impI)
  fix xid call input s w s' and ctx :: "'a rpc_context"
  assume v: "cx_vfs ctx = v" and run: "handle_nfs xid call input ctx s = (w, s')" and P: "P s"
  show "P s'"
  proof (cases "cb_vers call = NFS3_VERSION \<and> nfs_program_of (cb_proc call) \<in> set modifying_procs")
    case True
    then show ?thesis using read_only_refused [of ctx call xid input s] assms(1) v run P by auto
  next
    case False
    then show ?thesis
      using run P assms(2) unfolding v [symmetric]
      by (cases "nfs_program_of (cb_proc call)")
        (auto simp: handle_nfs_def modifying_procs_def guarded_procs_def split: if_splits
          dest: reads_kept [of P ctx])
  qed
qed (rule reads_keep_queries [OF assms(2)])

lemma walk_keeps:
  "queries_keep P v \<Longrightarrow> walk_components v fid ps s = (r, s') \<Longrightarrow> P s \<Longrightarrow> P s'"
  by (induction ps arbitrary: fid s)
    (auto split: if_splits prod.splits sum.splits dest: keep_lookup)

lemma handle_mount_keeps:
  assumes "queries_keep P (cx_vfs ctx)" "handle_mount xid call input ctx (s, signals) = (w, s', signals')"
    and "P s"
  shows "P s'"
  using assms(2,3)
  by (auto simp: handle_mount_def mountproc3_mnt_def mountproc3_umnt_def mountproc3_umnt_all_def
      path_to_id_def split: MountProgram.splits sum.splits prod.splits option.splits
      dest: walk_keeps [OF assms(1)])

section \<open>Commands\<close>

lemma execute_keeps:
  assumes "nfs_keeps P (cx_vfs ctx)" "P (sv_fs sv)"
  shows "P (sv_fs (snd (execute xid call args ctx sv)))"
proof -
  have q: "queries_keep P (cx_vfs ctx)" using assms(1) by (simp add: nfs_keeps_def)
  show ?thesis
    using assms(2) by (auto simp: execute_def dispatch_def split: prod.split sum.split
        dest: nfs_keepsD [OF assms(1)] handle_mount_keeps [OF q])
qed

lemma process_keeps:
  assumes "nfs_keeps P (cx_vfs ctx)"
    and "process_rpc_command data now later ctx sv = (res, sv')" and "P (sv_fs sv)"
  shows "P (sv_fs sv')"
proof (cases "\<exists>xid call auth args. is_call data ctx xid call auth args")
  case False
  then show ?thesis using assms process_other [of data ctx now later sv] by auto
next
  case True
  then obtain xid call auth args where c: "is_call data ctx xid call auth args" by blast
  obtain st t where k: "check (xid, cx_client_addr ctx) now (sv_tracker sv) = (st, t)" by fastforce
  have "P (sv_fs (snd (execute xid call args (ctx\<lparr>cx_auth := auth\<rparr>) (sv\<lparr>sv_tracker := t\<rparr>))))"
    using execute_keeps [of P "ctx\<lparr>cx_auth := auth\<rparr>" "sv\<lparr>sv_tracker := t\<rparr>"] assms(1,3) by simp
  then show ?thesis
    using assms(2,3) process_call [OF c k, of later]
    by (auto split: TransactionStatus.splits sum.splits prod.splits)
qed

lemma serve_keeps:
  assumes "list_all (\<lambda>c. nfs_keeps P (cx_vfs (cm_ctx c))) cs" and "P (sv_fs sv)"
  shows "P (sv_fs (snd (serve cs sv)))"
  using assms
proof (induction cs arbitrary: sv)
  case (Cons c cs)
  obtain res sv1 where p: "process_rpc_command (cm_data c) (cm_now c) (cm_later c) (cm_ctx c) sv = (res, sv1)"
    by fastforce
  then have "P (sv_fs sv1)" using process_keeps [of P, OF _ p] Cons.prems by simp
  then show ?case using Cons.IH [of sv1] Cons.prems(1) p by (simp split: prod.split) (metis snd_conv)
qed simp

section \<open>The contract of a file system with an invariant\<close>

text \<open>
  What a file system promises the server, and what it gets for it: an invariant that every operation
  keeps holds after any commands of any clients.
\<close>

locale vfs_invariant =
  fixes v :: "'s vfs" and P :: "'s \<Rightarrow> bool"
  assumes keeps: "vfs_keeps P v"
begin

lemma served:
  assumes "list_all (\<lambda>c. cx_vfs (cm_ctx c) = v) cs" "P (sv_fs sv)"
  shows "P (sv_fs (snd (serve cs sv)))"
proof (rule serve_keeps [where P = P])
  show "list_all (\<lambda>c. nfs_keeps P (cx_vfs (cm_ctx c))) cs"
    using assms(1) nfs_keeps_vfs [OF keeps] by (simp add: list_all_iff)
qed (rule assms(2))

end

end
