(* ===== verification/Read_Only.thy ===== *)
theory Read_Only
  imports Vfs_Invariants
begin

text \<open>
  The two general statements on a server and its file system: an invariant of the file system is an
  invariant of the server, and a read-only file system is not changed.
\<close>

definition pure_reads :: "'s vfs \<Rightarrow> bool" where
  "pure_reads v \<longleftrightarrow> (\<forall>P. reads_keep P v)"

lemma ex_pure_reads: "pure_reads (cx_vfs (ex_ctx caps granted))"
proof -
  have "op_keeps P (vfs_read (ex_vfs caps granted) fid off n)"
    "op_keeps P (vfs_readdir_index (ex_vfs caps granted) fid i k)"
    "op_keeps P (vfs_readlink (ex_vfs caps granted) fid)" "op_keeps P (vfs_fsstat (ex_vfs caps granted) fid)"
    "op_keeps P (vfs_commit (ex_vfs caps granted) fid off n)" for P fid off n i k
    by (simp_all add: op_keeps_def ex_simps) (simp_all add: ex_vfs_def ex_getattr_def)
  then show ?thesis by (simp add: pure_reads_def reads_keep_def pure_queries_keep ex_pure ex_simps)
qed

text \<open>
  C8: A read-only export stays as it is. Whatever commands clients send, in whatever order and with
  whatever credentials, the state of a read-only file system is the same after them, provided
  that its reading operations do not change it.
\<close>

theorem read_only_export_unchanged:
  assumes "list_all (\<lambda>c. vfs_capabilities (cx_vfs (cm_ctx c)) = ReadOnly \<and>
      pure_reads (cx_vfs (cm_ctx c))) cs"
  shows "sv_fs (snd (serve cs sv)) = sv_fs sv"
  using assms by (intro serve_keeps [where P = "\<lambda>s. s = sv_fs sv"])
    (auto simp: list_all_iff pure_reads_def nfs_keeps_read_only)

lemma read_only_export_unchanged_witness:
  "sv_fs (snd (serve
    [\<lparr>cm_data = ex_data 7 (ex_call NFS3_PROGRAM 3 7) @ [1, 2], cm_ctx = ex_ctx ReadOnly 0x3F, cm_now = 1, cm_later = 2\<rparr>,
     \<lparr>cm_data = [3], cm_ctx = ex_ctx ReadOnly 0x3F, cm_now = 3, cm_later = 3\<rparr>] (ex_server [5]))) = [5]"
  by (subst read_only_export_unchanged) (simp_all add: ex_pure_reads, simp_all add: ex_simps ex_server_def)

end
