(* ===== verification/Nfs3_Properties.thy ===== *)
theory Nfs3_Properties
  imports Nfs3 Example_Fs
begin

text \<open>
  The properties of the NFS procedures, stated on what a client reads from their replies and on
  what they do to the file system, with instances on the file system of \<open>Example_Fs\<close>.
\<close>

lemma getattr_ok_pure: "pure_queries v \<Longrightarrow> \<exists>a. getattr_ok v fid s = (a, s)"
  by (cases "getattr_ok v fid s") (auto dest: pure_getattr_ok)

lemma ok_id_to_fh: "ok_nfs_fh3 (id_to_fh v fid)"
  by (simp add: ok_nfs_fh3_def ok_opaque_def id_to_fh_def MAX_XDR_OPAQUE_LENGTH_eq)

section \<open>READ\<close>

text \<open>What READ relies on: the file system returns no more bytes than it was asked for.\<close>

definition read_bounded :: "'s vfs \<Rightarrow> bool" where
  "read_bounded v \<longleftrightarrow> (\<forall>fid off n s bytes eof s'.
    vfs_read v fid off n s = (Ok (bytes, eof), s') \<longrightarrow> length bytes \<le> unat n)"

lemma read_count_le:
  "unat (read_count v n) \<le> unat n" "unat (read_count v n) \<le> MAX_BLOCK_SIZE"
  "unat (read_count v n) \<le> unat (fsinfo_rtmax (vfs_limits_of v))"
proof -
  have le: "read_count v n \<le> n" "read_count v n \<le> of_nat MAX_BLOCK_SIZE"
      "read_count v n \<le> fsinfo_rtmax (vfs_limits_of v)"
    by (auto simp: read_count_def Let_def min_def)
  then show "unat (read_count v n) \<le> unat n"
      "unat (read_count v n) \<le> unat (fsinfo_rtmax (vfs_limits_of v))"
    by (simp_all add: word_le_nat_alt)
  have "unat (read_count v n) \<le> unat (of_nat MAX_BLOCK_SIZE :: u32)"
    using le(2) by (simp only: word_le_nat_alt)
  then show "unat (read_count v n) \<le> MAX_BLOCK_SIZE" by (simp add: MAX_BLOCK_SIZE_def)
qed

lemma unat_of_nat_length: "length xs \<le> MAX_XDR_OPAQUE_LENGTH \<Longrightarrow> unat (of_nat (length xs) :: u32) = length xs"
  by (rule unat_of_nat32) (simp add: MAX_XDR_OPAQUE_LENGTH_eq)

lemma MAX_BLOCK_SIZE_le: "MAX_BLOCK_SIZE \<le> MAX_XDR_OPAQUE_LENGTH"
  by (simp add: MAX_XDR_OPAQUE_LENGTH_eq MAX_BLOCK_SIZE_def)

text \<open>A reply that ends after the attributes is not a result.\<close>

lemma attributes_only:
  assumes "nfs_reply xid stat [ser_post_op_attr a] = Ok out"
  shows "client_result de_READ3resok out = None"
proof -
  obtain i i' where i: "de_rpc_msg out = Ok (make_success_reply xid, i)"
      "de_nfsstat3 i = Ok (stat, i')" "ser_option ser_fattr3 a = Ok i'"
    using nfs_reply_Ok [OF assms] by (auto simp: ser_post_op_attr_def)
  have "de_option de_fattr3 i' = Ok (a, [])"
    using xdr_codec.dec_enc [OF codec_opt_fattr3 TrueI i(3), of "[]"] by simp
  then show ?thesis using i
    by (simp add: client_result_def de_bind_def de_READ3resok_def de_u32_def read_exact_def)
qed

definition ex_read_args :: READ3args where
  "ex_read_args = \<lparr>rda_file = ex_fh 2, rda_offset = 1, rda_count = 2\<rparr>"

definition ex_write_args :: "u32 \<Rightarrow> WRITE3args" where
  "ex_write_args n = \<lparr>wra_file = ex_fh 2, wra_offset = 1, wra_count = n, wra_stable = 2,
    wra_data = [20, 21]\<rparr>"

lemma ex_write_input: "de_WRITE3args (bytes_of (ser_WRITE3args (ex_write_args n))) = Ok (ex_write_args n, [])"
  by (rule decode_bytes_of(2) [OF codec_WRITE3args])
    (simp add: ok_WRITE3args_def ex_write_args_def ok_ex_fh ok_opaque_def MAX_XDR_OPAQUE_LENGTH_eq)

definition ex_sattr :: "u64 option \<Rightarrow> sattr3" where
  "ex_sattr n = \<lparr>sa_mode = Some 0, sa_uid = None, sa_gid = None, sa_size = n,
    sa_atime = ATIME_DONT_CHANGE, sa_mtime = MTIME_DONT_CHANGE\<rparr>"

definition ex_setattr_args :: "u64 option \<Rightarrow> nfstime3 option \<Rightarrow> SETATTR3args" where
  "ex_setattr_args n g = \<lparr>sga_object = ex_fh 2, sga_new_attribute = ex_sattr n, sga_guard = g\<rparr>"

lemma ex_setattr_input:
  "de_SETATTR3args (bytes_of (ser_SETATTR3args (ex_setattr_args n g))) = Ok (ex_setattr_args n g, [])"
  by (rule decode_bytes_of(2) [OF codec_SETATTR3args])
    (simp add: ok_SETATTR3args_def ex_setattr_args_def ok_ex_fh)

lemma ex_other_time: "\<lparr>nt_seconds = 4, nt_nseconds = 0\<rparr> \<noteq> ex_time"
proof
  assume "\<lparr>nt_seconds = 4, nt_nseconds = 0\<rparr> = ex_time"
  then have "nt_seconds \<lparr>nt_seconds = 4, nt_nseconds = 0\<rparr> = nt_seconds ex_time" by (rule arg_cong)
  then have "(4 :: u32) = 5" by (simp only: ex_time_def nfstime3.select_convs)
  then show False by simp
qed

text \<open>
  C29: READ never returns more than was asked for. A successful READ answers with bytes that the
  file system read at the requested offset; when the file system honours the count that it is given,
  their number is in the count field and exceeds neither the client's count, nor the
  server's rtmax, nor the block size limit.
\<close>

theorem read_reply_bounded:
  assumes "read_bounded (cx_vfs ctx)" and "de_READ3args input = Ok (args, rest)"
    and "nfsproc3_read xid input ctx s = (Ok out, s')"
    and "client_result de_READ3resok out = Some (NFS3_OK, res)"
  shows "unat (rdr_count res) = length (rdr_data res) \<and>
    length (rdr_data res) \<le> unat (rda_count args) \<and>
    length (rdr_data res) \<le> unat (fsinfo_rtmax (vfs_limits_of (cx_vfs ctx))) \<and>
    length (rdr_data res) \<le> MAX_BLOCK_SIZE \<and>
    (\<exists>fid s1. fh_to_id (cx_vfs ctx) (rda_file args) = Ok fid \<and>
      vfs_read (cx_vfs ctx) fid (rda_offset args) (read_count (cx_vfs ctx) (rda_count args)) s1
        = (Ok (rdr_data res, rdr_eof res), s'))"
proof -
  let ?n = "read_count (cx_vfs ctx) (rda_count args)"
  obtain fid s1 bytes eof a where r: "fh_to_id (cx_vfs ctx) (rda_file args) = Ok fid"
      "vfs_read (cx_vfs ctx) fid (rda_offset args) ?n s1 = (Ok (bytes, eof), s')"
      "nfs_reply xid NFS3_OK [ser_READ3resok
        \<lparr>rdr_file_attributes = a, rdr_count = of_nat (length bytes), rdr_eof = eof,
         rdr_data = bytes\<rparr>] = Ok out"
    using assms(2-4)
    by (auto simp: nfsproc3_read_def Let_def attributes_only split: sum.splits prod.splits)
  have len: "length bytes \<le> unat ?n" using assms(1) r(2) unfolding read_bounded_def by blast
  then have small: "length bytes \<le> MAX_XDR_OPAQUE_LENGTH"
    using read_count_le(2) [of "cx_vfs ctx" "rda_count args"] MAX_BLOCK_SIZE_le by linarith
  have "res = \<lparr>rdr_file_attributes = a, rdr_count = of_nat (length bytes), rdr_eof = eof,
         rdr_data = bytes\<rparr>"
    using nfs_reply_result1 [OF r(3) codec_READ3resok] small assms(4)
    by (simp add: ok_READ3resok_def ok_opaque_def)
  then show ?thesis
    using len small r(1,2) read_count_le [of "cx_vfs ctx" "rda_count args"]
    by (auto simp: unat_of_nat_length intro: order_trans)
qed

lemma read_reply_bounded_witness:
  "\<exists>out. nfsproc3_read 7 (bytes_of (ser_READ3args ex_read_args)) (ex_ctx ReadWrite 0x3F) [10, 11, 12, 13]
      = (Ok out, [10, 11, 12, 13]) \<and>
    (\<exists>res. client_result de_READ3resok out = Some (NFS3_OK, res) \<and> rdr_data res = [11, 12] \<and>
      length (rdr_data res) \<le> unat (rda_count ex_read_args))"
proof -
  let ?res = "\<lparr>rdr_file_attributes = Some (ex_attr NF3REG 2 4), rdr_count = 2, rdr_eof = False,
    rdr_data = [11, 12]\<rparr>"
  have ok: "ok_READ3args ex_read_args" "ok_READ3resok ?res"
    by (simp_all add: ok_READ3args_def ex_read_args_def ok_ex_fh ok_READ3resok_def ok_opaque_def
        MAX_XDR_OPAQUE_LENGTH_eq)
  note input = decode_bytes_of(2) [OF codec_READ3args ok(1)]
  obtain b where "ser_READ3resok ?res = Ok b" using xdr_codec.ser_ok [OF codec_READ3resok ok(2)] by blast
  then obtain out where out: "nfs_reply 7 NFS3_OK [ser_READ3resok ?res] = Ok out"
    using nfs_reply_total [of "[ser_READ3resok ?res]"] by auto
  have run: "nfsproc3_read 7 (bytes_of (ser_READ3args ex_read_args)) (ex_ctx ReadWrite 0x3F) [10, 11, 12, 13]
      = (Ok out, [10, 11, 12, 13])"
    using out by (simp add: nfsproc3_read_def input)
      (simp add: ex_read_args_def ex_simps ex_read_count ACCESS3_READ_def)
  have bounded: "read_bounded (cx_vfs (ex_ctx ReadWrite 0x3F))"
    by (simp add: read_bounded_def ex_simps)
  note res = nfs_reply_result1 [OF out codec_READ3resok ok(2)]
  show ?thesis using run res read_reply_bounded [OF bounded input run res] by auto
qed

section \<open>Every procedure\<close>

text \<open>
  A reply answers its call. Whatever bytes a client sends, when the NFS program writes a
  message, that message is not empty, its first word is the transaction id of the call, and it
  decodes as an RPC reply with that id.
\<close>

lemma nfs_reply_matches_call:
  assumes "handle_nfs xid call input ctx s = (Ok out, s')"
  shows "out \<noteq> [] \<and> take 4 out = be_bytes 4 xid \<and> is_reply xid out"
  using nfs_program.reply_nonempty [OF assms] nfs_program.reply_xid [OF assms]
    nfs_program.replies [OF assms] by blast

lemma nfs_reply_matches_call_witness:
  "\<exists>out. handle_nfs 7 (ex_call NFS3_PROGRAM 3 0) [] (ex_ctx ReadWrite 0x3F) [] = (Ok out, []) \<and> is_reply 7 out"
proof -
  obtain out where "nfsproc3_null 7 = Ok out"
    using rpc_msg.ser_ok [OF ok_success_reply] by (metis nfsproc3_null_def)
  moreover have "nfs_program_of 0 = NFSPROC3_NULL" by code_simp
  ultimately have "handle_nfs 7 (ex_call NFS3_PROGRAM 3 0) [] (ex_ctx ReadWrite 0x3F) [] = (Ok out, [])"
    by (simp add: handle_nfs_def ex_call_def NFS3_VERSION_def)
  from nfs_reply_matches_call [OF this] this show ?thesis by blast
qed

text \<open>
  A read-only file system is never modified. On a file system without write capabilities each of
  the ten modifying procedures leaves the state as it is and answers \<open>NFS3ERR_ROFS\<close>,
  whatever its arguments are.
\<close>

lemma read_only_never_modified:
  assumes "vfs_capabilities (cx_vfs ctx) = ReadOnly" and "cb_vers call = NFS3_VERSION"
    and "nfs_program_of (cb_proc call) \<in> set modifying_procs"
  shows "\<exists>out. handle_nfs xid call input ctx s = (Ok out, s) \<and>
    reply_status out = Some NFS3ERR_ROFS"
  by (rule read_only_refused [OF assms])

lemma read_only_never_modified_witness:
  "\<exists>out. handle_nfs 7 (ex_call NFS3_PROGRAM 3 7) [1, 2, 3] (ex_ctx ReadOnly 0x3F) [5] = (Ok out, [5]) \<and>
    reply_status out = Some NFS3ERR_ROFS"
proof -
  have "nfs_program_of 7 = NFSPROC3_WRITE" by code_simp
  then show ?thesis
    by (intro read_only_never_modified)
      (simp_all add: ex_simps ex_call_def NFS3_VERSION_def modifying_procs_def guarded_procs_def)
qed



text \<open>
  C13: A file handle of another server instance does not reach the file system. If the arguments of a call
  start with a handle that this instance did not issue, the state of the file system stays
  as it is, whatever the procedure and the rest of the arguments are.
\<close>

theorem foreign_handle_harmless:
  assumes "de_nfs_fh3 input = Ok (id_to_fh v' fid, rest)"
    and "vfs_generation v' \<noteq> vfs_generation (cx_vfs ctx)"
    and "handle_nfs xid call input ctx s = (w, s')"
  shows "s' = s"
  using bad_handle_untouched [OF assms(1) fh_to_id_other_instance [OF assms(2)] assms(3)] .

lemma foreign_handle_harmless_witness:
  "snd (handle_nfs 7 (ex_call NFS3_PROGRAM 3 7)
    (bytes_of (ser_nfs_fh3 (id_to_fh (ex_vfs ReadWrite 0\<lparr>vfs_generation := 8\<rparr>) 2)))
    (ex_ctx ReadWrite 0x3F) [5]) = [5]"
  by (rule foreign_handle_harmless [OF decode_bytes_of(2) [OF nfs_fh3.xdr_codec_axioms ok_id_to_fh] _
        surjective_pairing]) (simp add: ex_simps)

section \<open>Single procedures\<close>

text \<open>
  SETATTR respects its guard. When the client's guard is not the change time that the object has, the
  answer is \<open>NFS3ERR_NOT_SYNC\<close> or an earlier error, and the attributes are not set.
\<close>

lemma setattr_guard:
  assumes "de_SETATTR3args input = Ok (args, rest)" and "pure_queries (cx_vfs ctx)"
    and "fh_to_id (cx_vfs ctx) (sga_object args) = Ok fid"
    and "vfs_getattr (cx_vfs ctx) fid s = (Ok attr, s)"
    and "sga_guard args = Some c" and "c \<noteq> fa_ctime attr"
  shows "snd (nfsproc3_setattr xid input ctx s) = s"
proof -
  have "nt_seconds c \<noteq> nt_seconds (fa_ctime attr) \<or> nt_nseconds c \<noteq> nt_nseconds (fa_ctime attr)"
    using assms(6) by (metis nfstime3.equality old.unit.exhaust)
  then show ?thesis
    using assms by (auto simp: nfsproc3_setattr_def Let_def split: prod.splits sum.splits
        dest: pure_dests)
qed

lemma setattr_guard_witness:
  "snd (nfsproc3_setattr 7 (bytes_of (ser_SETATTR3args
      (ex_setattr_args (Some 0) (Some \<lparr>nt_seconds = 4, nt_nseconds = 0\<rparr>))))
    (ex_ctx ReadWrite 0x3F) [5, 6]) = [5, 6]"
  by (rule setattr_guard [OF ex_setattr_input, where fid = 2 and attr = "ex_attr NF3REG 2 2"
        and c = "\<lparr>nt_seconds = 4, nt_nseconds = 0\<rparr>"])
    (use ex_other_time in \<open>simp_all add: ex_simps ex_pure ex_setattr_args_def ex_attr_def\<close>)

text \<open>
  C37: SETATTR asks for the MODIFY right only to change the size. A request that leaves the size alone,
  carries no guard and names an existing object is passed to the file system even when the
  client is granted no right at all.
\<close>

theorem setattr_without_size_unchecked:
  assumes "can_write ctx" and "de_SETATTR3args input = Ok (args, rest)"
    and "fh_to_id (cx_vfs ctx) (sga_object args) = Ok fid"
    and "vfs_getattr (cx_vfs ctx) fid s = (Ok attr, s)"
    and "sga_guard args = None" and "sa_size (sga_new_attribute args) = None"
  shows "snd (nfsproc3_setattr xid input ctx s) =
    snd (vfs_setattr (cx_vfs ctx) fid (sga_new_attribute args) s)"
  using assms by (auto simp: nfsproc3_setattr_def Let_def split: prod.splits sum.splits)

lemma setattr_without_size_unchecked_witness:
  "snd (nfsproc3_setattr 7 (bytes_of (ser_SETATTR3args (ex_setattr_args None None))) (ex_ctx ReadWrite 0) [5])
    = snd (vfs_setattr (ex_vfs ReadWrite 0) 2 (ex_sattr None) [5])"
  using setattr_without_size_unchecked [OF _ ex_setattr_input, of "ex_ctx ReadWrite 0" None None 2 "[5]"]
  by (simp add: can_write_def ex_simps ex_setattr_args_def ex_sattr_def)

text \<open>
  WRITE checks its arguments before it touches anything. When the count is not the number of data bytes,
  the answer is \<open>GARBAGE_ARGS\<close>, and the file system is not even asked for attributes.
\<close>

lemma write_length_checked:
  assumes "can_write ctx" and "de_WRITE3args input = Ok (args, rest)"
    and "length (wra_data args) \<noteq> unat (wra_count args)"
  shows "\<exists>out. nfsproc3_write xid input ctx s = (Ok out, s) \<and>
    de_rpc_msg out = Ok (garbage_args_reply_message xid, [])"
proof -
  have ok: "ok_rpc_msg (garbage_args_reply_message xid)"
    by (simp add: garbage_args_reply_message_def ok_rpc_msg_def ok_rpc_body_def ok_reply_body_def
        ok_accepted_reply_def ok_opaque_auth_def opaque_auth_default_def ok_opaque_def)
  then obtain out where "ser_rpc_msg (garbage_args_reply_message xid) = Ok out"
    using rpc_msg.ser_ok by blast
  then show ?thesis
    using assms rpc_msg.dec_enc [OF ok, of out "[]"] by (simp add: nfsproc3_write_def)
qed

lemma write_length_checked_witness:
  "\<exists>out. nfsproc3_write 7 (bytes_of (ser_WRITE3args (ex_write_args 3))) (ex_ctx ReadWrite 0x3F) [5] = (Ok out, [5]) \<and>
    de_rpc_msg out = Ok (garbage_args_reply_message 7, [])"
  by (rule write_length_checked [OF _ ex_write_input]) (simp_all add: can_write_def ex_simps ex_write_args_def)



text \<open>
  Guarded CREATE does not replace a file. When the name exists in the directory, a CREATE in mode GUARDED
  leaves the file system as it is.
\<close>

lemma create_guarded:
  assumes "pure_queries (cx_vfs ctx)"
    and "de_diropargs3 input = Ok (dirops, r)" and "de_createmode3 r = Ok (GUARDED, r')"
    and "fh_to_id (cx_vfs ctx) (da_dir dirops) = Ok dirid"
    and "vfs_lookup (cx_vfs ctx) dirid (da_name dirops) s = (Ok fid, s)"
    and "nfsproc3_create xid input ctx s = (w, s')"
  shows "s' = s"
proof -
  have how: "\<exists>a. how = CreateGuarded a" if "read_create_how GUARDED i = Ok (how, i')" for i how i'
    using that by (auto simp: read_create_how_def de_Ok)
  show ?thesis
    using assms(2-6)
    by (auto simp: nfsproc3_create_def split: if_splits sum.splits prod.splits
        create_how.splits dest!: how pure_getattr [OF assms(1)] pure_getattr_ok [OF assms(1)]
        pure_require_access [OF assms(1)])
qed

lemma create_guarded_witness:
  "snd (nfsproc3_create 7 (bytes_of (ser_diropargs3 \<lparr>da_dir = ex_fh 1, da_name = [97]\<rparr>) @
      bytes_of (ser_createmode3 GUARDED) @ bytes_of (ser_sattr3 (ex_sattr None)))
    (ex_ctx ReadWrite 0x3F) [5, 6]) = [5, 6]"
proof -
  have "ok_diropargs3 \<lparr>da_dir = ex_fh 1, da_name = [97]\<rparr>"
    by (simp add: ok_diropargs3_def ok_ex_fh ok_opaque_def MAX_XDR_OPAQUE_LENGTH_eq)
  then show ?thesis
    by (rule create_guarded [OF _ decode_bytes_of(1) [OF codec_diropargs3]
          decode_bytes_of(1) [OF codec_createmode3 TrueI] _ _ surjective_pairing, where fid = 2, rotated])
      (simp_all add: ex_simps ex_pure)
qed

definition de_lookup_result :: "nfs_fh3 de" where
  "de_lookup_result = de_bind de_nfs_fh3 (\<lambda>fh. de_bind (de_option de_fattr3) (\<lambda>_.
    de_bind (de_option de_fattr3) (\<lambda>_. de_return fh)))"

text \<open>
  LOOKUP returns a handle of the object that was found. When the client may search the directory and the
  file system finds the name, the reply carries a handle from which this server
  recovers the file id that the file system found.
\<close>

lemma lookup_handle:
  assumes "pure_queries (cx_vfs ctx)" and "de_diropargs3 input = Ok (dirops, rest)"
    and "fh_to_id (cx_vfs ctx) (da_dir dirops) = Ok dirid"
    and "require_access ctx dirid ACCESS3_LOOKUP s = (Ok (), s)"
    and "vfs_lookup (cx_vfs ctx) dirid (da_name dirops) s = (Ok fid, s)"
  shows "\<exists>out fh. nfsproc3_lookup xid input ctx s = (Ok out, s) \<and>
    client_result de_lookup_result out = Some (NFS3_OK, fh) \<and> fh_to_id (cx_vfs ctx) fh = Ok fid"
proof -
  obtain a b where ab: "getattr_ok (cx_vfs ctx) dirid s = (a, s)"
      "getattr_ok (cx_vfs ctx) fid s = (b, s)"
    using getattr_ok_pure [OF assms(1)] by metis
  let ?fh = "id_to_fh (cx_vfs ctx) fid"
  obtain x where x: "ser_nfs_fh3 ?fh = Ok x" "\<And>r. de_nfs_fh3 (x @ r) = Ok (?fh, r)"
    using nfs_fh3.enc [OF ok_id_to_fh] by blast
  obtain y where y: "ser_post_op_attr b = Ok y" "\<And>r. de_option de_fattr3 (y @ r) = Ok (b, r)"
    using xdr_codec.enc [OF codec_opt_fattr3 TrueI] by (metis ser_post_op_attr_def)
  obtain z where z: "ser_post_op_attr a = Ok z" "\<And>r. de_option de_fattr3 (z @ r) = Ok (a, r)"
    using xdr_codec.enc [OF codec_opt_fattr3 TrueI] by (metis ser_post_op_attr_def)
  obtain out where out: "nfs_reply xid NFS3_OK [ser_nfs_fh3 ?fh, ser_post_op_attr b,
      ser_post_op_attr a] = Ok out"
    using nfs_reply_total [of "[ser_nfs_fh3 ?fh, ser_post_op_attr b, ser_post_op_attr a]"]
      x(1) y(1) z(1) by auto
  have "client_result de_lookup_result out = Some (NFS3_OK, ?fh)"
    by (rule nfs_reply_result [OF out, where r = "[]"])
      (use x y z z(2) [of "[]"] in \<open>auto simp: de_lookup_result_def de_bind_def de_return_def\<close>)
  moreover have "fh_to_id (cx_vfs ctx) ?fh = Ok fid" by (simp add: fh_to_id_eq_Ok)
  ultimately show ?thesis
    using assms(2-5) ab out by (auto simp: nfsproc3_lookup_def)
qed

lemma lookup_handle_witness:
  "\<exists>out fh. nfsproc3_lookup 7 (bytes_of (ser_diropargs3 \<lparr>da_dir = ex_fh 1, da_name = [97]\<rparr>))
      (ex_ctx ReadWrite 0x3F) [5] = (Ok out, [5]) \<and>
    client_result de_lookup_result out = Some (NFS3_OK, fh) \<and> fh_to_id (ex_vfs ReadWrite 0x3F) fh = Ok 2"
proof -
  have "ok_diropargs3 \<lparr>da_dir = ex_fh 1, da_name = [97]\<rparr>"
    by (simp add: ok_diropargs3_def ok_ex_fh ok_opaque_def MAX_XDR_OPAQUE_LENGTH_eq)
  from lookup_handle [OF _ decode_bytes_of(2) [OF codec_diropargs3 this], of "ex_ctx ReadWrite 0x3F" 1 "[5]" 2 7]
  show ?thesis by (simp add: ex_simps ex_pure ACCESS3_LOOKUP_def)
qed



section \<open>Listing a directory\<close>

text \<open>
  A directory whose listing is \<open>l\<close>, read by index: a window of the listing and whether it reaches
  the end, or \<open>NFS3ERR_BAD_COOKIE\<close> for an index beyond the end.
\<close>

definition lists_index :: "'s vfs \<Rightarrow> 's \<Rightarrow> fileid3 \<Rightarrow> DirEntry list \<Rightarrow> bool" where
  "lists_index v s dirid l \<longleftrightarrow> (\<forall>i n. 0 < n \<longrightarrow> i + n \<le> usize_max \<longrightarrow>
    vfs_readdir_index v dirid i n s =
      (if i > length l then (Err NFS3ERR_BAD_COOKIE, s)
       else (Ok \<lparr>rd_entries = take n (drop i l), rd_end = (length l \<le> i + n)\<rparr>, s)))"

lemma lists_index_default:
  "lists_dir v s dirid l \<Longrightarrow> vfs_readdir_index v = default_readdir_index v \<Longrightarrow>
    lists_index v s dirid l"
  by (simp add: lists_index_def default_readdir_index_window)

lemma estimated_max_results_pos: "0 < estimated_max_results n"
proof -
  have "1 \<le> max 1 (n div 16)" by simp
  then have "unat (1 :: u32) \<le> unat (max 1 (n div 16))" by (simp only: word_le_nat_alt)
  then show ?thesis by (simp add: estimated_max_results_def)
qed

lemma estimated_max_results_less: "estimated_max_results n < 2 ^ 32"
  by (simp add: estimated_max_results_def unat32_less)

text \<open>The entries of a listing as READDIR reports them.\<close>

definition readdir_entries :: "DirEntry list \<Rightarrow> usize \<Rightarrow> entry3 list" where
  "readdir_entries l i =
    with_cookies (\<lambda>e c. \<lparr>en_fileid = de_fileid e, en_name = de_name e, en_cookie = c\<rparr>) l i"

lemma readdir_entries_simple:
  "with_cookies readdir_client_entry
    (map (\<lambda>e. \<lparr>des_fileid = de_fileid e, des_name = de_name e\<rparr>) l) i = readdir_entries l i"
  by (induction l arbitrary: i) (auto simp: readdir_entries_def readdir_client_entry_def)

lemma listing_attributes_only:
  assumes "nfs_reply xid stat [ser_post_op_attr a] = Ok out"
  shows "client_listing de_entry3 out = (if stat = NFS3_OK then None else Some (stat, [], False))"
proof -
  obtain i i' where i: "de_rpc_msg out = Ok (make_success_reply xid, i)"
      "de_nfsstat3 i = Ok (stat, i')" "ser_option ser_fattr3 a = Ok i'"
    using nfs_reply_Ok [OF assms] by (auto simp: ser_post_op_attr_def)
  have "de_option de_fattr3 i' = Ok (a, [])"
    using xdr_codec.dec_enc [OF codec_opt_fattr3 TrueI i(3), of "[]"] by simp
  then show ?thesis using i
    by (simp add: client_listing_def de_bind_def de_opaque_fixed_def read_exact_def)
qed

lemma dir_version_length: "length (dir_version a) = 8"
  by (simp add: dir_version_def split: option.split)

lemma set_take_drop: "x \<in> set (take k (take n (drop i l))) \<Longrightarrow> x \<in> set l"
  by (meson in_set_dropD in_set_takeD)

text \<open>The arithmetic of a page: where it ends and whether that is the end of the listing.\<close>

lemma page_end:
  assumes "i \<le> length l" "k \<le> length (take n (drop i l))" "0 < n"
  shows "(k = length (take n (drop i l)) \<and> length l \<le> i + n) \<longleftrightarrow> i + k = length l"
    and "take k (take n (drop i l)) = take k (drop i l)"
  using assms by (auto simp: min_def split: if_splits)

text \<open>READDIR that answers with a listing has read the piece of the directory at the cookie.\<close>

lemma readdir_listing_reply:
  assumes "lists_index (cx_vfs ctx) s dirid l" and "pure_queries (cx_vfs ctx)"
    and "de_READDIR3args input = Ok (args, rest)"
    and "fh_to_id (cx_vfs ctx) (rra_dir args) = Ok dirid"
    and "i = unat (rra_cookie args)" "i + 2 ^ 32 \<le> usize_max" "n = estimated_max_results (rra_dircount args)"
    and "nfsproc3_readdir xid input ctx s = (Ok out, s')"
    and "client_listing de_entry3 out = Some (NFS3_OK, es, eof)"
  shows "i \<le> length l \<and> s' = s \<and> (\<exists>da. listing_reply xid da (dir_version da) readdir_entry des_name
      (\<lambda>output_bytes dircount. output_bytes < unat (rra_dircount args) - 128)
      (map (\<lambda>e. \<lparr>des_fileid = de_fileid e, des_name = de_name e\<rparr>) (take n (drop i l)))
      (length l \<le> i + n) i = Ok out)"
proof -
  have small: "i + n \<le> usize_max"
    using assms(6,7) estimated_max_results_less [of "rra_dircount args"] by simp
  have idx: "vfs_readdir_index (cx_vfs ctx) dirid i n s =
      (if i > length l then (Err NFS3ERR_BAD_COOKIE, s)
       else (Ok \<lparr>rd_entries = take n (drop i l), rd_end = (length l \<le> i + n)\<rparr>, s))"
    using assms(1,7) small estimated_max_results_pos by (simp add: lists_index_def)
  show ?thesis
    using assms(3,4,8,9) idx unfolding assms(5,7)
    by (auto simp: nfsproc3_readdir_def Let_def readdir_simple_index_def saturating_sub_def
        from_readdir_result_def listing_attributes_only
        split: if_splits sum.splits prod.splits
        dest!: pure_getattr_ok [OF assms(2)] pure_require_access [OF assms(2)])
qed

lemma readdir_reply_page:
  assumes "lists_index (cx_vfs ctx) s dirid l" and "pure_queries (cx_vfs ctx)"
    and "\<forall>e \<in> set l. ok_opaque (de_name e)"
    and "de_READDIR3args input = Ok (args, rest)"
    and "fh_to_id (cx_vfs ctx) (rra_dir args) = Ok dirid"
    and "unat (rra_cookie args) + 2 ^ 32 \<le> usize_max"
    and "nfsproc3_readdir xid input ctx s = (Ok out, s')"
    and "client_listing de_entry3 out = Some (NFS3_OK, es, eof)"
  shows "s' = s \<and> (\<exists>k. unat (rra_cookie args) + k \<le> length l \<and>
    es = readdir_entries (take k (drop (unat (rra_cookie args)) l)) (unat (rra_cookie args)) \<and>
    eof = (unat (rra_cookie args) + k = length l) \<and>
    (k = 0 \<longrightarrow> unat (rra_cookie args) = length l) \<and>
    (k \<noteq> 0 \<longrightarrow> length out < unat (rra_dircount args)))"
proof -
  let ?i = "unat (rra_cookie args)"
  let ?n = "estimated_max_results (rra_dircount args)"
  let ?m = "unat (rra_dircount args) - 128"
  let ?simple = "map (\<lambda>e. \<lparr>des_fileid = de_fileid e, des_name = de_name e\<rparr>)"
  obtain da where i: "?i \<le> length l" and s': "s' = s"
    and reply: "listing_reply xid da (dir_version da) readdir_entry des_name
      (\<lambda>output_bytes dircount. output_bytes < ?m) (?simple (take ?n (drop ?i l)))
      (length l \<le> ?i + ?n) ?i = Ok out"
    using readdir_listing_reply [OF assms(1,2,4,5) refl assms(6) refl assms(7,8)] by blast
  have "nfs_reply xid NFS3ERR_TOOSMALL [ser_post_op_attr da] \<noteq> Ok out"
    using assms(8) by (auto simp: listing_attributes_only)
  then obtain k where k: "k \<le> length (take ?n (drop ?i l))"
      "k = 0 \<longrightarrow> take ?n (drop ?i l) = []" "k \<noteq> 0 \<longrightarrow> 0 < ?m \<and> length out < ?m + 8"
      "listing_page xid da (dir_version da) readdir_entry (take k (?simple (take ?n (drop ?i l)))) ?i
        (k = length (take ?n (drop ?i l)) \<and> length l \<le> ?i + ?n) = Ok out"
    using listing_reply_Ok [OF reply, of ?m] by auto
  have enc: "readdir_entry = (\<lambda>e c. ser_entry3 (readdir_client_entry e c))"
    by (intro ext) (simp add: readdir_entry_def readdir_client_entry_def)
  have page: "listing_page xid da (dir_version da) (\<lambda>e c. ser_entry3 (readdir_client_entry e c))
      (?simple (take k (drop ?i l))) ?i (?i + k = length l) = Ok out"
    using k(4) page_end [OF i k(1) estimated_max_results_pos] by (simp add: enc take_map)
  have "client_listing de_entry3 out = Some (NFS3_OK,
      with_cookies readdir_client_entry (?simple (take k (drop ?i l))) ?i, ?i + k = length l)"
    by (rule client_listing_page [OF codec_entry3 page dir_version_length])
      (use assms(3) in \<open>auto simp: readdir_client_entry_def ok_entry3_def
        dest: in_set_takeD in_set_dropD\<close>)
  then have es: "es = readdir_entries (take k (drop ?i l)) ?i" "eof = (?i + k = length l)"
    using assms(8) by (simp_all add: readdir_entries_simple)
  have "k \<le> length l - ?i" using k(1) by simp
  then have "?i + k \<le> length l" using i by linarith
  moreover have "?i = length l" if "k = 0"
    using k(2) that i estimated_max_results_pos [of "rra_dircount args"] by auto
  moreover have "length out < unat (rra_dircount args)" if "k \<noteq> 0" using k(3) that by linarith
  ultimately show ?thesis using s' es by blast
qed

text \<open>
  A client that lists a directory: it asks for a page at cookie 0, then at the cookie of the last entry
  that it got, until a page says eof. \<open>ask\<close> is the server's answer to a cookie, and the first
  argument bounds the number of requests.
\<close>

primrec list_directory :: "nat \<Rightarrow> (cookie3 \<Rightarrow> bytes option) \<Rightarrow> cookie3 \<Rightarrow> entry3 list option" where
  "list_directory 0 ask cookie = None"
| "list_directory (Suc n) ask cookie =
    (case ask cookie of
      None \<Rightarrow> None
    | Some out \<Rightarrow>
      (case client_listing de_entry3 out of
        None \<Rightarrow> None
      | Some (stat, es, eof) \<Rightarrow>
          if stat \<noteq> NFS3_OK then None
          else if eof then Some es
          else if es = [] then None
          else map_option (append es) (list_directory n ask (en_cookie (last es)))))"

text \<open>The answer of this server to the READDIR of a directory, with no cookie verifier.\<close>

definition readdir_ask :: "'s rpc_context \<Rightarrow> 's \<Rightarrow> nfs_fh3 \<Rightarrow> count3 \<Rightarrow> cookie3 \<Rightarrow> bytes option" where
  "readdir_ask ctx s dir dircount cookie =
    (case ser_READDIR3args \<lparr>rra_dir = dir, rra_cookie = cookie, rra_cookieverf = replicate 8 0,
        rra_dircount = dircount\<rparr> of
      Err _ \<Rightarrow> None
    | Ok input \<Rightarrow> ok_of (fst (nfsproc3_readdir 1 input ctx s)))"

lemma readdir_entries_append:
  "i + length xs + length ys \<le> usize_max \<Longrightarrow>
    readdir_entries (xs @ ys) i = readdir_entries xs i @ readdir_entries ys (i + length xs)"
  by (induction xs arbitrary: i) (auto simp: readdir_entries_def saturating_add_def)

lemma last_with_cookies:
  "xs \<noteq> [] \<Longrightarrow> i + length xs \<le> usize_max \<Longrightarrow>
    last (with_cookies f xs i) = f (last xs) (of_nat (i + length xs))"
proof (induction xs arbitrary: i)
  case (Cons x xs)
  have step: "saturating_add i 1 = i + 1" using Cons.prems by (simp add: saturating_add_def)
  show ?case
  proof (cases xs)
    case Nil
    then show ?thesis using step by simp
  next
    case ys: (Cons y ys)
    then have "with_cookies f xs (i + 1) \<noteq> []" "xs \<noteq> []" by auto
    then show ?thesis using Cons.IH [of "i + 1"] Cons.prems step by (simp add: add.assoc)
  qed
qed simp

lemma readdir_entries_last:
  "xs \<noteq> [] \<Longrightarrow> i + length xs \<le> usize_max \<Longrightarrow>
    en_cookie (last (readdir_entries xs i)) = of_nat (i + length xs)"
  by (simp add: readdir_entries_def last_with_cookies del: of_nat_add)

lemma usize_max_eq: "usize_max = 2 ^ 64 - 1"
  by (simp add: usize_max_def)

lemma list_directory_complete:
  assumes pages: "\<And>i. i \<le> length l \<Longrightarrow> \<exists>out k. ask (of_nat i) = Some out \<and> i + k \<le> length l \<and>
      client_listing de_entry3 out =
        Some (NFS3_OK, readdir_entries (take k (drop i l)) i, i + k = length l) \<and>
      (k = 0 \<longrightarrow> i = length l)"
    and small: "length l \<le> usize_max" and i: "i \<le> length l" "length l - i < n"
  shows "list_directory n ask (of_nat i) = Some (readdir_entries (drop i l) i)"
  using i
proof (induction n arbitrary: i)
  case (Suc n)
  obtain out k where p: "ask (of_nat i) = Some out" "i + k \<le> length l"
      "client_listing de_entry3 out =
        Some (NFS3_OK, readdir_entries (take k (drop i l)) i, i + k = length l)"
      "k = 0 \<longrightarrow> i = length l"
    using pages [OF Suc.prems(1)] by blast
  show ?case
  proof (cases "i + k = length l")
    case True
    then have "take k (drop i l) = drop i l" by simp
    then show ?thesis using p True by simp
  next
    case False
    with p have k: "0 < k" "i + k < length l" by auto
    let ?es = "readdir_entries (take k (drop i l)) i"
    have len: "length (take k (drop i l)) = k" using k by simp
    then have ne: "take k (drop i l) \<noteq> []" using k by auto
    have "length ?es = k" using len by (simp add: readdir_entries_def)
    then have "?es \<noteq> []" using k by auto
    have "en_cookie (last ?es) = of_nat (i + k)"
      using readdir_entries_last [OF ne, of i] len small k by simp
    moreover have "list_directory n ask (of_nat (i + k)) = Some (readdir_entries (drop (i + k) l) (i + k))"
      using Suc.IH [of "i + k"] Suc.prems k by simp
    moreover have "readdir_entries (drop i l) i = ?es @ readdir_entries (drop (i + k) l) (i + k)"
    proof -
      have "drop i l = take k (drop i l) @ drop (i + k) l"
        by (metis append_take_drop_id drop_drop add.commute)
      moreover have "i + length (take k (drop i l)) + length (drop (i + k) l) \<le> usize_max"
        using small k len by simp
      ultimately show ?thesis using readdir_entries_append len by metis
    qed
    ultimately show ?thesis using p False \<open>?es \<noteq> []\<close> by simp
  qed
qed simp

lemma list_pages:
  assumes "lists_index (cx_vfs ctx) s dirid l" and "pure_queries (cx_vfs ctx)"
    and "\<forall>e \<in> set l. ok_opaque (de_name e)" and "length l + 2 ^ 32 \<le> usize_max"
    and "ok_nfs_fh3 dir" and "fh_to_id (cx_vfs ctx) dir = Ok dirid"
    and answered: "\<And>c. unat c \<le> length l \<Longrightarrow> \<exists>out es eof. readdir_ask ctx s dir n c = Some out \<and>
      client_listing de_entry3 out = Some (NFS3_OK, es, eof)"
    and i: "i \<le> length l"
  shows "\<exists>out k. readdir_ask ctx s dir n (of_nat i) = Some out \<and> i + k \<le> length l \<and>
      client_listing de_entry3 out =
        Some (NFS3_OK, readdir_entries (take k (drop i l)) i, i + k = length l) \<and>
      (k = 0 \<longrightarrow> i = length l)"
proof -
  let ?c = "of_nat i :: cookie3"
  let ?args = "\<lparr>rra_dir = dir, rra_cookie = ?c, rra_cookieverf = replicate 8 0, rra_dircount = n\<rparr>"
  have c: "unat ?c = i"
    using i assms(4) by (simp add: unat_of_nat take_bit_nat_eq_self usize_max_eq)
  obtain out es eof where o: "readdir_ask ctx s dir n ?c = Some out"
      "client_listing de_entry3 out = Some (NFS3_OK, es, eof)"
    using answered [of ?c] c i by auto
  have ok: "ok_READDIR3args ?args" using assms(5) by (simp add: ok_READDIR3args_def)
  obtain input where input: "ser_READDIR3args ?args = Ok input"
      "\<forall>r. de_READDIR3args (input @ r) = Ok (?args, r)"
    using xdr_codec.enc [OF codec_READDIR3args ok] by blast
  then have de: "de_READDIR3args input = Ok (?args, [])" by (metis append_Nil2)
  obtain s' where run: "nfsproc3_readdir 1 input ctx s = (Ok out, s')"
    using o(1) input(1) by (cases "nfsproc3_readdir 1 input ctx s")
      (auto simp: readdir_ask_def ok_of_def split: sum.splits)
  show ?thesis
    using readdir_reply_page [OF assms(1-3) de _ _ run o(2)] assms(4,6) o c i by auto
qed

text \<open>The sizes of a reply and of its entries.\<close>

lemma fattr3_length: "ser_fattr3 a = Ok b \<Longrightarrow> length b = 84"
  by (auto simp: ser_fattr3_def ser_ftype3_def ser_enum_def ser_i32_def ser_u32_def ser_u64_def
      ser_specdata3_def ser_nfstime3_def)

lemma readdir_header:
  assumes "length dv = 8"
  shows "\<exists>h. nfs_reply xid NFS3_OK [ser_post_op_attr da, ser_opaque_fixed dv] = Ok h \<and> length h \<le> 124"
proof -
  obtain y where y: "ser_post_op_attr da = Ok y"
    using xdr_codec.enc [OF codec_opt_fattr3 TrueI] by (metis ser_post_op_attr_def)
  then have "length y \<le> 88"
    by (cases da) (auto simp: ser_post_op_attr_def ser_option_def ser_then_Ok ser_bool_def
        ser_i32_def dest: fattr3_length)
  then show ?thesis
    using y assms by (simp add: nfs_reply_def ser_rpc_msg_def make_success_reply_def ser_rpc_body_def
        ser_reply_body_def ser_accepted_reply_def ser_accept_body_def ser_opaque_auth_def
        ser_nfsstat3_def ser_enum_def ser_i32_def ser_u32_def opaque_auth_default_def
        ser_opaque_def ser_opaque_fixed_def write_padding_eq ser_usize_as_u32_def
        padding_len_def ALIGNMENT_def ser_auth_flavor_def)
qed

lemma entry3_length:
  "ok_opaque (en_name e) \<Longrightarrow> \<exists>b. ser_entry3 e = Ok b \<and> length b < length (en_name e) + 24"
  using padding_len_less [of "length (en_name e)"]
  by (simp add: ser_entry3_def ser_u64_def ser_nfsstring_def ser_opaque_def write_padding_eq
      ser_usize_as_u32_def ser_u32_def ok_opaque_def MAX_XDR_OPAQUE_LENGTH_eq)

text \<open>A READDIR whose limit admits every single entry is answered with a page.\<close>

lemma readdir_answered:
  assumes "lists_index (cx_vfs ctx) s dirid l" and "pure_queries (cx_vfs ctx)"
    and "\<forall>e \<in> set l. ok_opaque (de_name e) \<and> length (de_name e) + 300 \<le> unat n"
    and "length l + 2 ^ 32 \<le> usize_max"
    and "ok_nfs_fh3 dir" and "fh_to_id (cx_vfs ctx) dir = Ok dirid"
    and "require_access ctx dirid ACCESS3_READ s = (Ok (), s)" and c: "unat c \<le> length l"
  shows "\<exists>out es eof. readdir_ask ctx s dir n c = Some out \<and>
      client_listing de_entry3 out = Some (NFS3_OK, es, eof)"
proof -
  let ?args = "\<lparr>rra_dir = dir, rra_cookie = c, rra_cookieverf = replicate 8 0, rra_dircount = n\<rparr>"
  have ok: "ok_READDIR3args ?args" using assms(5) by (simp add: ok_READDIR3args_def)
  obtain input where input: "ser_READDIR3args ?args = Ok input"
      "\<forall>r. de_READDIR3args (input @ r) = Ok (?args, r)"
    using xdr_codec.enc [OF codec_READDIR3args ok] by blast
  then have de: "de_READDIR3args input = Ok (?args, [])" by (metis append_Nil2)
  obtain da where da: "getattr_ok (cx_vfs ctx) dirid s = (da, s)"
    using getattr_ok_pure [OF assms(2)] by blast
  let ?n = "estimated_max_results n"
  let ?es = "map (\<lambda>e. \<lparr>des_fileid = de_fileid e, des_name = de_name e\<rparr>) (take ?n (drop (unat c) l))"
  have small: "unat c + ?n \<le> usize_max"
    using assms(4) c estimated_max_results_less [of n] by simp
  have enc: "readdir_entry = (\<lambda>e c. ser_entry3 (readdir_client_entry e c))"
    by (intro ext) (simp add: readdir_entry_def readdir_client_entry_def)
  have names: "ok_opaque (des_name e) \<and> length (des_name e) + 300 \<le> unat n" if "e \<in> set ?es" for e
    using that assms(3) by (auto simp del: take_map dest!: in_set_takeD in_set_dropD)
  obtain h where h: "nfs_reply 1 NFS3_OK [ser_post_op_attr da, ser_opaque_fixed (dir_version da)] = Ok h"
      "length h \<le> 124"
    using readdir_header [OF dir_version_length] by blast
  have fits: "\<exists>b. readdir_entry e cookie = Ok b \<and> length h + 4 + length b < unat n - 128"
    if "e \<in> set ?es" for e cookie
    using entry3_length [of "readdir_client_entry e cookie"] names [OF that] h(2)
    by (fastforce simp: enc readdir_client_entry_def)
  obtain out k where out: "listing_reply 1 da (dir_version da) readdir_entry des_name
        (\<lambda>b d. b < unat n - 128) ?es (length l \<le> unat c + ?n) (unat c) = Ok out"
      "listing_page 1 da (dir_version da) readdir_entry (take k ?es) (unat c)
        (k = length ?es \<and> length l \<le> unat c + ?n) = Ok out"
    using listing_reply_fits [OF h(1), of ?es readdir_entry] fits by blast
  have "vfs_readdir_index (cx_vfs ctx) dirid (unat c) ?n s =
      (Ok \<lparr>rd_entries = take ?n (drop (unat c) l), rd_end = (length l \<le> unat c + ?n)\<rparr>, s)"
    using assms(1) small c estimated_max_results_pos by (simp add: lists_index_def)
  then have "readdir_ask ctx s dir n c = Some out"
    using input(1) de assms(6,7) da out(1)
    by (simp add: readdir_ask_def nfsproc3_readdir_def readdir_simple_index_def Let_def
        from_readdir_result_def saturating_sub_def ok_of_def)
  moreover have "\<exists>es eof. client_listing de_entry3 out = Some (NFS3_OK, es, eof)"
    using client_listing_page [OF codec_entry3 out(2)[unfolded enc] dir_version_length] names
    by (fastforce simp: readdir_client_entry_def ok_entry3_def dest: in_set_takeD)
  ultimately show ?thesis by blast
qed

lemma ex_lists: "lists_index (cx_vfs (ex_ctx caps granted)) s 1 [ex_entry s]"
  by (simp add: lists_index_def ex_simps)

lemma ex_lists_hyps:
  "pure_queries (cx_vfs (ex_ctx ReadWrite 0x3F))"
  "\<forall>e \<in> set [ex_entry s]. ok_opaque (de_name e) \<and> length (de_name e) + 300 \<le> unat (1000 :: count3)"
  "length [ex_entry s] + 2 ^ 32 \<le> usize_max" "ok_nfs_fh3 (ex_fh 1)"
  "fh_to_id (cx_vfs (ex_ctx ReadWrite 0x3F)) (ex_fh 1) = Ok 1"
  "require_access (ex_ctx ReadWrite 0x3F) 1 ACCESS3_READ s = (Ok (), s)"
  by (simp_all add: ex_simps ex_pure ok_ex_fh ACCESS3_READ_def usize_max_eq ex_entry_def
      ok_opaque_def MAX_XDR_OPAQUE_LENGTH_eq)

text \<open>
  C15: A page of READDIR is a piece of the directory. Of a directory whose listing is \<open>l\<close>, a successful reply to a
  READDIR that starts at cookie \<open>i\<close> holds the entries from index \<open>i\<close> on, in order, without
  gaps, numbered \<open>i + 1\<close>, \<open>i + 2\<close> and so on; it says eof just when it reaches the end
  of the listing, it is empty only there, and a page with entries is smaller than the client's limit.
\<close>

theorem readdir_page:
  assumes "lists_index (cx_vfs ctx) s dirid l" and "pure_queries (cx_vfs ctx)"
    and "\<forall>e \<in> set l. ok_opaque (de_name e)"
    and "de_READDIR3args input = Ok (args, rest)"
    and "fh_to_id (cx_vfs ctx) (rra_dir args) = Ok dirid"
    and "unat (rra_cookie args) + 2 ^ 32 \<le> usize_max"
    and "nfsproc3_readdir xid input ctx s = (Ok out, s')"
    and "client_listing de_entry3 out = Some (NFS3_OK, es, eof)"
  shows "s' = s \<and> (\<exists>k. unat (rra_cookie args) + k \<le> length l \<and>
    es = readdir_entries (take k (drop (unat (rra_cookie args)) l)) (unat (rra_cookie args)) \<and>
    eof = (unat (rra_cookie args) + k = length l) \<and>
    (k = 0 \<longrightarrow> unat (rra_cookie args) = length l) \<and>
    (k \<noteq> 0 \<longrightarrow> length out < unat (rra_dircount args)))"
  by (rule readdir_reply_page [OF assms])

lemma readdir_page_witness:
  "\<exists>out es eof. readdir_ask (ex_ctx ReadWrite 0x3F) [5] (ex_fh 1) 1000 0 = Some out \<and>
    client_listing de_entry3 out = Some (NFS3_OK, es, eof) \<and> eof \<and> map en_fileid es = [2]"
proof -
  let ?ctx = "ex_ctx ReadWrite 0x3F" and ?l = "[ex_entry [5]]"
  let ?args = "\<lparr>rra_dir = ex_fh 1, rra_cookie = 0, rra_cookieverf = replicate 8 0, rra_dircount = 1000\<rparr>"
  obtain out es eof where o: "readdir_ask ?ctx [5] (ex_fh 1) 1000 0 = Some out"
      "client_listing de_entry3 out = Some (NFS3_OK, es, eof)"
    using readdir_answered [OF ex_lists ex_lists_hyps, of 0 "[5]"] by auto
  have ok: "ok_READDIR3args ?args" by (simp add: ok_READDIR3args_def ok_ex_fh)
  note input = decode_bytes_of(2) [OF codec_READDIR3args ok]
  obtain s' where run: "nfsproc3_readdir 1 (bytes_of (ser_READDIR3args ?args)) ?ctx [5] = (Ok out, s')"
    using o(1) by (cases "nfsproc3_readdir 1 (bytes_of (ser_READDIR3args ?args)) ?ctx [5]")
      (auto simp: readdir_ask_def ok_of_def bytes_of_def split: sum.splits)
  have "\<forall>e \<in> set ?l. ok_opaque (de_name e)" using ex_lists_hyps(2) by blast
  from readdir_page [OF ex_lists ex_lists_hyps(1) this input _ _ run o(2)] ex_lists_hyps(5)
  have "\<exists>k. k \<le> 1 \<and> es = readdir_entries (take k ?l) 0 \<and> eof = (k = 1) \<and> k \<noteq> 0"
    by (simp add: usize_max_eq) blast
  then have "eof = True \<and> es = readdir_entries ?l 0" by (auto simp: le_Suc_eq)
  then show ?thesis using o by (auto simp: readdir_entries_def ex_entry_def)
qed

lemma list_directory_names:
  assumes "lists_index (cx_vfs ctx) s dirid l" and "pure_queries (cx_vfs ctx)"
    and "\<forall>e \<in> set l. ok_opaque (de_name e) \<and> length (de_name e) + 300 \<le> unat n"
    and "length l + 2 ^ 32 \<le> usize_max"
    and "ok_nfs_fh3 dir" and "fh_to_id (cx_vfs ctx) dir = Ok dirid"
    and "require_access ctx dirid ACCESS3_READ s = (Ok (), s)"
  shows "\<exists>es. list_directory (length l + 1) (readdir_ask ctx s dir n) 0 = Some es \<and>
    map en_fileid es = map de_fileid l \<and> map en_name es = map de_name l"
proof -
  have names: "\<forall>e \<in> set l. ok_opaque (de_name e)" using assms(3) by blast
  have "list_directory (length l + 1) (readdir_ask ctx s dir n) (of_nat 0) =
      Some (readdir_entries (drop 0 l) 0)"
    by (rule list_directory_complete
        [OF list_pages [OF assms(1,2) names assms(4-6) readdir_answered [OF assms]]])
      (use assms(4) in auto)
  moreover have "map en_fileid (readdir_entries l i) = map de_fileid l"
      "map en_name (readdir_entries l i) = map de_name l" for i
    by (induction l arbitrary: i) (auto simp: readdir_entries_def)
  ultimately show ?thesis by auto
qed

text \<open>
  C14: READDIR pagination is complete. A client that lists a directory page by page, each time from the cookie of the
  last entry that it got, obtains every entry of the directory exactly once and in order,
  with at most one request more than there are entries, provided that its limit leaves 300 bytes
  beside the longest name (a limit that is too small for an entry is answered with an error).
\<close>

theorem readdir_complete:
  assumes "lists_index (cx_vfs ctx) s dirid l" and "pure_queries (cx_vfs ctx)"
    and "\<forall>e \<in> set l. ok_opaque (de_name e) \<and> length (de_name e) + 300 \<le> unat n"
    and "length l + 2 ^ 32 \<le> usize_max"
    and "ok_nfs_fh3 dir" and "fh_to_id (cx_vfs ctx) dir = Ok dirid"
    and "require_access ctx dirid ACCESS3_READ s = (Ok (), s)"
  shows "\<exists>es. list_directory (length l + 1) (readdir_ask ctx s dir n) 0 = Some es \<and>
    map en_fileid es = map de_fileid l \<and> map en_name es = map de_name l"
  by (rule list_directory_names [OF assms])

lemma readdir_complete_witness:
  "\<exists>es. list_directory 2 (readdir_ask (ex_ctx ReadWrite 0x3F) [5] (ex_fh 1) 1000) 0 = Some es \<and>
    map en_name es = [[97]]"
proof -
  have two: "length [ex_entry [5]] + 1 = 2" by simp
  have "\<exists>es. list_directory (length [ex_entry [5]] + 1) (readdir_ask (ex_ctx ReadWrite 0x3F) [5] (ex_fh 1) 1000) 0
      = Some es \<and> map en_fileid es = map de_fileid [ex_entry [5]] \<and> map en_name es = map de_name [ex_entry [5]]"
    by (rule readdir_complete [OF ex_lists ex_lists_hyps])
  then show ?thesis unfolding two by (auto simp: ex_entry_def)
qed

end
