(* ===== verification/Mirror_Properties.thy ===== *)
theory Mirror_Properties
  imports Example_Mirror Read_Only Nfs3_Properties
begin

text \<open>
  What the mirror file system does, and what the server on top of it does. The theorems on
  the server apply to it through the properties that its operations keep.
\<close>

section \<open>Properties of the state under the server\<close>

lemma mirror_vfs_simps:
  "vfs_generation (mirror_vfs E g) = g" "vfs_capabilities (mirror_vfs E g) = ReadWrite"
  "vfs_limits_of (mirror_vfs E g) = default_limits"
  "vfs_lookup (mirror_vfs E g) d n = settle (mirror_lookup E d n)"
  "vfs_getattr (mirror_vfs E g) i = settle (mirror_getattr E i)"
  "vfs_check_access (mirror_vfs E g) i auth r = settle (mirror_check_access E i auth r)"
  "vfs_read (mirror_vfs E g) i off cnt = settle (mirror_read E i off cnt)"
  "vfs_remove (mirror_vfs E g) d n = settle (mirror_remove E d n)"
  by (simp_all add: mirror_vfs_def Let_def)

lemma mirror_vfs_queries_keep:
  assumes "\<And>d n. preserves I (mirror_lookup E d n)" "\<And>i. preserves I (mirror_getattr E i)"
    and "\<And>i auth r. preserves I (mirror_check_access E i auth r)"
  shows "queries_keep (unless_crashed I) (mirror_vfs E g)"
  using assms by (simp add: queries_keep_def mirror_vfs_simps settle_keeps)

lemma mirror_create_keeps: "preserves mirror_ok (mirror_create_exclusive E d n vf)"
  "preserves mirror_ok (mirror_create E d n a)" "preserves mirror_ok (mirror_mkdir E d n)"
  "preserves mirror_ok (mirror_symlink E d n t a)" "preserves mirror_ok (mirror_commit E i off cnt)"
  by (simp_all add: mirror_create_exclusive_def mirror_create_def mirror_mkdir_def mirror_symlink_def
      mirror_commit_def preserves_rules)

lemma mirror_vfs_keeps_ok: "vfs_keeps (unless_crashed mirror_ok) (mirror_vfs E g)"
proof -
  have q: "queries_keep (unless_crashed mirror_ok) (mirror_vfs E g)"
    by (intro mirror_vfs_queries_keep preserves_queries)
  show ?thesis
    by (simp add: vfs_keeps_def reads_keep_def q)
      (simp add: mirror_vfs_def Let_def settle_keeps preserves_rules mirror_create_keeps
        defaults_keep)
qed

interpretation mirror: vfs_invariant "mirror_vfs E g" "unless_crashed mirror_ok" for E g
  by unfold_locales (rule mirror_vfs_keeps_ok)

lemma new_mirror_ok: "new_mirror H t root h = Some s \<Longrightarrow> mirror_ok s"
  by (auto simp: new_mirror_def mirror_ok_def new_fsmap_ok split: prod.splits sum.splits)


definition ex_mirror_ctx :: "(bytes list, ex_host_state) mirror_state rpc_context" where
  "ex_mirror_ctx = \<lparr>cx_local_port = 2049, cx_client_addr = [49], cx_auth = auth_unix_default,
    cx_vfs = mirror_vfs ex_env 9, cx_mount_signal = False, cx_export_name = [47]\<rparr>"

definition ex_mirror_command :: "(bytes list, ex_host_state) mirror_state command" where
  "ex_mirror_command = \<lparr>cm_data = ex_data 7 (ex_call NFS3_PROGRAM 3 0), cm_ctx = ex_mirror_ctx,
    cm_now = 1, cm_later = 2\<rparr>"


section \<open>Attributes\<close>

text \<open>A refresh that does not delete the entry has seen the file under the name of the entry.\<close>

definition seen ::
    "('t, 'h) environment \<Rightarrow> fileid3 \<Rightarrow> ('t, 'h) mirror \<Rightarrow> FSEntry \<Rightarrow> Metadata \<Rightarrow> bool" where
  "seen E fid s e meta \<longleftrightarrow>
    hm_get (fm_id_to_path (mi_fsmap s)) fid = Some e \<and>
    hm_get (fm_id_to_inode (mi_fsmap s)) fid = Some (from_meta meta) \<and>
    \<not> fattr3_differ (metadata_to_fattr3 fid meta) (fe_fsmeta e) \<and>
    (\<exists>path h. sym_to_path (en_interner E) (mi_fsmap s) (fe_name e) = Some path \<and>
      h_symlink_metadata (en_host E) path h = (Ok meta, mi_host s))"

lemma delete_and_return_Some:
  "delete_and_return E fid s = Some (r, s') \<Longrightarrow> r = Ok Refresh_Delete \<and> mi_host s' = mi_host s"
  by (auto simp: delete_and_return_def fsmap_try_def andthen_def returns_def split: option.splits)

lemma sym_to_path_cong:
  assumes "fm_root m' = fm_root m" "fm_intern m' = fm_intern m"
  shows "sym_to_path N m' p = sym_to_path N m p"
  by (simp only: sym_to_path_def assms)

lemma refresh_meta_seen:
  assumes "refresh_meta E fid entry meta s = Some (Ok res, s')" "res \<noteq> Refresh_Delete"
    and "hm_get (fm_id_to_path (mi_fsmap s)) fid = Some e" "fe_fsmeta e = fe_fsmeta entry"
    and "hm_get (fm_id_to_inode (mi_fsmap s)) fid = Some (from_meta meta)"
    and "sym_to_path (en_interner E) (mi_fsmap s) (fe_name e) = Some path"
    and "h_symlink_metadata (en_host E) path h = (Ok meta, mi_host s)"
  shows "\<exists>e'. seen E fid s' e' meta"
proof (cases "fattr3_differ (metadata_to_fattr3 fid meta) (fe_fsmeta entry)")
  case False
  then have "s' = s" using assms(1) by (simp add: refresh_meta_def Let_def returns_def)
  then show ?thesis using assms False by (auto simp: seen_def)
next
  case True
  let ?e = "e\<lparr>fe_fsmeta := metadata_to_fattr3 fid meta\<rparr>"
  have s': "s' = s\<lparr>mi_fsmap := update_entry fid (\<lambda>e. e\<lparr>fe_fsmeta := metadata_to_fattr3 fid meta\<rparr>) (mi_fsmap s)\<rparr>"
    using assms(1,2,3) True
    by (auto simp: refresh_meta_def Let_def andthen_def fsmap_of_def reads_def unwrap_def returns_def
        fsmap_update_def modifies_def dest: delete_and_return_Some split: if_splits)
  have path: "sym_to_path (en_interner E) (update_entry fid f m) p = sym_to_path (en_interner E) m p" for f p and m :: "'a FSMap"
    by (rule sym_to_path_cong) simp_all
  have "seen E fid s' ?e meta"
    using assms(3,5,6,7) path by (auto simp: seen_def s' update_entry_get fattr3_differ_iff)
  then show ?thesis by blast
qed

lemma host_call_Some:
  "host_call c s = Some (r, s') \<longleftrightarrow> (case c (mi_host s) of (q, h) \<Rightarrow> r = Ok q \<and> s' = s\<lparr>mi_host := h\<rparr>)"
  by (auto simp: host_call_def on_host_def call_host_def split: prod.splits)

lemma symlink_metadata_Ok:
  "symlink_metadata E path s = Some (Ok meta, s') \<longleftrightarrow>
    (\<exists>h. h_symlink_metadata (en_host E) path (mi_host s) = (Ok meta, h) \<and> s' = s\<lparr>mi_host := h\<rparr>)"
  by (auto simp: symlink_metadata_def andthen_def host_call_Some or_nfs_def returns_def fails_def
      split: option.splits sum.splits prod.splits) (auto simp: host_call_def on_host_def call_host_def split: prod.splits)

lemma entry_of_Ok:
  "entry_of fid s = Some (Ok e, s') \<longleftrightarrow> hm_get (fm_id_to_path (mi_fsmap s)) fid = Some e \<and> s' = s"
  by (auto simp: entry_of_def fsmap_of_def find_entry_def andthen_def reads_def result_of_def returns_def
      fails_def split: option.splits)

lemma host_call_Ok:
  "host_call c s = Some (Ok q, s') \<longleftrightarrow> (\<exists>h. c (mi_host s) = (q, h) \<and> s' = s\<lparr>mi_host := h\<rparr>)"
  by (auto simp: host_call_Some split: prod.splits)

lemma or_nfs_Ok: "or_nfs e r s = Some (Ok x, s') \<longleftrightarrow> r = Ok x \<and> s' = s"
  by (auto simp: or_nfs_def returns_def fails_def split: sum.splits)

lemma path_of_Ok:
  "path_of E p s = Some (Ok q, s') \<longleftrightarrow> sym_to_path (en_interner E) (mi_fsmap s) p = Some q \<and> s' = s"
  by (auto simp: path_of_Some)

lemma unless_panics: "(if b then panics else f) s = Some x \<longleftrightarrow> \<not> b \<and> f s = Some x"
  by (simp add: panics_def)

lemmas mirror_Ok = andthen_Some entry_of_Ok host_call_Ok or_nfs_Ok path_of_Ok symlink_metadata_Ok
  returns_Some panics_Some unless_panics

lemma refresh_inode_seen:
  assumes run: "refresh_inode E fid entry primary s = Some (Ok res, s')" "res \<noteq> Refresh_Delete"
    and e: "hm_get (fm_id_to_path (mi_fsmap s)) fid = Some e" "fe_fsmeta e = fe_fsmeta entry" "fe_name e = primary"
  shows "\<exists>e' meta. seen E fid s' e' meta"
proof -
  from run(1) obtain path s1 meta where path: "sym_to_path (en_interner E) (mi_fsmap s) primary = Some path"
    and meta: "symlink_metadata E path s = Some (Ok meta, s1)"
    and rest: "andthen (fsmap_of (\<lambda>m. hm_get (fm_id_to_inode m) fid)) (\<lambda>inode.
      if inode \<noteq> Some (from_meta meta) then delete_and_return E fid
      else andthen (fsmap_update (\<lambda>m. m\<lparr>fm_id_to_inode := hm_insert fid (from_meta meta) (fm_id_to_inode m),
          fm_inode_to_id := hm_insert (from_meta meta) fid (fm_inode_to_id m)\<rparr>))
        (\<lambda>_. refresh_meta E fid entry meta)) s1 = Some (Ok res, s')"
    by (auto simp: refresh_inode_def Let_def andthen_Some path_of_Some)
  obtain h where h: "h_symlink_metadata (en_host E) path (mi_host s) = (Ok meta, h)" "s1 = s\<lparr>mi_host := h\<rparr>"
    using meta by (auto simp: symlink_metadata_Ok)
  show ?thesis
  proof (cases "hm_get (fm_id_to_inode (mi_fsmap s1)) fid = Some (from_meta meta)")
    case False
    then have "delete_and_return E fid s1 = Some (Ok res, s')"
      using rest by (simp add: andthen_def fsmap_of_def reads_def)
    then show ?thesis using run(2) delete_and_return_Some by blast
  next
    case True
    define s2 where "s2 = s1\<lparr>mi_fsmap := (mi_fsmap s1)\<lparr>
      fm_id_to_inode := hm_insert fid (from_meta meta) (fm_id_to_inode (mi_fsmap s1)),
      fm_inode_to_id := hm_insert (from_meta meta) fid (fm_inode_to_id (mi_fsmap s1))\<rparr>\<rparr>"
    have "refresh_meta E fid entry meta s2 = Some (Ok res, s')"
      using rest True by (simp add: andthen_def fsmap_of_def reads_def fsmap_update_def modifies_def s2_def)
    moreover have "sym_to_path (en_interner E) (mi_fsmap s2) p = sym_to_path (en_interner E) (mi_fsmap s) p" for p
      by (rule sym_to_path_cong) (simp_all add: s2_def h(2))
    ultimately have "\<exists>e'. seen E fid s' e' meta"
      using run(2) e path h by (intro refresh_meta_seen [where s = s2 and e = e and h = "mi_host s"])
        (auto simp: s2_def hm.get_insert)
    then show ?thesis by blast
  qed
qed

lemma refresh_entry_seen:
  assumes run: "refresh_entry E fid s = Some (Ok res, s')" "res \<noteq> Refresh_Delete"
  shows "\<exists>e meta. seen E fid s' e meta"
proof -
  obtain e where e: "hm_get (fm_id_to_path (mi_fsmap s)) fid = Some e"
    using run(1) by (cases "hm_get (fm_id_to_path (mi_fsmap s)) fid")
      (auto simp: refresh_entry_def entry_of_def fsmap_of_def find_entry_def andthen_def reads_def
        result_of_def fails_def)
  then obtain ex s1 where ex: "existing_aliases E (fe_aliases e) s = Some (Ok ex, s1)"
    and rest: "(case ex of [] \<Rightarrow> delete_and_return E fid
      | primary # _ \<Rightarrow> andthen (fsmap_update (update_entry fid (\<lambda>e. e\<lparr>fe_aliases := ex, fe_name := primary\<rparr>)))
          (\<lambda>_. refresh_inode E fid e primary)) s1 = Some (Ok res, s')"
    using run(1) by (auto simp: refresh_entry_def entry_of_def fsmap_of_def find_entry_def andthen_Some
        reads_def result_of_def returns_def)
  from existing_aliases_spec [OF ex] have map: "fm_id_to_path (mi_fsmap s1) = fm_id_to_path (mi_fsmap s)"
    by auto
  show ?thesis
  proof (cases ex)
    case Nil
    then have "delete_and_return E fid s1 = Some (Ok res, s')" using rest by simp
    then show ?thesis using run(2) delete_and_return_Some by blast
  next
    case (Cons p ps)
    define s2 where "s2 = s1\<lparr>mi_fsmap := update_entry fid (\<lambda>e. e\<lparr>fe_aliases := ex, fe_name := p\<rparr>) (mi_fsmap s1)\<rparr>"
    have "refresh_inode E fid e p s2 = Some (Ok res, s')"
      using rest Cons by (simp add: andthen_def fsmap_update_def modifies_def s2_def)
    then show ?thesis
      using run(2) e map by (elim refresh_inode_seen [where e = "e\<lparr>fe_aliases := ex, fe_name := p\<rparr>"])
        (simp_all add: s2_def update_entry_get)
  qed
qed



lemma fsmap_update_Ok: "fsmap_update f s = Some (Ok x, s') \<longleftrightarrow> s' = s\<lparr>mi_fsmap := f (mi_fsmap s)\<rparr>"
  by (auto simp: fsmap_update_def modifies_def)

section \<open>Reading\<close>

text \<open>
  The contract of the host's files that READ relies on: an open file has a size and contents of
  that size, seeking and reading leave them alone, and \<open>read_exact\<close> at a position returns the bytes
  there or fails. It is stated for an observation \<open>contents\<close> of the host.
\<close>

definition reads_files :: "'h host \<Rightarrow> ('h \<Rightarrow> path \<Rightarrow> bytes option) \<Rightarrow> bool" where
  "reads_files H contents \<longleftrightarrow>
    (\<forall>path h f h1 meta h2 off h3 n data h4.
      h_open H (no_options\<lparr>oo_read := True\<rparr>) path h = (Ok f, h1) \<longrightarrow>
      h_file_metadata H f h1 = (Ok meta, h2) \<longrightarrow> h_seek H f off h2 = (Ok (), h3) \<longrightarrow>
      h_read_exact H f n h3 = (Ok data, h4) \<longrightarrow>
      (\<exists>b. contents h path = Some b \<and> length b = unat (md_size meta) \<and>
        data = take n (drop (unat off) b)))"

lemma mirror_read_run:
  assumes "reads_files (en_host E) contents"
    and "mirror_read E fid offset count s = Some (Ok (data, eof), s')"
  shows "\<exists>e path b len. hm_get (fm_id_to_path (mi_fsmap s)) fid = Some e \<and>
    sym_to_path (en_interner E) (mi_fsmap s) (fe_name e) = Some path \<and>
    contents (mi_host s) path = Some b \<and> length b = unat len \<and>
    min len offset \<le> min len (offset + ucast count) \<and>
    data = take (unat (min len (offset + ucast count) - min len offset)) (drop (unat (min len offset)) b) \<and>
    eof = (len \<le> offset + ucast count) \<and> mi_fsmap s' = mi_fsmap s"
proof -
  have start: "(if offset \<ge> len then len else offset) = min len offset"
    and end1: "(if e > len then len else e) = min len e" for len e :: u64
    by (auto simp: min_def)
  obtain e path f h1 meta h2 h3 h4 where
    e: "hm_get (fm_id_to_path (mi_fsmap s)) fid = Some e"
    and path: "sym_to_path (en_interner E) (mi_fsmap s) (fe_name e) = Some path"
    and f: "h_open (en_host E) (no_options\<lparr>oo_read := True\<rparr>) path (mi_host s) = (Ok f, h1)"
    and meta: "h_file_metadata (en_host E) f h1 = (Ok meta, h2)"
    and seek0: "h_seek (en_host E) f (if offset \<ge> md_size meta then md_size meta else offset) h2 = (Ok (), h3)"
    and le0: "\<not> (if offset + ucast count > md_size meta then md_size meta else offset + ucast count) <
      (if offset \<ge> md_size meta then md_size meta else offset)"
    and exact0: "h_read_exact (en_host E) f
      (unat ((if offset + ucast count > md_size meta then md_size meta else offset + ucast count) -
        (if offset \<ge> md_size meta then md_size meta else offset))) h3 = (Ok data, h4)"
    and eof: "eof = (offset + ucast count \<ge> md_size meta)" and s': "s' = s\<lparr>mi_host := h4\<rparr>"
    using assms(2) by (auto simp: mirror_read_def Let_def mirror_Ok simp del: if_split_asm split del: if_split)
  note seek = seek0 [unfolded start] and le = le0 [unfolded start end1 not_less]
    and exact = exact0 [unfolded start end1]
  obtain b where "contents (mi_host s) path = Some b" "length b = unat (md_size meta)"
      "data = take (unat (min (md_size meta) (offset + ucast count) - min (md_size meta) offset))
        (drop (unat (min (md_size meta) offset)) b)"
    using assms(1) f meta seek exact unfolding reads_files_def by blast
  then show ?thesis using e path le eof s' by auto
qed

lemma mirror_read_file:
  assumes "reads_files (en_host E) contents"
    and "unat offset + unat count < 2 ^ 64"
    and "mirror_read E fid offset count s = Some (Ok (data, eof), s')"
  shows "\<exists>e path b. hm_get (fm_id_to_path (mi_fsmap s)) fid = Some e \<and>
    sym_to_path (en_interner E) (mi_fsmap s) (fe_name e) = Some path \<and>
    contents (mi_host s) path = Some b \<and>
    data = take (unat count) (drop (unat offset) b) \<and>
    eof = (length b \<le> unat offset + unat count) \<and> mi_fsmap s' = mi_fsmap s"
proof -
  have sum: "unat (offset + ucast count) = unat offset + unat count"
    using assms(2) by (simp add: unat_word_ariths(1) unsigned_ucast_eq take_bit_nat_eq_self)
  obtain e path b len where e: "hm_get (fm_id_to_path (mi_fsmap s)) fid = Some e"
      "sym_to_path (en_interner E) (mi_fsmap s) (fe_name e) = Some path"
      "contents (mi_host s) path = Some b"
    and b: "length b = unat len" "min len offset \<le> min len (offset + ucast count)"
      "data = take (unat (min len (offset + ucast count) - min len offset)) (drop (unat (min len offset)) b)"
      "eof = (len \<le> offset + ucast count)" "mi_fsmap s' = mi_fsmap s"
    using mirror_read_run [OF assms(1,3)] by blast
  have unat_min: "unat (min len x) = min (length b) (unat x)" for x
    by (simp add: b(1) min_def word_le_nat_alt)
  have "unat (min len (offset + ucast count) - min len offset) =
      min (length b) (unat offset + unat count) - min (length b) (unat offset)"
    using b(2) by (simp add: unat_sub unat_min sum)
  then have "data = take (unat count) (drop (unat offset) b)"
    using b(3) [unfolded unat_min] by (cases "length b \<le> unat offset") (auto simp: min_def)
  then show ?thesis using e b(1,4,5) sum by (auto simp: word_le_nat_alt)
qed

lemma ex_reads_files: "reads_files ex_host ex_contents"
  unfolding reads_files_def
proof (intro allI impI)
  fix path h f h1 meta h2 off h3 n data h4
  assume f: "h_open ex_host (no_options\<lparr>oo_read := True\<rparr>) path h = (Ok f, h1)"
    and meta: "h_file_metadata ex_host f h1 = (Ok meta, h2)"
    and seek: "h_seek ex_host f off h2 = (Ok (), h3)"
    and exact: "h_read_exact ex_host f n h3 = (Ok data, h4)"
  obtain m b where x: "map_of (xh_files h) path = Some (m, b)" and h1: "h1 = h"
    and nth: "xh_files h ! f = (path, m, b)"
    using ex_open_file [of "no_options\<lparr>oo_read := True\<rparr>" path h f h1] f by (auto simp: ex_host_def)
  have m: "length b < 100" "meta = m\<lparr>md_size := of_nat (length b)\<rparr>" and h2: "h2 = h"
    using meta by (simp_all add: ex_host_def nth h1 split: if_splits)
  have len: "length b = unat (md_size meta)"
    using m(1) unfolding m(2) by (simp add: unat_of_nat take_bit_nat_eq_self)
  have "h3 = h\<lparr>xh_pos := unat off\<rparr>" using seek h2 by (simp add: ex_host_def)
  then have "data = take n (drop (unat off) b)"
    using exact by (simp add: ex_host_def nth Let_def split: if_splits)
  then show "\<exists>b. ex_contents h path = Some b \<and> length b = unat (md_size meta) \<and>
      data = take n (drop (unat off) b)" using x len by (simp add: ex_contents_def)
qed

text \<open>
  C18: READ on a mirror returns the bytes of the host's file. When the offset and the count do not
  overflow, the data are the file's bytes from the offset on, at most as many as were asked for, and
  end of file is reported exactly when the end of the request reaches the end of the file.
\<close>

theorem mirror_read_contents:
  assumes "reads_files (en_host E) contents"
    and "unat offset + unat count < 2 ^ 64"
    and "mirror_read E fid offset count s = Some (Ok (data, eof), s')"
  shows "\<exists>e path b. hm_get (fm_id_to_path (mi_fsmap s)) fid = Some e \<and>
    sym_to_path (en_interner E) (mi_fsmap s) (fe_name e) = Some path \<and>
    contents (mi_host s) path = Some b \<and>
    data = take (unat count) (drop (unat offset) b) \<and>
    eof = (length b \<le> unat offset + unat count) \<and> mi_fsmap s' = mi_fsmap s"
  by (rule mirror_read_file [OF assms])

lemma mirror_read_contents_witness:
  "\<exists>s'. mirror_read ex_env 1 1 5 ex_mirror = Some (Ok ([8, 9], True), s') \<and>
    mi_fsmap s' = mi_fsmap ex_mirror"
proof -
  have "map_option fst (mirror_read ex_env 1 1 5 ex_mirror) = Some (Ok ([8, 9], True))" by code_simp
  then obtain s' where run: "mirror_read ex_env 1 1 5 ex_mirror = Some (Ok ([8, 9], True), s')" by auto
  from mirror_read_contents [OF ex_reads_files [folded ex_env_simps(2)] _ run] run show ?thesis by auto
qed

text \<open>A mirror never returns more than it is asked for, so that the bound on READ replies applies.\<close>

lemma mirror_read_bounded:
  assumes "reads_files (en_host E) contents"
  shows "read_bounded (mirror_vfs E g)"
  unfolding read_bounded_def mirror_vfs_simps
proof (intro allI impI)
  fix fid off n st data eof st'
  assume "settle (mirror_read E fid off n) st = (Ok (data, eof), st')"
  then obtain s s' where "mirror_read E fid off n s = Some (Ok (data, eof), s')"
    by (auto simp: settle_def bind_eq_Some_conv split: option.splits)
  from mirror_read_run [OF assms this] obtain b len where
    "min len off \<le> min len (off + ucast n)"
    "data = take (unat (min len (off + ucast n) - min len off)) (drop (unat (min len off)) b)" by blast
  moreover have "unat (min len (off + ucast n) - min len off) \<le> unat n"
    if le: "min len off \<le> min len (off + ucast n)"
  proof -
    have unat_min: "unat (min len x) = min (unat len) (unat x)" for x
      by (simp add: min_def word_le_nat_alt)
    have "unat (off + ucast n) \<le> unat off + unat n"
      by (simp add: unat_word_ariths(1) unsigned_ucast_eq) (meson mod_less_eq_dividend add_left_mono
          order_trans take_bit_nat_less_eq_self)
    then show ?thesis using le by (simp only: unat_sub unat_min)
  qed
  ultimately show "length data \<le> unat n" by simp
qed

end
