(* ===== verification/Mirror_Protection.thy ===== *)
theory Mirror_Protection
  imports Mirror_Properties
begin

text \<open>
  What a mirror does to the host's files: its queries only read them, so that clients without the
  MODIFY right cannot change them; but a name is not checked, so that a modification can reach
  outside the exported directory.
\<close>

section \<open>Queries only read the host\<close>

text \<open>A property of the host that calls which read do not break: to hold certain files.\<close>

definition host_reads_keep :: "('h \<Rightarrow> bool) \<Rightarrow> 'h host \<Rightarrow> bool" where
  "host_reads_keep Q H \<longleftrightarrow>
    (\<forall>path h. Q h \<longrightarrow> Q (snd (h_symlink_metadata H path h))) \<and>
    (\<forall>opts path h. \<not> oo_write opts \<longrightarrow> Q h \<longrightarrow> Q (snd (h_open H opts path h))) \<and>
    (\<forall>f h. Q h \<longrightarrow> Q (snd (h_file_metadata H f h))) \<and>
    (\<forall>path h. Q h \<longrightarrow> Q (snd (h_read_dir H path h)))"

definition host_kept :: "('h \<Rightarrow> bool) \<Rightarrow> ('t, 'h) mirror \<Rightarrow> bool" where
  "host_kept Q s \<longleftrightarrow> Q (mi_host s)"

named_theorems kept

lemma kept_fsmap [kept]:
  "preserves (host_kept Q) (fsmap_of f)" "preserves (host_kept Q) (fsmap_update g)"
  "preserves (host_kept Q) (fsmap_run r)" "preserves (host_kept Q) (fsmap_try t)"
  by (auto simp: preserves_def fsmap_of_def reads_def fsmap_update_def modifies_def fsmap_run_def
      fsmap_try_def host_kept_def split: prod.splits)

lemma kept_host_call: "(\<And>h. Q h \<Longrightarrow> Q (snd (c h))) \<Longrightarrow> preserves (host_kept Q) (host_call c)"
  by (rule preservesI) (force simp: host_kept_def host_call_Some split: prod.splits)

lemma kept_calls:
  assumes "host_reads_keep Q H"
  shows "preserves (host_kept Q) (host_call (h_symlink_metadata H path))"
    "\<not> oo_write opts \<Longrightarrow> preserves (host_kept Q) (host_call (h_open H opts path))"
    "preserves (host_kept Q) (host_call (h_file_metadata H f))"
    "preserves (host_kept Q) (host_call (h_read_dir H path))"
  using assms by (simp_all add: host_reads_keep_def kept_host_call)

lemma kept_paths [kept]:
  assumes "host_reads_keep Q (en_host E)"
  shows "preserves (host_kept Q) (path_of E p)" "preserves (host_kept Q) (path_exists E path)"
    "preserves (host_kept Q) (intern_name E name)" "preserves (host_kept Q) (entry_of fid)"
    "preserves (host_kept Q) (symlink_metadata E path)"
    "preserves (host_kept Q) (delete_and_return E fid)"
proof -
  show "preserves (host_kept Q) (path_exists E path)"
    using assms by (intro preservesI) (auto simp: path_exists_Some host_kept_def host_reads_keep_def
        split: prod.splits dest!: spec [of _ path])
qed (auto simp: path_of_def intern_name_def entry_of_def symlink_metadata_def delete_and_return_def
    kept preserves_rules kept_calls [OF assms])

lemma kept_existing [kept]:
  assumes "host_reads_keep Q (en_host E)"
  shows "preserves (host_kept Q) (existing_aliases E aliases)"
  by (induction aliases) (simp_all add: kept preserves_rules kept_paths [OF assms])

lemma preserves_case_list [preserves_rules]:
  "preserves I a \<Longrightarrow> (\<And>x xs. preserves I (b x xs)) \<Longrightarrow> preserves I (case z of [] \<Rightarrow> a | x # xs \<Rightarrow> b x xs)"
  by (cases z) simp_all

lemma kept_refresh_entry [kept]:
  assumes "host_reads_keep Q (en_host E)"
  shows "preserves (host_kept Q) (refresh_entry E fid)"
  unfolding refresh_entry_def refresh_inode_def refresh_meta_def Let_def
  by (intro preserves_rules kept_fsmap kept_paths [OF assms] kept_existing [OF assms])

lemma kept_list_children [kept]:
  assumes "host_reads_keep Q (en_host E)"
  shows "preserves (host_kept Q) (list_children E cur_path path listing new_children)"
  by (induction listing arbitrary: new_children)
    (simp_all add: kept preserves_rules kept_paths [OF assms])

lemma kept_refresh_dir_list [kept]:
  assumes "host_reads_keep Q (en_host E)"
  shows "preserves (host_kept Q) (refresh_dir_list E fid)"
  unfolding refresh_dir_list_def
  by (intro preserves_rules kept_fsmap kept_paths [OF assms] kept_calls [OF assms] kept_list_children [OF assms])

lemma kept_queries:
  assumes "host_reads_keep Q (en_host E)"
  shows "preserves (host_kept Q) (mirror_lookup E d n)" "preserves (host_kept Q) (mirror_getattr E fid)"
    "preserves (host_kept Q) (mirror_check_access E fid auth access)"
  unfolding mirror_lookup_def mirror_getattr_def mirror_check_access_def Let_def
  by (intro preserves_rules kept_fsmap kept_paths [OF assms] kept_calls [OF assms]
      kept_refresh_entry [OF assms] kept_refresh_dir_list [OF assms]; simp add: no_options_def)+

section \<open>Clients without the right to modify\<close>

text \<open>No file of the host grants a right to the user.\<close>

definition denied :: "('h \<Rightarrow> bool) \<Rightarrow> 'h host \<Rightarrow> auth_unix \<Rightarrow> u32 \<Rightarrow> bool" where
  "denied Q H auth right \<longleftrightarrow> (\<forall>h meta fid. Q h \<longrightarrow>
    (\<exists>path. fst (h_symlink_metadata H path h) = Ok meta) \<or> (\<exists>f. fst (h_file_metadata H f h) = Ok meta) \<longrightarrow>
    access_mask (metadata_to_fattr3 fid meta) auth ReadWrite right AND right = 0)"

lemma denied_never_granted:
  assumes keep: "host_reads_keep Q (en_host E)" and deny: "denied Q (en_host E) (cx_auth ctx) right"
    and ctx: "cx_vfs ctx = mirror_vfs E g"
  shows "never_granted (unless_crashed (host_kept Q)) ctx right"
  unfolding never_granted_def ctx mirror_vfs_simps
proof (intro allI impI)
  fix fid st granted
  assume P: "unless_crashed (host_kept Q) st"
    and run: "fst (settle (mirror_check_access E fid (cx_auth ctx) right) st) = Ok granted"
  then obtain s s' where st: "st = Some s" and ok: "mirror_check_access E fid (cx_auth ctx) right s = Some (Ok granted, s')"
    by (auto simp: settle_def bind_eq_Some_conv split: option.splits)
  have Q: "Q (mi_host s)" using P st by (simp add: unless_crashed_def host_kept_def)
  obtain path opened h1 where
    opened: "h_open (en_host E) (no_options\<lparr>oo_read := True, oo_nofollow := True\<rparr>) path (mi_host s) = (opened, h1)"
    and rest: "andthen (case opened of
        Ok handle \<Rightarrow> andthen (host_call (h_file_metadata (en_host E) handle)) (or_nfs NFS3ERR_IO)
      | Err err \<Rightarrow> if err = HostLoop then symlink_metadata E path else fails (open_error err)) (\<lambda>meta.
      returns (access_mask (metadata_to_fattr3 fid meta) (cx_auth ctx) ReadWrite right)) (s\<lparr>mi_host := h1\<rparr>) =
      Some (Ok granted, s')"
    using ok unfolding mirror_check_access_def by (auto simp: mirror_Ok)
  have Q1: "Q h1"
    using keep Q opened unfolding host_reads_keep_def by (metis no_options_def open_options.select_convs(2)
        open_options.update_convs(1) open_options.update_convs(6) snd_conv)
  show "granted AND right = 0"
  proof (cases opened)
    case (Inr handle)
    then obtain meta h2 where "h_file_metadata (en_host E) handle h1 = (Ok meta, h2)"
      "granted = access_mask (metadata_to_fattr3 fid meta) (cx_auth ctx) ReadWrite right"
      using rest by (auto simp: mirror_Ok)
    then show ?thesis using deny Q1 unfolding denied_def by (metis fst_conv)
  next
    case (Inl err)
    then obtain meta h2 where "h_symlink_metadata (en_host E) path h1 = (Ok meta, h2)"
      "granted = access_mask (metadata_to_fattr3 fid meta) (cx_auth ctx) ReadWrite right"
      using rest by (auto simp: mirror_Ok fails_def split: if_splits)
    then show ?thesis using deny Q1 unfolding denied_def by (metis fst_conv)
  qed
qed


lemma ex_host_reads_keep: "host_reads_keep (\<lambda>h. xh_files h = xh_files ex_files) ex_host"
  by (auto simp: host_reads_keep_def ex_host_def ex_stat_def ex_open_def Let_def split: option.splits prod.splits)

lemma ex_user_denied: "denied (\<lambda>h. xh_files h = xh_files ex_files) ex_host ex_user ACCESS3_MODIFY"
proof -
  have mask: "access_mask (metadata_to_fattr3 fid meta) ex_user ReadWrite ACCESS3_MODIFY AND ACCESS3_MODIFY = 0"
    if "md_mode meta = 0x1A4" "md_uid meta = 5" "md_gid meta = 5" for fid meta
  proof -
    have "\<not> up_write (unix_mode_perms (metadata_to_fattr3 fid meta) ex_user)"
      using that by (simp add: unix_mode_perms_def ex_user_def metadata_to_fattr3_def mode_unmask_def Let_def
          auth_matches_gid_def)
    then show ?thesis
      by (simp add: access_mask_def grant_if_def Let_def ACCESS3_MODIFY_def ACCESS3_READ_def ACCESS3_LOOKUP_def
          ACCESS3_EXECUTE_def ACCESS3_EXTEND_def ACCESS3_DELETE_def split: ftype3.split)
  qed
  have stat: "md_mode meta = 0x1A4 \<and> md_uid meta = 5 \<and> md_gid meta = 5"
    if "fst (ex_stat path h) = Ok meta" "xh_files h = xh_files ex_files" for path h meta
    using that by (auto simp: ex_stat_def ex_files_def ex_meta_def split: if_splits)
  have opened: "md_mode meta = 0x1A4 \<and> md_uid meta = 5 \<and> md_gid meta = 5"
    if "fst (h_file_metadata ex_host f h) = Ok meta" "xh_files h = xh_files ex_files" for f h meta
    using that by (auto simp: ex_host_def ex_files_def ex_meta_def Let_def nth_Cons split: if_splits nat.splits)
  show ?thesis
    using mask stat opened by (auto simp: denied_def) (force simp: ex_host_def)+
qed


end
