(* ===== verification/Mirror_Limits.thy ===== *)
theory Mirror_Limits
  imports Mirror_Protection
begin

text \<open>
  Where the mirror file system departs from what it means to do: names that lead out of the
  exported directory, file ids of files that are gone, and directories that contain themselves. The
  counterpart of the last is that removing a tree of directories ends when they are ranked.
\<close>

section \<open>Names are not checked\<close>

text \<open>A call that reads does not change the host.\<close>

definition host_reads_pure :: "'h host \<Rightarrow> bool" where
  "host_reads_pure H \<longleftrightarrow> (\<forall>Q. host_reads_keep Q H)"

text \<open>
  C24: REMOVE on a mirror reaches outside of the exported directory. The name of the request is
  pushed onto the path of the directory, and a name that starts with a slash replaces it: whatever directory
  of the export the handle stands for, the file of the host with that absolute path is removed,
  and the reply is success.
\<close>

theorem mirror_remove_outside:
  assumes "host_reads_pure (en_host E)"
    and "hm_get (fm_id_to_path (mi_fsmap s)) dirid = Some ent"
    and "fst (h_symlink_metadata (en_host E) (47 # rest) (mi_host s)) = Ok meta" "md_kind meta \<noteq> KindDir"
    and "h_remove_file (en_host E) (47 # rest) (mi_host s) = (Ok (), h)"
    and "mirror_remove E dirid (47 # rest) s = Some (r, s')"
  shows "r = Ok () \<and> mi_host s' = h"
proof -
  let ?Q = "\<lambda>x. x = h"
  have stat: "h_symlink_metadata (en_host E) (47 # rest) (mi_host s) = (Ok meta, mi_host s)"
  proof -
    have "snd (h_symlink_metadata (en_host E) (47 # rest) (mi_host s)) = mi_host s"
      using assms(1) unfolding host_reads_pure_def host_reads_keep_def
      by (elim allE [of _ "\<lambda>x. x = mi_host s"]) auto
    then show ?thesis using assms(3) by (metis prod.collapse)
  qed
  have keep: "host_reads_keep ?Q (en_host E)" using assms(1) by (simp add: host_reads_pure_def)
  define tail where "tail = andthen (intern_name E (47 # rest)) (\<lambda>filesym.
    andthen (fsmap_run (remove_path (fe_name ent @ [filesym]))) (\<lambda>_.
    andthen (fsmap_update (update_entry dirid (remove_child filesym))) (\<lambda>_.
    andthen (attempt (refresh_entry E dirid)) (\<lambda>_.
    returns ()))))"
  have kept: "preserves (host_kept ?Q) tail"
    unfolding tail_def by (intro preserves_rules kept_fsmap kept_paths [OF keep] kept_refresh_entry [OF keep])
  obtain dir where "sym_to_path (en_interner E) (mi_fsmap s) (fe_name ent) = Some dir"
    using assms(2,6) by (cases "sym_to_path (en_interner E) (mi_fsmap s) (fe_name ent)")
      (auto simp: mirror_remove_def andthen_def entry_of_def fsmap_of_def reads_def find_entry_def
        result_of_def returns_def path_of_def unwrap_def panics_def)
  then have "mirror_remove E dirid (47 # rest) s = tail (s\<lparr>mi_host := h\<rparr>)"
    using assms(2,4,5) stat
    by (simp add: mirror_remove_def tail_def andthen_def entry_of_def fsmap_of_def reads_def find_entry_def
        result_of_def returns_def path_of_def unwrap_def Let_def path_push_def host_call_def on_host_def
        call_host_def or_nfs_def)
  then have run: "tail (s\<lparr>mi_host := h\<rparr>) = Some (r, s')" using assms(6) by simp
  have "mi_host s' = h"
    using preservesD [OF kept _ run] by (simp add: host_kept_def)
  moreover have "r = Ok ()"
    using run by (auto simp: tail_def andthen_def intern_name_def fsmap_of_def reads_def unwrap_def panics_def
        returns_def fsmap_update_def modifies_def fsmap_run_def attempt_def split: option.splits prod.splits sum.splits)
  ultimately show ?thesis by simp
qed

lemma ex_host_reads_pure: "host_reads_pure ex_host"
  by (auto simp: host_reads_pure_def host_reads_keep_def ex_host_def ex_stat_def ex_open_def Let_def
      split: option.splits prod.splits)

lemma mirror_remove_outside_witness:
  "\<exists>s'. mirror_remove ex_env 0 [47, 120] ex_mirror = Some (Ok (), s') \<and>
    map fst (xh_files (mi_host s')) = [[47, 114], [47, 114, 47, 97]]"
proof -
  have "map_option fst (mirror_remove ex_env 0 [47, 120] ex_mirror) = Some (Ok ())" by code_simp
  then obtain s' where run: "mirror_remove ex_env 0 [47, 120] ex_mirror = Some (Ok (), s')" by auto
  have root: "hm_get (fm_id_to_path (mi_fsmap ex_mirror)) 0 \<noteq> None" by code_simp
  then obtain ent where ent: "hm_get (fm_id_to_path (mi_fsmap ex_mirror)) 0 = Some ent" by blast
  have "mi_host s' = snd (ex_remove [47, 120] ex_files)"
    using mirror_remove_outside [OF _ ent _ _ _ run, of "ex_meta KindFile 3 0" "snd (ex_remove [47, 120] ex_files)"]
    by (simp add: ex_host_reads_pure) (simp add: ex_host_def ex_stat_def ex_remove_def ex_files_def ex_meta_def)
  then show ?thesis using run by (simp add: ex_remove_def ex_files_def)
qed

section \<open>Directories that contain themselves\<close>

text \<open>
  C25: Removing a tree of directories does not end when the cached listings form a cycle. If every
  directory of a set lists a directory of the set first, which is what the map remembers after a
  directory has been moved into a former child of it on the host, then \<open>remove_path_tree\<close> overflows every stack.
\<close>

theorem remove_cycle_overflows:
  assumes "\<And>i. i \<in> D \<Longrightarrow> \<exists>e n j cs. hm_get (fm_id_to_path m) i = Some e \<and> is_directory e \<and>
      fe_children e = Some ((n, j) # cs) \<and> j \<in> D"
    and "fid \<in> D"
  shows "remove_path_tree depth path fid m = None"
  using assms(2)
proof (induction depth arbitrary: path fid)
  case (Suc depth)
  obtain e n j cs where e: "hm_get (fm_id_to_path m) fid = Some e" "is_directory e"
      "fe_children e = Some ((n, j) # cs)" "j \<in> D"
    using assms(1) [OF Suc.prems] by blast
  obtain e' where "hm_get (fm_id_to_path m) j = Some e'" "is_directory e'"
    using assms(1) [OF e(4)] by blast
  then show ?case using e Suc.IH [OF e(4)] by (simp add: Let_def)
qed simp

definition ex_dir :: "sympath \<Rightarrow> symbol \<Rightarrow> fileid3 \<Rightarrow> FSEntry" where
  "ex_dir p n j = (new_entry p (metadata_to_fattr3 0 (ex_meta KindDir 1 0)))\<lparr>fe_children := Some [(n, j)]\<rparr>"

lemma remove_cycle_overflows_witness:
  "remove_path_tree 100 [0] 1 (ex_map\<lparr>fm_id_to_path := [(1, ex_dir [0] 1 2), (2, ex_dir [0, 1] 0 1)]\<rparr>) = None"
  by (rule remove_cycle_overflows [where D = "{1, 2}"])
    (auto simp: hm_get_def ex_dir_def is_directory_def new_entry_def metadata_to_fattr3_def
      ftype_of_metadata_def ex_meta_def Let_def)

lemma remove_path_tree_Suc:
  assumes "hm_get (fm_id_to_path m) fid = Some e"
  shows "remove_path_tree (Suc d) path fid m = map_option (\<lambda>m. snd (remove_path path m))
    (case (is_directory e, fe_children e) of
      (True, Some children) \<Rightarrow> remove_children (remove_path_tree d) path children m
    | _ \<Rightarrow> Some m)"
  using assms by (simp add: map_option_case)

lemma remove_path_forgets: "hm_get (fm_path_to_id (snd (remove_path p m))) p = None"
  by (auto simp: remove_path_def Let_def hm.get_remove split: option.split)

text \<open>
  C23: Removing a tree of directories ends when the listings have no cycle. If every child listed by a
  directory has a smaller rank, then a stack deeper than the rank of the directory is enough, the
  map keeps its invariant, and no id is left under the path.
\<close>

theorem remove_tree_ends:
  assumes "ranked rank m" and "rank fid < depth" and "fm_ok m"
    and "hm_get (fm_id_to_path m) fid = Some e"
  shows "\<exists>m'. remove_path_tree depth path fid m = Some m' \<and> ranked rank m' \<and> fm_ok m' \<and>
    hm_get (fm_path_to_id m') path = None"
proof -
  obtain m' where m': "remove_path_tree depth path fid m = Some m'" "ranked rank m'"
    using remove_path_tree_total [OF assms(1,2)] by blast
  obtain d where "depth = Suc d" using assms(2) by (cases depth) auto
  then obtain m1 where "m' = snd (remove_path path m1)"
    using m'(1) by (auto simp: remove_path_tree_Suc [OF assms(4)] simp del: remove_path_tree.simps)
  then show ?thesis using m' remove_path_tree_ok [OF assms(3) m'(1)] remove_path_forgets by blast
qed

lemma remove_tree_ends_witness:
  "\<exists>m'. remove_path_tree 2 [] 0 ex_map = Some m' \<and> fm_ok m' \<and> hm_get (fm_path_to_id m') [] = None"
proof -
  have "hm_get (fm_id_to_path ex_map) 0 \<noteq> None" by code_simp
  then obtain e where e: "hm_get (fm_id_to_path ex_map) 0 = Some e" by blast
  have "list_all (\<lambda>x. fe_children (snd x) = None) (fm_id_to_path ex_map)" by code_simp
  then have none: "fe_children e = None" if "hm_get (fm_id_to_path ex_map) i = Some e" for i e
    using map_of_SomeD [OF that [unfolded hm_get_def]] by (simp add: list_all_iff) force
  have "ranked (\<lambda>_. 0) ex_map"
    unfolding ranked_def using none by (metis option.distinct(1))
  from remove_tree_ends [OF this _ ex_map_ok e, of 2 "[]"] show ?thesis by auto
qed

section \<open>Files that are gone\<close>

text \<open>
  When all paths of an entry are gone, they are forgotten first; the removal of the entry then finds
  no path and leaves the entry where it is.
\<close>

lemma existing_aliases_gone:
  assumes "\<And>a. a \<in> set aliases \<Longrightarrow> \<exists>p e. sym_to_path (en_interner E) (mi_fsmap s) a = Some p \<and>
      h_symlink_metadata (en_host E) p (mi_host s) = (Err e, mi_host s)"
  shows "existing_aliases E aliases s = Some (Ok [], s\<lparr>mi_fsmap := (mi_fsmap s)\<lparr>fm_path_to_id :=
    fold hm_remove aliases (fm_path_to_id (mi_fsmap s))\<rparr>\<rparr>)"
  using assms
proof (induction aliases arbitrary: s)
  case Nil
  then show ?case by (simp add: returns_def)
next
  case (Cons a as)
  obtain p e where p: "sym_to_path (en_interner E) (mi_fsmap s) a = Some p"
      "h_symlink_metadata (en_host E) p (mi_host s) = (Err e, mi_host s)"
    using Cons.prems [of a] by auto
  define s1 where "s1 = s\<lparr>mi_fsmap := (mi_fsmap s)\<lparr>fm_path_to_id := hm_remove a (fm_path_to_id (mi_fsmap s))\<rparr>\<rparr>"
  have "sym_to_path (en_interner E) (mi_fsmap s1) q = sym_to_path (en_interner E) (mi_fsmap s) q" for q
    by (rule sym_to_path_cong) (simp_all add: s1_def)
  then have "existing_aliases E as s1 = Some (Ok [], s1\<lparr>mi_fsmap := (mi_fsmap s1)\<lparr>fm_path_to_id :=
      fold hm_remove as (fm_path_to_id (mi_fsmap s1))\<rparr>\<rparr>)"
    using Cons.prems by (intro Cons.IH) (auto simp: s1_def)
  moreover have "path_of E a s = Some (Ok p, s)" using p by (simp add: path_of_Some)
  moreover have "path_exists E p s = Some (Ok False, s)" using p by (simp add: path_exists_Some)
  ultimately show ?case
    by (simp add: andthen_def returns_def fsmap_update_def modifies_def s1_def)
qed

lemma fold_remove_get:
  "hm_get (fold hm_remove ks t) k = (if k \<in> set ks then None else hm_get t k)"
  by (induction ks arbitrary: t) (auto simp: hm.get_remove)


text \<open>The file \<open>a\<close> is removed on the host, and a file with its inode number appears as \<open>b\<close>.\<close>

definition ex_gone :: "(bytes list, ex_host_state) mirror" where
  "ex_gone = ex_mirror\<lparr>mi_host := ex_files\<lparr>xh_files := [([47, 114], ex_meta KindDir 1 0, [])]\<rparr>\<rparr>"


end
