(* ===== verification/Mirror_Create.thy ===== *)
theory Mirror_Create
  imports Mirror_Protection
begin

text \<open>
  What the mirror file system creates can be found afterwards.
\<close>

lemma fsmap_run_Ok:
  "fsmap_run f s = Some (Ok x, s') \<longleftrightarrow> (\<exists>m. f (mi_fsmap s) = (x, m) \<and> s' = s\<lparr>mi_fsmap := m\<rparr>)"
  by (auto simp: fsmap_run_def split: prod.splits)

lemma insert_child_fsmeta: "fe_fsmeta (insert_child n c e) = fe_fsmeta e"
  by (simp add: insert_child_def split: option.split)

lemma register_child_found:
  assumes ok: "mirror_ok s" and next_id: "fm_next_fileid (mi_fsmap s') < 2 ^ 64"
    and run: "register_child E dirid dirname objectname path s = Some (Ok (fid, meta), s')"
  shows "\<exists>n e. hm_get (fm_path_to_id (mi_fsmap s')) (dirname @ [n]) = Some fid \<and>
    hm_get (fm_id_to_path (mi_fsmap s')) fid = Some e \<and> fe_fsmeta e = metadata_to_fattr3 fid meta \<and>
    dirname @ [n] \<in> set (fe_aliases e)"
proof -
  obtain n s1 s2 m where n: "intern_name E objectname s = Some (Ok n, s1)"
    and meta: "symlink_metadata E path s1 = Some (Ok meta, s2)"
    and new: "create_entry (dirname @ [n]) meta (mi_fsmap s2) = (fid, m)"
    and s': "s' = s2\<lparr>mi_fsmap := update_entry dirid (insert_child n fid) m\<rparr>"
    using run by (auto simp: register_child_def andthen_Some fsmap_run_Ok fsmap_update_Ok entry_of_Ok returns_Some)
  have "mirror_ok s2"
    using preservesD [OF preserves_symlink_metadata preservesD [OF preserves_intern_name ok n] meta] .
  moreover have "fm_next_fileid (mi_fsmap s2) < 2 ^ 64"
    using next_id create_entry_next(1) [of "mi_fsmap s2" "dirname @ [n]" meta] by (simp add: s' new)
  ultimately have "fm_ok (mi_fsmap s2)" by (simp add: mirror_ok_def)
  from create_entry_found [OF this new] obtain e where "hm_get (fm_path_to_id m) (dirname @ [n]) = Some fid"
      "hm_get (fm_id_to_path m) fid = Some e" "fe_fsmeta e = metadata_to_fattr3 fid meta"
      "dirname @ [n] \<in> set (fe_aliases e)"
    by blast
  then show ?thesis
    by (intro exI [of _ n] exI [of _ "if fid = dirid then insert_child n fid e else e"])
      (auto simp: s' update_entry_get insert_child_fsmeta)
qed

lemma create_on_host_None:
  "create_on_host E dirid name obj path s = Some (Ok ex, s0) \<Longrightarrow> \<not> object_is_exclusive obj \<Longrightarrow> ex = None"
  by (cases obj; cases ex) (auto simp: create_on_host_def object_is_exclusive_def andthen_Some
      returns_Some fails_def split: if_splits)

lemma no_pair: "(\<forall>a b. x \<noteq> Some (a, b)) \<longleftrightarrow> x = None"
  by (cases x) auto

lemma create_on_host_made:
  "create_on_host E dirid name FsDirectory path s \<noteq> Some (Ok (Some x), s0)"
  "create_on_host E dirid name (FsFile a) path s \<noteq> Some (Ok (Some x), s0)"
  "create_on_host E dirid name (FsSymlink a t) path s \<noteq> Some (Ok (Some x), s0)"
  using create_on_host_None by (fastforce simp: object_is_exclusive_def)+


definition ex_creating :: "(bytes list, ex_host_state) environment" where
  "ex_creating = ex_env\<lparr>en_host := ex_host\<lparr>h_create_dir := (\<lambda>p h.
    (Ok (), h\<lparr>xh_files := xh_files h @ [(p, ex_meta KindDir 8 0, [])]\<rparr>))\<rparr>\<rparr>"


end
