(* ===== verification/Mirror_Rename.thy ===== *)
theory Mirror_Rename
  imports Mirror_Protection
begin

text \<open>
  What \<open>rename_path_prefix\<close> does to the map of a mirror: as a function from paths to file ids, the map is
  changed by the abstract operation that moves a tree of paths.
\<close>

section \<open>The abstract operation\<close>

definition move_tree :: "sympath \<Rightarrow> sympath \<Rightarrow> (sympath \<Rightarrow> fileid3 option) \<Rightarrow> sympath \<Rightarrow> fileid3 option" where
  "move_tree from_prefix to_prefix ids p =
    (if prefix to_prefix p then ids (from_prefix @ drop (length to_prefix) p)
     else if prefix from_prefix p then None else ids p)"

section \<open>The loop over the updates\<close>

definition move_path :: "sympath \<times> sympath \<times> fileid3 \<Rightarrow> (sympath, fileid3) hash_map \<Rightarrow> (sympath, fileid3) hash_map" where
  "move_path u t = (case u of (old_path, new_path, fileid) \<Rightarrow> hm_insert new_path fileid (hm_remove old_path t))"

lemma fold_rename_paths: "fm_path_to_id (fold rename_one us m) = fold move_path us (fm_path_to_id m)"
  by (induction us arbitrary: m) (auto simp: rename_one_def move_path_def split: prod.split)

lemma move_path_get:
  "hm_get (move_path (old, new, fid) t) p = (if p = new then Some fid else if p = old then None else hm_get t p)"
  by (simp add: move_path_def hm.get_insert hm.get_remove)

text \<open>No update makes a path that another one takes away, or that another one makes for another id.\<close>

definition updates_apart :: "(sympath \<times> sympath \<times> fileid3) list \<Rightarrow> bool" where
  "updates_apart us \<longleftrightarrow> (\<forall>u \<in> set us. \<forall>u' \<in> set us. fst (snd u') \<noteq> fst u \<and>
    (fst (snd u) = fst (snd u') \<longrightarrow> snd (snd u) = snd (snd u')))"

lemma updates_apartD:
  "updates_apart us \<Longrightarrow> (old, new, fid) \<in> set us \<Longrightarrow> (old', new', fid') \<in> set us \<Longrightarrow>
    new' \<noteq> old \<and> (new = new' \<longrightarrow> fid = fid')"
  unfolding updates_apart_def by (drule (1) bspec, drule (1) bspec) simp

lemma fold_move_get:
  assumes "updates_apart us"
  shows "((old, p, fid) \<in> set us \<longrightarrow> hm_get (fold move_path us t) p = Some fid) \<and>
    (p \<notin> (fst \<circ> snd) ` set us \<longrightarrow>
      hm_get (fold move_path us t) p = (if p \<in> fst ` set us then None else hm_get t p))"
  using assms
proof (induction us arbitrary: t old fid)
  case (Cons u us)
  obtain o1 n1 f1 where u: "u = (o1, n1, f1)" by (cases u) auto
  have sub: "updates_apart us" using Cons.prems unfolding updates_apart_def by (meson list.set_intros(2))
  have IH1: "(o2, p, f2) \<in> set us \<Longrightarrow> hm_get (fold move_path us (move_path u t)) p = Some f2" for o2 f2
    using Cons.IH [OF sub, of o2 f2 "move_path u t"] by blast
  have IH2: "p \<notin> (fst \<circ> snd) ` set us \<Longrightarrow> hm_get (fold move_path us (move_path u t)) p =
      (if p \<in> fst ` set us then None else hm_get (move_path u t) p)"
    using Cons.IH [OF sub, of _ _ "move_path u t"] by blast
  have found: "hm_get (fold move_path (u # us) t) p = Some fid" if "(old, p, fid) \<in> set (u # us)"
  proof (cases "p \<in> (fst \<circ> snd) ` set us")
    case True
    then obtain o2 f2 where 2: "(o2, p, f2) \<in> set us" by force
    then have "f2 = fid" using updates_apartD [OF Cons.prems, of o2 p f2 old p fid] that by simp
    then show ?thesis using IH1 [OF 2] by simp
  next
    case False
    then have "u = (old, p, fid)" using that by force
    moreover have "p \<notin> fst ` set us"
    proof
      assume "p \<in> fst ` set us"
      then obtain n3 f3 where 3: "(p, n3, f3) \<in> set us" by force
      then show False
        using updates_apartD [OF Cons.prems, of p n3 f3 old p fid] that by simp
    qed
    ultimately show ?thesis using IH2 [OF False] by (simp add: move_path_get)
  qed
  have other: "hm_get (fold move_path (u # us) t) p = (if p \<in> fst ` set (u # us) then None else hm_get t p)"
    if "p \<notin> (fst \<circ> snd) ` set (u # us)"
  proof -
    have n: "p \<notin> (fst \<circ> snd) ` set us" "p \<noteq> n1" using that by (auto simp: u)
    show ?thesis using IH2 [OF n(1)] n(2) by (auto simp: u move_path_get)
  qed
  show ?case using found other by blast
qed simp

lemma rename_updates_mem:
  assumes "hm_ok t"
  shows "(old, new, fid) \<in> set (rename_updates from_prefix to_prefix t) \<longleftrightarrow>
    (\<exists>r. old = from_prefix @ r \<and> new = to_prefix @ r \<and> hm_get t old = Some fid)"
  using hm.entries_get [OF assms] by (force simp: rename_updates_def prefix_def)

text \<open>Nothing is moved onto a path that is moved itself.\<close>

lemma rename_updates_apart:
  assumes ok: "hm_ok t" and below: "\<not> prefix from_prefix to_prefix"
    and free: "\<And>r. hm_get t (to_prefix @ r) = None"
  shows "updates_apart (rename_updates from_prefix to_prefix t)"
proof -
  have "to_prefix @ r' \<noteq> from_prefix @ r" if known: "hm_get t (from_prefix @ r) = Some fid" for r r' fid
  proof
    assume eq: "to_prefix @ r' = from_prefix @ r"
    then have "prefix to_prefix from_prefix"
      using below prefix_same_cases [of from_prefix "from_prefix @ r" to_prefix] by (metis prefixI)
    then show False using free known by (auto simp: prefix_def)
  qed
  then show ?thesis
    unfolding updates_apart_def using free by (auto simp: rename_updates_mem [OF ok])
qed

text \<open>The paths that are moved, as old names and as new ones.\<close>

lemma rename_updates_old:
  assumes "hm_ok t"
  shows "p \<in> fst ` set (rename_updates from_prefix to_prefix t) \<longleftrightarrow>
    prefix from_prefix p \<and> hm_get t p \<noteq> None"
proof
  assume "p \<in> fst ` set (rename_updates from_prefix to_prefix t)"
  then obtain new fid where "(p, new, fid) \<in> set (rename_updates from_prefix to_prefix t)" by force
  then show "prefix from_prefix p \<and> hm_get t p \<noteq> None" using rename_updates_mem [OF assms] by auto
next
  assume "prefix from_prefix p \<and> hm_get t p \<noteq> None"
  then obtain r fid where "p = from_prefix @ r" "hm_get t p = Some fid" by (auto simp: prefix_def)
  then have "(p, to_prefix @ r, fid) \<in> set (rename_updates from_prefix to_prefix t)"
    using rename_updates_mem [OF assms] by blast
  then show "p \<in> fst ` set (rename_updates from_prefix to_prefix t)" by force
qed

lemma rename_updates_new:
  assumes "hm_ok t" and "prefix to_prefix p"
    and "p \<notin> (fst \<circ> snd) ` set (rename_updates from_prefix to_prefix t)"
  shows "hm_get t (from_prefix @ drop (length to_prefix) p) = None"
proof (rule ccontr)
  obtain r where r: "p = to_prefix @ r" using assms(2) by (auto simp: prefix_def)
  assume "\<not> ?thesis"
  then obtain fid where "hm_get t (from_prefix @ r) = Some fid" using r by auto
  then have "(from_prefix @ r, p, fid) \<in> set (rename_updates from_prefix to_prefix t)"
    using rename_updates_mem [OF assms(1)] r by blast
  then show False using assms(3) by force
qed

lemma fold_moves_tree:
  assumes ok: "hm_ok t" and below: "\<not> prefix from_prefix to_prefix"
    and free: "\<And>r. hm_get t (to_prefix @ r) = None"
  shows "hm_get (fold move_path (rename_updates from_prefix to_prefix t) t) p =
    move_tree from_prefix to_prefix (hm_get t) p"
proof (cases "p \<in> (fst \<circ> snd) ` set (rename_updates from_prefix to_prefix t)")
  note get = fold_move_get [OF rename_updates_apart [OF ok below free]]
  case True
  then obtain old fid where o: "(old, p, fid) \<in> set (rename_updates from_prefix to_prefix t)" by force
  then obtain r where "old = from_prefix @ r" "p = to_prefix @ r" "hm_get t old = Some fid"
    using rename_updates_mem [OF ok] by blast
  then show ?thesis using o get by (auto simp: move_tree_def)
next
  note get = fold_move_get [OF rename_updates_apart [OF ok below free]]
  case False
  have "hm_get (fold move_path (rename_updates from_prefix to_prefix t) t) p =
      (if p \<in> fst ` set (rename_updates from_prefix to_prefix t) then None else hm_get t p)"
    using get False by blast
  moreover have "hm_get t p = None" if "prefix to_prefix p"
    using that free by (auto simp: prefix_def)
  ultimately show ?thesis
    using rename_updates_new [OF ok _ False] by (simp add: rename_updates_old [OF ok] move_tree_def)
qed

text \<open>
  C28: Renaming moves a tree of paths. If no known path lies at or below the new one and the new
  path does not lie below the old one, then \<open>rename_path_prefix\<close> implements the abstract operation: every path
  below the old one is known by its new name with the same file id, no old name is left, all
  other paths are as they were, and the map stays consistent.
\<close>

theorem rename_moves_tree:
  assumes "fm_ok m" and "\<not> prefix from_prefix to_prefix"
    and "\<And>r. hm_get (fm_path_to_id m) (to_prefix @ r) = None"
  shows "hm_get (fm_path_to_id (rename_path_prefix from_prefix to_prefix m)) =
      move_tree from_prefix to_prefix (hm_get (fm_path_to_id m)) \<and>
    fm_ok (rename_path_prefix from_prefix to_prefix m)"
proof
  have "hm_ok (fm_path_to_id m)" using assms(1) by (simp add: fm_ok_def tables_ok_def)
  note moves = fold_moves_tree [OF this assms(2,3)]
  have "rename_path_prefix from_prefix to_prefix m =
      fold rename_one (rename_updates from_prefix to_prefix (fm_path_to_id m)) m"
    using assms(2) by (auto simp: rename_path_prefix_def)
  then show "hm_get (fm_path_to_id (rename_path_prefix from_prefix to_prefix m)) =
      move_tree from_prefix to_prefix (hm_get (fm_path_to_id m))"
    by (simp add: fold_rename_paths moves fun_eq_iff)
  show "fm_ok (rename_path_prefix from_prefix to_prefix m)" by (rule rename_path_prefix_ok [OF assms(1)])
qed

lemma rename_moves_tree_witness:
  "hm_get (fm_path_to_id (rename_path_prefix [0] [1] ex_map)) [1] = Some 1 \<and>
    hm_get (fm_path_to_id (rename_path_prefix [0] [1] ex_map)) [0] = None"
proof -
  have keys: "map fst (fm_path_to_id ex_map) = [[], [0]]" by code_simp
  have known: "hm_get (fm_path_to_id ex_map) [0] = Some 1" by code_simp
  have "hm_get (fm_path_to_id ex_map) ([1] @ r) = None" for r
  proof -
    have "[1] @ r \<notin> set (map fst (fm_path_to_id ex_map))" unfolding keys by simp
    then show ?thesis unfolding hm_get_def map_of_eq_None_iff by (simp only: set_map not_False_eq_True)
  qed
  moreover have "\<not> prefix [0] [1 :: symbol]" by simp
  ultimately show ?thesis
    using rename_moves_tree [OF ex_map_ok, of "[0]" "[1]"] known by (simp add: move_tree_def)
qed

end
