(* ===== verification/Mirror_Write.thy ===== *)
theory Mirror_Write
  imports Mirror_Properties
begin

text \<open>
  What WRITE through a mirror does to the host's file, and that READ finds it there. The host is
  held to a contract for writing beside the one for reading.
\<close>

section \<open>The contract of the host\<close>

text \<open>The contents of a file after a write at an offset; a gap is filled with zeros.\<close>

definition file_write :: "nat \<Rightarrow> bytes \<Rightarrow> bytes \<Rightarrow> bytes" where
  "file_write off data b =
    take off (b @ replicate (off - length b) 0) @ data @ drop (off + length data) b"

text \<open>
  A file that is opened for writing and may be created is written at the position that was sought;
  flushing and syncing leave it as it is, and the metadata have its size.
\<close>

definition writes_files :: "'h host \<Rightarrow> ('h \<Rightarrow> path \<Rightarrow> bytes option) \<Rightarrow> bool" where
  "writes_files H contents \<longleftrightarrow>
    (\<forall>path h f h1 off h2 data h3 r h4 r' h5 meta h6.
      h_open H (no_options\<lparr>oo_write := True, oo_create := True\<rparr>) path h = (Ok f, h1) \<longrightarrow>
      h_seek H f off h1 = (Ok (), h2) \<longrightarrow> h_write_all H f data h2 = (Ok (), h3) \<longrightarrow>
      h_flush H f h3 = (r, h4) \<longrightarrow> h_sync_all H f h4 = (r', h5) \<longrightarrow>
      h_file_metadata H f h5 = (Ok meta, h6) \<longrightarrow>
      (let b = file_write (unat off) data (case contents h path of Some b \<Rightarrow> b | None \<Rightarrow> [])
       in contents h6 path = Some b \<and> unat (md_size meta) = length b))"

lemma file_write_length: "length (file_write off data b) = max (length b) (off + length data)"
  by (simp add: file_write_def)

lemma file_write_read: "take (length data) (drop off (file_write off data b)) = data"
  by (simp add: file_write_def)

lemma file_write_elsewhere:
  assumes "i + n \<le> min off (length b) \<or> off + length data \<le> i"
  shows "take n (drop i (file_write off data b)) = take n (drop i b)"
  using assms
proof
  assume "i + n \<le> min off (length b)"
  then have "take (n + i) (file_write off data b) = take (n + i) b"
    by (simp add: file_write_def)
  then show ?thesis by (simp add: take_drop)
next
  assume le: "off + length data \<le> i"
  have "min (length b) off + (off - length b) = off"
    by (cases "length b \<le> off") simp_all
  then have "drop i (file_write off data b) = drop i b"
    using le by (simp add: file_write_def)
  then show ?thesis by simp
qed

section \<open>Running WRITE\<close>

lemma mirror_write_run:
  assumes host: "writes_files (en_host E) contents"
    and run: "mirror_write E fid offset data how s = Some (Ok (attr, committed, count), s')"
  shows "\<exists>e path. hm_get (fm_id_to_path (mi_fsmap s)) fid = Some e \<and>
    sym_to_path (en_interner E) (mi_fsmap s) (fe_name e) = Some path \<and>
    (let b = file_write (unat offset) data (case contents (mi_host s) path of Some b \<Rightarrow> b | None \<Rightarrow> [])
     in contents (mi_host s') path = Some b \<and> unat (fa_size attr) = length b) \<and>
    mi_fsmap s' = update_entry fid (\<lambda>e. e\<lparr>fe_fsmeta := attr\<rparr>) (mi_fsmap s) \<and>
    committed = FILE_SYNC \<and> count = of_nat (length data) \<and> fa_fileid attr = fid"
proof -
  obtain e path f h1 h2 h3 r h4 r' h5 meta h6 where
    e: "hm_get (fm_id_to_path (mi_fsmap s)) fid = Some e"
    and path: "sym_to_path (en_interner E) (mi_fsmap s) (fe_name e) = Some path"
    and f: "h_open (en_host E) (no_options\<lparr>oo_write := True, oo_create := True\<rparr>) path (mi_host s) = (Ok f, h1)"
    and seek: "h_seek (en_host E) f offset h1 = (Ok (), h2)"
    and all: "h_write_all (en_host E) f data h2 = (Ok (), h3)"
    and flush: "h_flush (en_host E) f h3 = (r, h4)" and sync: "h_sync_all (en_host E) f h4 = (r', h5)"
    and meta: "h_file_metadata (en_host E) f h5 = (Ok meta, h6)"
    and res: "attr = metadata_to_fattr3 fid meta" "committed = FILE_SYNC" "count = of_nat (length data)"
      "s' = s\<lparr>mi_host := h6, mi_fsmap := update_entry fid (\<lambda>e. e\<lparr>fe_fsmeta := attr\<rparr>) (mi_fsmap s)\<rparr>"
    using run by (auto simp: mirror_write_def Let_def mirror_Ok fsmap_update_Ok)
  have "let b = file_write (unat offset) data (case contents (mi_host s) path of Some b \<Rightarrow> b | None \<Rightarrow> [])
      in contents h6 path = Some b \<and> unat (md_size meta) = length b"
    using host f seek all flush sync meta unfolding writes_files_def by blast
  then show ?thesis using e path res by (auto simp: Let_def metadata_to_fattr3_def)
qed

section \<open>Property\<close>

lemma update_meta_path:
  "sym_to_path N (update_entry fid f m) p = sym_to_path N m p"
  by (cases "hm_get (fm_id_to_path m) fid") (simp_all add: sym_to_path_def update_entry_def cong: option.case_cong)

lemma write_then_read:
  assumes hosts: "reads_files (en_host E) contents" "writes_files (en_host E) contents"
    and written: "mirror_write E fid offset data how s = Some (Ok (attr, committed, count), s1)"
    and read: "mirror_read E fid offset' count' s1 = Some (Ok (back, eof), s2)"
    and fits: "unat offset' + unat count' < 2 ^ 64"
  shows "\<exists>e path. hm_get (fm_id_to_path (mi_fsmap s)) fid = Some e \<and>
    sym_to_path (en_interner E) (mi_fsmap s) (fe_name e) = Some path \<and>
    (let b = file_write (unat offset) data (case contents (mi_host s) path of Some b \<Rightarrow> b | None \<Rightarrow> [])
     in back = take (unat count') (drop (unat offset') b) \<and>
       eof = (length b \<le> unat offset' + unat count') \<and> unat (fa_size attr) = length b)"
proof -
  obtain e path where e: "hm_get (fm_id_to_path (mi_fsmap s)) fid = Some e"
    and path: "sym_to_path (en_interner E) (mi_fsmap s) (fe_name e) = Some path"
    and b: "let b = file_write (unat offset) data (case contents (mi_host s) path of Some b \<Rightarrow> b | None \<Rightarrow> [])
      in contents (mi_host s1) path = Some b \<and> unat (fa_size attr) = length b"
    and m: "mi_fsmap s1 = update_entry fid (\<lambda>e. e\<lparr>fe_fsmeta := attr\<rparr>) (mi_fsmap s)"
    using mirror_write_run [OF hosts(2) written] by blast
  obtain e' path' b' where r: "hm_get (fm_id_to_path (mi_fsmap s1)) fid = Some e'"
      "sym_to_path (en_interner E) (mi_fsmap s1) (fe_name e') = Some path'"
      "contents (mi_host s1) path' = Some b'" "back = take (unat count') (drop (unat offset') b')"
      "eof = (length b' \<le> unat offset' + unat count')"
    using mirror_read_file [OF hosts(1) fits read] by blast
  have "path' = path"
    using r(1,2) e path by (auto simp: m update_entry_get update_meta_path)
  then show ?thesis using e path b r(3-5) by (auto simp: Let_def)
qed


lemma ex_writes_files: "writes_files ex_host ex_contents"
  unfolding writes_files_def
proof (intro allI impI)
  fix path h f h1 off h2 data h3 r h4 r' h5 meta h6
  assume f: "h_open ex_host (no_options\<lparr>oo_write := True, oo_create := True\<rparr>) path h = (Ok f, h1)"
    and seek: "h_seek ex_host f off h1 = (Ok (), h2)"
    and all: "h_write_all ex_host f data h2 = (Ok (), h3)"
    and flush: "h_flush ex_host f h3 = (r, h4)" "h_sync_all ex_host f h4 = (r', h5)"
    and meta: "h_file_metadata ex_host f h5 = (Ok meta, h6)"
  obtain m b where x: "map_of (xh_files h) path = Some (m, b)" "h1 = h"
      "xh_files h ! f = (path, m, b)" "f < length (xh_files h)"
      "f = length (takeWhile (\<lambda>f. fst f \<noteq> path) (xh_files h))"
    using ex_open_file [of "no_options\<lparr>oo_write := True, oo_create := True\<rparr>" path h f h1] f
    by (auto simp: ex_host_def)
  let ?b = "file_write (unat off) data b"
  have h2: "h2 = h\<lparr>xh_pos := unat off\<rparr>" using seek x(2) by (simp add: ex_host_def)
  have h3: "h3 = h2\<lparr>xh_files := (xh_files h)[f := (path, m, ?b)]\<rparr>"
    using all x by (simp add: h2 ex_host_def ex_write_def file_write_def Let_def)
  have h5: "h5 = h3" using flush by (simp add: ex_host_def)
  have m: "length ?b < 100" "meta = m\<lparr>md_size := of_nat (length ?b)\<rparr>" "h6 = h3"
    using meta x(4) by (simp_all add: h5 h3 ex_host_def split: if_splits)
  have "unat (md_size meta) = length ?b"
    using m(1) unfolding m(2) by (simp add: unat_of_nat take_bit_nat_eq_self)
  moreover have "map_of (xh_files h6) path = Some (m, ?b)"
    unfolding m(3) h3 using map_of_replaced [OF x(1)] x(5) by simp
  ultimately show "let b = file_write (unat off) data (case ex_contents h path of Some b \<Rightarrow> b | None \<Rightarrow> [])
      in ex_contents h6 path = Some b \<and> unat (md_size meta) = length b"
    using x(1) by (simp add: ex_contents_def)
qed


end
