(* ===== verification/Demo_Fs.thy ===== *)
theory Demo_Fs
  imports Host Vfs
begin

text \<open>
  The demonstration file system of \<open>examples/demo_fs\<close> (\<open>fs.rs\<close>, \<open>fs_entry.rs\<close>, \<open>fs_contents.rs\<close>),
  which lives in memory: a vector of entries whose positions are the file ids. The contents of
  files are shared by reference counting (\<open>Arc<RwLock<Vec<u8>>>\<close>), so that hard links see each other's
  writes: here they are cells of a store, and a file holds the address of its cell.

  A panic is \<open>None\<close>. It happens with the mutex held and poisons it, so that every later operation panics
  as well: the file system is gone. The clock is an argument \<open>now\<close>, and \<open>cap\<close> is the longest vector
  that can be allocated.
\<close>

section \<open>State\<close>

datatype FSContents = ContentsFile nat | ContentsDirectory "fileid3 list"

record DemoEntry =
  dm_id :: fileid3
  dm_attr :: fattr3
  dm_name :: filename3
  dm_parent :: fileid3
  dm_contents :: FSContents

record DemoFS =
  df_fs :: "DemoEntry list"
  df_cells :: "bytes list"

type_synonym 'a demo_op = "(DemoFS, 'a) op"

definition zero_time :: nfstime3 where
  "zero_time = \<lparr>nt_seconds = 0, nt_nseconds = 0\<rparr>"

definition demo_attr :: "ftype3 \<Rightarrow> u32 \<Rightarrow> fileid3 \<Rightarrow> u64 \<Rightarrow> fattr3" where
  "demo_attr t mode fid len = \<lparr>fa_ftype = t, fa_mode = mode, fa_nlink = 1, fa_uid = 507, fa_gid = 507,
    fa_size = len, fa_used = len, fa_rdev = \<lparr>sd_specdata1 = 0, sd_specdata2 = 0\<rparr>, fa_fsid = 0,
    fa_fileid = fid, fa_atime = zero_time, fa_mtime = zero_time, fa_ctime = zero_time\<rparr>"

text \<open>A new file owns a new cell, whose address is given.\<close>

definition make_file :: "filename3 \<Rightarrow> fileid3 \<Rightarrow> fileid3 \<Rightarrow> bytes \<Rightarrow> nat \<Rightarrow> DemoEntry" where
  "make_file name fid parent contents addr =
    \<lparr>dm_id = fid, dm_attr = demo_attr NF3REG 0x1ED fid (of_nat (length contents)), dm_name = name,
     dm_parent = parent, dm_contents = ContentsFile addr\<rparr>"

definition make_dir :: "filename3 \<Rightarrow> fileid3 \<Rightarrow> fileid3 \<Rightarrow> fileid3 list \<Rightarrow> DemoEntry" where
  "make_dir name fid parent contents =
    \<lparr>dm_id = fid, dm_attr = demo_attr NF3DIR 0x1FF fid 0, dm_name = name, dm_parent = parent,
     dm_contents = ContentsDirectory contents\<rparr>"

text \<open>\<open>DemoFS::default\<close>: the entry 0 is special, the root is the entry 1.\<close>

definition new_demo :: DemoFS where
  "new_demo = \<lparr>df_fs = [make_file [] 0 0 [] 0, make_dir [47] 1 1 []], df_cells = [[]]\<rparr>"

section \<open>Access to the vector and the store\<close>

definition entry_at :: "fileid3 \<Rightarrow> DemoFS \<Rightarrow> DemoEntry option" where
  "entry_at fid s = (if unat fid < length (df_fs s) then Some (df_fs s ! unat fid) else None)"

text \<open>\<open>fs.get(id).ok_or(NFS3ERR_NOENT)?\<close> and \<open>fs[id]\<close>\<close>

definition get_entry :: "fileid3 \<Rightarrow> DemoEntry demo_op" where
  "get_entry fid s =
    (case entry_at fid s of None \<Rightarrow> fails NFS3ERR_NOENT s | Some e \<Rightarrow> returns e s)"

definition index_entry :: "fileid3 \<Rightarrow> DemoEntry demo_op" where
  "index_entry fid s = (case entry_at fid s of None \<Rightarrow> None | Some e \<Rightarrow> returns e s)"

definition change_entry :: "fileid3 \<Rightarrow> (DemoEntry \<Rightarrow> DemoEntry) \<Rightarrow> DemoFS \<Rightarrow> DemoFS" where
  "change_entry fid f s = s\<lparr>df_fs := (df_fs s)[unat fid := f (df_fs s ! unat fid)]\<rparr>"

definition set_index :: "fileid3 \<Rightarrow> (DemoEntry \<Rightarrow> DemoEntry) \<Rightarrow> unit demo_op" where
  "set_index fid f = andthen (index_entry fid) (\<lambda>_. modifies (change_entry fid f))"

definition push_entry :: "DemoEntry \<Rightarrow> DemoFS \<Rightarrow> DemoFS" where
  "push_entry e s = s\<lparr>df_fs := df_fs s @ [e]\<rparr>"

definition alloc_cell :: "bytes \<Rightarrow> nat demo_op" where
  "alloc_cell contents s = returns (length (df_cells s)) (s\<lparr>df_cells := df_cells s @ [contents]\<rparr>)"

definition cell :: "nat \<Rightarrow> DemoFS \<Rightarrow> bytes" where
  "cell a s = df_cells s ! a"

definition set_cell :: "nat \<Rightarrow> bytes \<Rightarrow> DemoFS \<Rightarrow> DemoFS" where
  "set_cell a b s = s\<lparr>df_cells := (df_cells s)[a := b]\<rparr>"

definition new_id :: "DemoFS \<Rightarrow> fileid3" where
  "new_id s = of_nat (length (df_fs s))"

definition is_dir :: "DemoEntry \<Rightarrow> bool" where
  "is_dir e = (case dm_contents e of ContentsDirectory _ \<Rightarrow> True | ContentsFile _ \<Rightarrow> False)"

definition dir_push :: "fileid3 \<Rightarrow> DemoEntry \<Rightarrow> DemoEntry" where
  "dir_push fid e = (case dm_contents e of
      ContentsDirectory dir \<Rightarrow> e\<lparr>dm_contents := ContentsDirectory (dir @ [fid])\<rparr>
    | ContentsFile _ \<Rightarrow> e)"

definition dir_remove :: "fileid3 \<Rightarrow> DemoEntry \<Rightarrow> DemoEntry" where
  "dir_remove fid e = (case dm_contents e of
      ContentsDirectory dir \<Rightarrow> e\<lparr>dm_contents := ContentsDirectory (filter (\<lambda>i. i \<noteq> fid) dir)\<rparr>
    | ContentsFile _ \<Rightarrow> e)"

text \<open>The first child with a name.\<close>

definition find_name :: "DemoFS \<Rightarrow> filename3 \<Rightarrow> fileid3 list \<Rightarrow> fileid3 option" where
  "find_name s name dir =
    find (\<lambda>i. case entry_at i s of None \<Rightarrow> False | Some f \<Rightarrow> dm_name f = name) dir"

definition touch :: "nfstime3 \<Rightarrow> DemoEntry \<Rightarrow> DemoEntry" where
  "touch now e = e\<lparr>dm_attr := (dm_attr e)\<lparr>fa_mtime := now\<rparr>\<rparr>"

text \<open>\<open>std::str::from_utf8\<close>: well-formed byte sequences of Unicode.\<close>

definition continuation :: "u8 \<Rightarrow> bool" where
  "continuation b \<longleftrightarrow> 0x80 \<le> b \<and> b \<le> 0xBF"

fun is_utf8 :: "bytes \<Rightarrow> bool" where
  "is_utf8 [] = True"
| "is_utf8 (a # bs) =
    (if a < 0x80 then is_utf8 bs
     else case bs of
       [] \<Rightarrow> False
     | b # bs \<Rightarrow>
       if 0xC2 \<le> a \<and> a \<le> 0xDF then continuation b \<and> is_utf8 bs
       else case bs of
         [] \<Rightarrow> False
       | c # bs \<Rightarrow>
         if 0xE0 \<le> a \<and> a \<le> 0xEF then
           (if a = 0xE0 then 0xA0 \<le> b \<and> b \<le> 0xBF
            else if a = 0xED then 0x80 \<le> b \<and> b \<le> 0x9F else continuation b) \<and>
           continuation c \<and> is_utf8 bs
         else case bs of
           [] \<Rightarrow> False
         | d # bs \<Rightarrow>
           0xF0 \<le> a \<and> a \<le> 0xF4 \<and>
           (if a = 0xF0 then 0x90 \<le> b \<and> b \<le> 0xBF
            else if a = 0xF4 then 0x80 \<le> b \<and> b \<le> 0x8F else continuation b) \<and>
           continuation c \<and> continuation d \<and> is_utf8 bs)"

definition from_utf8 :: "bytes \<Rightarrow> bytes demo_op" where
  "from_utf8 name = (if is_utf8 name then returns name else panics)"

text \<open>\<open>Vec::resize\<close>, which panics beyond the capacity of a vector.\<close>

definition resize :: "nat \<Rightarrow> bytes \<Rightarrow> bytes" where
  "resize n b = take n b @ replicate (n - length b) 0"

definition resize_cell :: "nat \<Rightarrow> nat \<Rightarrow> nat \<Rightarrow> unit demo_op" where
  "resize_cell cap a n = (if n \<le> cap then modifies (\<lambda>s. set_cell a (resize n (cell a s)) s) else panics)"

section \<open>Queries\<close>

definition demo_getattr :: "fileid3 \<Rightarrow> fattr3 demo_op" where
  "demo_getattr fid = andthen (get_entry fid) (\<lambda>e. returns (dm_attr e))"

definition demo_lookup :: "fileid3 \<Rightarrow> filename3 \<Rightarrow> fileid3 demo_op" where
  "demo_lookup dirid filename =
    andthen (get_entry dirid) (\<lambda>e.
    case dm_contents e of
      ContentsFile _ \<Rightarrow> fails NFS3ERR_NOTDIR
    | ContentsDirectory dir \<Rightarrow>
        if filename = [46] then returns dirid
        else if filename = [46, 46] then returns (dm_parent e)
        else andthen (reads (\<lambda>s. find_name s filename dir)) (\<lambda>r.
          case r of Some i \<Rightarrow> returns i | None \<Rightarrow> fails NFS3ERR_NOENT))"

text \<open>The sum of offset and count wraps around; a slice that ends before it starts panics.\<close>

definition demo_read :: "fileid3 \<Rightarrow> u64 \<Rightarrow> u32 \<Rightarrow> (bytes \<times> bool) demo_op" where
  "demo_read fid offset count =
    andthen (get_entry fid) (\<lambda>e.
    case dm_contents e of
      ContentsDirectory _ \<Rightarrow> fails NFS3ERR_ISDIR
    | ContentsFile a \<Rightarrow>
        andthen (reads (cell a)) (\<lambda>bytes.
        let end0 = unat (offset + ucast count);
            eof = (end0 \<ge> length bytes);
            start = min (unat offset) (length bytes);
            end1 = min end0 (length bytes) in
        if end1 < start then panics
        else returns (take (end1 - start) (drop start bytes), eof)))"

primrec demo_entries :: "fileid3 list \<Rightarrow> DirEntry list demo_op" where
  "demo_entries [] = returns []"
| "demo_entries (i # dir) =
    andthen (index_entry i) (\<lambda>e.
    andthen (demo_entries dir) (\<lambda>rest.
    returns (\<lparr>de_fileid = i, de_name = dm_name e, de_attr = dm_attr e\<rparr> # rest)))"

text \<open>An entry is pushed before the number of entries is compared with the maximum.\<close>

definition demo_readdir :: "fileid3 \<Rightarrow> fileid3 \<Rightarrow> usize \<Rightarrow> ReadDirResult demo_op" where
  "demo_readdir dirid start_after max_entries =
    andthen (get_entry dirid) (\<lambda>e.
    case dm_contents e of
      ContentsFile _ \<Rightarrow> fails NFS3ERR_NOTDIR
    | ContentsDirectory dir \<Rightarrow>
        if start_after \<noteq> 0 \<and> unat start_after > length dir then fails NFS3ERR_BAD_COOKIE
        else
        let start_index = unat start_after;
            remaining_length = length dir - start_index in
        andthen (demo_entries (take (max 1 max_entries) (drop start_index dir))) (\<lambda>entries.
        returns \<lparr>rd_entries = entries, rd_end = (length entries = remaining_length)\<rparr>))"

definition demo_readlink :: "fileid3 \<Rightarrow> nfspath3 demo_op" where
  "demo_readlink fid =
    andthen (get_entry fid) (\<lambda>e.
    if fa_ftype (dm_attr e) = NF3LNK then
      (case dm_contents e of
        ContentsFile a \<Rightarrow> reads (cell a)
      | ContentsDirectory _ \<Rightarrow> fails NFS3ERR_INVAL)
    else fails NFS3ERR_INVAL)"

section \<open>Files\<close>

definition set_sizes :: "nat \<Rightarrow> u64 \<Rightarrow> DemoFS \<Rightarrow> DemoFS" where
  "set_sizes a len s = s\<lparr>df_fs := map (\<lambda>e.
    if dm_contents e = ContentsFile a
    then e\<lparr>dm_attr := (dm_attr e)\<lparr>fa_size := len, fa_used := len\<rparr>\<rparr> else e) (df_fs s)\<rparr>"

text \<open>The bytes from an offset on are replaced.\<close>

definition overwrite :: "nat \<Rightarrow> bytes \<Rightarrow> bytes \<Rightarrow> bytes" where
  "overwrite offset data b = take offset b @ data @ drop (offset + length data) b"

definition demo_write ::
    "nat \<Rightarrow> fileid3 \<Rightarrow> u64 \<Rightarrow> bytes \<Rightarrow> stable_how \<Rightarrow> (fattr3 \<times> stable_how \<times> count3) demo_op" where
  "demo_write cap fid offset data how =
    andthen (get_entry fid) (\<lambda>e.
    case dm_contents e of
      ContentsDirectory _ \<Rightarrow> fails NFS3ERR_IO
    | ContentsFile a \<Rightarrow>
        let offset = unat offset in
        if offset + length data > usize_max then panics
        else
        andthen (reads (cell a)) (\<lambda>bytes.
        andthen (if offset + length data > length bytes
          then resize_cell cap a (offset + length data) else returns ()) (\<lambda>_.
        andthen (modifies (\<lambda>s. set_cell a (overwrite offset data (cell a s)) s)) (\<lambda>_.
        andthen (modifies (\<lambda>s. set_sizes a (of_nat (length (cell a s))) s)) (\<lambda>_.
        andthen (demo_getattr fid) (\<lambda>attr.
        returns (attr, FILE_SYNC, of_nat (length data))))))))"

definition set_times_owner :: "nfstime3 \<Rightarrow> sattr3 \<Rightarrow> fattr3 \<Rightarrow> fattr3" where
  "set_times_owner now setattr attr =
    (let attr = (case sa_atime setattr of
          ATIME_DONT_CHANGE \<Rightarrow> attr
        | ATIME_SET_TO_CLIENT_TIME c \<Rightarrow> attr\<lparr>fa_atime := c\<rparr>
        | ATIME_SET_TO_SERVER_TIME \<Rightarrow> attr\<lparr>fa_atime := now\<rparr>);
         attr = (case sa_mtime setattr of
          MTIME_DONT_CHANGE \<Rightarrow> attr
        | MTIME_SET_TO_CLIENT_TIME c \<Rightarrow> attr\<lparr>fa_mtime := c\<rparr>
        | MTIME_SET_TO_SERVER_TIME \<Rightarrow> attr\<lparr>fa_mtime := now\<rparr>);
         attr = (case sa_uid setattr of Some u \<Rightarrow> attr\<lparr>fa_uid := u\<rparr> | None \<Rightarrow> attr)
     in case sa_gid setattr of Some g \<Rightarrow> attr\<lparr>fa_gid := g\<rparr> | None \<Rightarrow> attr)"

definition demo_setattr :: "nat \<Rightarrow> nfstime3 \<Rightarrow> fileid3 \<Rightarrow> sattr3 \<Rightarrow> fattr3 demo_op" where
  "demo_setattr cap now fid setattr =
    andthen (get_entry fid) (\<lambda>e.
    andthen (set_index fid (\<lambda>e. e\<lparr>dm_attr := set_times_owner now setattr (dm_attr e)\<rparr>)) (\<lambda>_.
    andthen (case sa_size setattr of
        None \<Rightarrow> returns ()
      | Some n \<Rightarrow>
          andthen (set_index fid (\<lambda>e. e\<lparr>dm_attr := (dm_attr e)\<lparr>fa_size := n, fa_used := n\<rparr>\<rparr>)) (\<lambda>_.
          case dm_contents e of
            ContentsFile a \<Rightarrow> resize_cell cap a (unat n)
          | ContentsDirectory _ \<Rightarrow> returns ())) (\<lambda>_.
    demo_getattr fid)))"

definition demo_commit :: "nfstime3 \<Rightarrow> fileid3 \<Rightarrow> u64 \<Rightarrow> u32 \<Rightarrow> fattr3 demo_op" where
  "demo_commit now fid offset count =
    andthen (get_entry fid) (\<lambda>_.
    andthen (set_index fid (touch now)) (\<lambda>_.
    demo_getattr fid))"

section \<open>Directories\<close>

definition make_file_at :: "filename3 \<Rightarrow> fileid3 \<Rightarrow> fileid3 \<Rightarrow> bytes \<Rightarrow> DemoEntry demo_op" where
  "make_file_at name fid parent contents =
    andthen (from_utf8 name) (\<lambda>name.
    andthen (alloc_cell contents) (\<lambda>a.
    returns (make_file name fid parent contents a)))"

definition demo_create :: "fileid3 \<Rightarrow> filename3 \<Rightarrow> sattr3 \<Rightarrow> (fileid3 \<times> fattr3) demo_op" where
  "demo_create dirid filename setattr =
    andthen (reads new_id) (\<lambda>newid.
    andthen (make_file_at filename newid dirid []) (\<lambda>e.
    andthen (modifies (push_entry e)) (\<lambda>_.
    andthen (set_index dirid (dir_push newid)) (\<lambda>_.
    andthen (attempt (demo_getattr newid)) (\<lambda>attr.
    case attr of Ok attr \<Rightarrow> returns (newid, attr) | Err _ \<Rightarrow> panics)))))"

definition demo_create_exclusive :: "fileid3 \<Rightarrow> filename3 \<Rightarrow> createverf3 \<Rightarrow> fileid3 demo_op" where
  "demo_create_exclusive dirid filename verifier = fails NFS3ERR_NOTSUPP"

text \<open>The parent directory must exist.\<close>

definition parent_dir :: "fileid3 \<Rightarrow> (fileid3 list) demo_op" where
  "parent_dir dirid s =
    (case entry_at dirid s of
      None \<Rightarrow> fails NFS3ERR_NOTDIR s
    | Some e \<Rightarrow> (case dm_contents e of
        ContentsDirectory dir \<Rightarrow> returns dir s
      | ContentsFile _ \<Rightarrow> fails NFS3ERR_NOTDIR s))"

text \<open>No child with the name exists.\<close>

definition name_free :: "filename3 \<Rightarrow> fileid3 list \<Rightarrow> unit demo_op" where
  "name_free name dir s =
    (if find_name s name dir = None then returns () s else fails NFS3ERR_EXIST s)"

text \<open>A new entry is put into its directory, whose modification time is set.\<close>

definition add_entry :: "nfstime3 \<Rightarrow> fileid3 \<Rightarrow> DemoEntry \<Rightarrow> (fileid3 \<times> fattr3) demo_op" where
  "add_entry now dirid e =
    andthen (reads new_id) (\<lambda>newid.
    andthen (modifies (push_entry e)) (\<lambda>_.
    andthen (set_index dirid (dir_push newid)) (\<lambda>_.
    andthen (set_index dirid (touch now)) (\<lambda>_.
    andthen (index_entry newid) (\<lambda>e.
    returns (newid, dm_attr e))))))"

definition demo_mkdir :: "nfstime3 \<Rightarrow> fileid3 \<Rightarrow> filename3 \<Rightarrow> (fileid3 \<times> fattr3) demo_op" where
  "demo_mkdir now dirid dirname =
    andthen (parent_dir dirid) (\<lambda>dir.
    andthen (name_free dirname dir) (\<lambda>_.
    andthen (reads new_id) (\<lambda>newid.
    andthen (from_utf8 dirname) (\<lambda>dirname.
    add_entry now dirid (make_dir dirname newid dirid [])))))"

definition demo_symlink ::
    "nfstime3 \<Rightarrow> fileid3 \<Rightarrow> filename3 \<Rightarrow> nfspath3 \<Rightarrow> sattr3 \<Rightarrow> (fileid3 \<times> fattr3) demo_op" where
  "demo_symlink now dirid linkname target attr =
    andthen (parent_dir dirid) (\<lambda>_.
    andthen (reads new_id) (\<lambda>newid.
    andthen (make_file_at linkname newid dirid target) (\<lambda>e.
    add_entry now dirid (e\<lparr>dm_attr := (dm_attr e)\<lparr>fa_ftype := NF3LNK\<rparr>\<rparr>))))"

definition set_owner_mode :: "sattr3 \<Rightarrow> fattr3 \<Rightarrow> fattr3" where
  "set_owner_mode attrs attr =
    (let attr = (case sa_mode attrs of Some mode \<Rightarrow> attr\<lparr>fa_mode := mode\<rparr> | None \<Rightarrow> attr);
         attr = (case sa_uid attrs of Some uid \<Rightarrow> attr\<lparr>fa_uid := uid\<rparr> | None \<Rightarrow> attr)
     in case sa_gid attrs of Some gid \<Rightarrow> attr\<lparr>fa_gid := gid\<rparr> | None \<Rightarrow> attr)"

definition demo_node ::
    "filename3 \<Rightarrow> fileid3 \<Rightarrow> fileid3 \<Rightarrow> ftype3 \<Rightarrow> specdata3 \<Rightarrow> DemoEntry demo_op" where
  "demo_node name newid dir_id ftype device_spec =
    (case ftype of
      NF3REG \<Rightarrow> make_file_at name newid dir_id []
    | NF3DIR \<Rightarrow> andthen (from_utf8 name) (\<lambda>name. returns (make_dir name newid dir_id []))
    | NF3BLK \<Rightarrow> andthen (make_file_at name newid dir_id []) (\<lambda>e.
        returns (e\<lparr>dm_attr := (dm_attr e)\<lparr>fa_ftype := ftype, fa_rdev := device_spec\<rparr>\<rparr>))
    | NF3CHR \<Rightarrow> andthen (make_file_at name newid dir_id []) (\<lambda>e.
        returns (e\<lparr>dm_attr := (dm_attr e)\<lparr>fa_ftype := ftype, fa_rdev := device_spec\<rparr>\<rparr>))
    | NF3FIFO \<Rightarrow> andthen (make_file_at name newid dir_id []) (\<lambda>e.
        returns (e\<lparr>dm_attr := (dm_attr e)\<lparr>fa_ftype := ftype\<rparr>\<rparr>))
    | NF3SOCK \<Rightarrow> andthen (make_file_at name newid dir_id []) (\<lambda>e.
        returns (e\<lparr>dm_attr := (dm_attr e)\<lparr>fa_ftype := ftype\<rparr>\<rparr>))
    | _ \<Rightarrow> fails NFS3ERR_NOTSUPP)"

definition demo_mknod ::
    "nfstime3 \<Rightarrow> fileid3 \<Rightarrow> filename3 \<Rightarrow> ftype3 \<Rightarrow> specdata3 \<Rightarrow> sattr3 \<Rightarrow> (fileid3 \<times> fattr3) demo_op" where
  "demo_mknod now dir_id name ftype device_spec attrs =
    andthen (parent_dir dir_id) (\<lambda>dir.
    andthen (name_free name dir) (\<lambda>_.
    andthen (reads new_id) (\<lambda>newid.
    andthen (demo_node name newid dir_id ftype device_spec) (\<lambda>e.
    add_entry now dir_id (e\<lparr>dm_attr := set_owner_mode attrs (dm_attr e)\<rparr>)))))"

text \<open>The new link shares the contents of the source, and copies its attributes before the count.\<close>

definition demo_link :: "fileid3 \<Rightarrow> fileid3 \<Rightarrow> filename3 \<Rightarrow> fattr3 demo_op" where
  "demo_link file_id target_dir_id link_name =
    andthen (get_entry file_id) (\<lambda>source_file.
    if is_dir source_file then fails NFS3ERR_ISDIR
    else
    andthen (parent_dir target_dir_id) (\<lambda>dir.
    andthen (name_free link_name dir) (\<lambda>_.
    andthen (reads new_id) (\<lambda>newid.
    andthen (modifies (push_entry \<lparr>dm_id = newid, dm_attr = dm_attr source_file, dm_name = link_name,
      dm_parent = target_dir_id, dm_contents = dm_contents source_file\<rparr>)) (\<lambda>_.
    andthen (set_index target_dir_id (dir_push newid)) (\<lambda>_.
    andthen (modifies (change_entry file_id (\<lambda>e.
      e\<lparr>dm_attr := (dm_attr e)\<lparr>fa_nlink := fa_nlink (dm_attr e) + 1\<rparr>\<rparr>))) (\<lambda>_.
    andthen (index_entry newid) (\<lambda>e.
    returns (dm_attr e)))))))))"

definition demo_remove :: "fileid3 \<Rightarrow> filename3 \<Rightarrow> unit demo_op" where
  "demo_remove dirid filename =
    andthen (get_entry dirid) (\<lambda>dir_entry.
    case dm_contents dir_entry of
      ContentsFile _ \<Rightarrow> fails NFS3ERR_NOTDIR
    | ContentsDirectory dir \<Rightarrow>
    andthen (reads (\<lambda>s. find_name s filename dir)) (\<lambda>r.
    case r of
      None \<Rightarrow> fails NFS3ERR_NOENT
    | Some file_id \<Rightarrow>
    andthen (index_entry file_id) (\<lambda>file.
    if is_dir file then fails NFS3ERR_ISDIR
    else
    andthen (set_index dirid (dir_remove file_id)) (\<lambda>_.
    andthen (alloc_cell []) (\<lambda>a.
    set_index file_id (\<lambda>e. e\<lparr>dm_name := [], dm_contents := ContentsFile a\<rparr>))))))"

definition demo_rename :: "fileid3 \<Rightarrow> filename3 \<Rightarrow> fileid3 \<Rightarrow> filename3 \<Rightarrow> unit demo_op" where
  "demo_rename from_dirid from_filename to_dirid to_filename =
    andthen (index_entry from_dirid) (\<lambda>from_entry.
    case dm_contents from_entry of
      ContentsFile _ \<Rightarrow> fails NFS3ERR_NOTDIR
    | ContentsDirectory from_dir \<Rightarrow>
    andthen (reads (\<lambda>s. find_name s from_filename from_dir)) (\<lambda>r.
    case r of
      None \<Rightarrow> fails NFS3ERR_NOENT
    | Some file_id \<Rightarrow>
    andthen (parent_dir to_dirid) (\<lambda>to_dir.
    andthen (reads (\<lambda>s. find_name s to_filename to_dir)) (\<lambda>to_remove_id.
    andthen (case to_remove_id of
        Some i \<Rightarrow> set_index to_dirid (dir_remove i)
      | None \<Rightarrow> returns ()) (\<lambda>_.
    andthen (if from_dirid \<noteq> to_dirid then
        andthen (set_index from_dirid (dir_remove file_id)) (\<lambda>_.
        andthen (set_index to_dirid (dir_push file_id)) (\<lambda>_.
        set_index file_id (\<lambda>e. e\<lparr>dm_parent := to_dirid\<rparr>)))
      else returns ()) (\<lambda>_.
    set_index file_id (\<lambda>e. e\<lparr>dm_name := to_filename\<rparr>)))))))"

section \<open>The file system\<close>

type_synonym demo_state = "DemoFS option"

text \<open>
  The trait for the demo; the clock shows the same time throughout. The three methods that it
  inherits are given after the others, over which they are defined.
\<close>

definition demo_vfs :: "nat \<Rightarrow> nfstime3 \<Rightarrow> u64 \<Rightarrow> demo_state vfs" where
  "demo_vfs cap now generation =
    (let base = \<lparr>
       vfs_generation = generation, vfs_capabilities = ReadWrite, vfs_root_dir = 1,
       vfs_limits_of = default_limits,
       vfs_lookup = (\<lambda>dirid filename. settle (demo_lookup dirid filename)),
       vfs_getattr = (\<lambda>fid. settle (demo_getattr fid)),
       vfs_setattr = (\<lambda>fid setattr. settle (demo_setattr cap now fid setattr)),
       vfs_read = (\<lambda>fid offset count. settle (demo_read fid offset count)),
       vfs_write = (\<lambda>fid offset data how. settle (demo_write cap fid offset data how)),
       vfs_create = (\<lambda>dirid filename setattr. settle (demo_create dirid filename setattr)),
       vfs_create_exclusive =
         (\<lambda>dirid filename verifier. settle (demo_create_exclusive dirid filename verifier)),
       vfs_mkdir = (\<lambda>dirid dirname. settle (demo_mkdir now dirid dirname)),
       vfs_remove = (\<lambda>dirid filename. settle (demo_remove dirid filename)),
       vfs_rename = (\<lambda>from_dirid from_filename to_dirid to_filename.
         settle (demo_rename from_dirid from_filename to_dirid to_filename)),
       vfs_readdir = (\<lambda>dirid start_after max_entries. settle (demo_readdir dirid start_after max_entries)),
       vfs_readdir_index = (\<lambda>dirid start_index max_entries s. (Err NFS3ERR_NOTSUPP, s)),
       vfs_symlink = (\<lambda>dirid linkname target attr. settle (demo_symlink now dirid linkname target attr)),
       vfs_readlink = (\<lambda>fid. settle (demo_readlink fid)),
       vfs_link = (\<lambda>file_id dirid link_name. settle (demo_link file_id dirid link_name)),
       vfs_mknod = (\<lambda>dir_id name ftype spec attrs. settle (demo_mknod now dir_id name ftype spec attrs)),
       vfs_commit = (\<lambda>fid offset count. settle (demo_commit now fid offset count)),
       vfs_check_access = (\<lambda>fid auth access s. (Err NFS3ERR_NOTSUPP, s)),
       vfs_fsstat = (\<lambda>root_fileid s. (Err NFS3ERR_NOTSUPP, s))\<rparr>
     in base\<lparr>vfs_readdir_index := default_readdir_index base,
          vfs_check_access := default_check_access base, vfs_fsstat := default_fsstat base\<rparr>)"

end
