(* ===== verification/Demo_Invariant.thy ===== *)
theory Demo_Invariant
  imports Demo_Fs Vfs_Invariants
begin

text \<open>
  The invariant of the demonstration file system: files own cells of the store, a directory lists
  every child once, its children exist and name it as their parent (so that no entry is in two
  directories), and the root is a directory. It holds as long as fewer than \<open>2 ^ 64\<close> entries were made.
\<close>

section \<open>The tree that the entries make\<close>

definition dir_of :: "DemoEntry \<Rightarrow> fileid3 list" where
  "dir_of e = (case dm_contents e of ContentsDirectory dir \<Rightarrow> dir | ContentsFile _ \<Rightarrow> [])"

definition children :: "DemoFS \<Rightarrow> fileid3 \<Rightarrow> fileid3 list" where
  "children s i = (case entry_at i s of Some e \<Rightarrow> dir_of e | None \<Rightarrow> [])"

definition parent_of :: "DemoFS \<Rightarrow> fileid3 \<Rightarrow> fileid3 option" where
  "parent_of s i = (case entry_at i s of Some e \<Rightarrow> Some (dm_parent e) | None \<Rightarrow> None)"

definition dir_at :: "DemoFS \<Rightarrow> fileid3 \<Rightarrow> bool" where
  "dir_at s i = (case entry_at i s of Some e \<Rightarrow> is_dir e | None \<Rightarrow> False)"

text \<open>The addresses of the cells of an entry: one for a file, none for a directory.\<close>

definition cells_of :: "DemoEntry \<Rightarrow> nat set" where
  "cells_of e = (case dm_contents e of ContentsFile a \<Rightarrow> {a} | ContentsDirectory _ \<Rightarrow> {})"

definition cells_ok :: "DemoFS \<Rightarrow> bool" where
  "cells_ok s \<longleftrightarrow> (\<forall>e \<in> set (df_fs s). \<forall>a \<in> cells_of e. a < length (df_cells s))"

definition demo_ok :: "DemoFS \<Rightarrow> bool" where
  "demo_ok s \<longleftrightarrow> dir_at s 1 \<and>
    (\<forall>i. distinct (children s i) \<and> (\<forall>c \<in> set (children s i). parent_of s c = Some i)) \<and>
    cells_ok s"

definition demo_inv :: "DemoFS \<Rightarrow> bool" where
  "demo_inv s \<longleftrightarrow> (length (df_fs s) < 2 ^ 64 \<longrightarrow> demo_ok s)"

lemma contents_simps [simp]:
  "dm_contents e = ContentsDirectory dir \<Longrightarrow> dir_of e = dir"
  "dm_contents e = ContentsDirectory dir \<Longrightarrow> is_dir e"
  "dm_contents e = ContentsDirectory dir \<Longrightarrow> cells_of e = {}"
  "dm_contents e = ContentsFile a \<Longrightarrow> dir_of e = []"
  "dm_contents e = ContentsFile a \<Longrightarrow> \<not> is_dir e"
  "dm_contents e = ContentsFile a \<Longrightarrow> cells_of e = {a}"
  by (simp_all add: dir_of_def is_dir_def cells_of_def)

lemma not_dir: "\<not> is_dir e \<Longrightarrow> dir_of e = []"
  by (simp add: dir_of_def is_dir_def split: FSContents.splits)

section \<open>Steps on the entries\<close>

lemma entry_at_change [simp]:
  "entry_at i (change_entry d f s) = (if i = d then map_option f (entry_at i s) else entry_at i s)"
  by (auto simp: entry_at_def change_entry_def nth_list_update word_unat_eq_iff)

lemma entry_at_push [simp]:
  "entry_at i (push_entry e s) = (if unat i = length (df_fs s) then Some e else entry_at i s)"
  by (auto simp: entry_at_def push_entry_def nth_append)

lemma entry_at_cells [simp]: "entry_at i (s\<lparr>df_cells := c\<rparr>) = entry_at i s"
  by (simp add: entry_at_def)

lemma entry_at_set_sizes [simp]:
  "entry_at i (set_sizes a len s) = map_option (\<lambda>e. if dm_contents e = ContentsFile a
    then e\<lparr>dm_attr := (dm_attr e)\<lparr>fa_size := len, fa_used := len\<rparr>\<rparr> else e) (entry_at i s)"
  by (simp add: entry_at_def set_sizes_def)

lemma step_simps [simp]:
  "df_cells (change_entry d f s) = df_cells s" "length (df_fs (change_entry d f s)) = length (df_fs s)"
  "df_cells (push_entry e s) = df_cells s" "length (df_fs (push_entry e s)) = Suc (length (df_fs s))"
  "df_cells (set_sizes a n s) = df_cells s" "length (df_fs (set_sizes a n s)) = length (df_fs s)"
  "length (df_cells (set_cell a b s)) = length (df_cells s)" "df_fs (set_cell a b s) = df_fs s"
  by (simp_all add: change_entry_def push_entry_def set_sizes_def set_cell_def)

lemma entry_at_set_cell [simp]: "entry_at i (set_cell a b s) = entry_at i s"
  by (simp add: set_cell_def)

lemma entry_at_mem: "entry_at i s = Some e \<Longrightarrow> e \<in> set (df_fs s)"
  by (auto simp: entry_at_def split: if_splits)

lemma entry_at_new:
  "length (df_fs s) < 2 ^ 64 \<Longrightarrow> unat i = length (df_fs s) \<longleftrightarrow> i = new_id s"
  by (simp add: new_id_def word_unat_eq_iff unsigned_of_nat take_bit_nat_eq_self)

lemma no_entry_new: "length (df_fs s) < 2 ^ 64 \<Longrightarrow> entry_at (new_id s) s = None"
  using entry_at_new [of s "new_id s"] by (simp add: entry_at_def)

lemma demo_okI:
  assumes "dir_at s 1" "\<And>i. distinct (children s i)"
    and "\<And>i c. c \<in> set (children s i) \<Longrightarrow> parent_of s c = Some i"
    and "cells_ok s"
  shows "demo_ok s"
  using assms by (simp add: demo_ok_def)

lemma demo_okD:
  assumes "demo_ok s"
  shows "dir_at s 1" "distinct (children s i)"
    "c \<in> set (children s i) \<Longrightarrow> parent_of s c = Some i"
    "cells_ok s"
  using assms by (simp_all add: demo_ok_def)

lemma find_name_in: "find_name s n dir = Some i \<Longrightarrow> i \<in> set dir"
  by (auto simp: find_name_def find_Some_iff)

lemma find_name_Some:
  "find_name s n dir = Some i \<Longrightarrow> \<exists>e. entry_at i s = Some e \<and> dm_name e = n"
  by (auto simp: find_name_def find_Some_iff split: option.splits)

lemma change_entries:
  "set (df_fs (change_entry d f s)) \<subseteq> set (df_fs s) \<union> f ` {e. entry_at d s = Some e}"
  using set_update_subset_insert [of "df_fs s" "unat d" "f (df_fs s ! unat d)"]
  by (auto simp: change_entry_def entry_at_def) (metis list_update_beyond linorder_not_le)

section \<open>What the steps do to the tree\<close>

text \<open>A change that leaves the contents and the parent alone, as the changes of attributes and names do.\<close>

definition keeps_links :: "(DemoEntry \<Rightarrow> DemoEntry) \<Rightarrow> bool" where
  "keeps_links f \<longleftrightarrow> (\<forall>e. dm_contents (f e) = dm_contents e \<and> dm_parent (f e) = dm_parent e)"

lemma tree_keep:
  assumes "keeps_links f"
  shows "children (change_entry d f s) i = children s i" "parent_of (change_entry d f s) i = parent_of s i"
    "dir_at (change_entry d f s) i = dir_at s i"
  using assms
  by (auto simp: keeps_links_def children_def parent_of_def dir_at_def dir_of_def is_dir_def split: option.split)

lemma tree_push:
  assumes "length (df_fs s) < 2 ^ 64"
  shows "children (push_entry e s) i = (if i = new_id s then dir_of e else children s i)"
    "parent_of (push_entry e s) i = (if i = new_id s then Some (dm_parent e) else parent_of s i)"
    "dir_at (push_entry e s) i = (if i = new_id s then is_dir e else dir_at s i)"
  by (simp_all add: children_def parent_of_def dir_at_def entry_at_new [OF assms])

lemma tree_dir_push:
  "children (change_entry d (dir_push c) s) i =
    (if i = d \<and> dir_at s d then children s i @ [c] else children s i)"
  "parent_of (change_entry d (dir_push c) s) i = parent_of s i"
  "dir_at (change_entry d (dir_push c) s) i = dir_at s i"
  by (auto simp: children_def parent_of_def dir_at_def dir_of_def is_dir_def dir_push_def
      split: option.splits FSContents.splits)

lemma tree_dir_remove:
  "children (change_entry d (dir_remove c) s) i =
    (if i = d then filter (\<lambda>j. j \<noteq> c) (children s i) else children s i)"
  "parent_of (change_entry d (dir_remove c) s) i = parent_of s i"
  "dir_at (change_entry d (dir_remove c) s) i = dir_at s i"
  by (auto simp: children_def parent_of_def dir_at_def dir_of_def is_dir_def dir_remove_def
      split: option.splits FSContents.splits)

lemma tree_set_parent:
  "children (change_entry d (\<lambda>e. e\<lparr>dm_parent := p\<rparr>) s) i = children s i"
  "parent_of (change_entry d (\<lambda>e. e\<lparr>dm_parent := p\<rparr>) s) i =
    (if i = d then map_option (\<lambda>_. p) (parent_of s i) else parent_of s i)"
  "dir_at (change_entry d (\<lambda>e. e\<lparr>dm_parent := p\<rparr>) s) i = dir_at s i"
  by (auto simp: children_def parent_of_def dir_at_def dir_of_def is_dir_def split: option.splits)

lemma tree_cells [simp]:
  "children (s\<lparr>df_cells := c\<rparr>) = children s" "parent_of (s\<lparr>df_cells := c\<rparr>) = parent_of s"
  "dir_at (s\<lparr>df_cells := c\<rparr>) = dir_at s"
  by (simp_all add: children_def parent_of_def dir_at_def fun_eq_iff)

lemma tree_sizes [simp]:
  "children (set_sizes a n s) i = children s i" "parent_of (set_sizes a n s) i = parent_of s i"
  "dir_at (set_sizes a n s) i = dir_at s i"
  by (auto simp: children_def parent_of_def dir_at_def dir_of_def is_dir_def split: option.split)

lemma cells_step [simp]:
  "cells_of (dir_push c e) = cells_of e" "cells_of (dir_remove c e) = cells_of e"
  "cells_of (e\<lparr>dm_parent := p\<rparr>) = cells_of e" "keeps_links f \<Longrightarrow> cells_of (f e) = cells_of e"
  by (auto simp: cells_of_def dir_push_def dir_remove_def keeps_links_def split: FSContents.splits)

lemma cells_ok_change:
  assumes "cells_ok s" "\<And>e. entry_at d s = Some e \<Longrightarrow> cells_of (f e) \<subseteq> cells_of e"
  shows "cells_ok (change_entry d f s)"
  unfolding cells_ok_def
proof
  fix e assume "e \<in> set (df_fs (change_entry d f s))"
  then consider "e \<in> set (df_fs s)" | e0 where "entry_at d s = Some e0" "e = f e0"
    using change_entries [of d f s] by blast
  then show "\<forall>a \<in> cells_of e. a < length (df_cells (change_entry d f s))"
  proof cases
    case 1
    then show ?thesis using assms(1) by (simp add: cells_ok_def)
  next
    case 2
    then show ?thesis using assms(1,2) entry_at_mem [of d s] by (simp add: cells_ok_def) blast
  qed
qed

lemma cells_ok_push:
  "cells_ok s \<Longrightarrow> \<forall>a \<in> cells_of e. a < length (df_cells s) \<Longrightarrow> cells_ok (push_entry e s)"
  by (auto simp: cells_ok_def push_entry_def)

section \<open>Steps that keep the invariant\<close>

lemma new_demo_entries:
  "entry_at i new_demo = (if i = 0 then Some (make_file [] 0 0 [] 0)
    else if i = 1 then Some (make_dir [47] 1 1 []) else None)"
proof -
  have "i = 0 \<or> i = 1" if "unat i < 2"
    using that by (auto simp: word_unat_eq_iff less_2_cases_iff)
  then show ?thesis by (auto simp: entry_at_def new_demo_def)
qed

lemma new_demo_ok: "demo_ok new_demo"
proof (rule demo_okI)
  show "dir_at new_demo 1" by (simp add: dir_at_def new_demo_entries is_dir_def make_dir_def)
  have "children new_demo i = []" for i
    by (simp add: children_def new_demo_entries dir_of_def make_file_def make_dir_def)
  then show "distinct (children new_demo i)"
    "c \<in> set (children new_demo i) \<Longrightarrow> parent_of new_demo c = Some i" for i c by simp_all
  show "cells_ok new_demo"
    by (simp add: cells_ok_def new_demo_def make_file_def make_dir_def cells_of_def)
qed

lemma keep_ok: "demo_ok s \<Longrightarrow> keeps_links f \<Longrightarrow> demo_ok (change_entry d f s)"
  by (rule demo_okI) (simp_all add: tree_keep demo_okD cells_ok_change)

lemma sizes_ok: "demo_ok s \<Longrightarrow> demo_ok (set_sizes a n s)"
proof (rule demo_okI)
  assume ok: "demo_ok s"
  then show "cells_ok (set_sizes a n s)"
    using demo_okD(4) [OF ok] by (auto simp: cells_ok_def set_sizes_def cells_of_def)
qed (simp_all add: demo_okD)

lemma set_cell_ok: "demo_ok s \<Longrightarrow> demo_ok (set_cell a b s)"
  by (simp add: demo_ok_def cells_ok_def set_cell_def)

lemma alloc_ok: "demo_ok s \<Longrightarrow> demo_ok (s\<lparr>df_cells := df_cells s @ [b]\<rparr>)"
  by (simp add: demo_ok_def cells_ok_def) (metis less_SucI)

lemma remove_ok: "demo_ok s \<Longrightarrow> demo_ok (change_entry d (dir_remove c) s)"
  by (rule demo_okI) (auto simp: tree_dir_remove demo_okD cells_ok_change split: if_splits dest: demo_okD(3))

text \<open>A new entry is not listed anywhere, so its directory can list it.\<close>

lemma new_not_child: "demo_ok s \<Longrightarrow> length (df_fs s) < 2 ^ 64 \<Longrightarrow> new_id s \<notin> set (children s i)"
  using demo_okD(3) [of s "new_id s" i] no_entry_new [of s] by (auto simp: parent_of_def)

lemma add_ok:
  assumes ok: "demo_ok s" and small: "length (df_fs s) < 2 ^ 64"
    and e: "dm_parent e = d" "dir_of e = []" "\<forall>a \<in> cells_of e. a < length (df_cells s)"
    and d: "d = new_id s \<longrightarrow> \<not> is_dir e"
  shows "demo_ok (change_entry d (dir_push (new_id s)) (push_entry e s))"
proof (rule demo_okI)
  let ?n = "new_id s"
  let ?t = "change_entry d (dir_push ?n) (push_entry e s)"
  note tree = tree_dir_push tree_push [OF small]
  have "1 \<noteq> ?n" using demo_okD(1) [OF ok] no_entry_new [OF small] by (auto simp: dir_at_def)
  then show "dir_at ?t 1" using demo_okD(1) [OF ok] by (simp add: tree)
  show "distinct (children ?t i)" for i
    using demo_okD(2) [OF ok] new_not_child [OF ok small] e(2) by (auto simp: tree)
  show "parent_of ?t c = Some i" if "c \<in> set (children ?t i)" for i c
    using that demo_okD(3) [OF ok, of c i] new_not_child [OF ok small, of i] e(1,2) d
    by (auto simp: tree split: if_splits)
  show "cells_ok ?t"
    using demo_okD(4) [OF ok] e(3) by (simp add: cells_ok_change cells_ok_push)
qed

text \<open>A child moves to another directory.\<close>

lemma move_ok:
  assumes ok: "demo_ok s" and c: "c \<in> set (children s d)" and d: "d \<noteq> d'"
  shows "demo_ok (change_entry c (\<lambda>e. e\<lparr>dm_parent := d'\<rparr>)
    (change_entry d' (dir_push c) (change_entry d (dir_remove c) s)))"
proof (rule demo_okI)
  let ?t = "change_entry c (\<lambda>e. e\<lparr>dm_parent := d'\<rparr>)
    (change_entry d' (dir_push c) (change_entry d (dir_remove c) s))"
  note tree = tree_set_parent tree_dir_push tree_dir_remove
  note p = demo_okD(3) [OF ok c]
  have only: "i = d" if "c \<in> set (children s i)" for i
    using demo_okD(3) [OF ok that] p by simp
  show "dir_at ?t 1" using demo_okD(1) [OF ok] by (simp add: tree)
  show "distinct (children ?t i)" for i
    using demo_okD(2) [OF ok] only [of i] d by (auto simp: tree)
  show "parent_of ?t b = Some i" if "b \<in> set (children ?t i)" for i b
    using that demo_okD(3) [OF ok, of b i] only [of i] p d by (auto simp: tree split: if_splits)
  show "cells_ok ?t"
    using demo_okD(4) [OF ok] by (simp add: cells_ok_change)
qed

text \<open>A file gets contents of its own.\<close>

lemma own_cell_ok:
  assumes ok: "demo_ok s" and e: "entry_at c s = Some e" "\<not> is_dir e" and a: "a < length (df_cells s)"
  shows "demo_ok (change_entry c (\<lambda>e. e\<lparr>dm_name := n, dm_contents := ContentsFile a\<rparr>) s)"
proof -
  let ?f = "\<lambda>e. e\<lparr>dm_name := n, dm_contents := ContentsFile a\<rparr>"
  let ?t = "change_entry c ?f s"
  have "children ?t = children s" "parent_of ?t = parent_of s" "dir_at ?t = dir_at s"
    using e by (auto simp: fun_eq_iff children_def parent_of_def dir_at_def not_dir dir_of_def is_dir_def
        split: option.split FSContents.splits)
  moreover have "cells_ok ?t"
    unfolding cells_ok_def
  proof
    fix x assume "x \<in> set (df_fs ?t)"
    then have "x \<in> set (df_fs s) \<or> x = ?f e"
      using change_entries [of c ?f s] e(1) by auto
    then show "\<forall>b \<in> cells_of x. b < length (df_cells ?t)"
      using demo_okD(4) [OF ok] a by (auto simp: cells_ok_def)
  qed
  ultimately show ?thesis using ok by (simp add: demo_ok_def)
qed

section \<open>Operations\<close>

lemma andthen_run:
  "andthen m f s = Some (r, s') \<longleftrightarrow> (\<exists>x s1. m s = Some (Ok x, s1) \<and> f x s1 = Some (r, s')) \<or>
    (\<exists>e. m s = Some (Err e, s') \<and> r = Err e)"
  by (auto simp: andthen_def split: option.splits sum.splits)

lemma case_panics_Some:
  "(case x of Err e \<Rightarrow> panics | Ok a \<Rightarrow> f a) s = Some q \<longleftrightarrow> (\<exists>a. x = Ok a \<and> f a s = Some q)"
  by (auto simp: panics_def split: sum.split)

lemma index_entry_Some:
  "index_entry i s = Some (r, s') \<longleftrightarrow> (\<exists>e. entry_at i s = Some e \<and> r = Ok e \<and> s' = s)"
  by (auto simp: index_entry_def returns_def split: option.split)

lemma get_entry_Some:
  "get_entry i s = Some (r, s') \<longleftrightarrow> s' = s \<and>
    r = (case entry_at i s of Some e \<Rightarrow> Ok e | None \<Rightarrow> Err NFS3ERR_NOENT)"
  by (auto simp: get_entry_def returns_def fails_def split: option.split)

lemma set_index_Some:
  "set_index i f s = Some (r, s') \<longleftrightarrow> (\<exists>e. entry_at i s = Some e) \<and> r = Ok () \<and> s' = change_entry i f s"
  by (auto simp: set_index_def andthen_run index_entry_Some modifies_Some)

lemma alloc_cell_Some:
  "alloc_cell b s = Some (r, s') \<longleftrightarrow> r = Ok (length (df_cells s)) \<and> s' = s\<lparr>df_cells := df_cells s @ [b]\<rparr>"
  by (auto simp: alloc_cell_def returns_def)

lemma parent_dir_Some:
  "parent_dir d s = Some (r, s') \<longleftrightarrow> s' = s \<and>
    r = (if dir_at s d then Ok (children s d) else Err NFS3ERR_NOTDIR)"
  by (auto simp: parent_dir_def returns_def fails_def dir_at_def children_def is_dir_def dir_of_def
      split: option.split FSContents.split)

lemma name_free_Some:
  "name_free n dir s = Some (r, s') \<longleftrightarrow> s' = s \<and>
    r = (if find_name s n dir = None then Ok () else Err NFS3ERR_EXIST)"
  by (auto simp: name_free_def returns_def fails_def)

lemma from_utf8_Some: "from_utf8 n s = Some (r, s') \<longleftrightarrow> is_utf8 n \<and> r = Ok n \<and> s' = s"
  by (auto simp: from_utf8_def returns_def panics_def)

lemma make_file_at_Some:
  "make_file_at n i p b s = Some (r, s') \<longleftrightarrow> is_utf8 n \<and>
    r = Ok (make_file n i p b (length (df_cells s))) \<and> s' = s\<lparr>df_cells := df_cells s @ [b]\<rparr>"
  by (auto simp: make_file_at_def andthen_run from_utf8_Some alloc_cell_Some returns_Some)

lemmas demo_run = andthen_run panics_Some index_entry_Some get_entry_Some set_index_Some alloc_cell_Some
  parent_dir_Some name_free_Some from_utf8_Some make_file_at_Some returns_Some fails_Some reads_Some
  modifies_Some attempt_Some

lemma add_entry_run:
  "add_entry now d e s = Some (r, s') \<Longrightarrow>
    s' = change_entry d (touch now) (change_entry d (dir_push (new_id s)) (push_entry e s))"
  by (auto simp: add_entry_def demo_run)

text \<open>Steps that keep the invariant of a small file system, as long as it stays small.\<close>

lemma demo_invI: "(length (df_fs s) < 2 ^ 64 \<Longrightarrow> demo_ok s) \<Longrightarrow> demo_inv s"
  by (simp add: demo_inv_def)

lemma demo_inv_same:
  "demo_inv s \<Longrightarrow> length (df_fs t) = length (df_fs s) \<Longrightarrow> (demo_ok s \<Longrightarrow> demo_ok t) \<Longrightarrow> demo_inv t"
  by (simp add: demo_inv_def)

lemma preserves_set_index: "keeps_links f \<Longrightarrow> preserves demo_inv (set_index i f)"
  by (rule preservesI) (auto simp: set_index_Some intro: demo_inv_same keep_ok)

lemma preserves_get_entry: "preserves I (get_entry i)"
  by (rule preservesI) (simp add: get_entry_Some)

lemma preserves_index_entry: "preserves I (index_entry i)"
  by (rule preservesI) (auto simp: index_entry_Some)

lemma preserves_cells:
  "preserves demo_inv (modifies (\<lambda>s. set_cell a (g s) s))"
  "preserves demo_inv (modifies (\<lambda>s. set_sizes a (h s) s))"
  by (auto intro!: preserves_modifies intro: demo_inv_same set_cell_ok sizes_ok)

lemma preserves_resize_cell: "preserves demo_inv (resize_cell cap a n)"
  by (simp add: resize_cell_def preserves_rules preserves_cells)

lemma keeps_links_rules:
  "keeps_links (\<lambda>e. e\<lparr>dm_attr := f e\<rparr>)" "keeps_links (\<lambda>e. e\<lparr>dm_name := n\<rparr>)" "keeps_links (touch now)"
  by (simp_all add: keeps_links_def touch_def)

lemmas demo_rules = preserves_rules preserves_set_index preserves_get_entry preserves_index_entry
  preserves_cells preserves_resize_cell keeps_links_rules

lemma demo_getattr_keeps: "preserves I (demo_getattr fid)"
  by (simp add: demo_getattr_def demo_rules)

lemma demo_lookup_keeps: "preserves I (demo_lookup d n)"
  by (auto simp: demo_lookup_def intro!: demo_rules split: FSContents.split option.split)

lemma demo_read_keeps: "preserves I (demo_read fid off n)"
  by (auto simp: demo_read_def Let_def intro!: demo_rules split: FSContents.split)

lemma demo_entries_keeps: "preserves I (demo_entries dir)"
  by (induction dir) (auto intro!: demo_rules)

lemma demo_readdir_keeps: "preserves I (demo_readdir d i n)"
  by (auto simp: demo_readdir_def Let_def intro!: demo_rules demo_entries_keeps split: FSContents.split)

lemma demo_readlink_keeps: "preserves I (demo_readlink fid)"
  by (auto simp: demo_readlink_def intro!: demo_rules split: FSContents.split)

lemma demo_write_keeps: "preserves demo_inv (demo_write cap fid off b how)"
  by (auto simp: demo_write_def Let_def intro!: demo_rules demo_getattr_keeps split: FSContents.split)

lemma demo_setattr_keeps: "preserves demo_inv (demo_setattr cap now fid a)"
  by (auto simp: demo_setattr_def intro!: demo_rules demo_getattr_keeps split: FSContents.split option.split)

lemma demo_commit_keeps: "preserves demo_inv (demo_commit now fid off n)"
  by (auto simp: demo_commit_def intro!: demo_rules demo_getattr_keeps)

lemma is_dir_remove: "is_dir (dir_remove i e) = is_dir e"
  by (simp add: is_dir_def dir_remove_def split: FSContents.split)

text \<open>Operations that add an entry.\<close>

lemma add_inv:
  assumes "demo_inv s" "dm_parent e = d" "dir_of e = []" "\<forall>a \<in> cells_of e. a < length (df_cells s)"
    and "d = new_id s \<longrightarrow> \<not> is_dir e"
  shows "demo_inv (change_entry d (dir_push (new_id s)) (push_entry e s))"
  using assms add_ok [of s e d] by (simp add: demo_inv_def)

lemma alloc_inv: "demo_inv s \<Longrightarrow> demo_inv (s\<lparr>df_cells := df_cells s @ [b]\<rparr>)"
  by (simp add: demo_inv_def alloc_ok)

lemma keep_inv: "demo_inv s \<Longrightarrow> keeps_links f \<Longrightarrow> demo_inv (change_entry d f s)"
  by (simp add: demo_inv_def keep_ok)

lemma new_id_alloc [simp]: "new_id (s\<lparr>df_cells := c\<rparr>) = new_id s"
  by (simp add: new_id_def)

lemma dir_at_alloc: "dir_at s d \<Longrightarrow> dir_at (s\<lparr>df_cells := c\<rparr>) d"
  by simp

lemma made_simps [simp]:
  "dm_parent (make_file n i p b a) = p" "dir_of (make_file n i p b a) = []"
  "cells_of (make_file n i p b a) = {a}" "\<not> is_dir (make_file n i p b a)"
  "dm_parent (make_dir n i p []) = p" "dir_of (make_dir n i p []) = []" "cells_of (make_dir n i p []) = {}"
  by (simp_all add: make_file_def make_dir_def)

lemma attr_simps [simp]:
  "dir_of (e\<lparr>dm_attr := a\<rparr>) = dir_of e" "cells_of (e\<lparr>dm_attr := a\<rparr>) = cells_of e"
  "is_dir (e\<lparr>dm_attr := a\<rparr>) = is_dir e"
  by (simp_all add: dir_of_def cells_of_def is_dir_def)

lemma dir_at_small: "dir_at s d \<Longrightarrow> length (df_fs s) < 2 ^ 64 \<Longrightarrow> d \<noteq> new_id s"
  using no_entry_new [of s] by (auto simp: dir_at_def)

lemma add_entry_inv:
  assumes "add_entry now d e s = Some (r, s')" "demo_inv s" "dir_at s d"
    and "dm_parent e = d" "dir_of e = []" "\<forall>a \<in> cells_of e. a < length (df_cells s)"
  shows "demo_inv s'"
proof (rule demo_invI)
  assume small: "length (df_fs s') < 2 ^ 64"
  let ?t = "change_entry d (dir_push (new_id s)) (push_entry e s)"
  have s': "s' = change_entry d (touch now) ?t" by (rule add_entry_run [OF assms(1)])
  then have "length (df_fs s) < 2 ^ 64" using small by simp
  then have "demo_inv ?t"
    using assms(2-) dir_at_small [of s d] by (intro add_inv) auto
  then show "demo_ok s'" using small keep_ok [OF _ keeps_links_rules(3)] by (simp add: s' demo_inv_def)
qed

lemma demo_create_keeps: "preserves demo_inv (demo_create d n a)"
proof (rule preservesI)
  fix s r s' assume inv: "demo_inv s" and run: "demo_create d n a s = Some (r, s')"
  let ?s = "s\<lparr>df_cells := df_cells s @ [[]]\<rparr>"
  let ?t = "change_entry d (dir_push (new_id ?s)) (push_entry (make_file n (new_id s) d [] (length (df_cells s))) ?s)"
  have "s' = ?t"
    using run by (auto simp: demo_create_def demo_getattr_def demo_run case_panics_Some)
  moreover have "demo_inv ?t" by (rule add_inv) (simp_all add: alloc_inv inv)
  ultimately show "demo_inv s'" by simp
qed

lemma demo_mkdir_keeps: "preserves demo_inv (demo_mkdir now d n)"
  by (rule preservesI) (auto simp: demo_mkdir_def demo_run split: if_splits dest!: add_entry_inv)

lemma demo_symlink_keeps: "preserves demo_inv (demo_symlink now d n target a)"
  by (rule preservesI) (auto simp: demo_symlink_def demo_run alloc_inv split: if_splits dest!: add_entry_inv)

text \<open>A node made by MKNOD is an entry of its own, with a new cell if it is not a directory.\<close>

lemma demo_node_run:
  assumes "demo_node n i d t sd s = Some (Ok e, s')"
  shows "dm_parent e = d \<and> dir_of e = [] \<and> (\<forall>a \<in> cells_of e. a < length (df_cells s')) \<and>
    (s' = s \<or> (\<exists>b. s' = s\<lparr>df_cells := df_cells s @ [b]\<rparr>))"
  using assms by (auto simp: demo_node_def demo_run split: ftype3.splits)

lemma demo_node_fails: "demo_node n i d t sd s = Some (Err x, s') \<Longrightarrow> s' = s"
  by (auto simp: demo_node_def demo_run split: ftype3.splits)

lemma demo_mknod_keeps: "preserves demo_inv (demo_mknod now d n t sd a)"
proof (rule preservesI)
  fix s r s' assume inv: "demo_inv s" and run: "demo_mknod now d n t sd a s = Some (r, s')"
  consider "s' = s" | e s1 where "dir_at s d" "demo_node n (new_id s) d t sd s = Some (Ok e, s1)"
      "add_entry now d (e\<lparr>dm_attr := set_owner_mode a (dm_attr e)\<rparr>) s1 = Some (r, s')"
    using run by (auto simp: demo_mknod_def demo_run split: if_splits dest: demo_node_fails)
  then show "demo_inv s'"
  proof cases
    case 2
    then show ?thesis
      using demo_node_run [OF 2(2)] inv by (auto simp: alloc_inv elim!: add_entry_inv)
  qed (simp add: inv)
qed

text \<open>A new link to a file, and the count that the file gets.\<close>

definition linked :: "DemoFS \<Rightarrow> fileid3 \<Rightarrow> DemoEntry \<Rightarrow> fileid3 \<Rightarrow> filename3 \<Rightarrow> DemoFS" where
  "linked s f src d n = change_entry f (\<lambda>e. e\<lparr>dm_attr := (dm_attr e)\<lparr>fa_nlink := fa_nlink (dm_attr e) + 1\<rparr>\<rparr>)
    (change_entry d (dir_push (new_id s)) (push_entry \<lparr>dm_id = new_id s,
      dm_attr = dm_attr src, dm_name = n, dm_parent = d, dm_contents = dm_contents src\<rparr> s))"

lemma link_run:
  "demo_link f d n s = Some (r, s') \<Longrightarrow> s' = s \<and> (\<exists>e. r = Err e) \<or>
    (\<exists>src. entry_at f s = Some src \<and> \<not> is_dir src \<and> dir_at s d \<and> find_name s n (children s d) = None \<and>
      s' = linked s f src d n)"
  by (auto simp: demo_link_def demo_run linked_def split: if_splits option.splits)

lemma demo_link_keeps: "preserves demo_inv (demo_link f d n)"
proof (rule preservesI)
  fix s r s' assume inv: "demo_inv s" and run: "demo_link f d n s = Some (r, s')"
  let ?t = "\<lambda>src. change_entry d (dir_push (new_id s)) (push_entry \<lparr>dm_id = new_id s,
    dm_attr = dm_attr src, dm_name = n, dm_parent = d, dm_contents = dm_contents src\<rparr> s)"
  consider "s' = s" | src where "entry_at f s = Some src" "\<not> is_dir src" "s' = linked s f src d n" "dir_at s d"
    using link_run [OF run] by blast
  then show "demo_inv s'"
  proof cases
    case 2
    then have src: "demo_ok s \<Longrightarrow> \<forall>a \<in> cells_of src. a < length (df_cells s)"
      using demo_okD(4) [of s] entry_at_mem [of f s src] by (simp add: cells_ok_def)
    show ?thesis
    proof (rule demo_invI)
      assume small: "length (df_fs s') < 2 ^ 64"
      then have small: "length (df_fs s) < 2 ^ 64" using 2(3) by (simp add: linked_def)
      then have "demo_ok s" using inv by (simp add: demo_inv_def)
      then have "demo_ok (?t src)"
        using 2(2,4) src small dir_at_small [of s d]
        by (intro add_ok) (simp_all add: dir_of_def is_dir_def cells_of_def split: FSContents.splits)
      then show "demo_ok s'" unfolding 2(3) linked_def by (rule keep_ok) (rule keeps_links_rules)
    qed
  qed (simp add: inv)
qed

lemma demo_remove_keeps: "preserves demo_inv (demo_remove d n)"
proof (rule preservesI)
  fix s r s' assume inv: "demo_inv s" and run: "demo_remove d n s = Some (r, s')"
  let ?t = "\<lambda>i. (change_entry d (dir_remove i) s)\<lparr>df_cells := df_cells s @ [[]]\<rparr>"
  consider "s' = s" | i e where "entry_at i s = Some e" "\<not> is_dir e"
      "s' = change_entry i (\<lambda>e. e\<lparr>dm_name := [], dm_contents := ContentsFile (length (df_cells s))\<rparr>) (?t i)"
    using run by (auto simp: demo_remove_def demo_run split: if_splits option.splits FSContents.splits)
  then show "demo_inv s'"
  proof cases
    case 2
    have "\<exists>e. entry_at i (?t i) = Some e \<and> \<not> is_dir e"
      using 2(1,2) by (auto simp: is_dir_remove)
    moreover have "demo_ok s \<Longrightarrow> demo_ok (?t i)"
      using alloc_ok [OF remove_ok [of s d i], of "[]"] by simp
    ultimately show ?thesis
      using inv unfolding 2(3) by (auto intro!: demo_inv_same [OF inv] own_cell_ok simp del: entry_at_change)
  qed (simp add: inv)
qed

text \<open>The two optional parts of a rename: an entry of the new name goes, the entry moves.\<close>

lemma rename_replaces:
  "(case x of Some i \<Rightarrow> set_index d (dir_remove i) | None \<Rightarrow> returns ()) s = Some (q, t) \<Longrightarrow>
    q = Ok () \<and> (t = s \<or> (\<exists>i. t = change_entry d (dir_remove i) s))"
  by (auto simp: set_index_Some returns_Some simp del: entry_at_change split: option.splits)

lemma rename_moves:
  "(if d \<noteq> d' then andthen (set_index d (dir_remove c)) (\<lambda>_. andthen (set_index d' (dir_push c)) (\<lambda>_.
      set_index c (\<lambda>e. e\<lparr>dm_parent := d'\<rparr>))) else returns ()) s = Some (q, t) \<Longrightarrow>
    t = s \<and> q = Ok () \<or> q = Ok () \<and> d \<noteq> d' \<and> t = change_entry c (\<lambda>e. e\<lparr>dm_parent := d'\<rparr>)
      (change_entry d' (dir_push c) (change_entry d (dir_remove c) s))"
  by (auto simp: set_index_Some returns_Some andthen_run simp del: entry_at_change split: if_splits)

lemma rename_run:
  assumes "demo_rename d n d' n' s = Some (r, s')" "s' \<noteq> s"
  obtains c t u where "c \<in> set (children s d)" "t = s \<or> (\<exists>i. t = change_entry d' (dir_remove i) s)"
    "u = t \<or> d \<noteq> d' \<and> u = change_entry c (\<lambda>e. e\<lparr>dm_parent := d'\<rparr>)
      (change_entry d' (dir_push c) (change_entry d (dir_remove c) t))"
    "s' = change_entry c (\<lambda>e. e\<lparr>dm_name := n'\<rparr>) u"
proof -
  note start = demo_rename_def andthen_def index_entry_def returns_def fails_def reads_def
  obtain e where e: "entry_at d s = Some e"
    using assms(1) by (cases "entry_at d s") (simp_all add: start)
  obtain dir where dir: "dm_contents e = ContentsDirectory dir"
    using assms e by (cases "dm_contents e") (simp_all add: start)
  obtain c where c: "find_name s n dir = Some c"
    using assms e dir by (cases "find_name s n dir") (simp_all add: start)
  note e = e dir c
  obtain q t where t: "(case find_name s n' (children s d') of Some i \<Rightarrow> set_index d' (dir_remove i)
      | None \<Rightarrow> returns ()) s = Some (q, t)"
    and rest: "andthen (if d \<noteq> d' then andthen (set_index d (dir_remove c)) (\<lambda>_.
        andthen (set_index d' (dir_push c)) (\<lambda>_. set_index c (\<lambda>e. e\<lparr>dm_parent := d'\<rparr>))) else returns ())
      (\<lambda>_. set_index c (\<lambda>e. e\<lparr>dm_name := n'\<rparr>)) t = Some (r, s')"
    using assms e
    by (simp add: demo_rename_def andthen_run index_entry_Some parent_dir_Some reads_Some fails_Some
        split: if_splits) (auto dest: rename_replaces)
  obtain q' u where u: "(if d \<noteq> d' then andthen (set_index d (dir_remove c)) (\<lambda>_.
        andthen (set_index d' (dir_push c)) (\<lambda>_. set_index c (\<lambda>e. e\<lparr>dm_parent := d'\<rparr>))) else returns ()) t
      = Some (q', u)" and s': "q' = Ok () \<longrightarrow> s' = change_entry c (\<lambda>e. e\<lparr>dm_name := n'\<rparr>) u"
    using rest by (auto simp: andthen_run [of _ "\<lambda>_. set_index c (\<lambda>e. e\<lparr>dm_name := n'\<rparr>)"] set_index_Some
        simp del: entry_at_change)
  show ?thesis
    using that [of c t u] find_name_in [OF e(3)] e(1,2) rename_replaces [OF t] rename_moves [OF u] s'
    by (auto simp: children_def)
qed

lemma demo_rename_keeps: "preserves demo_inv (demo_rename d n d' n')"
proof (rule preservesI)
  fix s r s' assume inv: "demo_inv s" and run: "demo_rename d n d' n' s = Some (r, s')"
  show "demo_inv s'"
  proof (cases "s' = s")
    case False
    then obtain c t u where c: "c \<in> set (children s d)"
      and t: "t = s \<or> (\<exists>i. t = change_entry d' (dir_remove i) s)"
      and u: "u = t \<or> d \<noteq> d' \<and> u = change_entry c (\<lambda>e. e\<lparr>dm_parent := d'\<rparr>)
        (change_entry d' (dir_push c) (change_entry d (dir_remove c) t))"
      and s': "s' = change_entry c (\<lambda>e. e\<lparr>dm_name := n'\<rparr>) u"
      by (rule rename_run [OF run])
    have 1: "demo_ok s \<Longrightarrow> demo_ok t" "length (df_fs t) = length (df_fs s)"
      using t by (auto intro: remove_ok)
    have "d \<noteq> d' \<Longrightarrow> children t d = children s d" using t by (auto simp: tree_dir_remove)
    then have 2: "demo_ok t \<Longrightarrow> demo_ok u" "length (df_fs u) = length (df_fs t)"
      using u c by (auto intro: move_ok)
    show ?thesis
      using 1 2 demo_inv_same [OF inv, of s'] keep_ok [of u "\<lambda>e. e\<lparr>dm_name := n'\<rparr>" c] keeps_links_rules
      by (simp add: s')
  qed (simp add: inv)
qed

end
