(* ===== verification/Demo_Properties.thy ===== *)
theory Demo_Properties
  imports Demo_Invariant Nfs3_Properties
begin

text \<open>
  What the demonstration file system does, and what clients see of it through the server.
\<close>

section \<open>The file system under the server\<close>

lemma demo_vfs_simps:
  "vfs_generation (demo_vfs cap now g) = g" "vfs_capabilities (demo_vfs cap now g) = ReadWrite"
  "vfs_limits_of (demo_vfs cap now g) = default_limits"
  "vfs_lookup (demo_vfs cap now g) d n = settle (demo_lookup d n)"
  "vfs_getattr (demo_vfs cap now g) i = settle (demo_getattr i)"
  "vfs_read (demo_vfs cap now g) i off cnt = settle (demo_read i off cnt)"
  "vfs_write (demo_vfs cap now g) i off data how = settle (demo_write cap i off data how)"
  "vfs_create (demo_vfs cap now g) d n a = settle (demo_create d n a)"
  "vfs_link (demo_vfs cap now g) i d n = settle (demo_link i d n)"
  "vfs_remove (demo_vfs cap now g) d n = settle (demo_remove d n)"
  "vfs_rename (demo_vfs cap now g) d n d' n' = settle (demo_rename d n d' n')"
  "vfs_readdir (demo_vfs cap now g) d i m = settle (demo_readdir d i m)"
  "vfs_readdir_index (demo_vfs cap now g) = default_readdir_index (demo_vfs cap now g)"
  "vfs_check_access (demo_vfs cap now g) = default_check_access (demo_vfs cap now g)"
  "vfs_fsstat (demo_vfs cap now g) = default_fsstat (demo_vfs cap now g)"
  by (simp_all add: demo_vfs_def Let_def default_readdir_index_def default_check_access_def
      default_fsstat_def getattr_ok_def fun_eq_iff split: prod.split sum.split)

lemma demo_create_exclusive_keeps: "preserves demo_inv (demo_create_exclusive d n vf)"
  by (simp add: demo_create_exclusive_def preserves_rules)

lemmas demo_keeps = demo_getattr_keeps demo_lookup_keeps demo_read_keeps demo_readdir_keeps
  demo_readlink_keeps demo_write_keeps demo_setattr_keeps demo_commit_keeps demo_create_keeps
  demo_create_exclusive_keeps demo_mkdir_keeps demo_symlink_keeps demo_mknod_keeps demo_link_keeps
  demo_remove_keeps demo_rename_keeps

lemma demo_vfs_keeps: "vfs_keeps (unless_crashed demo_inv) (demo_vfs cap now g)"
  by (simp add: vfs_keeps_def reads_keep_def queries_keep_def)
    (simp add: demo_vfs_def Let_def settle_keeps demo_keeps defaults_keep)

lemma demo_vfs_poisoned: "vfs_keeps (\<lambda>state. state = None) (demo_vfs cap now g)"
  by (simp add: vfs_keeps_def reads_keep_def queries_keep_def)
    (simp add: demo_vfs_def Let_def settle_crashed defaults_keep)

interpretation demo: vfs_invariant "demo_vfs cap now g" "unless_crashed demo_inv" for cap now g
  by unfold_locales (rule demo_vfs_keeps)

interpretation poisoned: vfs_invariant "demo_vfs cap now g" "\<lambda>state. state = None" for cap now g
  by unfold_locales (rule demo_vfs_poisoned)

text \<open>
  C11: The tree of the demonstration file system stays consistent under the server. Start from the
  state it is made with and let clients send any commands, in any order: as long as fewer than
  \<open>2 ^ 64\<close> entries were made and no operation has panicked, the root is a directory, a directory lists
  every child once, every child exists and names that directory as its parent, and every file owns
  a cell of the store.
\<close>

theorem demo_tree_consistent:
  assumes "sv_fs sv = Some new_demo"
    and "list_all (\<lambda>c. cx_vfs (cm_ctx c) = demo_vfs cap now g) cs"
    and "sv_fs (snd (serve cs sv)) = Some s" and "length (df_fs s) < 2 ^ 64"
  shows "demo_ok s"
proof -
  have "unless_crashed demo_inv (sv_fs sv)"
    using assms(1) new_demo_ok by (simp add: unless_crashed_def demo_inv_def)
  then have "unless_crashed demo_inv (sv_fs (snd (serve cs sv)))"
    by (rule demo.served [OF assms(2)])
  then show ?thesis using assms(3,4) by (simp add: unless_crashed_def demo_inv_def)
qed

definition ex_demo_ctx :: "demo_state rpc_context" where
  "ex_demo_ctx = \<lparr>cx_local_port = 2049, cx_client_addr = [49], cx_auth = auth_unix_default,
    cx_vfs = demo_vfs 100 zero_time 9, cx_mount_signal = False, cx_export_name = [47]\<rparr>"

definition ex_demo_command :: "demo_state command" where
  "ex_demo_command = \<lparr>cm_data = ex_data 7 (ex_call NFS3_PROGRAM 3 0), cm_ctx = ex_demo_ctx,
    cm_now = 1, cm_later = 2\<rparr>"

lemma ex_demo_run: "sv_fs (snd (serve [ex_demo_command] (ex_server state))) = state"
proof -
  obtain out sv' where "process_rpc_command (ex_data 7 (ex_call NFS3_PROGRAM 3 0)) 1 2 ex_demo_ctx
      (ex_server state) = (Ok (True, out), sv')" "sv_fs sv' = state"
    using ex_null_ctx [of 1 2 ex_demo_ctx state] by auto
  then show ?thesis by (simp add: ex_demo_command_def)
qed

lemma demo_tree_consistent_witness:
  "sv_fs (snd (serve [ex_demo_command] (ex_server (Some new_demo)))) = Some new_demo \<and> demo_ok new_demo"
proof -
  have "demo_ok new_demo"
    by (rule demo_tree_consistent [OF _ _ ex_demo_run [of "Some new_demo"]])
      (simp_all add: ex_server_def ex_demo_command_def ex_demo_ctx_def new_demo_def)
  then show ?thesis using ex_demo_run by blast
qed

text \<open>
  A name that is not UTF-8 makes the demonstration file system unusable. CREATE with such a name
  panics while the entries are locked; from then on every operation panics, whatever commands
  clients send.
\<close>

lemma demo_bad_name_poisons:
  assumes "\<not> is_utf8 n" and "sv_fs sv = snd (vfs_create (demo_vfs cap now g) d n a (Some s))"
    and "list_all (\<lambda>c. cx_vfs (cm_ctx c) = demo_vfs cap now g) cs"
  shows "sv_fs (snd (serve cs sv)) = None \<and>
    vfs_getattr (demo_vfs cap now g) i (sv_fs (snd (serve cs sv))) = (Err NFS3ERR_SERVERFAULT, None)"
proof -
  have "sv_fs sv = None"
    using assms(1,2) by (simp add: demo_vfs_simps settle_def demo_create_def make_file_at_def
        from_utf8_def andthen_def reads_def panics_def)
  then have "sv_fs (snd (serve cs sv)) = None"
    by (rule poisoned.served [OF assms(3)])
  then show ?thesis by (simp add: demo_vfs_simps settle_def)
qed

lemma demo_bad_name_poisons_witness:
  "sv_fs (snd (serve [ex_demo_command] (ex_server
    (snd (vfs_create (demo_vfs 100 zero_time 9) 1 [0xFF] sattr3_default (Some new_demo)))))) = None"
  by (rule conjunct1 [OF demo_bad_name_poisons [of "[0xFF]" _ 100 zero_time 9 1 sattr3_default new_demo]])
    (simp_all add: ex_server_def ex_demo_command_def ex_demo_ctx_def)

section \<open>Files and links\<close>

text \<open>Reading the cell of a file.\<close>

definition read_cell :: "bytes \<Rightarrow> u64 \<Rightarrow> u32 \<Rightarrow> (bytes \<times> bool) demo_op" where
  "read_cell b offset count = (
    let end0 = unat (offset + ucast count); start = min (unat offset) (length b); end1 = min end0 (length b) in
    if end1 < start then panics else returns (take (end1 - start) (drop start b), end0 \<ge> length b))"

lemma demo_read_file:
  assumes "entry_at i s = Some e" "dm_contents e = ContentsFile a"
  shows "demo_read i off n s = read_cell (cell a s) off n s"
  using assms by (simp add: demo_read_def get_entry_def andthen_def returns_def reads_def read_cell_def Let_def)

lemma cell_steps [simp]:
  "cell a (change_entry d f s) = cell a s" "cell a (push_entry e s) = cell a s" "cell a (set_sizes b n s) = cell a s"
  "a < length (df_cells s) \<Longrightarrow> cell b (set_cell a x s) = (if b = a then x else cell b s)"
  by (auto simp: cell_def set_cell_def)

text \<open>A write within the capacity: the bytes are padded with zeroes up to the offset.\<close>

lemma demo_write_file:
  assumes e: "entry_at i s = Some e" "dm_contents e = ContentsFile a" and ok: "demo_ok s"
    and small: "unat off + length data \<le> cap" "cap \<le> usize_max"
  defines "b \<equiv> overwrite (unat off) data
    (if unat off + length data > length (cell a s) then resize (unat off + length data) (cell a s) else cell a s)"
  shows "\<exists>attr. demo_write cap i off data how s = Some (Ok (attr, FILE_SYNC, of_nat (length data)),
    set_sizes a (of_nat (length b)) (set_cell a b s)) \<and> fa_size attr = of_nat (length b)"
proof -
  have "a < length (df_cells s)"
    using demo_okD(4) [OF ok] entry_at_mem [OF e(1)] e(2) by (auto simp: cells_ok_def)
  moreover have "set_cell a x (set_cell a y s) = set_cell a x s" for x y
    by (simp add: set_cell_def)
  moreover have "resize_cell cap a (unat off + length data) t = Some (Ok (),
      set_cell a (resize (unat off + length data) (cell a t)) t)" for t
    using small by (simp add: resize_cell_def modifies_def)
  moreover have "\<not> unat off + length data > usize_max" using small by simp
  ultimately show ?thesis
    using e unfolding b_def
    by (simp add: demo_write_def demo_getattr_def get_entry_def andthen_def returns_def reads_def modifies_def
        Let_def del: of_nat_add)
qed

lemma read_overwritten:
  assumes "unat off + length data \<le> length b" "length data < 2 ^ 32" "unat off + length data < 2 ^ 64"
  shows "\<exists>eof. read_cell (overwrite (unat off) data b) off (of_nat (length data)) s = Some (Ok (data, eof), s)"
proof -
  have n: "unat (ucast (of_nat (length data) :: u32) :: u64) = length data"
    using assms(2) by (simp add: unsigned_ucast_eq unsigned_of_nat take_bit_nat_eq_self)
  then have "unat (off + ucast (of_nat (length data) :: u32)) = unat off + length data"
    using assms(3) by (subst unat_add_lem [THEN iffD1]) simp_all
  moreover have "length (overwrite (unat off) data b) = length b"
    using assms(1) by (simp add: overwrite_def)
  moreover have "take (length data) (drop (unat off) (overwrite (unat off) data b)) = data"
    using assms(1) by (simp add: overwrite_def)
  ultimately show ?thesis
    using assms(1) by (simp add: read_cell_def returns_def Let_def min_def)
qed

lemma find_append: "find P (xs @ ys) = (case find P xs of None \<Rightarrow> find P ys | Some x \<Rightarrow> Some x)"
  by (induction xs) simp_all

lemma find_name_cong:
  "(\<And>i. i \<in> set dir \<Longrightarrow> map_option dm_name (entry_at i s) = map_option dm_name (entry_at i t)) \<Longrightarrow>
    find_name s n dir = find_name t n dir"
proof -
  have "(case entry_at i u of None \<Rightarrow> False | Some f \<Rightarrow> dm_name f = n) = (map_option dm_name (entry_at i u) = Some n)"
    for i u by (simp split: option.split)
  then show "(\<And>i. i \<in> set dir \<Longrightarrow> map_option dm_name (entry_at i s) = map_option dm_name (entry_at i t)) \<Longrightarrow>
    find_name s n dir = find_name t n dir"
    unfolding find_name_def by (simp only: cong: find_cong)
qed

lemma names_change:
  "(\<And>e. dm_name (f e) = dm_name e) \<Longrightarrow>
    map_option dm_name (entry_at i (change_entry d f s)) = map_option dm_name (entry_at i s)"
  by (cases "entry_at i s") auto

lemma name_dir_steps [simp]: "dm_name (dir_push c e) = dm_name e" "dm_name (dir_remove c e) = dm_name e"
  by (simp_all add: dir_push_def dir_remove_def split: FSContents.split)

lemma demo_lookup_dir:
  assumes "dir_at s d" "n \<noteq> [46]" "n \<noteq> [46, 46]"
  shows "demo_lookup d n s = Some (case find_name s n (children s d) of None \<Rightarrow> Err NFS3ERR_NOENT | Some i \<Rightarrow> Ok i, s)"
  using assms by (auto simp: demo_lookup_def get_entry_def dir_at_def children_def dir_of_def is_dir_def
      andthen_def returns_def fails_def reads_def split: option.splits FSContents.splits)

lemma demo_lookup_Ok:
  assumes "demo_lookup d n s = Some (Ok c, s')"
  shows "\<exists>e dir. entry_at d s = Some e \<and> dm_contents e = ContentsDirectory dir"
proof -
  note start = demo_lookup_def get_entry_def andthen_def returns_def fails_def
  obtain e where e: "entry_at d s = Some e"
    using assms by (cases "entry_at d s") (simp_all add: start)
  then show ?thesis using assms by (cases "dm_contents e") (simp_all add: start)
qed

text \<open>A new entry is found under its name, if the name was free.\<close>

definition added :: "DemoFS \<Rightarrow> fileid3 \<Rightarrow> DemoEntry \<Rightarrow> DemoFS" where
  "added s d e = change_entry d (dir_push (new_id s)) (push_entry e s)"

lemma added_entries:
  assumes ok: "demo_ok s" and small: "length (df_fs s) < 2 ^ 64" and d: "dir_at s d"
    and e: "dm_parent e = d" "dir_of e = []" "\<forall>a \<in> cells_of e. a < length (df_cells s)"
  shows "demo_ok (added s d e)" "dir_at (added s d e) d"
    "children (added s d e) d = children s d @ [new_id s]"
    "find_name s (dm_name e) (children s d) = None \<Longrightarrow>
      find_name (added s d e) (dm_name e) (children (added s d e) d) = Some (new_id s)"
    "entry_at (new_id s) (added s d e) = Some e"
    "i \<noteq> new_id s \<Longrightarrow> i \<noteq> d \<Longrightarrow> entry_at i (added s d e) = entry_at i s"
proof -
  note new = entry_at_new [OF small] and tree = tree_dir_push tree_push [OF small]
  have ne: "d \<noteq> new_id s" by (rule dir_at_small [OF d small])
  show "demo_ok (added s d e)" unfolding added_def using e ne by (intro add_ok ok small) auto
  show "dir_at (added s d e) d" using d ne by (simp add: added_def tree)
  show kids: "children (added s d e) d = children s d @ [new_id s]" using d ne by (simp add: added_def tree)
  show at: "entry_at (new_id s) (added s d e) = Some e" using ne new by (simp add: added_def)
  show "i \<noteq> new_id s \<Longrightarrow> i \<noteq> d \<Longrightarrow> entry_at i (added s d e) = entry_at i s" using new by (simp add: added_def)
  have "find_name (added s d e) n (children s d) = find_name s n (children s d)" for n
  proof (rule find_name_cong)
    fix i assume "i \<in> set (children s d)"
    then have "i \<noteq> new_id s" using new_not_child [OF ok small] by auto
    then show "map_option dm_name (entry_at i (added s d e)) = map_option dm_name (entry_at i s)"
      using new by (simp add: added_def names_change del: entry_at_change)
  qed
  then show "find_name s (dm_name e) (children s d) = None \<Longrightarrow>
      find_name (added s d e) (dm_name e) (children (added s d e) d) = Some (new_id s)"
    using at unfolding kids by (simp add: find_name_def find_append)
qed

text \<open>So is a new link, which has the cell of the file.\<close>

lemma linked_entries:
  assumes ok: "demo_ok s" and small: "length (df_fs s) < 2 ^ 64"
    and src: "entry_at f s = Some src" "dm_contents src = ContentsFile a"
    and d: "dir_at s d" "find_name s n (children s d) = None"
  defines "t \<equiv> linked s f src d n"
  shows "demo_ok t" "dir_at t d" "find_name t n (children t d) = Some (new_id s)"
    "\<exists>e. entry_at (new_id s) t = Some e \<and> dm_contents e = ContentsFile a"
    "\<exists>e. entry_at f t = Some e \<and> dm_contents e = ContentsFile a"
proof -
  let ?e = "\<lparr>dm_id = new_id s, dm_attr = dm_attr src, dm_name = n, dm_parent = d, dm_contents = dm_contents src\<rparr>"
  let ?g = "\<lambda>e. e\<lparr>dm_attr := (dm_attr e)\<lparr>fa_nlink := fa_nlink (dm_attr e) + 1\<rparr>\<rparr>"
  have t: "t = change_entry f ?g (added s d ?e)" by (simp add: t_def linked_def added_def)
  have ne: "f \<noteq> new_id s" "f \<noteq> d"
    using d(1) src no_entry_new [OF small] by (auto simp: dir_at_def)
  have e: "dm_parent ?e = d" "dir_of ?e = []" "\<forall>a \<in> cells_of ?e. a < length (df_cells s)" "dm_name ?e = n"
    using demo_okD(4) [OF ok] entry_at_mem [OF src(1)] src(2) by (auto simp: cells_ok_def cells_of_def dir_of_def)
  note added = added_entries [OF ok small d(1) e(1-3)] and tree = tree_keep [OF keeps_links_rules(1)]
  show "demo_ok t" unfolding t by (rule keep_ok [OF added(1)]) (rule keeps_links_rules)
  show "dir_at t d" using added(2) by (simp add: t tree)
  have "find_name t n (children t d) = find_name (added s d ?e) n (children (added s d ?e) d)"
    unfolding t tree by (rule find_name_cong) (rule names_change, simp)
  then show "find_name t n (children t d) = Some (new_id s)" using added(4) d(2) e(4) by simp
  show "\<exists>e. entry_at (new_id s) t = Some e \<and> dm_contents e = ContentsFile a"
    using ne src(2) added(5) by (simp add: t)
  show "\<exists>e. entry_at f t = Some e \<and> dm_contents e = ContentsFile a"
    using ne src added(6) by (simp add: t)
qed

text \<open>
  C22: Hard links share their contents. After LINK has made a name for a file, the name is found in its
  directory; what is written through the new name, at any offset within the capacity, is read
  through the old one, whose size is the size that the write reports.
\<close>

theorem demo_hard_links_share:
  assumes "demo_ok s" and "Suc (length (df_fs s)) < 2 ^ 64" and "n \<noteq> [46]" and "n \<noteq> [46, 46]"
    and "vfs_link (demo_vfs cap now g) f d n (Some s) = (Ok attr, Some s1)"
    and "unat off + length data \<le> cap" and "cap \<le> usize_max" and "length data < 2 ^ 32"
  shows "\<exists>new attr1 s2 eof attr2. vfs_lookup (demo_vfs cap now g) d n (Some s1) = (Ok new, Some s1) \<and>
    vfs_write (demo_vfs cap now g) new off data how (Some s1) =
      (Ok (attr1, FILE_SYNC, of_nat (length data)), Some s2) \<and>
    vfs_read (demo_vfs cap now g) f off (of_nat (length data)) (Some s2) = (Ok (data, eof), Some s2) \<and>
    vfs_getattr (demo_vfs cap now g) f (Some s2) = (Ok attr2, Some s2) \<and> fa_size attr2 = fa_size attr1"
proof -
  obtain src where src: "entry_at f s = Some src" "\<not> is_dir src" "dir_at s d"
      "find_name s n (children s d) = None" and s1: "s1 = linked s f src d n"
    using assms(5) link_run [of f d n s "Ok attr" s1] by (auto simp: demo_vfs_simps settle_Ok)
  obtain a where a: "dm_contents src = ContentsFile a"
    using src(2) by (cases "dm_contents src") auto
  have "length (df_fs s) < 2 ^ 64" using assms(2) by simp
  note t = linked_entries [OF assms(1) this src(1) a src(3,4), folded s1]
  obtain e e' where e: "entry_at (new_id s) s1 = Some e" "dm_contents e = ContentsFile a"
      and e': "entry_at f s1 = Some e'" "dm_contents e' = ContentsFile a"
    using t(4,5) by blast
  let ?b = "if unat off + length data > length (cell a s1)
    then resize (unat off + length data) (cell a s1) else cell a s1"
  let ?c = "overwrite (unat off) data ?b"
  define s2 where "s2 = set_sizes a (of_nat (length ?c)) (set_cell a ?c s1)"
  obtain attr1 where w: "demo_write cap (new_id s) off data how s1 =
      Some (Ok (attr1, FILE_SYNC, of_nat (length data)), s2)" "fa_size attr1 = of_nat (length ?c)"
    using demo_write_file [OF e t(1) assms(6,7), of how] unfolding s2_def by blast
  have "a < length (df_cells s1)"
    using demo_okD(4) [OF t(1)] entry_at_mem [OF e(1)] e(2) by (auto simp: cells_ok_def)
  then have "cell a s2 = ?c" by (simp add: s2_def)
  moreover obtain e2 where e2: "entry_at f s2 = Some e2" "dm_contents e2 = ContentsFile a"
      "fa_size (dm_attr e2) = of_nat (length ?c)"
    using e' by (simp add: s2_def)
  moreover have "unat off + length data \<le> length ?b" by (simp add: resize_def)
  moreover have "unat off + length data < 2 ^ 64" using assms(6,7) by (simp add: usize_max_eq)
  ultimately have r: "\<exists>eof. demo_read f off (of_nat (length data)) s2 = Some (Ok (data, eof), s2)"
    using read_overwritten [of off data ?b s2] assms(8) by (simp add: demo_read_file [OF e2(1,2)])
  have "demo_getattr f s2 = Some (Ok (dm_attr e2), s2)"
    using e2(1) by (simp add: demo_getattr_def get_entry_def andthen_def returns_def)
  then show ?thesis
    using r w e2(3) t(3) demo_lookup_dir [OF t(2) assms(3,4)] by (auto simp: demo_vfs_simps settle_Ok)
qed

definition ex_demo :: DemoFS where
  "ex_demo = \<lparr>df_fs = [make_file [] 0 0 [] 0, make_dir [47] 1 1 [2], make_file [97] 2 1 [] 1],
    df_cells = [[], []]\<rparr>"

lemma ex_demo_created:
  "demo_create 1 [97] sattr3_default new_demo = Some (Ok (2, demo_attr NF3REG 0x1ED 2 0), ex_demo)"
  by code_simp

lemma ex_demo_ok: "demo_ok ex_demo" "length (df_fs ex_demo) = 3"
proof -
  show "length (df_fs ex_demo) = 3" by (simp add: ex_demo_def)
  have "demo_inv new_demo" using new_demo_ok by (simp add: demo_inv_def)
  then have "demo_inv ex_demo" by (rule preservesD [OF demo_create_keeps _ ex_demo_created])
  then show "demo_ok ex_demo" by (simp add: demo_inv_def ex_demo_def)
qed

lemma demo_hard_links_share_witness:
  "\<exists>attr s1 new attr1 s2 eof. vfs_link (demo_vfs 100 zero_time 9) 2 1 [98] (Some ex_demo) = (Ok attr, Some s1) \<and>
    vfs_write (demo_vfs 100 zero_time 9) new 3 [7] UNSTABLE (Some s1) = (Ok (attr1, FILE_SYNC, 1), Some s2) \<and>
    vfs_read (demo_vfs 100 zero_time 9) 2 3 1 (Some s2) = (Ok ([7], eof), Some s2)"
proof -
  have "case demo_link 2 1 [98] ex_demo of Some (Ok attr, s1) \<Rightarrow> True | _ \<Rightarrow> False" by code_simp
  then obtain attr s1 where l: "vfs_link (demo_vfs 100 zero_time 9) 2 1 [98] (Some ex_demo) = (Ok attr, Some s1)"
    by (auto simp: demo_vfs_simps settle_Ok split: option.splits sum.splits)
  show ?thesis
    using demo_hard_links_share [OF ex_demo_ok(1) _ _ _ l, of 3 "[7]" UNSTABLE] l
    by (auto simp: ex_demo_ok usize_max_eq)
qed

text \<open>
  CREATE makes an empty file that is found. In a directory where the name is free, CREATE with a
  UTF-8 name succeeds; afterwards the name leads to the new file, the file has the attributes
  that were reported and no contents, the directory lists it last, and no other object but the
  directory has changed.
\<close>

lemma demo_create_found:
  assumes "demo_ok s" and "length (df_fs s) < 2 ^ 64" and "dir_at s d" and "is_utf8 n"
    and "n \<noteq> [46]" and "n \<noteq> [46, 46]"
    and "vfs_lookup (demo_vfs cap now g) d n (Some s) = (Err NFS3ERR_NOENT, Some s)"
  shows "\<exists>new attr s1. vfs_create (demo_vfs cap now g) d n a (Some s) = (Ok (new, attr), Some s1) \<and>
    vfs_lookup (demo_vfs cap now g) d n (Some s1) = (Ok new, Some s1) \<and>
    vfs_getattr (demo_vfs cap now g) new (Some s1) = (Ok attr, Some s1) \<and> fa_size attr = 0 \<and>
    vfs_read (demo_vfs cap now g) new 0 count (Some s1) = (Ok ([], True), Some s1) \<and>
    children s1 d = children s d @ [new] \<and>
    (\<forall>i. i \<noteq> new \<and> i \<noteq> d \<longrightarrow> entry_at i s1 = entry_at i s)"
proof -
  let ?s = "s\<lparr>df_cells := df_cells s @ [[]]\<rparr>"
  let ?e = "make_file n (new_id s) d [] (length (df_cells s))"
  have free: "find_name s n (children s d) = None"
    using assms(7) demo_lookup_dir [OF assms(3,5,6)]
    by (auto simp: demo_vfs_simps settle_Some split: option.splits)
  have fn: "find_name ?s m dir = find_name s m dir" for m dir by (simp add: find_name_def)
  have "demo_ok ?s" "length (df_fs ?s) < 2 ^ 64" "dir_at ?s d" "dm_parent ?e = d" "dir_of ?e = []"
      "\<forall>a \<in> cells_of ?e. a < length (df_cells ?s)"
    using assms(1-3) by (simp_all add: alloc_ok)
  note t = added_entries [OF this]
  let ?t = "added ?s d ?e"
  have name: "dm_name ?e = n" by (simp add: make_file_def)
  have new: "new_id ?s = new_id s" by simp
  have at: "entry_at (new_id s) ?t = Some ?e" using t(5) by simp
  have run: "demo_create d n a s = Some (Ok (new_id s, dm_attr ?e), ?t)"
  proof -
    obtain x where "entry_at d (push_entry ?e ?s) = Some x"
      using assms(3) by (cases "entry_at d s"; cases "unat d = length (df_fs s)") (auto simp: dir_at_def)
    then have "set_index d (dir_push (new_id s)) (push_entry ?e ?s) = Some (Ok (), ?t)"
      by (simp add: set_index_Some added_def)
    moreover have "demo_getattr (new_id s) ?t = Some (Ok (dm_attr ?e), ?t)"
      using at by (simp add: demo_getattr_def get_entry_def andthen_def returns_def)
    moreover have "make_file_at n (new_id s) d [] s = Some (Ok ?e, ?s)"
      using assms(4) by (simp add: make_file_at_Some)
    ultimately show ?thesis
      by (simp add: demo_create_def andthen_def attempt_def reads_def modifies_def returns_def)
  qed
  have "demo_lookup d n ?t = Some (Ok (new_id s), ?t)"
    using demo_lookup_dir [OF t(2) assms(5,6)] t(4) free unfolding fn name new by (simp add: name)
  moreover have "cell (length (df_cells s)) ?t = []" by (simp add: added_def cell_def)
  then have "demo_read (new_id s) 0 count ?t = Some (Ok ([], True), ?t)"
    using demo_read_file [OF at, of "length (df_cells s)" 0 count]
    by (simp add: make_file_def read_cell_def returns_def)
  moreover have "demo_getattr (new_id s) ?t = Some (Ok (dm_attr ?e), ?t)"
    using at by (simp add: demo_getattr_def get_entry_def andthen_def returns_def)
  moreover have "fa_size (dm_attr ?e) = 0" by (simp add: make_file_def demo_attr_def)
  ultimately show ?thesis
    using run t(3,6) by (auto simp: demo_vfs_simps settle_Ok)
qed

lemma demo_create_found_witness:
  "\<exists>new attr s1. vfs_create (demo_vfs 100 zero_time 9) 1 [97] sattr3_default (Some new_demo) = (Ok (new, attr), Some s1) \<and>
    vfs_lookup (demo_vfs 100 zero_time 9) 1 [97] (Some s1) = (Ok new, Some s1) \<and> children s1 1 = [new]"
proof -
  have "children new_demo 1 = []" "dir_at new_demo 1" "is_utf8 [97]" "length (df_fs new_demo) < 2 ^ 64"
    using new_demo_entries [of 1] by (simp_all add: children_def dir_at_def dir_of_def make_dir_def is_dir_def)
      (simp add: new_demo_def)
  moreover from this have "vfs_lookup (demo_vfs 100 zero_time 9) 1 [97] (Some new_demo) = (Err NFS3ERR_NOENT, Some new_demo)"
    by (simp add: demo_vfs_simps settle_Some demo_lookup_dir find_name_def)
  ultimately show ?thesis
    using demo_create_found [OF new_demo_ok, of 1 "[97]" 100 zero_time 9 sattr3_default] by fastforce
qed

text \<open>
  C27: Renaming a name to itself loses the file. The demonstration file system removes what has the new name from
  the directory before it renames; when that is the file itself, the operation reports success, and
  no directory lists the file any more.
\<close>

theorem demo_rename_onto_itself:
  assumes "demo_ok s" and "n \<noteq> [46]" and "n \<noteq> [46, 46]"
    and "vfs_lookup (demo_vfs cap now g) d n (Some s) = (Ok c, Some s)"
  shows "\<exists>s1. vfs_rename (demo_vfs cap now g) d n d n (Some s) = (Ok (), Some s1) \<and>
    (\<forall>i. c \<notin> set (children s1 i))"
proof -
  obtain e dir where e: "entry_at d s = Some e" "dm_contents e = ContentsDirectory dir"
    using assms(4) demo_lookup_Ok [of d n s c s] by (auto simp: demo_vfs_simps settle_Ok)
  then have dir: "dir_at s d" "children s d = dir" by (simp_all add: dir_at_def children_def)
  then have c: "find_name s n dir = Some c"
    using assms(4) demo_lookup_dir [OF dir(1) assms(2,3)]
    by (auto simp: demo_vfs_simps settle_Ok split: option.splits)
  then have p: "parent_of s c = Some d" using demo_okD(3) [OF assms(1)] dir(2) find_name_in by blast
  then obtain f where f: "entry_at c s = Some f" by (auto simp: parent_of_def split: option.splits)
  let ?t = "change_entry c (\<lambda>e. e\<lparr>dm_name := n\<rparr>) (change_entry d (dir_remove c) s)"
  have "parent_dir d s = Some (Ok dir, s)" using dir by (simp add: parent_dir_Some)
  moreover have "set_index d (dir_remove c) s = Some (Ok (), change_entry d (dir_remove c) s)"
    using e by (simp add: set_index_Some)
  moreover have "set_index c (\<lambda>e. e\<lparr>dm_name := n\<rparr>) (change_entry d (dir_remove c) s) = Some (Ok (), ?t)"
    using f by (auto simp: set_index_Some)
  ultimately have "demo_rename d n d n s = Some (Ok (), ?t)"
    using e c by (simp add: demo_rename_def andthen_def index_entry_def returns_def reads_def)
  moreover have "c \<notin> set (children ?t i)" for i
    using demo_okD(3) [OF assms(1), of c i] p
    by (auto simp: tree_keep [OF keeps_links_rules(2)] tree_dir_remove)
  ultimately show ?thesis by (auto simp: demo_vfs_simps settle_Ok)
qed

lemma demo_rename_onto_itself_witness:
  "\<exists>s1. vfs_rename (demo_vfs 100 zero_time 9) 1 [97] 1 [97] (Some ex_demo) = (Ok (), Some s1) \<and>
    (\<forall>i. 2 \<notin> set (children s1 i))"
proof -
  have "case demo_lookup 1 [97] ex_demo of Some (Ok i, s1) \<Rightarrow> i = 2 | _ \<Rightarrow> False" by code_simp
  moreover have "preserves (\<lambda>s. s = ex_demo) (demo_lookup 1 [97])"
    by (rule demo_lookup_keeps)
  ultimately have "vfs_lookup (demo_vfs 100 zero_time 9) 1 [97] (Some ex_demo) = (Ok 2, Some ex_demo)"
    by (auto simp: demo_vfs_simps settle_Ok preserves_def split: option.splits sum.splits)
  then show ?thesis by (intro demo_rename_onto_itself [OF ex_demo_ok(1)]) auto
qed

section \<open>Directories as clients list them\<close>

definition entry_of_child :: "DemoFS \<Rightarrow> fileid3 \<Rightarrow> DirEntry" where
  "entry_of_child s i = (case entry_at i s of
      Some e \<Rightarrow> \<lparr>de_fileid = i, de_name = dm_name e, de_attr = dm_attr e\<rparr>
    | None \<Rightarrow> \<lparr>de_fileid = i, de_name = [], de_attr = demo_attr NF3REG 0 i 0\<rparr>)"

definition listing :: "DemoFS \<Rightarrow> fileid3 \<Rightarrow> DirEntry list" where
  "listing s d = map (entry_of_child s) (children s d)"

lemma demo_entries_listing:
  "(\<And>i. i \<in> set dir \<Longrightarrow> entry_at i s \<noteq> None) \<Longrightarrow> demo_entries dir s = Some (Ok (map (entry_of_child s) dir), s)"
proof (induction dir)
  case (Cons i dir)
  then obtain e where "entry_at i s = Some e" by auto
  then show ?case
    using Cons by (simp add: andthen_def index_entry_def returns_def entry_of_child_def)
qed (simp add: returns_def)

lemma demo_readdir_listing:
  assumes "demo_ok s" "dir_at s d" "0 < n"
  shows "demo_readdir d 0 n s = Some (Ok \<lparr>rd_entries = take n (listing s d), rd_end = (length (listing s d) \<le> n)\<rparr>, s)"
proof -
  obtain e dir where e: "entry_at d s = Some e" "dm_contents e = ContentsDirectory dir" "children s d = dir"
    using assms(2) by (auto simp: dir_at_def is_dir_def children_def dir_of_def
        split: option.splits FSContents.splits)
  have "entry_at i s \<noteq> None" if "i \<in> set (take n dir)" for i
    using demo_okD(3) [OF assms(1), of i d] in_set_takeD [OF that] e(3)
    by (auto simp: parent_of_def split: option.splits)
  then have "demo_entries (take n dir) s = Some (Ok (map (entry_of_child s) (take n dir)), s)"
    by (rule demo_entries_listing)
  then show ?thesis
    using e assms(3) by (simp add: demo_readdir_def get_entry_def andthen_def returns_def listing_def take_map
        max_absorb2) (auto simp: min_def)
qed

lemma demo_lists_dir:
  "demo_ok s \<Longrightarrow> dir_at s d \<Longrightarrow> lists_dir (demo_vfs cap now g) (Some s) d (listing s d)"
  unfolding lists_dir_def demo_vfs_simps settle_Some
  by (intro allI impI) (simp only: demo_readdir_listing option.case prod.case)

lemma demo_queries_same: "\<exists>r. demo_getattr i s = Some (r, s)" "\<exists>r. demo_lookup d n s = Some (r, s)"
  by (auto simp: demo_getattr_def demo_lookup_def get_entry_def andthen_def returns_def fails_def reads_def
      split: option.split FSContents.split)

lemma settle_same: "(\<And>s. \<exists>r. f s = Some (r, s)) \<Longrightarrow> \<exists>r. settle f state = (r, state)"
  by (cases state) (auto simp: settle_def, metis option.simps(5) case_prod_conv)

lemma demo_pure_queries: "pure_queries (demo_vfs cap now g)"
proof -
  have q: "\<exists>r. settle (demo_getattr i) state = (r, state)" "\<exists>r. settle (demo_lookup d n) state = (r, state)"
    for i d n state by (rule settle_same, rule demo_queries_same)+
  have "\<exists>r. default_check_access (demo_vfs cap now g) i auth req state = (r, state)" for i auth req state
    using q(1) [of i state] by (auto simp: demo_vfs_simps default_check_access_def split: sum.split)
  then show ?thesis
    using q by (simp add: pure_queries_def demo_vfs_simps) (metis snd_conv)
qed

text \<open>
  C21: Clients see the whole directory of a demonstration file system. Start from a consistent state, such as
  the one it is made with. After any commands, a client that may read a directory and lists it page by page over READDIR gets the ids and the names of
  its children, every child exactly once, in the order in which they were added.
\<close>

theorem demo_listing_complete:
  assumes "sv_fs sv = Some s0" and "demo_ok s0"
    and "list_all (\<lambda>c. cx_vfs (cm_ctx c) = demo_vfs cap now g) cs"
    and "sv_fs (snd (serve cs sv)) = Some s" and "length (df_fs s) < 2 ^ 64"
    and "dir_at s d" and "\<forall>e \<in> set (listing s d). ok_opaque (de_name e) \<and> length (de_name e) + 300 \<le> unat n"
    and "length (children s d) + 2 ^ 32 \<le> usize_max"
    and "cx_vfs ctx = demo_vfs cap now g" and "require_access ctx d ACCESS3_READ (Some s) = (Ok (), Some s)"
  shows "\<exists>es. list_directory (length (children s d) + 1) (readdir_ask ctx (Some s) (id_to_fh (cx_vfs ctx) d) n) 0 = Some es \<and>
    map en_fileid es = children s d \<and> distinct (map en_fileid es) \<and>
    map en_name es = map de_name (listing s d)"
proof -
  have "unless_crashed demo_inv (sv_fs sv)"
    using assms(1,2) by (simp add: unless_crashed_def demo_inv_def)
  then have "unless_crashed demo_inv (sv_fs (snd (serve cs sv)))"
    by (rule demo.served [OF assms(3)])
  then have ok: "demo_ok s" using assms(4,5) by (simp add: unless_crashed_def demo_inv_def)
  have l: "lists_index (cx_vfs ctx) (Some s) d (listing s d)"
    using demo_lists_dir [OF ok assms(6)] by (intro lists_index_default) (simp_all add: assms(9) demo_vfs_simps)
  have len: "length (listing s d) = length (children s d)" by (simp add: listing_def)
  obtain es where es: "list_directory (length (children s d) + 1)
        (readdir_ask ctx (Some s) (id_to_fh (cx_vfs ctx) d) n) 0 = Some es"
      "map en_fileid es = map de_fileid (listing s d)" "map en_name es = map de_name (listing s d)"
    using list_directory_names [OF l demo_pure_queries [of cap now g, folded assms(9)] assms(7) _ ok_id_to_fh
        fh_to_id_eq_Ok [THEN iffD2, OF refl] assms(10), unfolded len] assms(8) by blast
  have "de_fileid (entry_of_child s i) = i" for i by (simp add: entry_of_child_def split: option.split)
  then have "map de_fileid (listing s d) = children s d" by (simp add: listing_def comp_def)
  then show ?thesis using es demo_okD(2) [OF ok] by auto
qed

lemma demo_listing_complete_witness:
  "\<exists>es. list_directory 2 (readdir_ask ex_demo_ctx (Some ex_demo) (id_to_fh (cx_vfs ex_demo_ctx) 1) 1000) 0 = Some es \<and>
    map en_fileid es = [2] \<and> map en_name es = [[97]]"
proof -
  have at: "entry_at 1 ex_demo = Some (make_dir [47] 1 1 [2])" "entry_at 2 ex_demo = Some (make_file [97] 2 1 [] 1)"
    by (simp_all add: entry_at_def ex_demo_def)
  then have d: "dir_at ex_demo 1" "children ex_demo 1 = [2]"
    by (simp_all add: dir_at_def is_dir_def children_def dir_of_def make_dir_def)
  have l: "listing ex_demo 1 = [\<lparr>de_fileid = 2, de_name = [97], de_attr = demo_attr NF3REG 0x1ED 2 0\<rparr>]"
    using at d(2) by (simp add: listing_def entry_of_child_def make_file_def)
  have two: "length (children ex_demo 1) + 1 = 2" using d(2) by simp
  have v: "cx_vfs ex_demo_ctx = demo_vfs 100 zero_time 9" by (simp add: ex_demo_ctx_def)
  have "demo_getattr 1 ex_demo = Some (Ok (demo_attr NF3DIR 0x1FF 1 0), ex_demo)" by code_simp
  then have "require_access ex_demo_ctx 1 ACCESS3_READ (Some ex_demo) = (Ok (), Some ex_demo)"
    unfolding require_access_def v demo_vfs_simps default_check_access_def settle_Some by simp code_simp
  then have "\<exists>es. list_directory (length (children ex_demo 1) + 1)
      (readdir_ask ex_demo_ctx (Some ex_demo) (id_to_fh (cx_vfs ex_demo_ctx) 1) 1000) 0 = Some es \<and>
    map en_fileid es = children ex_demo 1 \<and> distinct (map en_fileid es) \<and>
    map en_name es = map de_name (listing ex_demo 1)"
    by (intro demo_listing_complete [OF _ ex_demo_ok(1) _ ex_demo_run [of "Some ex_demo"] _ d(1) _ _ v])
      (simp_all add: ex_server_def ex_demo_command_def v l d(2) usize_max_eq ex_demo_ok ok_opaque_def
        MAX_XDR_OPAQUE_LENGTH_eq)
  then obtain es where "list_directory 2 (readdir_ask ex_demo_ctx (Some ex_demo)
      (id_to_fh (cx_vfs ex_demo_ctx) 1) 1000) 0 = Some es"
    "map en_fileid es = children ex_demo 1" "map en_name es = map de_name (listing ex_demo 1)"
    unfolding two by blast
  then show ?thesis using d(2) l by (intro exI [of _ es]) simp
qed

end
