(* ===== verification/Demo_Main.thy ===== *)
theory Demo_Main
  imports Tcp Demo_Properties
begin

text \<open>
  The main function of the demonstration, \<open>src/examples/demo_fs/main.rs\<close>: it binds the listener to a
  fixed port on all addresses and serves a fresh tree. Logging and the printed lines are not
  modelled.
\<close>

section \<open>Starting the demonstration\<close>

definition HOSTPORT :: u32 where
  "HOSTPORT = 11111"

text \<open>\<open>format!("0.0.0.0:{HOSTPORT}")\<close>\<close>

definition demo_addr :: bytes where
  "demo_addr = [48, 46, 48, 46, 48, 46, 48, 58] @ dec_digits (unat HOSTPORT)"

text \<open>A failure to bind panics: then nothing is served.\<close>

definition start_demo ::
    "(bytes \<Rightarrow> (bytes \<times> u16) option) \<Rightarrow> (bytes \<times> u16 \<Rightarrow> u16 option) \<Rightarrow>
      nat \<Rightarrow> nfstime3 \<Rightarrow> u64 \<Rightarrow> system_time \<Rightarrow> (demo_state NFSTcpListener \<times> demo_state server) option" where
  "start_demo parse_addr tcp_bind cap clock generation now =
    (case bind_listener parse_addr tcp_bind demo_addr (demo_vfs cap clock generation) of
      Err _ \<Rightarrow> None
    | Ok listener \<Rightarrow> Some (listener, bound_server (Some new_demo) now))"

section \<open>What it serves\<close>

lemma demo_addr_text: "demo_addr = [48, 46, 48, 46, 48, 46, 48, 58, 49, 49, 49, 49, 49]"
  by (simp add: demo_addr_def HOSTPORT_def dec_digits.simps)

text \<open>The address does not ask for automatic binding: it is parsed and bound as it is.\<close>

lemma start_demo_Some:
  "start_demo parse_addr tcp_bind cap clock g now = Some (listener, sv) \<longleftrightarrow>
    (\<exists>addr port. parse_addr demo_addr = Some addr \<and> tcp_bind addr = Some port \<and>
      listener = \<lparr>ln_addr = addr, ln_port = port, ln_arcfs = demo_vfs cap clock g, ln_mount_signal = False,
        ln_export_name = [47], ln_require_privileged_source_port = False\<rparr> \<and>
      sv = bound_server (Some new_demo) now)"
proof -
  have "strip_prefix auto_prefix demo_addr = None"
    by (simp add: demo_addr_text auto_prefix_def)
  then show ?thesis
    by (auto simp: start_demo_def bind_listener_def bind_internal_def split: option.splits sum.splits)
qed

text \<open>Every peer is served, whatever its port, and gets the demonstration tree under the name of a slash.\<close>

lemma demo_accepts:
  assumes "start_demo parse_addr tcp_bind cap clock g now = Some (listener, sv)"
  shows "\<exists>ctx. accept_peer listener peer_addr peer_port = Some ctx \<and>
    cx_vfs ctx = demo_vfs cap clock g \<and> cx_export_name ctx = [47] \<and> \<not> cx_mount_signal ctx"
  using assms by (auto simp: start_demo_Some accept_peer_def)

text \<open>
  Commands of connections that the started server accepted leave the tree consistent, as long as
  no operation has panicked and fewer than \<open>2 ^ 64\<close> entries were made.
\<close>

lemma started_demo_consistent:
  assumes "start_demo parse_addr tcp_bind cap clock g now = Some (listener, sv)"
    and "list_all (\<lambda>c. \<exists>addr port. accept_peer listener addr port = Some (cm_ctx c)) cs"
    and "sv_fs (snd (serve cs sv)) = Some s" and "length (df_fs s) < 2 ^ 64"
  shows "demo_ok s"
proof -
  note accepted = demo_accepts [OF assms(1)]
  have "list_all (\<lambda>c. cx_vfs (cm_ctx c) = demo_vfs cap clock g) cs"
    using assms(2) by (rule list.pred_mono_strong) (metis accepted option.inject)
  then have "unless_crashed demo_inv (sv_fs (snd (serve cs sv)))"
    using assms(1) new_demo_ok
    by (intro demo.served) (auto simp: start_demo_Some bound_server_def unless_crashed_def demo_inv_def)
  then show ?thesis using assms(3,4) by (simp add: unless_crashed_def demo_inv_def)
qed

end
