(* ===== verification/Xdr_Types.thy ===== *)
theory Xdr_Types
  imports Xdr_Nfs3
begin

text \<open>
  XDR types as values. \<open>xdr_type\<close> is the language of the types that the results of the protocols
  are declared in, \<open>skip\<close> reads a value of a type off a byte sequence, and \<open>writes\<close> is the
  typing judgement of a serializer: what it writes is a value of the type, whatever follows it.
\<close>

section \<open>XDR types\<close>

text \<open>
  \<open>XOpaque\<close> has the greatest length if there is one; \<open>XEntries\<close> is a linked list, every entry
  behind a \<open>TRUE\<close> and a \<open>FALSE\<close> at the end; \<open>XResult\<close> is the union over the status of a procedure,
  one of the given codes, with an arm for the status 0 and one for every other status.
\<close>

datatype xdr_type =
    XUint32
  | XUint64
  | XBool
  | XEnum "i32 list"
  | XFixed usize
  | XOpaque "usize option"
  | XOptional xdr_type
  | XStruct "xdr_type list"
  | XEntries xdr_type
  | XVector xdr_type
  | XResult "i32 list" xdr_type xdr_type

definition skip_word :: "u32 de" where
  "skip_word = de_bind (read_exact 4) (\<lambda>b. de_return (of_be_bytes b))"

definition skip_bytes :: "usize \<Rightarrow> unit de" where
  "skip_bytes n = de_bind (read_exact n) (\<lambda>_. de_return ())"

definition skip_flag :: "unit de \<Rightarrow> unit de \<Rightarrow> unit de" where
  "skip_flag f t = de_bind skip_word (\<lambda>w. if w = 0 then f else if w = 1 then t else de_fail InvalidData)"

primrec skip_all :: "unit de list \<Rightarrow> unit de" where
  "skip_all [] = de_return ()"
| "skip_all (d # ds) = de_bind d (\<lambda>_. skip_all ds)"

text \<open>At most \<open>n\<close> entries; a list in \<open>n\<close> bytes has fewer.\<close>

primrec skip_entries :: "unit de \<Rightarrow> nat \<Rightarrow> unit de" where
  "skip_entries d 0 = de_fail InvalidData"
| "skip_entries d (Suc n) = skip_flag (de_return ()) (de_bind d (\<lambda>_. skip_entries d n))"

primrec skip :: "xdr_type \<Rightarrow> unit de" where
  "skip XUint32 = skip_bytes 4"
| "skip XUint64 = skip_bytes 8"
| "skip XBool = skip_flag (de_return ()) (de_return ())"
| "skip (XEnum cs) = de_bind skip_word (\<lambda>w. if w \<in> set cs then de_return () else de_fail InvalidData)"
| "skip (XFixed n) = skip_bytes (n + padding_len n)"
| "skip (XOpaque m) = de_bind skip_word (\<lambda>w.
    if (case m of Some k \<Rightarrow> unat w \<le> k | None \<Rightarrow> True)
    then skip_bytes (unat w + padding_len (unat w)) else de_fail InvalidData)"
| "skip (XOptional t) = skip_flag (de_return ()) (skip t)"
| "skip (XStruct ts) = skip_all (map skip ts)"
| "skip (XEntries t) = (\<lambda>s. skip_entries (skip t) (Suc (length s)) s)"
| "skip (XVector t) = de_bind skip_word (\<lambda>w. skip_all (replicate (unat w) (skip t)))"
| "skip (XResult cs t u) = de_bind skip_word (\<lambda>w.
    if w = 0 then skip t
    else if w \<in> set cs then skip u
    else de_fail InvalidData)"

text \<open>The bytes are exactly one value of the type.\<close>

definition has_xdr_type :: "bytes \<Rightarrow> xdr_type \<Rightarrow> bool" where
  "has_xdr_type b t \<longleftrightarrow> skip t b = Ok ((), [])"

section \<open>Typing of the serializers\<close>

definition writes :: "xdr_type \<Rightarrow> io_error + bytes \<Rightarrow> bool" where
  "writes t w \<longleftrightarrow> (\<forall>b r. w = Ok b \<longrightarrow> skip t (b @ r) = Ok ((), r))"

named_theorems typing

lemma skip_word_be [simp]: "skip_word (be_bytes 4 w @ r) = Ok (w, r)" for w :: u32
  using i32.dec_enc [of w "be_bytes 4 w" r]
  by (simp add: skip_word_def de_i32_def ser_i32_def)

lemma skip_bytes_append: "length b = n \<Longrightarrow> skip_bytes n (b @ r) = Ok ((), r)"
  by (simp add: skip_bytes_def read_exact_def de_bind_def de_return_def)

lemma de_bind_run: "m s = Ok (x, r) \<Longrightarrow> de_bind m f s = f x r"
  by (simp add: de_bind_def)

lemma skip_flag_be:
  "skip_flag f t (be_bytes 4 (if x then 1 else (0 :: u32)) @ r) = (if x then t r else f r)"
  by (simp add: skip_flag_def de_bind_run)

lemma writes_u32 [typing]: "writes XUint32 (ser_u32 x)"
  by (simp add: writes_def ser_u32_def skip_bytes_append)

lemma writes_u64 [typing]: "writes XUint64 (ser_u64 x)"
  by (simp add: writes_def ser_u64_def skip_bytes_append)

lemma writes_bool [typing]: "writes XBool (ser_bool x)"
  by (simp add: writes_def ser_bool_def ser_i32_def skip_flag_be de_return_def)

lemma writes_enum: "code x \<in> set cs \<Longrightarrow> writes (XEnum cs) (ser_enum code x)"
  by (simp add: writes_def ser_enum_def ser_i32_def de_bind_run de_return_def)

lemma skip_padded:
  "skip_bytes (length xs + padding_len (length xs))
    (xs @ replicate (padding_len (length xs)) 0 @ r) = Ok ((), r)"
  using skip_bytes_append [of "xs @ replicate (padding_len (length xs)) 0"] by simp

lemma writes_fixed: "length xs = n \<Longrightarrow> writes (XFixed n) (ser_opaque_fixed xs)"
  using skip_padded [of xs]
  by (auto simp: writes_def ser_opaque_fixed_def write_padding_def Let_def)

lemma ser_opaque_Ok:
  "ser_opaque xs = Ok b \<Longrightarrow> \<exists>w :: u32. unat w = length xs \<and>
    b = be_bytes 4 w @ xs @ replicate (padding_len (length xs)) 0"
  by (auto simp: ser_opaque_def ser_usize_as_u32_def ser_u32_def write_padding_def Let_def
      unsigned_of_nat take_bit_nat_eq_self split: if_splits
      intro!: exI [of _ "of_nat (length xs)"])

lemma writes_opaque:
  assumes "\<And>k. m = Some k \<Longrightarrow> length xs \<le> k"
  shows "writes (XOpaque m) (ser_opaque xs)"
  unfolding writes_def
proof (intro allI impI)
  fix b r
  assume "ser_opaque xs = Ok b"
  then obtain w :: u32 where w: "unat w = length xs"
      "b = be_bytes 4 w @ xs @ replicate (padding_len (length xs)) 0"
    using ser_opaque_Ok by blast
  then show "skip (XOpaque m) (b @ r) = Ok ((), r)"
    using assms skip_padded [of xs r] by (auto simp: de_bind_run split: option.split)
qed

lemma writes_opaque_any [typing]: "writes (XOpaque None) (ser_opaque xs)"
  by (rule writes_opaque) simp

lemma writes_nfsstring [typing]: "writes (XOpaque None) (ser_nfsstring xs)"
  by (simp add: ser_nfsstring_def writes_opaque_any)

lemma writes_optional:
  assumes "\<And>y. x = Some y \<Longrightarrow> writes t (s y)"
  shows "writes (XOptional t) (ser_option s x)"
  using assms
  by (cases x) (auto simp: writes_def ser_option_def ser_bool_def ser_i32_def ser_then_Ok
      skip_flag_be [where x = False, simplified] skip_flag_be [where x = True, simplified]
      de_return_def)

lemma writes_Nil [typing]: "writes (XStruct []) (Ok [])"
  by (simp add: writes_def de_return_def)

lemma writes_Cons:
  "writes t w \<Longrightarrow> writes (XStruct ts) ws \<Longrightarrow> writes (XStruct (t # ts)) (ser_then w ws)"
  by (fastforce simp: writes_def ser_then_Ok de_bind_run)

lemma writes_struct [typing]:
  "list_all2 writes ts ws \<Longrightarrow> writes (XStruct ts) (ser_seq ws)"
  by (induction rule: list_all2_induct) (simp_all add: writes_Nil writes_Cons del: skip.simps)

lemma writes_vector:
  assumes "\<And>y. y \<in> set xs \<Longrightarrow> writes t (s y)"
  shows "writes (XVector t) (ser_vec s xs)"
  unfolding writes_def
proof (intro allI impI)
  fix b r
  assume "ser_vec s xs = Ok b"
  then obtain c where c: "length xs < 2 ^ 32" "ser_seq (map s xs) = Ok c"
      "b = be_bytes 4 (of_nat (length xs) :: u32) @ c"
    by (auto simp: ser_vec_def ser_usize_as_u32_def ser_u32_def ser_then_Ok split: if_splits)
  have "skip_all (replicate (length xs) (skip t)) (c @ r) = Ok ((), r)"
    using c(2) assms
    by (induction xs arbitrary: c)
      (fastforce simp: de_return_def ser_then_Ok writes_def intro: de_bind_run [THEN trans])+
  then show "skip (XVector t) (b @ r) = Ok ((), r)"
    using c(1,3) by (simp add: de_bind_run unsigned_of_nat take_bit_nat_eq_self)
qed

lemma writes_has_type: "writes t (Ok b) \<Longrightarrow> has_xdr_type b t"
  by (auto simp: writes_def has_xdr_type_def dest: spec [of _ "[]"])

end
