(* ===== verification/Nfs3_Results.thy ===== *)
theory Nfs3_Results
  imports Nfs3 Xdr_Types
begin

text \<open>
  The types of the replies of NFS version 3. \<open>nfs_result_type\<close> gives the result of every procedure as
  RFC 1813 declares it; it is a specification, written from the protocol and not from the
  handlers.
\<close>

section \<open>The results of the procedures\<close>

definition t_nfstime3 :: xdr_type where
  "t_nfstime3 = XStruct [XUint32, XUint32]"

definition t_fattr3 :: xdr_type where
  "t_fattr3 = XStruct
    [XEnum [1, 2, 3, 4, 5, 6, 7], XUint32, XUint32, XUint32, XUint32, XUint64, XUint64,
     XStruct [XUint32, XUint32], XUint64, XUint64, t_nfstime3, t_nfstime3, t_nfstime3]"

definition t_post_op_attr :: xdr_type where
  "t_post_op_attr = XOptional t_fattr3"

definition t_wcc_data :: xdr_type where
  "t_wcc_data = XStruct
    [XOptional (XStruct [XUint64, t_nfstime3, t_nfstime3]), t_post_op_attr]"

definition t_nfs_fh3 :: xdr_type where
  "t_nfs_fh3 = XOpaque (Some 64)"

definition t_entry3 :: xdr_type where
  "t_entry3 = XStruct [XUint64, XOpaque None, XUint64]"

definition t_entryplus3 :: xdr_type where
  "t_entryplus3 = XStruct
    [XUint64, XOpaque None, XUint64, t_post_op_attr, XOptional t_nfs_fh3]"

definition nfs_result :: "xdr_type list \<Rightarrow> xdr_type list \<Rightarrow> xdr_type" where
  "nfs_result ok failed = XResult (map nfsstat3_code nfsstat3_variants) (XStruct ok) (XStruct failed)"

fun nfs_result_type :: "NFSProgram \<Rightarrow> xdr_type" where
  "nfs_result_type NFSPROC3_NULL = XStruct []"
| "nfs_result_type NFSPROC3_GETATTR = nfs_result [t_fattr3] []"
| "nfs_result_type NFSPROC3_SETATTR = nfs_result [t_wcc_data] [t_wcc_data]"
| "nfs_result_type NFSPROC3_LOOKUP = nfs_result [t_nfs_fh3, t_post_op_attr, t_post_op_attr] [t_post_op_attr]"
| "nfs_result_type NFSPROC3_ACCESS = nfs_result [t_post_op_attr, XUint32] [t_post_op_attr]"
| "nfs_result_type NFSPROC3_READLINK = nfs_result [t_post_op_attr, XOpaque None] [t_post_op_attr]"
| "nfs_result_type NFSPROC3_READ =
    nfs_result [XStruct [t_post_op_attr, XUint32, XBool, XOpaque None]] [t_post_op_attr]"
| "nfs_result_type NFSPROC3_WRITE =
    nfs_result [XStruct [t_wcc_data, XUint32, XEnum [0, 1, 2], XFixed 8]] [t_wcc_data]"
| "nfs_result_type NFSPROC3_CREATE =
    nfs_result [XOptional t_nfs_fh3, t_post_op_attr, t_wcc_data] [t_wcc_data]"
| "nfs_result_type NFSPROC3_MKDIR = nfs_result [XOptional t_nfs_fh3, t_post_op_attr, t_wcc_data] [t_wcc_data]"
| "nfs_result_type NFSPROC3_SYMLINK =
    nfs_result [XOptional t_nfs_fh3, t_post_op_attr, t_wcc_data] [t_wcc_data]"
| "nfs_result_type NFSPROC3_MKNOD = nfs_result [XOptional t_nfs_fh3, t_post_op_attr, t_wcc_data] [t_wcc_data]"
| "nfs_result_type NFSPROC3_REMOVE = nfs_result [t_wcc_data] [t_wcc_data]"
| "nfs_result_type NFSPROC3_RMDIR = nfs_result [t_wcc_data] [t_wcc_data]"
| "nfs_result_type NFSPROC3_RENAME = nfs_result [t_wcc_data, t_wcc_data] [t_wcc_data, t_wcc_data]"
| "nfs_result_type NFSPROC3_LINK = nfs_result [t_post_op_attr, t_wcc_data] [t_post_op_attr, t_wcc_data]"
| "nfs_result_type NFSPROC3_READDIR =
    nfs_result [t_post_op_attr, XFixed 8, XEntries t_entry3, XBool] [t_post_op_attr]"
| "nfs_result_type NFSPROC3_READDIRPLUS = nfs_result [t_post_op_attr, XFixed 8, XEntries t_entryplus3, XBool]
    [t_post_op_attr]"
| "nfs_result_type NFSPROC3_FSSTAT =
    nfs_result [XStruct [t_post_op_attr, XUint64, XUint64, XUint64, XUint64, XUint64, XUint64, XUint32]]
    [t_post_op_attr]"
| "nfs_result_type NFSPROC3_FSINFO =
    nfs_result [XStruct [t_post_op_attr, XUint32, XUint32, XUint32, XUint32, XUint32, XUint32, XUint32, XUint64,
       t_nfstime3, XUint32]]
    [t_post_op_attr]"
| "nfs_result_type NFSPROC3_PATHCONF =
    nfs_result [XStruct [t_post_op_attr, XUint32, XUint32, XBool, XBool, XBool, XBool]]
    [t_post_op_attr]"
| "nfs_result_type NFSPROC3_COMMIT = nfs_result [XStruct [t_wcc_data, XFixed 8]] [t_wcc_data]"
| "nfs_result_type NFSPROC3_INVALID = XEnum []"

section \<open>Typing of the structures\<close>

lemma typed_nfstime3 [typing]: "writes t_nfstime3 (ser_nfstime3 x)"
  unfolding t_nfstime3_def ser_nfstime3_def by (intro writes_struct) (simp add: typing)

lemma typed_specdata3 [typing]: "writes (XStruct [XUint32, XUint32]) (ser_specdata3 x)"
  unfolding ser_specdata3_def by (intro writes_struct) (simp add: typing)

lemma typed_ftype3 [typing]: "writes (XEnum [1, 2, 3, 4, 5, 6, 7]) (ser_ftype3 x)"
  unfolding ser_ftype3_def by (rule writes_enum) (cases x; simp)

lemma typed_stable_how [typing]: "writes (XEnum [0, 1, 2]) (ser_stable_how x)"
  unfolding ser_stable_how_def by (rule writes_enum) (cases x; simp)

lemma typed_fattr3 [typing]: "writes t_fattr3 (ser_fattr3 x)"
  unfolding t_fattr3_def ser_fattr3_def by (intro writes_struct) (simp add: typing)

lemma typed_post_op_attr [typing]: "writes t_post_op_attr (ser_option ser_fattr3 x)"
  unfolding t_post_op_attr_def by (intro writes_optional typed_fattr3)

lemma typed_post_op_attr' [typing]: "writes t_post_op_attr (ser_post_op_attr x)"
  unfolding ser_post_op_attr_def by (rule typed_post_op_attr)

lemma typed_wcc_attr: "writes (XStruct [XUint64, t_nfstime3, t_nfstime3]) (ser_wcc_attr x)"
  unfolding ser_wcc_attr_def by (intro writes_struct) (simp add: typing)

lemma typed_wcc_data [typing]: "writes t_wcc_data (ser_wcc_data x)"
  unfolding t_wcc_data_def ser_wcc_data_def
  by (intro writes_struct) (simp add: typing writes_optional typed_wcc_attr)

lemma typed_wcc [typing]: "writes t_wcc_data (ser_wcc before after)"
  by (simp add: ser_wcc_def typed_wcc_data)

lemma typed_wcc_default [typing]: "writes t_wcc_data ser_wcc_default"
  by (simp add: ser_wcc_default_def typed_wcc_data)

lemma typed_fh [typing]: "writes t_nfs_fh3 (ser_nfs_fh3 (id_to_fh v fid))"
  unfolding t_nfs_fh3_def ser_nfs_fh3_def
  by (auto simp: id_to_fh_def intro!: writes_opaque)

lemma typed_post_op_fh3 [typing]:
  "writes (XOptional t_nfs_fh3) (ser_post_op_fh3 (Some (id_to_fh v fid)))"
  unfolding ser_post_op_fh3_def by (intro writes_optional) (auto intro: typed_fh)

lemma typed_server_id [typing]: "writes (XFixed 8) (ser_opaque_fixed (server_id v))"
  by (rule writes_fixed) (simp add: server_id_def)

lemma typed_dir_version [typing]: "writes (XFixed 8) (ser_opaque_fixed (dir_version a))"
  by (rule writes_fixed) (simp add: dir_version_def split: option.split)

lemma typed_entry3 [typing]: "writes t_entry3 (readdir_entry e cookie)"
  unfolding t_entry3_def readdir_entry_def ser_entry3_def
  by (intro writes_struct) (simp add: typing)

lemma typed_entryplus3 [typing]: "writes t_entryplus3 (readdirplus_entry v e cookie)"
  unfolding t_entryplus3_def readdirplus_entry_def ser_entryplus3_def
  by (intro writes_struct) (auto simp add: typing intro!: writes_optional)

lemma typed_resok [typing]:
  "writes (XStruct [t_post_op_attr, XUint32, XBool, XOpaque None]) (ser_READ3resok r)"
  "writes (XStruct [t_post_op_attr, XUint64, XUint64, XUint64, XUint64, XUint64, XUint64, XUint32])
    (ser_FSSTAT3resok f)"
  "writes (XStruct [t_post_op_attr, XUint32, XUint32, XUint32, XUint32, XUint32, XUint32, XUint32,
      XUint64, t_nfstime3, XUint32]) (ser_fsinfo3 i)"
  "writes (XStruct [t_post_op_attr, XUint32, XUint32, XBool, XBool, XBool, XBool])
    (ser_PATHCONF3resok p)"
  unfolding ser_READ3resok_def ser_FSSTAT3resok_def ser_fsinfo3_def ser_PATHCONF3resok_def
  by (intro writes_struct; simp add: typing)+

lemma typed_write_resok [typing]:
  "wrr_verf w = server_id v \<Longrightarrow>
    writes (XStruct [t_wcc_data, XUint32, XEnum [0, 1, 2], XFixed 8]) (ser_WRITE3resok w)"
  "cmr_verf c = server_id v \<Longrightarrow> writes (XStruct [t_wcc_data, XFixed 8]) (ser_COMMIT3resok c)"
  unfolding ser_WRITE3resok_def ser_COMMIT3resok_def
  by (intro writes_struct; simp add: typing)+

section \<open>Typed replies\<close>

text \<open>A success reply with a result of a type.\<close>

definition typed_success :: "u32 \<Rightarrow> xdr_type \<Rightarrow> bytes \<Rightarrow> bool" where
  "typed_success xid t out \<longleftrightarrow>
    (case de_rpc_msg out of
      Ok (m, r) \<Rightarrow> m = make_success_reply xid \<and> has_xdr_type r t
    | Err _ \<Rightarrow> False)"

lemma success_reply_typed:
  assumes "success_reply xid body = Ok out" "writes t (ser_seq body)"
  shows "typed_success xid t out"
proof -
  obtain r where "de_rpc_msg out = Ok (make_success_reply xid, r)" "ser_seq body = Ok r"
    using success_reply_Ok [OF assms(1)] by blast
  then show ?thesis using assms(2) by (simp add: typed_success_def writes_has_type)
qed

lemma skip_status:
  assumes "de_nfsstat3 i = Ok (stat, r)"
  shows "skip (XResult (map nfsstat3_code nfsstat3_variants) t u) i = (if stat = NFS3_OK then skip t r else skip u r)"
proof -
  obtain w where w: "de_i32 i = Ok (w, r)" "from_i32 nfsstat3_code nfsstat3_variants w = Some stat"
    using assms by (auto simp: de_nfsstat3_def de_enum_def de_Ok split: option.splits)
  then have "w = nfsstat3_code stat"
    by (auto simp: from_i32_def find_Some_iff)
  moreover have "skip_word i = Ok (w, r)" using w(1) by (simp add: de_i32_def skip_word_def)
  ultimately show ?thesis by (cases stat) (simp_all add: de_bind_run nfsstat3_variants_def)
qed

lemma typed_okI:
  assumes "nfs_reply xid NFS3_OK body = Ok out" "list_all2 writes ts body"
  shows "typed_success xid (nfs_result ts us) out"
proof -
  obtain i r where r: "de_rpc_msg out = Ok (make_success_reply xid, i)"
      "de_nfsstat3 i = Ok (NFS3_OK, r)" "ser_seq body = Ok r"
    using nfs_reply_Ok [OF assms(1)] by blast
  have "skip (XStruct ts) r = Ok ((), [])"
    using writes_struct [OF assms(2)] r(3) writes_has_type [of _ r]
    by (simp add: has_xdr_type_def del: skip.simps)
  then show ?thesis using r(1) skip_status [OF r(2)]
    by (simp add: typed_success_def has_xdr_type_def nfs_result_def del: skip.simps)
qed

lemma typed_errI:
  assumes "nfs_reply xid stat body = Ok out" "stat \<noteq> NFS3_OK" "list_all2 writes us body"
  shows "typed_success xid (nfs_result ts us) out"
proof -
  obtain i r where r: "de_rpc_msg out = Ok (make_success_reply xid, i)"
      "de_nfsstat3 i = Ok (stat, r)" "ser_seq body = Ok r"
    using nfs_reply_Ok [OF assms(1)] by blast
  have "skip (XStruct us) r = Ok ((), [])"
    using writes_struct [OF assms(3)] r(3) writes_has_type [of _ r]
    by (simp add: has_xdr_type_def del: skip.simps)
  then show ?thesis using r(1) skip_status [OF r(2)] assms(2)
    by (simp add: typed_success_def has_xdr_type_def nfs_result_def del: skip.simps)
qed

section \<open>Errors of the file system\<close>

text \<open>An operation that fails does so with an error and not with the status of success.\<close>

definition proper_op :: "('s \<Rightarrow> ('s, 'a) vfs_result) \<Rightarrow> bool" where
  "proper_op f \<longleftrightarrow> (\<forall>s. fst (f s) \<noteq> Err NFS3_OK)"

definition proper_errors :: "'s vfs \<Rightarrow> bool" where
  "proper_errors v \<longleftrightarrow>
    (\<forall>d n. proper_op (vfs_lookup v d n)) \<and>
    (\<forall>f. proper_op (vfs_getattr v f)) \<and>
    (\<forall>f a. proper_op (vfs_setattr v f a)) \<and>
    (\<forall>f k c. proper_op (vfs_read v f k c)) \<and>
    (\<forall>f k b h. proper_op (vfs_write v f k b h)) \<and>
    (\<forall>d n a. proper_op (vfs_create v d n a)) \<and>
    (\<forall>d n e. proper_op (vfs_create_exclusive v d n e)) \<and>
    (\<forall>d n. proper_op (vfs_mkdir v d n)) \<and>
    (\<forall>d n. proper_op (vfs_remove v d n)) \<and>
    (\<forall>d n e m. proper_op (vfs_rename v d n e m)) \<and>
    (\<forall>d i n. proper_op (vfs_readdir_index v d i n)) \<and>
    (\<forall>d n t a. proper_op (vfs_symlink v d n t a)) \<and>
    (\<forall>f. proper_op (vfs_readlink v f)) \<and>
    (\<forall>f d n. proper_op (vfs_link v f d n)) \<and>
    (\<forall>d n t x a. proper_op (vfs_mknod v d n t x a)) \<and>
    (\<forall>f k c. proper_op (vfs_commit v f k c)) \<and>
    (\<forall>f u a. proper_op (vfs_check_access v f u a)) \<and>
    (\<forall>f. proper_op (vfs_fsstat v f))"

lemma proper_opD: "proper_op f \<Longrightarrow> f s = (Err stat, s') \<Longrightarrow> stat \<noteq> NFS3_OK"
  by (metis proper_op_def fst_conv)

lemma proper_ops:
  assumes "proper_errors v"
  shows "proper_op (vfs_lookup v d n)" "proper_op (vfs_getattr v f)"
    "proper_op (vfs_setattr v f at)" "proper_op (vfs_read v f k c)"
    "proper_op (vfs_write v f k b h)" "proper_op (vfs_create v d n at)"
    "proper_op (vfs_create_exclusive v d n ve)" "proper_op (vfs_mkdir v d n)"
    "proper_op (vfs_remove v d n)" "proper_op (vfs_rename v d n e m)"
    "proper_op (vfs_readdir_index v d i j)" "proper_op (vfs_symlink v d n t at)"
    "proper_op (vfs_readlink v f)" "proper_op (vfs_link v f d n)"
    "proper_op (vfs_mknod v d n ft x at)" "proper_op (vfs_commit v f k c)"
    "proper_op (vfs_check_access v f u a)" "proper_op (vfs_fsstat v f)"
  using assms by (simp_all add: proper_errors_def)

lemma proper_require_access:
  "proper_errors (cx_vfs ctx) \<Longrightarrow> require_access ctx f a s = (Err stat, s') \<Longrightarrow>
      stat \<noteq> NFS3_OK"
  by (auto simp: require_access_def split: prod.splits sum.splits if_splits
      dest: proper_opD [OF proper_ops(17)])

lemma proper_readdir_simple:
  "proper_errors v \<Longrightarrow> readdir_simple_index v d i n s = (Err stat, s') \<Longrightarrow>
      stat \<noteq> NFS3_OK"
  by (auto simp: readdir_simple_index_def split: prod.splits sum.splits
      dest: proper_opD [OF proper_ops(11)])

lemma proper_fh: "fh_to_id v fh = Err stat \<Longrightarrow> stat \<noteq> NFS3_OK"
  by (auto simp: fh_to_id_def Let_def split: if_splits)

lemma proper_rename_access:
  "rename_access a b = Err stat \<Longrightarrow> a \<noteq> Err NFS3_OK \<Longrightarrow> b \<noteq> Err NFS3_OK \<Longrightarrow>
      stat \<noteq> NFS3_OK"
  by (auto simp: rename_access_def split: sum.splits if_splits)

lemma proper_fsinfo: "vfs_fsinfo v f s \<noteq> (Err stat, s')"
  by (simp add: vfs_fsinfo_def split: prod.split)

lemmas proper_dests = proper_ops [THEN proper_opD] proper_require_access proper_readdir_simple

named_theorems typed_replies

lemma typed_getattr [typed_replies]:
  assumes "proper_errors (cx_vfs ctx)"
  shows "nfsproc3_getattr xid input ctx s = (Ok out, s') \<Longrightarrow>
      typed_success xid (nfs_result_type NFSPROC3_GETATTR) out"
  by (auto simp: nfsproc3_getattr_def typing split: sum.splits prod.splits
      elim: typed_okI typed_errI dest: proper_fh proper_dests [OF assms])

lemma typed_lookup [typed_replies]:
  assumes "proper_errors (cx_vfs ctx)"
  shows "nfsproc3_lookup xid input ctx s = (Ok out, s') \<Longrightarrow>
      typed_success xid (nfs_result_type NFSPROC3_LOOKUP) out"
  by (auto simp: nfsproc3_lookup_def typing split: sum.splits prod.splits
      elim: typed_okI typed_errI dest: proper_fh proper_dests [OF assms])

lemma typed_access [typed_replies]:
  assumes "proper_errors (cx_vfs ctx)"
  shows "nfsproc3_access xid input ctx s = (Ok out, s') \<Longrightarrow>
      typed_success xid (nfs_result_type NFSPROC3_ACCESS) out"
  by (auto simp: nfsproc3_access_def typing split: sum.splits prod.splits
      elim: typed_okI typed_errI dest: proper_fh proper_dests [OF assms])

lemma typed_readlink [typed_replies]:
  assumes "proper_errors (cx_vfs ctx)"
  shows "nfsproc3_readlink xid input ctx s = (Ok out, s') \<Longrightarrow>
      typed_success xid (nfs_result_type NFSPROC3_READLINK) out"
  by (auto simp: nfsproc3_readlink_def typing split: sum.splits prod.splits
      elim: typed_okI typed_errI dest: proper_fh proper_dests [OF assms])

lemma typed_read [typed_replies]:
  assumes "proper_errors (cx_vfs ctx)"
  shows "nfsproc3_read xid input ctx s = (Ok out, s') \<Longrightarrow>
      typed_success xid (nfs_result_type NFSPROC3_READ) out"
  by (auto simp: nfsproc3_read_def typing Let_def split: sum.splits prod.splits
      elim: typed_okI typed_errI dest: proper_fh proper_dests [OF assms])

lemma typed_fsstat [typed_replies]:
  assumes "proper_errors (cx_vfs ctx)"
  shows "nfsproc3_fsstat xid input ctx s = (Ok out, s') \<Longrightarrow>
      typed_success xid (nfs_result_type NFSPROC3_FSSTAT) out"
  by (auto simp: nfsproc3_fsstat_def typing split: sum.splits prod.splits
      elim: typed_okI typed_errI dest: proper_fh proper_dests [OF assms])

lemma typed_fsinfo [typed_replies]:
  assumes "proper_errors (cx_vfs ctx)"
  shows "nfsproc3_fsinfo xid input ctx s = (Ok out, s') \<Longrightarrow>
      typed_success xid (nfs_result_type NFSPROC3_FSINFO) out"
  by (auto simp: nfsproc3_fsinfo_def typing split: sum.splits prod.splits
      elim: typed_okI typed_errI dest: proper_fh proper_dests [OF assms] simp: proper_fsinfo)

lemma typed_pathconf [typed_replies]:
  assumes "proper_errors (cx_vfs ctx)"
  shows "nfsproc3_pathconf xid input ctx s = (Ok out, s') \<Longrightarrow>
      typed_success xid (nfs_result_type NFSPROC3_PATHCONF) out"
  by (auto simp: nfsproc3_pathconf_def typing split: sum.splits prod.splits
      elim: typed_okI typed_errI dest: proper_fh proper_dests [OF assms])

lemma typed_setattr [typed_replies]:
  assumes "proper_errors (cx_vfs ctx)"
  shows "nfsproc3_setattr xid input ctx s = (Ok out, s') \<Longrightarrow>
      typed_success xid (nfs_result_type NFSPROC3_SETATTR) out"
  by (auto simp: nfsproc3_setattr_def typing Let_def split: if_splits option.splits sum.splits prod.splits
      elim: typed_okI typed_errI dest: proper_fh proper_dests [OF assms])

lemma typed_mkdir [typed_replies]:
  assumes "proper_errors (cx_vfs ctx)"
  shows "nfsproc3_mkdir xid input ctx s = (Ok out, s') \<Longrightarrow>
      typed_success xid (nfs_result_type NFSPROC3_MKDIR) out"
  by (auto simp: nfsproc3_mkdir_def typing Let_def split: if_splits option.splits sum.splits prod.splits
      elim: typed_okI typed_errI dest: proper_fh proper_dests [OF assms])

lemma typed_symlink [typed_replies]:
  assumes "proper_errors (cx_vfs ctx)"
  shows "nfsproc3_symlink xid input ctx s = (Ok out, s') \<Longrightarrow>
      typed_success xid (nfs_result_type NFSPROC3_SYMLINK) out"
  by (auto simp: nfsproc3_symlink_def typing Let_def split: if_splits option.splits sum.splits prod.splits
      elim: typed_okI typed_errI dest: proper_fh proper_dests [OF assms])

lemma typed_mknod [typed_replies]:
  assumes "proper_errors (cx_vfs ctx)"
  shows "nfsproc3_mknod xid input ctx s = (Ok out, s') \<Longrightarrow>
      typed_success xid (nfs_result_type NFSPROC3_MKNOD) out"
  by (auto simp: nfsproc3_mknod_def typing Let_def split: if_splits option.splits sum.splits prod.splits
      elim: typed_okI typed_errI dest: proper_fh proper_dests [OF assms])

lemma typed_remove [typed_replies]:
  assumes "proper_errors (cx_vfs ctx)"
  shows "nfsproc3_remove xid input ctx s = (Ok out, s') \<Longrightarrow>
      typed_success xid (nfs_result_type NFSPROC3_REMOVE) out"
  by (auto simp: nfsproc3_remove_def typing Let_def split: if_splits option.splits sum.splits prod.splits
      elim: typed_okI typed_errI dest: proper_fh proper_dests [OF assms])

lemma typed_commit [typed_replies]:
  assumes "proper_errors (cx_vfs ctx)"
  shows "nfsproc3_commit xid input ctx s = (Ok out, s') \<Longrightarrow>
      typed_success xid (nfs_result_type NFSPROC3_COMMIT) out"
  by (auto simp: nfsproc3_commit_def typing Let_def split: if_splits option.splits sum.splits prod.splits
      elim: typed_okI typed_errI dest: proper_fh proper_dests [OF assms])

lemma typed_link [typed_replies]:
  assumes "proper_errors (cx_vfs ctx)"
  shows "nfsproc3_link xid input ctx s = (Ok out, s') \<Longrightarrow>
      typed_success xid (nfs_result_type NFSPROC3_LINK) out"
  by (auto simp: nfsproc3_link_def typing Let_def split: if_splits option.splits sum.splits prod.splits
      elim: typed_okI typed_errI dest: proper_fh proper_dests [OF assms])

lemma typed_create_and_reply:
  assumes "proper_errors (cx_vfs ctx)"
    and "create_and_reply xid ctx dirid dir_attr name how s = (Ok out, s')"
  shows "typed_success xid (nfs_result_type NFSPROC3_CREATE) out"
  using assms(2)
  by (auto simp: create_and_reply_def create_object_def create_new_def typing
      split: sum.splits prod.splits create_how.splits
      elim: typed_okI typed_errI dest: proper_dests [OF assms(1)])

lemma typed_create [typed_replies]:
  assumes "proper_errors (cx_vfs ctx)"
  shows "nfsproc3_create xid input ctx s = (Ok out, s') \<Longrightarrow>
      typed_success xid (nfs_result_type NFSPROC3_CREATE) out"
  by (auto simp: nfsproc3_create_def typing
      split: if_splits sum.splits prod.splits create_how.splits
      elim: typed_okI typed_errI
      dest: proper_fh proper_dests [OF assms] typed_create_and_reply [OF assms])

lemma typed_rmdir_fail:
  "rmdir_fail xid ctx dirid dir_attr stat s = (Ok out, s') \<Longrightarrow>
      stat \<noteq> NFS3_OK \<Longrightarrow>
    typed_success xid (nfs_result [t_wcc_data] [t_wcc_data]) out"
  by (auto simp: rmdir_fail_def typing split: prod.splits elim: typed_errI)

lemma typed_rmdir [typed_replies]:
  assumes "proper_errors (cx_vfs ctx)"
  shows "nfsproc3_rmdir xid input ctx s = (Ok out, s') \<Longrightarrow>
      typed_success xid (nfs_result_type NFSPROC3_RMDIR) out"
  by (auto simp: nfsproc3_rmdir_def typing split: if_splits sum.splits prod.splits
      elim: typed_okI typed_errI typed_rmdir_fail dest: proper_fh proper_dests [OF assms])

text \<open>
  The reply of RENAME on a read-only file system has the attributes of one directory where the
  type has those of both.
\<close>

lemma typed_rename:
  assumes "proper_errors (cx_vfs ctx)" "can_write ctx"
  shows "nfsproc3_rename xid input ctx s = (Ok out, s') \<Longrightarrow>
      typed_success xid (nfs_result_type NFSPROC3_RENAME) out"
  using assms(2) proper_ops(17) [OF assms(1)]
  by (auto simp: nfsproc3_rename_def proper_op_def typing
      split: if_splits sum.splits prod.splits
      elim: typed_okI typed_errI dest: proper_fh proper_dests [OF assms(1)]
      dest!: proper_rename_access)

text \<open>WRITE may also find its arguments contradictory.\<close>

lemma typed_write:
  assumes "proper_errors (cx_vfs ctx)" "nfsproc3_write xid input ctx s = (Ok out, s')"
  shows "typed_success xid (nfs_result_type NFSPROC3_WRITE) out \<or>
    ser_rpc_msg (garbage_args_reply_message xid) = Ok out"
  using assms(2)
  by (auto simp: nfsproc3_write_def typing split: if_splits option.splits sum.splits prod.splits
      elim: typed_okI typed_errI dest: proper_fh proper_dests [OF assms(1)])

subsection \<open>Directory listings\<close>

lemma skip_entries_written:
  assumes "\<And>e cookie. writes t (encode e cookie)"
    and "entries_bytes encode es i = Ok b" "length es < n"
  shows "skip_entries (skip t) n (b @ be_bytes 4 (0 :: u32) @ r) = Ok ((), r)"
  using assms(2,3)
proof (induction es arbitrary: i b n)
  case Nil
  then show ?case by (cases n) (simp_all add: skip_flag_def de_bind_run de_return_def)
next
  case (Cons e es)
  obtain x y where xy: "encode e (of_nat (saturating_add i 1)) = Ok x"
      "entries_bytes encode es (saturating_add i 1) = Ok y" "b = be_bytes 4 (1 :: u32) @ x @ y"
    using Cons.prems(1) by (auto simp: ser_then_Ok ser_bool_def ser_i32_def)
  obtain m where m: "n = Suc m" "length es < m" using Cons.prems(2) by (cases n) auto
  have "skip t (x @ y @ be_bytes 4 (0 :: u32) @ r) = Ok ((), y @ be_bytes 4 (0 :: u32) @ r)"
    using assms(1) xy(1) by (auto simp: writes_def)
  then show ?case using Cons.IH [OF xy(2) m(2)] xy(3) m(1)
    by (simp add: skip_flag_def de_bind_run)
qed

lemma writes_entries:
  assumes "\<And>e cookie. writes t (encode e cookie)"
  shows "writes (XEntries t) (ser_then (entries_bytes encode es i) (ser_bool False))"
  unfolding writes_def
proof (intro allI impI)
  fix b r
  assume "ser_then (entries_bytes encode es i) (ser_bool False) = Ok b"
  then obtain y where y: "entries_bytes encode es i = Ok y" "b = y @ be_bytes 4 (0 :: u32)"
    by (auto simp: ser_then_Ok ser_bool_def ser_i32_def)
  have "length es < Suc (length (b @ r))" using entries_bytes_length [OF y(1)] y(2) by simp
  then show "skip (XEntries t) (b @ r) = Ok ((), r)"
    using skip_entries_written [where encode = encode, OF assms y(1)] y(2)
    by (simp del: skip_entries.simps)
qed

lemma typed_listing_page:
  assumes "\<And>e cookie. writes t (encode e cookie)" "dv = dir_version a"
    and "listing_page xid da dv encode es i fin = Ok out"
  shows "typed_success xid (nfs_result [t_post_op_attr, XFixed 8, XEntries t, XBool] us) out"
proof (rule typed_okI)
  show "nfs_reply xid NFS3_OK [ser_post_op_attr da, ser_opaque_fixed dv,
      ser_then (entries_bytes encode es i) (ser_bool False), ser_bool fin] = Ok out"
    using assms(3) by (auto simp: listing_page_def nfs_reply_def ser_then_Ok)
  show "list_all2 writes [t_post_op_attr, XFixed 8, XEntries t, XBool]
      [ser_post_op_attr da, ser_opaque_fixed dv,
       ser_then (entries_bytes encode es i) (ser_bool False), ser_bool fin]"
    using writes_entries [where encode = encode, OF assms(1)] assms(2) by (simp add: typing)
qed

lemma typed_listing_reply:
  assumes "\<And>e cookie. writes t (encode e cookie)"
    and "listing_reply xid da (dir_version a) encode name fits es fin i = Ok out"
    and "\<And>b n. fits b n \<Longrightarrow> b < m"
  shows "typed_success xid
    (nfs_result [t_post_op_attr, XFixed 8, XEntries t, XBool] [t_post_op_attr]) out"
  using listing_reply_Ok [OF assms(2,3)]
proof
  assume "es \<noteq> [] \<and> nfs_reply xid NFS3ERR_TOOSMALL [ser_post_op_attr da] = Ok out"
  then show ?thesis by (auto simp: typing intro: typed_errI)
next
  assume "\<exists>k \<le> length es. (k = 0 \<longrightarrow> es = []) \<and> (k \<noteq> 0 \<longrightarrow> 0 < m \<and> length out < m + 8) \<and>
    listing_page xid da (dir_version a) encode (take k es) i (k = length es \<and> fin) = Ok out"
  then obtain k where
    "listing_page xid da (dir_version a) encode (take k es) i (k = length es \<and> fin) = Ok out"
    by blast
  then show ?thesis
    by (rule typed_listing_page [where encode = encode, OF assms(1) refl])
qed

lemma typed_readdir [typed_replies]:
  assumes "proper_errors (cx_vfs ctx)"
  shows "nfsproc3_readdir xid input ctx s = (Ok out, s') \<Longrightarrow>
      typed_success xid (nfs_result_type NFSPROC3_READDIR) out"
  by (auto simp: nfsproc3_readdir_def Let_def typing split: if_splits sum.splits prod.splits
      elim: typed_okI typed_errI typed_listing_reply [OF typed_entry3]
      dest: proper_fh proper_dests [OF assms])

lemma typed_readdirplus [typed_replies]:
  assumes "proper_errors (cx_vfs ctx)"
  shows "nfsproc3_readdirplus xid input ctx s = (Ok out, s') \<Longrightarrow>
    typed_success xid (nfs_result_type NFSPROC3_READDIRPLUS) out"
  by (auto simp: nfsproc3_readdirplus_def readdirplus_page_def Let_def typing
      split: if_splits sum.splits prod.splits
      elim: typed_okI typed_errI typed_listing_reply [OF typed_entryplus3]
      dest: proper_fh proper_dests [OF assms])

section \<open>The dispatcher\<close>

lemma typed_null:
  "nfsproc3_null xid = Ok out \<Longrightarrow> typed_success xid (nfs_result_type NFSPROC3_NULL) out"
  using rpc_msg.dec_enc [OF ok_success_reply, of xid out "[]"]
  by (simp add: nfsproc3_null_def typed_success_def has_xdr_type_def de_return_def)

text \<open>The bytes are exactly one message.\<close>

definition is_message :: "bytes \<Rightarrow> rpc_msg \<Rightarrow> bool" where
  "is_message out m \<longleftrightarrow> de_rpc_msg out = Ok (m, [])"

text \<open>
  The type of a reply to a call: a version that is not served and a procedure that does not
  exist are refused by a header alone, WRITE may find its arguments contradictory, and every
  other reply is a success with a result of the procedure's type.
\<close>

definition nfs_reply_typed :: "u32 \<Rightarrow> call_body \<Rightarrow> bytes \<Rightarrow> bool" where
  "nfs_reply_typed xid call out \<longleftrightarrow>
    (let p = nfs_program_of (cb_proc call) in
     if cb_vers call \<noteq> NFS3_VERSION
     then is_message out (prog_mismatch_reply_message xid NFS3_VERSION)
     else if p = NFSPROC3_INVALID then is_message out (proc_unavail_reply_message xid)
     else typed_success xid (nfs_result_type p) out \<or>
       p = NFSPROC3_WRITE \<and> is_message out (garbage_args_reply_message xid))"

lemma is_messageI: "ser_rpc_msg m = Ok out \<Longrightarrow> ok_rpc_msg m \<Longrightarrow> is_message out m"
  using rpc_msg.dec_enc [of m out "[]"] by (simp add: is_message_def)

lemma ok_garbage_args: "ok_rpc_msg (garbage_args_reply_message xid)"
  by (simp add: garbage_args_reply_message_def ok_rpc_msg_def ok_rpc_body_def ok_reply_body_def
      ok_accepted_reply_def ok_opaque_auth_def opaque_auth_default_def ok_opaque_def)

text \<open>The one reply that is not of its type.\<close>

lemma untyped_rename:
  assumes "\<not> can_write ctx" "nfsproc3_rename xid input ctx s = (Ok out, s')"
  shows "\<not> typed_success xid (nfs_result_type NFSPROC3_RENAME) out"
proof -
  obtain i r where r: "de_rpc_msg out = Ok (make_success_reply xid, i)"
      "de_nfsstat3 i = Ok (NFS3ERR_ROFS, r)" "ser_seq [ser_wcc_default] = Ok r"
    using assms nfs_reply_Ok by (fastforce simp: rename_read_only)
  have "ser_wcc_default = Ok r" using r(3) by simp
  then have "skip t_wcc_data (r @ []) = Ok ((), [])"
    using typed_wcc_default unfolding writes_def by blast
  then have "skip (XStruct [t_wcc_data, t_wcc_data]) r = skip t_wcc_data []"
    by (simp add: de_bind_run) (simp add: de_bind_def de_return_def split: sum.splits)
  also have "\<dots> \<noteq> Ok ((), [])"
    by (simp add: t_wcc_data_def skip_flag_def skip_word_def de_bind_def read_exact_def)
  finally show ?thesis using r(1) skip_status [OF r(2)]
    by (auto simp: typed_success_def has_xdr_type_def nfs_result_def simp del: skip.simps)
qed

locale proper_vfs =
  fixes v :: "'s vfs"
  assumes proper: "proper_errors v"
begin

lemma replies_typed:
  assumes v: "cx_vfs ctx = v"
    and "handle_nfs xid call input ctx s = (Ok out, s')"
  shows "nfs_reply_typed xid call out \<longleftrightarrow>
    \<not> (cb_vers call = NFS3_VERSION \<and> nfs_program_of (cb_proc call) = NFSPROC3_RENAME \<and>
      \<not> can_write ctx)"
proof -
  have p: "proper_errors (cx_vfs ctx)" using proper v by simp
  show ?thesis
    using assms(2) untyped_rename [of ctx xid input s out s']
    by (cases "nfs_program_of (cb_proc call)")
      (auto simp: handle_nfs_def nfs_reply_typed_def Let_def split: if_splits
        intro!: is_messageI ok_dispatcher_replies ok_garbage_args
        dest: typed_null typed_replies [OF p] typed_rename [OF p] typed_write [OF p])
qed

end

end
