(* ===== verification/Server_Results.thy ===== *)
theory Server_Results
  imports Nfs3_Results Rpc_Dispatch
begin

text \<open>
  The types of all replies of the server: those of the port mapper (RFC 1833) and of the mount
  protocol (RFC 1813, appendix I) beside those of NFS, and the theorem which says of every call that is
  executed whether its reply is of the type that the call asks for. Three kinds of call
  are not answered as their protocol says; they are \<open>misfit\<close>.
\<close>

section \<open>The port mapper and the mount protocol\<close>

text \<open>The result of a procedure; \<open>None\<close> for one that is not served, to be refused as unavailable.\<close>

definition t_mapping :: xdr_type where
  "t_mapping = XStruct [XUint32, XUint32, XUint32, XUint32]"

fun portmap_result_type :: "PortmapProgram \<Rightarrow> xdr_type option" where
  "portmap_result_type PMAPPROC_NULL = Some (XStruct [])"
| "portmap_result_type PMAPPROC_SET = Some XBool"
| "portmap_result_type PMAPPROC_UNSET = Some XBool"
| "portmap_result_type PMAPPROC_GETPORT = Some XUint32"
| "portmap_result_type PMAPPROC_DUMP = Some (XEntries t_mapping)"
| "portmap_result_type PMAPPROC_CALLIT = None"
| "portmap_result_type PMAPPROC_INVALID = None"

definition t_mountres3 :: xdr_type where
  "t_mountres3 = XResult (map mountstat3_code mountstat3_variants)
    (XStruct [XOpaque (Some 64), XVector XUint32]) (XStruct [])"

definition t_exports :: xdr_type where
  "t_exports = XEntries (XStruct [XOpaque None, XEntries (XOpaque None)])"

fun mount_result_type :: "MountProgram \<Rightarrow> xdr_type option" where
  "mount_result_type MOUNTPROC3_NULL = Some (XStruct [])"
| "mount_result_type MOUNTPROC3_MNT = Some t_mountres3"
| "mount_result_type MOUNTPROC3_DUMP = None"
| "mount_result_type MOUNTPROC3_UMNT = Some (XStruct [])"
| "mount_result_type MOUNTPROC3_UMNTALL = Some (XStruct [])"
| "mount_result_type MOUNTPROC3_EXPORT = Some t_exports"
| "mount_result_type MOUNTPROC3_INVALID = None"

definition result_typed :: "u32 \<Rightarrow> xdr_type option \<Rightarrow> bytes \<Rightarrow> bool" where
  "result_typed xid t out \<longleftrightarrow>
    (case t of
      Some t \<Rightarrow> typed_success xid t out
    | None \<Rightarrow> is_message out (proc_unavail_reply_message xid))"

definition portmap_reply_typed :: "u32 \<Rightarrow> call_body \<Rightarrow> bytes \<Rightarrow> bool" where
  "portmap_reply_typed xid call out \<longleftrightarrow>
    (if cb_vers call \<noteq> PORTMAP_VERSION
     then is_message out (prog_mismatch_reply_message xid PORTMAP_VERSION)
     else result_typed xid (portmap_result_type (portmap_program_of (cb_proc call))) out)"

definition mount_reply_typed :: "u32 \<Rightarrow> call_body \<Rightarrow> bytes \<Rightarrow> bool" where
  "mount_reply_typed xid call out \<longleftrightarrow>
    (if cb_vers call \<noteq> MOUNT_VERSION
     then is_message out (prog_mismatch_reply_message xid MOUNT_VERSION)
     else result_typed xid (mount_result_type (mount_program_of (cb_proc call))) out)"

section \<open>Typing of the handlers\<close>

lemma typed_mapping [typing]: "writes t_mapping (ser_mapping m)"
  unfolding t_mapping_def ser_mapping_def by (intro writes_struct) (simp add: typing)

text \<open>A chain of entries as the serializer of a port list writes it.\<close>

primrec chain :: "mapping list \<Rightarrow> io_error + bytes" where
  "chain [] = Ok []"
| "chain (m # ms) = ser_then (ser_bool True) (ser_then (ser_mapping m) (chain ms))"

lemma ser_pmaplist_chain:
  "ser_then (ser_bool True) (ser_pmaplist p) = ser_then (chain (pmaplist_entries p)) (ser_bool False)"
proof (induction p rule: pmaplist_entries.induct)
  case (2 m "next")
  then show ?case by (simp add: ser_then_assoc)
qed (simp add: ser_then_assoc)

lemma chain_entries: "chain ms = entries_bytes (\<lambda>m cookie. ser_mapping m) ms i"
  by (induction ms arbitrary: i) simp_all

lemma writes_pmaplist: "writes (XEntries t_mapping) (ser_option ser_pmaplist (Some p))"
proof -
  have "ser_option ser_pmaplist (Some p) =
      ser_then (entries_bytes (\<lambda>m cookie. ser_mapping m) (pmaplist_entries p) 0) (ser_bool False)"
    using ser_pmaplist_chain [of p] chain_entries [of "pmaplist_entries p" 0]
    by (simp add: ser_option_def)
  then show ?thesis
    using writes_entries [where encode = "\<lambda>m cookie. ser_mapping m", OF typed_mapping] by simp
qed

lemma writes_no_entries: "writes (XEntries t) (ser_bool False)"
  by (simp add: writes_def ser_bool_def ser_i32_def skip_flag_def de_bind_run de_return_def)

lemma writes_no_entries_word: "writes (XEntries t) (ser_u32 0)"
  using writes_no_entries [of t] by (simp add: ser_u32_def ser_bool_def ser_i32_def)

lemma writes_exports:
  "writes t_exports (ser_then (ser_bool True) (ser_then (ser_opaque name)
    (ser_then (ser_bool False) (ser_bool False))))"
proof -
  have item: "writes (XStruct [XOpaque None, XEntries (XOpaque None)])
      (ser_then (ser_opaque name) (ser_bool False))"
    using writes_struct [of "[XOpaque None, XEntries (XOpaque None)]" "[ser_opaque name, ser_bool False]"]
    by (simp add: typing writes_no_entries)
  have "writes t_exports (ser_then (entries_bytes (\<lambda>e cookie. ser_then (ser_opaque e) (ser_bool False))
      [name] 0) (ser_bool False))"
    unfolding t_exports_def
    by (rule writes_entries)
      (use writes_struct [of "[XOpaque None, XEntries (XOpaque None)]" "[ser_opaque _, ser_bool False]"]
        in \<open>simp add: typing writes_no_entries\<close>)
  then show ?thesis by (simp add: ser_then_assoc)
qed

lemma success_typed1: "success_reply xid [w] = Ok out \<Longrightarrow> writes t w \<Longrightarrow> typed_success xid t out"
  by (erule success_reply_typed) simp

lemma portmap_typed:
  assumes "handle_portmap xid call input u table = (Ok out, table')"
  shows "portmap_reply_typed xid call out"
  using assms typed_null [of xid out]
  by (cases "portmap_program_of (cb_proc call)")
    (auto simp: handle_portmap_def portmap_reply_typed_def result_typed_def pmapproc_null_def
      nfsproc3_null_def pmapproc_getport_def pmapproc_setport_def pmapproc_unsetport_def
      pmapproc_dump_def Let_def
      split: if_splits sum.splits prod.splits option.splits
      intro!: is_messageI ok_dispatcher_replies
      elim!: success_typed1 intro: typing writes_pmaplist writes_no_entries_word)

text \<open>
  MNT and EXPORT answer as the protocol says. UMNT and UMNTALL have no result, but a status is
  written.
\<close>

lemma typed_mnt:
  assumes "mountproc3_mnt xid input ctx st = (Ok out, st')"
  shows "typed_success xid t_mountres3 out"
proof -
  have fh: "writes (XStruct [XOpaque (Some 64), XVector XUint32])
      (ser_mountres3_ok \<lparr>mr_fhandle = fh_data (id_to_fh v fid), mr_auth_flavors = fs\<rparr>)" for v :: "'a vfs" and fid fs
    unfolding ser_mountres3_ok_def
    by (intro writes_struct) (auto simp: id_to_fh_def intro!: writes_opaque writes_vector typing)
  have word: "skip_word (b @ r) = Ok (mountstat3_code stat, r)" if "ser_mountstat3 stat = Ok b" for b r stat
    using that by (auto simp: ser_mountstat3_def ser_enum_def ser_i32_def)
  have ok: "writes t_mountres3 (ser_then (ser_mountstat3 MNT3_OK) w)"
    if "writes (XStruct [XOpaque (Some 64), XVector XUint32]) w" for w
    using that word [of MNT3_OK]
    by (fastforce simp: writes_def t_mountres3_def ser_then_Ok de_bind_run simp del: skip.simps(8))
  have no: "writes t_mountres3 (ser_mountstat3 MNT3ERR_NOENT)"
    using word [of MNT3ERR_NOENT]
    by (auto simp: writes_def t_mountres3_def de_bind_run de_return_def mountstat3_variants_def)
  show ?thesis
    using assms ok [OF fh] no
    by (auto simp: mountproc3_mnt_def mount_reply_def split: sum.splits prod.splits option.splits
        elim!: success_reply_typed)
qed

lemma untyped_umnt:
  assumes "mount_reply xid MNT3_OK [] = Ok out"
  shows "\<not> typed_success xid (XStruct []) out"
proof -
  obtain r where r: "de_rpc_msg out = Ok (make_success_reply xid, r)" "ser_mountstat3 MNT3_OK = Ok r"
    using success_reply_Ok assms by (fastforce simp: mount_reply_def)
  then have "r \<noteq> []" by (auto simp: ser_mountstat3_def ser_enum_def ser_i32_def dest: arg_cong [of _ _ length])
  then show ?thesis using r(1) by (simp add: typed_success_def has_xdr_type_def de_return_def)
qed

text \<open>The dispatcher does not look at the version of a mount call, so that it never reports a mismatch.\<close>

lemma other_header:
  "de_rpc_msg out = Ok (m, r) \<Longrightarrow> m \<noteq> m' \<Longrightarrow> \<not> is_message out m'"
  by (simp add: is_message_def)

lemma mount_no_mismatch:
  assumes "handle_mount xid call input ctx st = (Ok out, st')"
  shows "\<not> is_message out (prog_mismatch_reply_message xid v)"
proof -
  have ne: "make_success_reply xid \<noteq> prog_mismatch_reply_message xid v"
      "proc_unavail_reply_message xid \<noteq> prog_mismatch_reply_message xid v"
    by (simp_all add: make_success_reply_def prog_mismatch_reply_message_def
        proc_unavail_reply_message_def)
  have s: "\<not> is_message out (prog_mismatch_reply_message xid v)" if "success_reply xid body = Ok out" for body
    using success_reply_Ok [OF that] ne(1) other_header by blast
  have n: "\<not> is_message out (prog_mismatch_reply_message xid v)"
    if "ser_rpc_msg (make_success_reply xid) = Ok out"
    using is_messageI [OF that ok_success_reply] ne(1) by (simp add: is_message_def)
  have u: "\<not> is_message out (prog_mismatch_reply_message xid v)"
    if "ser_rpc_msg (proc_unavail_reply_message xid) = Ok out"
    using is_messageI [OF that ok_dispatcher_replies(1)] ne(2) by (simp add: is_message_def)
  show ?thesis
    using assms s n u
    by (cases "mount_program_of (cb_proc call)")
      (auto simp: handle_mount_def mountproc3_mnt_def mountproc3_umnt_def mountproc3_umnt_all_def
        mountproc3_export_def mountproc3_null_def mount_reply_def
        split: sum.splits prod.splits option.splits)
qed

lemma mount_typed:
  assumes "handle_mount xid call input ctx st = (Ok out, st')"
  shows "mount_reply_typed xid call out \<longleftrightarrow> cb_vers call = MOUNT_VERSION \<and>
    mount_program_of (cb_proc call) \<notin> {MOUNTPROC3_UMNT, MOUNTPROC3_UMNTALL}"
  using assms typed_null [of xid out] mount_no_mismatch [OF assms] typed_mnt [of xid input ctx st out st']
    untyped_umnt [of xid out] writes_exports [of "cx_export_name ctx"]
  by (cases "mount_program_of (cb_proc call)")
    (auto simp: handle_mount_def mount_reply_typed_def result_typed_def mountproc3_umnt_def
      mountproc3_umnt_all_def mountproc3_export_def mountproc3_null_def nfsproc3_null_def
      split: if_splits sum.splits prod.splits
      intro!: is_messageI ok_dispatcher_replies elim!: success_reply_typed)

section \<open>The server\<close>

definition server_reply_typed :: "u32 \<Rightarrow> call_body \<Rightarrow> bytes \<Rightarrow> bool" where
  "server_reply_typed xid call out \<longleftrightarrow>
    (if cb_rpcvers call \<noteq> 2 then is_message out (rpc_vers_mismatch xid)
     else if cb_prog call = NFS3_PROGRAM then nfs_reply_typed xid call out
     else if cb_prog call = PORTMAP_PROGRAM then portmap_reply_typed xid call out
     else if cb_prog call = MOUNT_PROGRAM then mount_reply_typed xid call out
     else is_message out (prog_unavail_reply_message xid))"

text \<open>The calls that are not answered as their protocol says.\<close>

definition misfit :: "'s rpc_context \<Rightarrow> call_body \<Rightarrow> bool" where
  "misfit ctx call \<longleftrightarrow> cb_rpcvers call = 2 \<and>
    (cb_prog call = NFS3_PROGRAM \<and> cb_vers call = NFS3_VERSION \<and>
       nfs_program_of (cb_proc call) = NFSPROC3_RENAME \<and> \<not> can_write ctx \<or>
     cb_prog call = MOUNT_PROGRAM \<and>
       (cb_vers call \<noteq> MOUNT_VERSION \<or>
        mount_program_of (cb_proc call) \<in> {MOUNTPROC3_UMNT, MOUNTPROC3_UMNTALL}))"

lemma write_message_Ok: "write_message m = Ok (Ok out) \<Longrightarrow> ser_rpc_msg m = Ok out"
  by (simp add: write_message_def split: sum.splits)

lemma program_numbers [simp]:
  "NFS3_PROGRAM \<noteq> PORTMAP_PROGRAM" "NFS3_PROGRAM \<noteq> MOUNT_PROGRAM" "PORTMAP_PROGRAM \<noteq> MOUNT_PROGRAM"
  "PORTMAP_PROGRAM \<noteq> NFS3_PROGRAM" "MOUNT_PROGRAM \<noteq> NFS3_PROGRAM" "MOUNT_PROGRAM \<noteq> PORTMAP_PROGRAM"
  by (simp_all add: NFS3_PROGRAM_def PORTMAP_PROGRAM_def MOUNT_PROGRAM_def)

lemma dispatch_typed:
  assumes p: "proper_errors (cx_vfs ctx)" and vers: "cb_rpcvers call = 2"
    and d: "dispatch xid call input ctx sv = (Ok (Ok out), sv')"
  shows "server_reply_typed xid call out \<longleftrightarrow> \<not> misfit ctx call"
proof (cases "cb_prog call \<in> {NFS3_PROGRAM, PORTMAP_PROGRAM, MOUNT_PROGRAM}")
  case False
  then show ?thesis
    using d vers is_messageI [OF _ ok_dispatcher_replies(2)]
    by (auto simp: dispatch_def server_reply_typed_def misfit_def split: if_splits
        dest!: write_message_Ok)
next
  case True
  then consider (nfs) s' where "cb_prog call = NFS3_PROGRAM" "cb_vers call = NFS3_VERSION"
      "handle_nfs xid call input ctx (sv_fs sv) = (Ok out, s')"
    | (old) "cb_prog call = NFS3_PROGRAM" "cb_vers call \<noteq> NFS3_VERSION"
      "ser_rpc_msg (prog_mismatch_reply_message xid NFS3_VERSION) = Ok out"
    | (portmap) t' where "cb_prog call = PORTMAP_PROGRAM"
      "handle_portmap xid call input () (sv_portmap sv) = (Ok out, t')"
    | (mount) st' where "cb_prog call = MOUNT_PROGRAM"
      "handle_mount xid call input ctx (sv_fs sv, sv_signals sv) = (Ok out, st')"
    using d by (auto simp: dispatch_def split: if_splits prod.splits dest!: write_message_Ok)
  then show ?thesis
  proof cases
    case nfs
    then show ?thesis using vers proper_vfs.replies_typed [OF proper_vfs.intro [OF p] refl nfs(3)]
      by (auto simp: server_reply_typed_def misfit_def)
  next
    case old
    then show ?thesis using vers is_messageI [OF old(3) ok_dispatcher_replies(3)]
      by (auto simp: server_reply_typed_def misfit_def nfs_reply_typed_def Let_def)
  next
    case portmap
    then show ?thesis using vers portmap_typed [OF portmap(2)]
      by (auto simp: server_reply_typed_def misfit_def)
  next
    case mount
    then show ?thesis using vers mount_typed [OF mount(2)]
      by (auto simp: server_reply_typed_def misfit_def)
  qed
qed

lemma execute_typed:
  assumes p: "proper_errors (cx_vfs ctx)"
    and "execute xid call input ctx sv = (Ok out, sv')"
  shows "server_reply_typed xid call out \<longleftrightarrow> \<not> misfit ctx call"
proof (cases "cb_rpcvers call = 2")
  case False
  then show ?thesis
    using assms(2) is_messageI [OF _ ok_dispatcher_replies(4)]
    by (auto simp: execute_def server_reply_typed_def misfit_def)
next
  case True
  have "dispatch xid call input ctx sv = (Ok (Ok out), sv')"
    using assms(2) True by (auto simp: execute_def split: prod.splits sum.splits)
  then show ?thesis by (rule dispatch_typed [OF p True])
qed

end
