(* ===== verification/Proper_Errors.thy ===== *)
theory Proper_Errors
  imports Server_Results Mirror_Fs Demo_Fs
begin

text \<open>
  The mirror and the demonstration file system never fail with the status of success, so that they
  are file systems in the sense of \<open>proper_vfs\<close>: every reply to a client of either is of its
  type. The judgement \<open>proper_run\<close> is closed under the vocabulary of operations.
\<close>

section \<open>The judgement\<close>

definition proper_run :: "('s, 'a) op \<Rightarrow> bool" where
  "proper_run m \<longleftrightarrow> (\<forall>s s'. m s \<noteq> Some (Err NFS3_OK, s'))"

named_theorems proper_rules

lemma proper_returns [proper_rules]: "proper_run (returns x)"
  by (simp add: proper_run_def returns_def)

lemma proper_fails: "e \<noteq> NFS3_OK \<Longrightarrow> proper_run (fails e)"
  by (simp add: proper_run_def fails_def)

lemma proper_panics [proper_rules]: "proper_run panics"
  by (simp add: proper_run_def panics_def)

lemma proper_andthen [proper_rules]:
  "proper_run m \<Longrightarrow> (\<And>x. proper_run (f x)) \<Longrightarrow> proper_run (andthen m f)"
  by (auto simp: proper_run_def andthen_def split: option.splits sum.splits)

lemma proper_attempt [proper_rules]: "proper_run (attempt m)"
  by (auto simp: proper_run_def attempt_def split: option.splits)

lemma proper_reads [proper_rules]: "proper_run (reads f)" "proper_run (modifies g)"
  by (simp_all add: proper_run_def reads_def modifies_def)

lemma proper_result_of: "r \<noteq> Err NFS3_OK \<Longrightarrow> proper_run (result_of r)"
  by (auto simp: result_of_def proper_rules intro!: proper_fails split: sum.split)

lemma proper_unwrap [proper_rules]: "proper_run (unwrap x)"
  by (simp add: unwrap_def proper_rules split: option.split)

lemma proper_or_nfs: "e \<noteq> NFS3_OK \<Longrightarrow> proper_run (or_nfs e r)"
  by (auto simp: or_nfs_def proper_rules intro!: proper_fails split: sum.split)

lemma proper_map_err: "(\<And>h. f h \<noteq> NFS3_OK) \<Longrightarrow> proper_run (map_err f r)"
  by (auto simp: map_err_def proper_rules intro!: proper_fails split: sum.split)

lemma proper_if [proper_rules]:
  "proper_run a \<Longrightarrow> proper_run b \<Longrightarrow> proper_run (if c then a else b)"
  by simp

lemma proper_Let [proper_rules]: "(\<And>x. proper_run (f x)) \<Longrightarrow> proper_run (Let c f)"
  by simp

lemma proper_case_prod [proper_rules]:
  "(\<And>x y. proper_run (f x y)) \<Longrightarrow> proper_run (case z of (x, y) \<Rightarrow> f x y)"
  by (cases z) simp

lemma proper_case_option [proper_rules]:
  "proper_run a \<Longrightarrow> (\<And>x. proper_run (b x)) \<Longrightarrow> proper_run (case z of None \<Rightarrow> a | Some x \<Rightarrow> b x)"
  by (cases z) simp_all

lemma proper_case_sum [proper_rules]:
  "(\<And>x. proper_run (a x)) \<Longrightarrow> (\<And>x. proper_run (b x)) \<Longrightarrow>
    proper_run (case z of Err x \<Rightarrow> a x | Ok x \<Rightarrow> b x)"
  by (cases z) simp_all

lemma proper_settle: "proper_run m \<Longrightarrow> proper_op (settle m)"
  by (auto simp: proper_op_def proper_run_def settle_def bind_eq_Some_conv split: option.splits)

section \<open>The demonstration file system\<close>

lemma proper_entries [proper_rules]:
  "proper_run (get_entry fid)" "proper_run (index_entry fid)" "proper_run (alloc_cell b)"
  "proper_run (parent_dir fid)" "proper_run (name_free name dir)"
  by (auto simp: proper_run_def get_entry_def index_entry_def alloc_cell_def parent_dir_def
      name_free_def returns_def fails_def split: option.splits FSContents.splits)

lemma proper_case_contents [proper_rules]:
  "(\<And>x. proper_run (a x)) \<Longrightarrow> (\<And>x. proper_run (b x)) \<Longrightarrow>
    proper_run (case z of ContentsFile x \<Rightarrow> a x | ContentsDirectory x \<Rightarrow> b x)"
  by (cases z) simp_all

lemmas proper_intros = proper_rules proper_fails proper_or_nfs proper_map_err

lemma proper_small [proper_rules]:
  "proper_run (set_index fid f)" "proper_run (from_utf8 name)" "proper_run (resize_cell cap a n)"
  by (auto simp: set_index_def from_utf8_def resize_cell_def intro!: proper_rules)

lemma proper_demo_entries [proper_rules]: "proper_run (demo_entries dir)"
  by (induction dir) (auto intro!: proper_rules)

lemma proper_making [proper_rules]:
  "proper_run (make_file_at name fid parent contents)" "proper_run (add_entry now fid e)"
  by (auto simp: make_file_at_def add_entry_def intro!: proper_rules)

lemma proper_demo_node [proper_rules]: "proper_run (demo_node name newid d t spec)"
  by (cases t) (auto simp: demo_node_def intro!: proper_rules proper_fails)

lemma proper_demo_queries [proper_rules]:
  "proper_run (demo_getattr fid)" "proper_run (demo_lookup d name)"
  "proper_run (demo_read fid offset count)" "proper_run (demo_readdir d i n)"
  "proper_run (demo_readlink fid)"
  unfolding demo_getattr_def demo_lookup_def demo_read_def demo_readdir_def demo_readlink_def
  by (intro proper_rules proper_fails; simp)+

lemma proper_demo_modifications [proper_rules]:
  "proper_run (demo_write cap fid offset data how)" "proper_run (demo_setattr cap now fid attr)"
  "proper_run (demo_commit now fid k c)" "proper_run (demo_create d name attr)"
  "proper_run (demo_create_exclusive d name verifier)" "proper_run (demo_mkdir now d name)"
  "proper_run (demo_symlink now d name target attr)" "proper_run (demo_mknod now d name t spec attr)"
  "proper_run (demo_link fid d name)" "proper_run (demo_remove d name)"
  "proper_run (demo_rename d name d' name')"
  unfolding demo_write_def demo_setattr_def demo_commit_def demo_create_def
    demo_create_exclusive_def demo_mkdir_def demo_symlink_def demo_mknod_def demo_link_def
    demo_remove_def demo_rename_def
  by (intro proper_rules proper_fails; simp)+

section \<open>The mirror file system\<close>

lemma proper_host [proper_rules]: "proper_run (call_host c)" "proper_run (exists_no_traverse H p)"
  by (auto simp: proper_run_def call_host_def exists_no_traverse_def andthen_def returns_def
      split: prod.splits option.splits sum.splits)

lemma proper_on_host [proper_rules]: "proper_run f \<Longrightarrow> proper_run (on_host f)"
  by (auto simp: proper_run_def on_host_def)

lemma proper_host_call [proper_rules]: "proper_run (host_call c)"
  by (simp add: host_call_def proper_rules)

lemma proper_fsmap [proper_rules]:
  "proper_run (fsmap_of f)" "proper_run (fsmap_update g)" "proper_run (fsmap_run h)"
  "proper_run (fsmap_try t)"
  by (auto simp: proper_run_def fsmap_of_def fsmap_update_def fsmap_run_def fsmap_try_def
      reads_def modifies_def split: prod.splits)

lemma proper_names [proper_rules]:
  "proper_run (path_of E p)" "proper_run (path_exists E q)" "proper_run (intern_name E n)"
  "proper_run (symlink_metadata E q)"
  unfolding path_of_def path_exists_def intern_name_def symlink_metadata_def
  by (intro proper_rules proper_or_nfs; simp)+

lemma proper_entry_of [proper_rules]: "proper_run (entry_of fid)"
  by (auto simp: proper_run_def entry_of_def andthen_def fsmap_of_def reads_def result_of_def
      find_entry_def returns_def fails_def split: option.splits)

lemma proper_set_time [proper_rules]:
  "proper_run a \<Longrightarrow> proper_run b \<Longrightarrow> (\<And>x. proper_run (c x)) \<Longrightarrow>
    proper_run (case z of ATIME_DONT_CHANGE \<Rightarrow> a | ATIME_SET_TO_SERVER_TIME \<Rightarrow> b
      | ATIME_SET_TO_CLIENT_TIME x \<Rightarrow> c x)"
  "proper_run a \<Longrightarrow> proper_run b \<Longrightarrow> (\<And>x. proper_run (c x)) \<Longrightarrow>
    proper_run (case y of MTIME_DONT_CHANGE \<Rightarrow> a | MTIME_SET_TO_SERVER_TIME \<Rightarrow> b
      | MTIME_SET_TO_CLIENT_TIME x \<Rightarrow> c x)"
  by (cases z; simp) (cases y; simp)

lemma proper_setattr_host [proper_rules]:
  "proper_run (path_setattr H p a)" "proper_run (file_setattr H f a)"
  unfolding path_setattr_def file_setattr_def
  by (intro proper_rules proper_or_nfs; simp)+

lemma proper_existing_aliases [proper_rules]: "proper_run (existing_aliases E ps)"
  by (induction ps) (auto intro!: proper_rules)

lemma proper_case_list [proper_rules]:
  "proper_run a \<Longrightarrow> (\<And>x xs. proper_run (b x xs)) \<Longrightarrow> proper_run (case z of [] \<Rightarrow> a | x # xs \<Rightarrow> b x xs)"
  by (cases z) simp_all

lemma proper_refresh [proper_rules]:
  "proper_run (delete_and_return E fid)" "proper_run (refresh_meta E fid e meta)"
  "proper_run (refresh_inode E fid e p)" "proper_run (refresh_entry E fid)"
  unfolding delete_and_return_def refresh_meta_def refresh_inode_def refresh_entry_def
  by (intro proper_rules)+

lemma listing_error_proper: "listing_error e \<noteq> NFS3_OK" "open_error e \<noteq> NFS3_OK"
  by (cases e; simp add: listing_error_def open_error_def)+

lemma proper_list_children [proper_rules]: "proper_run (list_children E cp p es cs)"
  by (induction es arbitrary: cs)
    (auto intro!: proper_rules proper_map_err simp: listing_error_proper)

lemma proper_refresh_dir_list [proper_rules]: "proper_run (refresh_dir_list E fid)"
  unfolding refresh_dir_list_def
  by (intro proper_rules proper_map_err; simp add: listing_error_proper)

lemma proper_case_object [proper_rules]:
  "proper_run a \<Longrightarrow> (\<And>x. proper_run (b x)) \<Longrightarrow> (\<And>x. proper_run (c x)) \<Longrightarrow>
    (\<And>x y. proper_run (d x y)) \<Longrightarrow>
    proper_run (case z of FsDirectory \<Rightarrow> a | FsFile x \<Rightarrow> b x | FsExclusive x \<Rightarrow> c x | FsSymlink x y \<Rightarrow> d x y)"
  by (cases z) simp_all

lemma proper_creation [proper_rules]:
  "proper_run (check_exclusive_existing E d n ve p)" "proper_run (exclusive_existing E d n ve p)"
  "proper_run (check_before_create E d n obj p)" "proper_run (create_on_host E d n obj p)"
  "proper_run (register_child E d dn n p)" "proper_run (create_fs_object E d n obj)"
  unfolding check_exclusive_existing_def exclusive_existing_def check_before_create_def
    create_on_host_def register_child_def create_fs_object_def
  by (intro proper_rules proper_fails proper_or_nfs; simp)+

lemma proper_child_entries [proper_rules]: "proper_run (child_entries E cs)"
  by (induction cs) (auto intro!: proper_rules)

lemma proper_found_child:
  "proper_run (andthen (fsmap_of (find_child N d n)) result_of)"
  by (auto simp: proper_run_def andthen_def fsmap_of_def reads_def result_of_def find_child_def
      returns_def fails_def split: option.splits)

lemma proper_mirror_lookup [proper_rules]: "proper_run (mirror_lookup E d n)"
proof -
  have disk: "proper_run (andthen (entry_of d) (\<lambda>dirent.
       andthen (path_of E (fe_name dirent)) (\<lambda>dir.
       andthen (path_exists E (path_push dir n)) (\<lambda>exists.
       if \<not> exists then fails NFS3ERR_NOENT
       else
       andthen (refresh_entry E d) (\<lambda>refreshed.
       if refreshed = Refresh_Delete then fails NFS3ERR_NOENT
       else
       andthen (refresh_dir_list E d) (\<lambda>_.
       andthen (fsmap_of (find_child (en_interner E) d n)) result_of))))))"
    by (rule proper_andthen, rule proper_entry_of, rule proper_andthen, rule proper_names,
        rule proper_andthen, rule proper_names, rule proper_if, rule proper_fails, simp,
        rule proper_andthen, rule proper_refresh, rule proper_if, rule proper_fails, simp,
        rule proper_andthen, rule proper_refresh_dir_list, rule proper_found_child)
  show ?thesis
    unfolding mirror_lookup_def Let_def
    by (intro proper_rules proper_fails disk; simp)
qed

lemma proper_mirror_getattr [proper_rules]: "proper_run (mirror_getattr E fid)"
  unfolding mirror_getattr_def by (intro proper_rules proper_fails; simp)

lemma proper_mirror_readdir [proper_rules]: "proper_run (mirror_readdir E d i n)"
  unfolding mirror_readdir_def
  by (intro proper_rules proper_fails proper_result_of;
      simp add: window_def Let_def split: option.split)

lemma proper_mirror_queries [proper_rules]:
  "proper_run (mirror_check_access E fid auth access)" "proper_run (mirror_read E fid offset count)"
  "proper_run (statvfs_for_path E p)" "proper_run (mirror_fsstat E fid)"
  "proper_run (mirror_readlink E fid)" "proper_run (mirror_commit E fid offset count)"
  unfolding mirror_check_access_def mirror_read_def statvfs_for_path_def mirror_fsstat_def
    mirror_readlink_def mirror_commit_def
  by (intro proper_rules proper_fails proper_or_nfs proper_map_err;
      simp add: listing_error_proper split: host_error.split)+

lemma proper_rename_parts [proper_rules]:
  "proper_run (same_inode E p q)" "proper_run (rename_target E sp)"
  "proper_run (rename_in_map E d so fp d' sn tp)" "proper_run (make_placeholder E p at)"
  unfolding same_inode_def rename_target_def rename_in_map_def make_placeholder_def
  by (intro proper_rules proper_or_nfs; simp)+

lemma proper_mirror_modifications [proper_rules]:
  "proper_run (mirror_setattr E fid attr)" "proper_run (mirror_write E fid offset data how)"
  "proper_run (mirror_create E d n attr)" "proper_run (mirror_create_exclusive E d n ve)"
  "proper_run (mirror_mkdir E d n)" "proper_run (mirror_symlink E d n target attr)"
  "proper_run (mirror_remove E d n)" "proper_run (mirror_rename E d n d' n')"
  "proper_run (mirror_link E fid d n)" "proper_run (mirror_mknod E d n t spec attr)"
  unfolding mirror_setattr_def mirror_write_def mirror_create_def mirror_create_exclusive_def
    mirror_mkdir_def mirror_symlink_def mirror_remove_def mirror_rename_def mirror_link_def
    mirror_mknod_def
  by (intro proper_rules proper_fails proper_or_nfs; simp)+

section \<open>The file systems\<close>

lemma proper_default_readdir_index:
  "(\<And>d k n. proper_op (vfs_readdir v d k n)) \<Longrightarrow> proper_op (default_readdir_index v d i m)"
  by (auto simp: proper_op_def default_readdir_index_def Let_def split: prod.split sum.split)
    (metis fst_conv)

lemma proper_default_check_access:
  "(\<And>f. proper_op (vfs_getattr v f)) \<Longrightarrow> proper_op (default_check_access v fid auth access)"
  by (auto simp: proper_op_def default_check_access_def split: prod.split sum.split) (metis fst_conv)

lemma proper_default_fsstat: "proper_op (default_fsstat v fid)"
  by (auto simp: proper_op_def default_fsstat_def split: prod.split)

lemma mirror_proper: "proper_errors (mirror_vfs E generation)"
  unfolding proper_errors_def mirror_vfs_def Let_def
  by (auto intro!: proper_settle proper_rules proper_default_readdir_index)

lemma demo_proper: "proper_errors (demo_vfs cap now generation)"
  unfolding proper_errors_def demo_vfs_def Let_def
  by (auto intro!: proper_settle proper_rules proper_default_readdir_index
      proper_default_check_access proper_default_fsstat)

interpretation mirror_typed: proper_vfs "mirror_vfs E generation"
  by unfold_locales (rule mirror_proper)

interpretation demo_typed: proper_vfs "demo_vfs cap now generation"
  by unfold_locales (rule demo_proper)

section \<open>Property\<close>

lemma misfit_auth [simp]: "misfit (ctx\<lparr>cx_auth := auth\<rparr>) call = misfit ctx call"
  by (simp add: misfit_def can_write_def)

text \<open>
  C16: Every reply is of the type that its call asks for, with the exception of three kinds of call.
  When a call that the server has not seen before is answered, the answer is exactly one RPC reply: a
  refusal by a header alone where RPC prescribes one, otherwise a success whose result is of the XDR
  type that RFC 1813 and RFC 1833 declare for the procedure, for the status that it carries, to the
  last byte. The exceptions are RENAME on a read-only file system, UMNT and UMNTALL, and mount calls
  of another version; their replies are never of the type. The file system must not fail with the
  status of success, which holds of the mirror and of the demonstration.
\<close>

theorem server_replies_typed:
  assumes "is_call data ctx xid call auth args" "tt_ok (sv_tracker sv)"
    and "tt_entry (sv_tracker sv) (xid, cx_client_addr ctx) = None"
    and "proper_errors (cx_vfs ctx)"
    and "process_rpc_command data now later ctx sv = (Ok (True, out), sv')"
  shows "server_reply_typed xid call out \<longleftrightarrow> \<not> misfit ctx call"
proof -
  obtain st t where k: "check (xid, cx_client_addr ctx) now (sv_tracker sv) = (st, t)" by fastforce
  have st: "st = Status_New" using tracker.chk_key [OF assms(2) k] assms(3) by auto
  obtain w sv1 where x: "execute xid call args (ctx\<lparr>cx_auth := auth\<rparr>) (sv\<lparr>sv_tracker := t\<rparr>) = (w, sv1)"
    by fastforce
  have "w = Ok out"
    using assms(5) process_call [OF assms(1) k, of later] st x by (auto split: sum.splits)
  then show ?thesis using execute_typed [of "ctx\<lparr>cx_auth := auth\<rparr>"] x assms(4) by simp
qed

definition demo_export :: "demo_state rpc_context" where
  "demo_export = \<lparr>cx_local_port = 2049, cx_client_addr = [49], cx_auth = auth_unix_default,
    cx_vfs = demo_vfs 1000 ex_time 9, cx_mount_signal = False, cx_export_name = [47]\<rparr>"

text \<open>A client asks the demonstration for the attributes of its root.\<close>

definition ask_root :: bytes where
  "ask_root = ex_data 7 (ex_call NFS3_PROGRAM 3 1) @ bytes_of (ser_nfs_fh3 (id_to_fh (cx_vfs demo_export) 1))"

lemma ask_root_answered:
  "\<exists>out sv'. process_rpc_command ask_root 1 2 demo_export (ex_server (Some new_demo)) = (Ok (True, out), sv')"
proof -
  let ?fh = "id_to_fh (cx_vfs demo_export) 1"
  let ?a = "demo_attr NF3DIR 0x1FF 1 0"
  have "ok_nfs_fh3 ?fh"
    by (simp add: ok_nfs_fh3_def ok_opaque_def id_to_fh_def MAX_XDR_OPAQUE_LENGTH_eq)
  note fh = decode_bytes_of(2) [OF codec_nfs_fh3 this]
  have attr: "vfs_getattr (cx_vfs demo_export) 1 (Some new_demo) = (Ok ?a, Some new_demo)"
    by (simp add: demo_export_def demo_vfs_def Let_def settle_def demo_getattr_def get_entry_def
        entry_at_def new_demo_def andthen_def returns_def make_dir_def)
  obtain out where out: "nfs_reply 7 NFS3_OK [ser_fattr3 ?a] = Ok out"
    using nfs_reply_total [of "[ser_fattr3 ?a]" 7 NFS3_OK] xdr_codec.ser_ok [OF codec_fattr3] by auto
  have "nfs_program_of 1 = NFSPROC3_GETATTR" by code_simp
  then have "execute 7 (ex_call NFS3_PROGRAM 3 1) (bytes_of (ser_nfs_fh3 ?fh)) (demo_export\<lparr>cx_auth := a\<rparr>)
      (ex_server (Some new_demo)\<lparr>sv_tracker := t\<rparr>) = (Ok out, ex_server (Some new_demo)\<lparr>sv_tracker := t\<rparr>)" for a t
    using fh attr out
    by (simp add: execute_def dispatch_def handle_nfs_def ex_call_def NFS3_VERSION_def ex_server_def
        nfsproc3_getattr_def fh_to_id_eq_Ok [THEN iffD2])
  from ex_process [OF ex_is_call this, of 1 2] show ?thesis by (auto simp: ask_root_def)
qed

lemma server_replies_typed_witness:
  "\<exists>out sv'. process_rpc_command ask_root 1 2 demo_export (ex_server (Some new_demo)) = (Ok (True, out), sv') \<and>
    server_reply_typed 7 (ex_call NFS3_PROGRAM 3 1) out"
proof -
  obtain out sv' where r: "process_rpc_command ask_root 1 2 demo_export (ex_server (Some new_demo)) =
      (Ok (True, out), sv')"
    using ask_root_answered by blast
  have fit: "\<not> misfit demo_export (ex_call NFS3_PROGRAM 3 1)"
    by (simp add: misfit_def demo_export_def can_write_def demo_vfs_def Let_def ex_call_def)
  have new: "tt_ok (sv_tracker (ex_server (Some new_demo)))"
      "tt_entry (sv_tracker (ex_server (Some new_demo))) (7, cx_client_addr demo_export) = None"
    by (simp_all add: ex_server_def new_tracker_ok)
  have proper: "proper_errors (cx_vfs demo_export)"
    by (simp add: demo_export_def demo_proper)
  have "server_reply_typed 7 (ex_call NFS3_PROGRAM 3 1) out"
    using server_replies_typed [OF ex_is_call new proper r [unfolded ask_root_def]] fit by blast
  then show ?thesis using r by blast
qed

end
