(* ===== verification/Spec2Isabelle.thy ===== *)
theory Spec2Isabelle
  imports Codec_Properties Cli Mirror_Limits Mirror_Create Mirror_Rename Mirror_Write
    Demo_Main Proper_Errors
begin

text \<open>
  A verification development for fernfs, an NFS version 3 server in Rust.

  \<^bold>\<open>The program.\<close> A client connects over TCP (\<open>src/tcp.rs\<close>). Its bytes are cut into records by the record
  marking standard, a worker takes the records of a connection one by one, and what it answers is
  framed and written back (\<open>src/protocol/rpc/wire.rs\<close>, \<open>command_queue.rs\<close>). A record is an RPC call
  (\<open>src/protocol/xdr/rpc.rs\<close>); the dispatcher consults the cache of recent transactions
  (\<open>src/protocol/rpc/transaction_tracker.rs\<close>) and hands the call to one of three programs: the port mapper, the
  mount protocol and NFS (\<open>src/protocol/nfs\<close>). The NFS procedures work on a file system through the
  trait of \<open>src/vfs.rs\<close>. Two file systems implement it: the mirror, which exports a directory of
  the host (\<open>src/bin/fernfs\<close>), and the demonstration in memory (\<open>examples/demo_fs\<close>).

  \<^bold>\<open>Theories and sources.\<close> Definitions keep the names of the code; a suffix or a prefix (\<open>mirror_\<close>,
  \<open>demo_\<close>, \<open>de_\<close>, \<open>ser_\<close>) tells apart what the code tells apart by types.

  \<^item> \<open>Prelude\<close>: integers as words, \<open>Result\<close> as a sum with the constructors \<open>Ok\<close> and \<open>Err\<close>, byte
    orders, and hash maps as association lists behind the locale \<open>hash_table\<close>.
  \<^item> \<open>Xdr\<close> (\<open>src/protocol/xdr/mod.rs\<close>, \<open>utils.rs\<close>): serializers into bytes and deserializers on bytes, the
    macros for structs and unions as combinators, and the locale \<open>xdr_codec\<close>, the contract of a
    pair of them. \<open>Xdr_Rpc\<close>, \<open>Xdr_Aux\<close>, \<open>Xdr_Nfs3\<close> and \<open>Xdr_Nfs3_Ops\<close> hold the types of the protocols with an
    interpretation of the locale for each; \<open>Codec_Properties\<close> states what they promise.
  \<^item> \<open>Xdr_Types\<close>, \<open>Nfs3_Results\<close>, \<open>Server_Results\<close>: XDR types, a checker \<open>skip\<close> of bytes against them, typing rules for
    serializers, and the result types that the RFCs declare for the procedures. The locale \<open>proper_vfs\<close>
    is what the replies ask of a file system; \<open>Proper_Errors\<close> interprets it on the mirror and the
    demonstration and states the typing of all replies.
  \<^item> \<open>Permissions\<close>, \<open>Vfs\<close> (\<open>src/vfs/permissions.rs\<close>, \<open>src/vfs.rs\<close>): access rights, and the trait \<open>NFSFileSystem\<close> as
    a record of functions on a state, with its default methods and the file handles.
  \<^item> \<open>Nfs3_Query\<close>, \<open>Nfs3_Modify\<close>, \<open>Nfs3_Readdir\<close>, \<open>Nfs3\<close> (\<open>src/protocol/nfs/v3/*.rs\<close>): every procedure as a
    function from the arguments and the state of the file system to the bytes that it writes (or
    the error that makes it fail) and the new state.
  \<^item> \<open>Portmap\<close>, \<open>Mount\<close> (\<open>src/protocol/nfs/portmap\<close>, \<open>mount\<close>): the other two programs. All three are interpretations of
    the locale \<open>rpc_program\<close>: what a program writes is a reply to its call.
  \<^item> \<open>Tracker\<close> (\<open>transaction_tracker.rs\<close>): the cache, with the locale \<open>replay_cache\<close> as its contract.
  \<^item> \<open>Record_Marking\<close>, \<open>Rpc_Dispatch\<close>, \<open>Connection\<close>, \<open>Tcp\<close>: fragments and records, the dispatcher with the state
    that the connections share, the tasks of a connection as the step relations \<open>task_step\<close> and
    \<open>conn_step\<close>, the listener. \<open>Vfs_Invariants\<close> and \<open>Read_Only\<close> lift properties of a file system to
    sequences of commands (\<open>serve\<close>); the locale \<open>vfs_invariant\<close> is the contract that the mirror and
    the demonstration satisfy.
  \<^item> \<open>Host\<close>, \<open>Fs_Util\<close> (\<open>src/fs_util.rs\<close>): the calls of the operating system as a record of functions on a state
    of the host, and operations that may fail with an NFS status or panic.
  \<^item> \<open>Mirror_Map\<close>, \<open>Mirror_Fs\<close> (\<open>fs_map.rs\<close>, \<open>fs_entry.rs\<close>, \<open>fs.rs\<close>, \<open>create_fs_object.rs\<close>, \<open>error_handling.rs\<close>): the map from file
    ids to paths and inodes, and the mirror on it. \<open>Mirror_Invariant\<close>, \<open>Mirror_Properties\<close>,
    \<open>Mirror_Protection\<close>, \<open>Mirror_Create\<close>, \<open>Mirror_Write\<close>, \<open>Mirror_Rename\<close> and \<open>Mirror_Limits\<close> hold its lemmas and properties.
  \<^item> \<open>Cli\<close> (\<open>src/bin/fernfs/main.rs\<close>): the arguments of the server and how it is started from them.
  \<^item> \<open>Demo_Fs\<close>, \<open>Demo_Invariant\<close>, \<open>Demo_Properties\<close>: the demonstration file system; the contents of files,
    which hard links share by reference, are cells of a store. \<open>Demo_Main\<close> (\<open>examples/demo_fs/main.rs\<close>) starts it.
  \<^item> \<open>Nfs3_Properties\<close> states the properties of the procedures; \<open>Example_Fs\<close> and \<open>Example_Mirror\<close> hold the concrete
    instances for the witnesses.

  \<^bold>\<open>What is shown.\<close>

  \<^item> Transport: the reader submits exactly the records that were sent, for every chunking; commands
    are executed in order, answers are written in order and answer their own calls; the tasks of a
    connection come to rest within a bounded number of steps, and then every call is answered. Buffers are bounded.
  \<^item> At most once: no interleaving of the operations of the cache lets a transaction be executed
    twice within the retention period, and a retransmitted call gets the recorded bytes without a second effect.
  \<^item> Codecs: every type is decoded from its encoding, whatever follows it, and no encoding is a
    prefix of another.
  \<^item> Types: a reply is of the type that its call asks for, to the last byte, except for RENAME on a read-only
    file system, UMNT and UMNTALL, and mount calls of another version; those replies never are.
  \<^item> Access: a read-only file system is not changed by any commands; without the MODIFY right no
    modifying procedure changes the file system (for a mirror: the host), except SETATTR without
    a size; the credentials of the call decide; handles of another server instance do not reach the file system.
  \<^item> Procedures: what READ, WRITE, READDIR, ACCESS, MNT, SET, GETPORT and the others do on
    their branches; a client that lists a directory page by page gets every entry once, in order.
  \<^item> File systems: the invariants of the map of a mirror and of the tree of the demonstration hold after any
    commands; attributes and data come from the host's current state; what is written is read back; created objects are found;
    a rename moves a tree of paths in the map; hard links share their contents.
  \<^item> Deviations: theorems that show where the code does not do what it means to, such as names of requests that
    lead out of the exported directory, file ids that outlive their files, cached directories that list each
    other, and a rename of a name to itself that loses the file.

  \<^bold>\<open>Bounds and conventions.\<close> \<open>usize\<close> has 64 bits. Arithmetic wraps around as in a release build; where the code
  panics after that (a slice that ends before it starts, an allocation of nearly \<open>2 ^ 64\<close> bytes) the result of the model is the
  panic \<open>None\<close>, which an operation on a file system leaves as its state. The recursion of
  \<open>remove_path_tree\<close> takes the depth of the stack as an argument: a depth above the rank of the directory is enough
  (\<open>remove_tree_ends\<close>), and no depth is enough on a cycle (\<open>remove_cycle_overflows\<close>). The invariants of the
  file systems hold until \<open>2 ^ 64\<close> file ids were made, when the counter wraps around. The longest
  vector of the demonstration is a parameter \<open>cap\<close>. All other recursions are structural or have a
  termination proof, so that no result depends on fuel; \<open>list_directory\<close>, a client, is given one
  more request than the directory has entries.

  \<^bold>\<open>Parameters.\<close> The operating system's sockets (\<open>Tcp\<close>) and files (\<open>Host\<close>), the clock (an argument of the operations that read
  it), the crate that interns names (\<open>interner\<close> in \<open>Mirror_Map\<close>), and the bytes that a failed command
  leaves in its buffer. Nothing is assumed of them except where a theorem says so.

  \<^bold>\<open>Not modelled.\<close> Module files (\<open>lib.rs\<close>), logging and formatting, the empty NFS version 4 module, and the conversions
  of times for the \<open>filetime\<close> crate. The duplex stream between the socket and the reader is unbounded
  here, so that its backpressure is left out; a command is one step on the shared state, so that commands of
  different connections do not interleave inside of a procedure (the code holds the lock of the
  file system's map for most of an operation, but not for all of it).
\<close>

end
